(* ===== verification/Prelude.thy ===== *)
theory Prelude
  imports Main "HOL-Library.Word" "HOL-Library.Sublist"
begin

text \<open>
  Shared vocabulary of the development: machine types, the result type that stands for
  Rust's \<open>Result\<close>, the string functions of the Rust standard library that the client uses
  (on UTF-8 byte strings, as in Rust), decimal numbers, and big-endian integers.

  A Rust \<open>String\<close> is a \<^typ>\<open>string\<close>: HOL characters are bytes, so \<^term>\<open>length\<close> is Rust's
  \<open>len\<close>. Raw byte buffers are lists of 8-bit words.
\<close>

named_theorems codec_simps
named_theorems frame_rules

section \<open>Machine types and results\<close>

type_synonym byte = "8 word"
type_synonym u16 = "16 word"
type_synonym u32 = "32 word"
type_synonym u64 = "64 word"
type_synonym bytes = "8 word list"

text \<open>A signed 64-bit integer is an \<^typ>\<open>int\<close> whose arithmetic wraps (the release profile
  of \<open>Cargo.toml\<close> does not turn overflow checks on).\<close>

type_synonym i64 = int

definition i64_wrap :: "int \<Rightarrow> i64" where
  "i64_wrap x = (x + 2 ^ 63) mod 2 ^ 64 - 2 ^ 63"

definition is_i64 :: "int \<Rightarrow> bool" where
  "is_i64 x \<longleftrightarrow> - (2 ^ 63) \<le> x \<and> x < 2 ^ 63"

definition i64_max :: i64 where
  "i64_max = 2 ^ 63 - 1"

lemma i64_wrap_id [simp]: "is_i64 x \<Longrightarrow> i64_wrap x = x"
  by (auto simp: is_i64_def i64_wrap_def)

lemma i64_wrap_range [simp]: "is_i64 (i64_wrap x)"
proof -
  have "0 \<le> (x + 2 ^ 63) mod 2 ^ 64" "(x + 2 ^ 63) mod 2 ^ 64 < 2 ^ 64"
    by (simp_all only: pos_mod_sign pos_mod_bound zero_less_numeral zero_less_power)
  then show ?thesis by (simp add: is_i64_def i64_wrap_def)
qed

abbreviation Ok :: "'a \<Rightarrow> 'e + 'a" where "Ok \<equiv> Inr"
abbreviation Err :: "'e \<Rightarrow> 'e + 'a" where "Err \<equiv> Inl"

text \<open>The \<open>?\<close> operator.\<close>

definition rbind :: "'e + 'a \<Rightarrow> ('a \<Rightarrow> 'e + 'b) \<Rightarrow> 'e + 'b" where
  "rbind m f = (case m of Inl e \<Rightarrow> Inl e | Inr x \<Rightarrow> f x)"

lemma rbind_simps [simp]: "rbind (Inl e) f = Inl e" "rbind (Inr x) f = f x"
  by (simp_all add: rbind_def)

lemma rbind_eq_Inl: "rbind m f = Inl e \<longleftrightarrow> m = Inl e \<or> (\<exists>x. m = Inr x \<and> f x = Inl e)"
  by (cases m) simp_all

lemma rbind_eq_Inr: "rbind m f = Inr y \<longleftrightarrow> (\<exists>x. m = Inr x \<and> f x = Inr y)"
  by (cases m) auto

definition ensure :: "bool \<Rightarrow> 'e \<Rightarrow> 'e + unit" where
  "ensure b e = (if b then Inr () else Inl e)"

lemma ensure_simps [simp]:
  "ensure True e = Inr ()" "ensure False e = Inl e" "ensure b e = Inr u \<longleftrightarrow> b"
  by (simp_all add: ensure_def)

definition ok_or :: "'e \<Rightarrow> 'a option \<Rightarrow> 'e + 'a" where
  "ok_or e x = (case x of None \<Rightarrow> Inl e | Some y \<Rightarrow> Inr y)"

lemma ok_or_simps [simp]: "ok_or e None = Inl e" "ok_or e (Some x) = Inr x"
  by (simp_all add: ok_or_def)

definition is_ok :: "'e + 'a \<Rightarrow> bool" where
  "is_ok r = (case r of Inl _ \<Rightarrow> False | Inr _ \<Rightarrow> True)"

lemma is_ok_simps [simp]: "\<not> is_ok (Inl e)" "is_ok (Inr x)"
  by (simp_all add: is_ok_def)

section \<open>Strings\<close>

definition str_bytes :: "string \<Rightarrow> bytes" where
  "str_bytes s = map (\<lambda>c. of_nat (of_char c)) s"

definition bytes_str :: "bytes \<Rightarrow> string" where
  "bytes_str b = map (\<lambda>x. char_of (unat x)) b"

lemma of_char_less_256: "(of_char c :: nat) < 256"
  by (metis char_of_eq_iff of_char_mod_256 mod_less_divisor zero_less_numeral)

lemma str_bytes_inverse [simp]: "bytes_str (str_bytes s) = s"
  by (induction s) (simp_all add: str_bytes_def bytes_str_def unat_of_nat of_char_less_256)

lemma bytes_str_inverse [simp]: "str_bytes (bytes_str b) = b"
proof -
  have "of_nat (of_char (char_of (unat x) :: char)) = x" for x :: byte
    using unsigned_less [of x, where 'a = nat] by simp
  then show ?thesis by (simp add: str_bytes_def bytes_str_def o_def)
qed

lemma str_bytes_append [simp]: "str_bytes (s @ t) = str_bytes s @ str_bytes t"
  by (simp add: str_bytes_def)

lemma bytes_str_append [simp]: "bytes_str (s @ t) = bytes_str s @ bytes_str t"
  by (simp add: bytes_str_def)

lemma length_str_bytes [simp]: "length (str_bytes s) = length s"
  by (simp add: str_bytes_def)

lemma length_bytes_str [simp]: "length (bytes_str s) = length s"
  by (simp add: bytes_str_def)

lemma str_bytes_Nil [simp]: "str_bytes [] = []" "bytes_str [] = []"
  by (simp_all add: str_bytes_def bytes_str_def)

lemma str_bytes_eq_Nil [simp]: "str_bytes s = [] \<longleftrightarrow> s = []"
  by (simp add: str_bytes_def)

lemma str_bytes_inj [simp]: "str_bytes s = str_bytes t \<longleftrightarrow> s = t"
  by (metis str_bytes_inverse)

text \<open>\<open>str::find\<close>: the byte index of the first occurrence.\<close>

fun str_find :: "string \<Rightarrow> string \<Rightarrow> nat option" where
  "str_find p [] = (if p = [] then Some 0 else None)"
| "str_find p (c # s) =
     (if prefix p (c # s) then Some 0 else map_option Suc (str_find p s))"

definition str_contains :: "string \<Rightarrow> string \<Rightarrow> bool" where
  "str_contains s p \<longleftrightarrow> str_find p s \<noteq> None"

lemma str_find_Some_split:
  "str_find p s = Some i \<Longrightarrow> \<exists>r. s = take i s @ p @ r \<and> i + length p \<le> length s"
proof (induction s arbitrary: i)
  case Nil
  then show ?case by (auto split: if_splits)
next
  case (Cons c s)
  show ?case
  proof (cases "prefix p (c # s)")
    case True
    with Cons.prems have "i = 0" by simp
    with True prefix_length_le [OF True] show ?thesis by (auto simp: prefix_def)
  next
    case False
    with Cons.prems obtain j where j: "str_find p s = Some j" "i = Suc j" by auto
    from Cons.IH [OF j(1)] j(2) show ?thesis by auto
  qed
qed

lemma str_find_None_iff: "str_find p s = None \<longleftrightarrow> \<not> sublist p s"
  by (induction s) (auto simp: sublist_Cons_right)

lemma str_contains_iff: "str_contains s p \<longleftrightarrow> sublist p s"
  using str_find_None_iff [of p s] by (auto simp: str_contains_def)

text \<open>\<open>str::split_once\<close> on a one-byte separator.\<close>

definition split_once :: "char \<Rightarrow> string \<Rightarrow> (string \<times> string) option" where
  "split_once c s =
     (if c \<in> set s then Some (takeWhile (\<lambda>x. x \<noteq> c) s, tl (dropWhile (\<lambda>x. x \<noteq> c) s)) else None)"

lemma split_once_append: "c \<notin> set a \<Longrightarrow> split_once c (a @ c # b) = Some (a, b)"
  by (induction a) (auto simp: split_once_def)

text \<open>\<open>trim_start_matches\<close> and \<open>trim_end_matches\<close> for a non-empty pattern.\<close>

function trim_start_matches :: "string \<Rightarrow> string \<Rightarrow> string" where
  "trim_start_matches p s =
     (if p \<noteq> [] \<and> prefix p s then trim_start_matches p (drop (length p) s) else s)"
  by pat_completeness auto
termination
  by (relation "measure (\<lambda>(p, s). length s)") (auto simp: prefix_def)

declare trim_start_matches.simps [simp del]

definition trim_end_matches :: "string \<Rightarrow> string \<Rightarrow> string" where
  "trim_end_matches p s = rev (trim_start_matches (rev p) (rev s))"

lemma trim_start_matches_stop [simp]: "\<not> prefix p s \<Longrightarrow> trim_start_matches p s = s"
  by (subst trim_start_matches.simps) simp

lemma trim_start_matches_no_prefix: "p \<noteq> [] \<Longrightarrow> \<not> prefix p (trim_start_matches p s)"
proof (induction p s rule: trim_start_matches.induct)
  case (1 p s)
  then show ?case
    by (cases "prefix p s") (simp_all add: trim_start_matches.simps [of p s])
qed

lemma trim_start_matches_suffix: "suffix (trim_start_matches p s) s"
proof (induction p s rule: trim_start_matches.induct)
  case (1 p s)
  show ?case
  proof (cases "p \<noteq> [] \<and> prefix p s")
    case True
    with 1 have "suffix (trim_start_matches p (drop (length p) s)) (drop (length p) s)" by simp
    moreover have "suffix (drop (length p) s) s" by (rule suffix_drop)
    ultimately show ?thesis
      using True by (simp add: trim_start_matches.simps [of p s])
  next
    case False
    then show ?thesis by (subst trim_start_matches.simps) auto
  qed
qed

text \<open>\<open>char::is_whitespace\<close> as UTF-8 encodings; \<open>str::trim\<close> removes any of them on both ends.\<close>

definition ws_encodings :: "string list" where
  "ws_encodings =
     [[CHR 0x20], [CHR 0x09], [CHR 0x0A], [CHR 0x0B], [CHR 0x0C], [CHR 0x0D],
      [CHR 0xC2, CHR 0x85], [CHR 0xC2, CHR 0xA0], [CHR 0xE1, CHR 0x9A, CHR 0x80]]
     @ map (\<lambda>n. [CHR 0xE2, CHR 0x80, char_of n]) [0x80 ..< (0x8B::nat)]
     @ [[CHR 0xE2, CHR 0x80, CHR 0xA8], [CHR 0xE2, CHR 0x80, CHR 0xA9],
        [CHR 0xE2, CHR 0x80, CHR 0xAF], [CHR 0xE2, CHR 0x81, CHR 0x9F],
        [CHR 0xE3, CHR 0x80, CHR 0x80]]"

function trim_with :: "string list \<Rightarrow> string \<Rightarrow> string" where
  "trim_with ws s =
     (case find (\<lambda>w. w \<noteq> [] \<and> prefix w s) ws of
        None \<Rightarrow> s
      | Some w \<Rightarrow> trim_with ws (drop (length w) s))"
  by pat_completeness auto
termination
  by (relation "measure (\<lambda>(ws, s). length s)")
    (auto simp: prefix_def find_Some_iff)

declare trim_with.simps [simp del]

definition trim_start :: "string \<Rightarrow> string" where
  "trim_start s = trim_with ws_encodings s"

definition trim_end :: "string \<Rightarrow> string" where
  "trim_end s = rev (trim_with (map rev ws_encodings) (rev s))"

definition trim :: "string \<Rightarrow> string" where
  "trim s = trim_end (trim_start s)"

lemma trim_with_suffix: "suffix (trim_with ws s) s"
proof (induction ws s rule: trim_with.induct)
  case (1 ws s)
  show ?case
  proof (cases "find (\<lambda>w. w \<noteq> [] \<and> prefix w s) ws")
    case None
    then show ?thesis by (simp add: trim_with.simps [of ws s])
  next
    case (Some w)
    with 1 have "suffix (trim_with ws (drop (length w) s)) (drop (length w) s)" by simp
    moreover have "suffix (drop (length w) s) s" by (rule suffix_drop)
    ultimately show ?thesis using Some by (simp add: trim_with.simps [of ws s])
  qed
qed

lemma trim_with_fixed: "find (\<lambda>w. w \<noteq> [] \<and> prefix w s) ws = None \<Longrightarrow> trim_with ws s = s"
  by (simp add: trim_with.simps [of ws s])

lemma trim_with_done: "find (\<lambda>w. w \<noteq> [] \<and> prefix w (trim_with ws s)) ws = None"
proof (induction ws s rule: trim_with.induct)
  case (1 ws s)
  then show ?case
    by (cases "find (\<lambda>w. w \<noteq> [] \<and> prefix w s) ws") (simp_all add: trim_with.simps [of ws s])
qed

lemma trim_with_idem [simp]: "trim_with ws (trim_with ws s) = trim_with ws s"
  by (rule trim_with_fixed [OF trim_with_done])


text \<open>\<open>to_ascii_lowercase\<close> of one byte.\<close>

definition ascii_lower :: "char \<Rightarrow> char" where
  "ascii_lower c =
     (if 65 \<le> (of_char c :: nat) \<and> (of_char c :: nat) \<le> 90 then char_of (of_char c + 32 :: nat) else c)"

section \<open>Decimal numbers\<close>

text \<open>\<open>Display\<close> of unsigned and signed integers.\<close>

fun dec_of_nat :: "nat \<Rightarrow> string" where
  "dec_of_nat n =
     (if n < 10 then [char_of (48 + n)] else dec_of_nat (n div 10) @ [char_of (48 + n mod 10)])"

declare dec_of_nat.simps [simp del]

definition dec_of_int :: "int \<Rightarrow> string" where
  "dec_of_int i = (if i < 0 then CHR 0x2D # dec_of_nat (nat (- i)) else dec_of_nat (nat i))"

definition is_digit :: "char \<Rightarrow> bool" where
  "is_digit c \<longleftrightarrow> 48 \<le> (of_char c :: nat) \<and> (of_char c :: nat) \<le> 57"

definition digits_val :: "string \<Rightarrow> nat" where
  "digits_val s = foldl (\<lambda>a c. a * 10 + (of_char c - 48)) 0 s"

text \<open>
  \<open>str::parse\<close> into an unsigned integer below \<open>bound\<close>: an optional \<open>+\<close>, then at least one
  digit, no overflow.
\<close>

definition parse_uint :: "nat \<Rightarrow> string \<Rightarrow> nat option" where
  "parse_uint bound s =
     (let d = (case s of [] \<Rightarrow> [] | c # r \<Rightarrow> if c = CHR 0x2B then r else s)
      in if d \<noteq> [] \<and> list_all is_digit d \<and> digits_val d < bound then Some (digits_val d) else None)"

definition parse_u64 :: "string \<Rightarrow> u64 option" where
  "parse_u64 s = map_option of_nat (parse_uint (2 ^ 64) s)"

lemma digit_char [simp]: "n < 10 \<Longrightarrow> (of_char (char_of (48 + n) :: char) :: nat) = 48 + n"
  by simp

lemma is_digit_digit: "(n::nat) < 10 \<Longrightarrow> is_digit (char_of (48 + n))"
  by (simp add: is_digit_def)

lemma dec_of_nat_digits: "list_all is_digit (dec_of_nat n)"
proof (induction n rule: dec_of_nat.induct)
  case (1 n)
  show ?case
  proof (cases "n < 10")
    case True
    then show ?thesis by (subst dec_of_nat.simps) (simp add: is_digit_digit)
  next
    case False
    have "is_digit (char_of (48 + n mod 10))" by (rule is_digit_digit) simp
    with False 1 show ?thesis by (subst dec_of_nat.simps) simp
  qed
qed

lemma dec_of_nat_nonempty [simp]: "dec_of_nat n \<noteq> []"
  by (subst dec_of_nat.simps) simp

lemma digits_val_dec [simp]: "digits_val (dec_of_nat n) = n"
proof (induction n rule: dec_of_nat.induct)
  case (1 n)
  show ?case
  proof (cases "n < 10")
    case True
    then show ?thesis by (subst dec_of_nat.simps) (simp add: digits_val_def)
  next
    case False
    have "n mod 10 < 10" by simp
    moreover have "digits_val (dec_of_nat (n div 10)) = n div 10" using 1 False by simp
    ultimately show ?thesis
      using False by (subst dec_of_nat.simps) (simp add: digits_val_def)
  qed
qed

lemma dec_head_digit: "dec_of_nat n = c # r \<Longrightarrow> is_digit c"
  using dec_of_nat_digits [of n] by simp

lemma parse_uint_dec [simp]: "n < bound \<Longrightarrow> parse_uint bound (dec_of_nat n) = Some n"
proof -
  assume n: "n < bound"
  obtain c r where cr: "dec_of_nat n = c # r" by (cases "dec_of_nat n") auto
  then have "c \<noteq> CHR 0x2B" using dec_head_digit [OF cr] by (auto simp: is_digit_def)
  with cr n dec_of_nat_digits [of n] digits_val_dec [of n] show ?thesis
    by (simp add: parse_uint_def)
qed

lemma parse_uint_bound: "parse_uint bound s = Some n \<Longrightarrow> n < bound"
  by (auto simp: parse_uint_def Let_def split: if_splits)

lemma parse_u64_dec: "parse_u64 (dec_of_nat (unat x)) = Some x"
  using unsigned_less [of x, where 'a = nat] by (simp add: parse_u64_def)

lemma dash_not_in_dec: "CHR 0x2D \<notin> set (dec_of_nat n)"
  using dec_of_nat_digits [of n] by (auto simp: list_all_iff is_digit_def)

section \<open>Big-endian integers\<close>

text \<open>\<open>to_be_bytes\<close> and \<open>from_be_bytes\<close> for an \<open>n\<close>-byte unsigned integer.\<close>

primrec be_bytes :: "nat \<Rightarrow> nat \<Rightarrow> bytes" where
  "be_bytes 0 v = []"
| "be_bytes (Suc n) v = of_nat (v div 256 ^ n) # be_bytes n v"

primrec be_val :: "bytes \<Rightarrow> nat" where
  "be_val [] = 0"
| "be_val (b # bs) = unat b * 256 ^ length bs + be_val bs"

lemma length_be_bytes [simp]: "length (be_bytes n v) = n"
  by (induction n) simp_all

lemma unat_of_nat_byte [simp]: "unat (of_nat n :: byte) = n mod 256"
  by (simp add: unat_of_nat)

lemma be_val_be_bytes [codec_simps]: "be_val (be_bytes n v) = v mod 256 ^ n"
proof (induction n)
  case 0
  then show ?case by simp
next
  case (Suc n)
  have "v mod 256 ^ Suc n = (v div 256 ^ n) mod 256 * 256 ^ n + v mod 256 ^ n"
    by (simp add: mod_mult2_eq mult.commute [of 256])
  with Suc show ?case by simp
qed

lemma be_val_less: "be_val bs < 256 ^ length bs"
proof (induction bs)
  case Nil
  then show ?case by simp
next
  case (Cons b bs)
  have "unat b \<le> 255" using unsigned_less [of b, where 'a = nat] by simp
  then have "unat b * 256 ^ length bs \<le> 255 * 256 ^ length bs" by (rule mult_le_mono1)
  from add_le_less_mono [OF this Cons] show ?case by simp
qed

lemma be_bytes_cong: "v mod 256 ^ n = w mod 256 ^ n \<Longrightarrow> be_bytes n v = be_bytes n w"
proof (induction n)
  case 0
  then show ?case by simp
next
  case (Suc n)
  have split: "x mod 256 ^ Suc n = (x div 256 ^ n) mod 256 * 256 ^ n + x mod 256 ^ n" for x :: nat
    by (simp add: mod_mult2_eq mult.commute [of 256])
  have low: "v mod 256 ^ n = w mod 256 ^ n"
    using Suc.prems mod_mod_cancel [of "256 ^ n" "256 ^ Suc n" v]
      mod_mod_cancel [of "256 ^ n" "256 ^ Suc n" w] by simp
  with Suc.prems split [of v] split [of w]
  have "(v div 256 ^ n) mod 256 = (w div 256 ^ n) mod 256" by simp
  then have "of_nat (v div 256 ^ n) = (of_nat (w div 256 ^ n) :: byte)"
    by (metis unat_of_nat_byte unsigned_word_eqI)
  with Suc.IH [OF low] show ?case by simp
qed

lemma be_bytes_be_val [codec_simps]: "be_bytes (length bs) (be_val bs) = bs"
proof (induction bs)
  case Nil
  then show ?case by simp
next
  case (Cons b bs)
  have lt: "be_val bs < 256 ^ length bs" by (rule be_val_less)
  have "be_bytes (length bs) (unat b * 256 ^ length bs + be_val bs) = be_bytes (length bs) (be_val bs)"
    by (rule be_bytes_cong) simp
  moreover have "(unat b * 256 ^ length bs + be_val bs) div 256 ^ length bs = unat b"
    using lt by simp
  ultimately show ?case using Cons by simp
qed

section \<open>Bounded channels\<close>

text \<open>\<open>try_send\<close>: the schedule says which attempts find the channel full or closed; an exhausted
  schedule accepts everything. The result is the remaining schedule and the queue.\<close>

definition try_send :: "bool list \<Rightarrow> 'a list \<Rightarrow> 'a \<Rightarrow> bool list \<times> 'a list" where
  "try_send full q x = (case full of True # fs \<Rightarrow> (fs, q) | _ \<Rightarrow> (tl full, q @ [x]))"

lemma try_send_empty [simp]: "try_send [] q x = ([], q @ [x])"
  by (simp add: try_send_def)

lemma try_send_cases: "try_send full q x = (fs, q') \<Longrightarrow> q' = q \<or> q' = q @ [x]"
  by (auto simp: try_send_def split: list.splits bool.splits)

section \<open>List facts\<close>

lemma filter_key_notin: "k \<notin> f ` set (filter (\<lambda>x. f x \<noteq> k) xs)"
  by auto

lemma distinct_map_filter_snoc:
  "distinct (map f xs) \<Longrightarrow> distinct (map f (filter (\<lambda>y. f y \<noteq> f x) xs @ [x]))"
  by (auto simp: distinct_map inj_on_def)

lemma take_append_length [simp]: "n = length xs \<Longrightarrow> take n (xs @ ys) = xs"
  by simp

lemma drop_append_length [simp]: "n = length xs \<Longrightarrow> drop n (xs @ ys) = ys"
  by simp

end
