(* ===== verification/Wire.thy ===== *)
theory Wire
  imports Prelude
begin

text \<open>
  The protobuf messages the client builds and reads. Their Rust types are generated by
  \<open>build.rs\<close> from \<open>construct-protos\<close>, which is not part of the repository: the records below
  carry the fields the sources name, and their wire codecs are parameters wherever bytes are
  produced or consumed. The numbers of the \<open>ContentType\<close> enum come from the same files and are
  a parameter too (record \<open>content_types\<close>).
\<close>

section \<open>Envelopes\<close>

record user_ref =
  ur_user_id :: string
  ur_domain :: "string option"
  ur_display_name :: "string option"

record device_ref =
  dr_user :: "user_ref option"
  dr_device_id :: string

datatype message_id_type = MessageId string | GroupMessageId string

record envelope =
  env_sender :: "user_ref option"
  env_sender_device :: "device_ref option"
  env_recipient :: "user_ref option"
  env_content_type :: int
  env_message_id_type :: "message_id_type option"
  env_encrypted_payload :: bytes
  env_conversation_id :: string
  env_sealed_inner :: "bytes option"   \<comment> \<open>\<open>sealed_sender.map(|s| s.sealed_inner)\<close>\<close>

text \<open>\<open>Envelope::default()\<close>.\<close>

definition envelope_default :: envelope where
  "envelope_default = \<lparr>env_sender = None, env_sender_device = None, env_recipient = None,
     env_content_type = 0, env_message_id_type = None, env_encrypted_payload = [],
     env_conversation_id = [], env_sealed_inner = None\<rparr>"

section \<open>The message stream\<close>

datatype stream_body =
    ReqSend envelope
  | ReqSubscribe "string list" "string option" bool
  | ReqHeartbeat i64

record stream_request =
  sr_body :: stream_body
  sr_request_id :: string

datatype stream_reply =
    RepMessage envelope
  | RepAck string
  | RepHeartbeatAck i64 i64
  | RepError string int string bool "i64 option"
  | RepReceipt
  | RepTyping
  | RepPresence
  | RepP2pHandoff

record stream_response =
  rp_reply :: "stream_reply option"
  rp_stream_cursor :: "string option"

section \<open>Content types\<close>

text \<open>The values \<open>ContentType::X as u8\<close> of the variants the sources name.\<close>

record content_types =
  ct_e2ee_signal :: byte
  ct_call_signal :: byte
  ct_heartbeat :: byte
  ct_delivery_receipt :: byte
  ct_key_exchange :: byte
  ct_session_reset :: byte
  ct_sender_sync :: byte
  ct_session_reset_init :: byte
  ct_session_ping :: byte
  ct_session_ready :: byte

definition ct_list :: "content_types \<Rightarrow> byte list" where
  "ct_list T = [ct_e2ee_signal T, ct_call_signal T, ct_heartbeat T, ct_delivery_receipt T,
     ct_key_exchange T, ct_session_reset T, ct_sender_sync T, ct_session_reset_init T,
     ct_session_ping T, ct_session_ready T]"

text \<open>The documented law of a protobuf enum without aliases: different variants, different
  numbers.\<close>

definition ct_distinct :: "content_types \<Rightarrow> bool" where
  "ct_distinct T \<longleftrightarrow> distinct (ct_list T)"

text \<open>One numbering, for concrete evaluation. The sources' comments and match arms fix 1, 12, 20,
  21, 24 and 25.\<close>

definition sample_types :: content_types where
  "sample_types = \<lparr>ct_e2ee_signal = 1, ct_call_signal = 12, ct_heartbeat = 14,
     ct_delivery_receipt = 15, ct_key_exchange = 20, ct_session_reset = 21, ct_sender_sync = 23,
     ct_session_reset_init = 24, ct_session_ping = 25, ct_session_ready = 26\<rparr>"

lemma sample_types_distinct: "ct_distinct sample_types"
  by (simp add: ct_distinct_def ct_list_def sample_types_def)

end
