(* ===== verification/Utf8.thy ===== *)
theory Utf8
  imports Prelude
begin

text \<open>
  UTF-8 as the Rust standard library reads and writes it: the scanner behind
  \<open>String::from_utf8\<close> and \<open>String::from_utf8_lossy\<close>, and \<open>String::push\<close> / \<open>String::pop\<close>,
  which the text fields of the screens use.
\<close>

section \<open>The scanner\<close>

definition is_cont :: "byte \<Rightarrow> bool" where
  "is_cont b \<longleftrightarrow> 0x80 \<le> b \<and> b \<le> 0xBF"

text \<open>The byte at position \<open>i\<close>, or 0 past the end (\<open>safe_get\<close> of the scanner).\<close>

definition byte_at :: "bytes \<Rightarrow> nat \<Rightarrow> byte" where
  "byte_at bs i = (if i < length bs then bs ! i else 0)"

text \<open>The second byte a three- or four-byte sequence may have.\<close>

definition second_ok :: "byte \<Rightarrow> byte \<Rightarrow> bool" where
  "second_ok b c \<longleftrightarrow>
     (if b = 0xE0 then 0xA0 \<le> c \<and> c \<le> 0xBF
      else if b = 0xED then 0x80 \<le> c \<and> c \<le> 0x9F
      else if b = 0xF0 then 0x90 \<le> c \<and> c \<le> 0xBF
      else if b = 0xF4 then 0x80 \<le> c \<and> c \<le> 0x8F
      else is_cont c)"

text \<open>
  One step on a non-empty buffer: whether a well-formed sequence starts here, and the length
  of that sequence or of the maximal ill-formed part.
\<close>

definition lead1 :: "byte \<Rightarrow> bool" where "lead1 b \<longleftrightarrow> b < 0x80"

definition lead2 :: "byte \<Rightarrow> bool" where "lead2 b \<longleftrightarrow> 0xC2 \<le> b \<and> b \<le> 0xDF"

definition lead3 :: "byte \<Rightarrow> bool" where "lead3 b \<longleftrightarrow> 0xE0 \<le> b \<and> b \<le> 0xEF"

definition lead4 :: "byte \<Rightarrow> bool" where "lead4 b \<longleftrightarrow> 0xF0 \<le> b \<and> b \<le> 0xF4"

definition chunk_of :: "byte \<Rightarrow> byte \<Rightarrow> byte \<Rightarrow> byte \<Rightarrow> bool \<times> nat" where
  "chunk_of b c d e =
     (if lead1 b then (True, 1)
      else if lead2 b then (if is_cont c then (True, 2) else (False, 1))
      else if lead3 b then
        (if \<not> second_ok b c then (False, 1) else if \<not> is_cont d then (False, 2) else (True, 3))
      else if lead4 b then
        (if \<not> second_ok b c then (False, 1) else if \<not> is_cont d then (False, 2)
         else if \<not> is_cont e then (False, 3) else (True, 4))
      else (False, 1))"

definition utf8_chunk :: "bytes \<Rightarrow> bool \<times> nat" where
  "utf8_chunk bs = chunk_of (byte_at bs 0) (byte_at bs 1) (byte_at bs 2) (byte_at bs 3)"

lemma chunk_of_size: "snd (chunk_of b c d e) \<in> {1, 2, 3, 4}"
  unfolding chunk_of_def by (simp split: if_split)

lemma utf8_chunk_pos [simp]: "0 < snd (utf8_chunk bs)"
  using chunk_of_size [of "byte_at bs 0" "byte_at bs 1" "byte_at bs 2" "byte_at bs 3"]
  by (auto simp: utf8_chunk_def)

lemma snd_utf8_chunk_neq0 [simp]: "snd (utf8_chunk bs) \<noteq> 0"
  using utf8_chunk_pos [of bs] by simp

lemma is_cont_nonzero: "is_cont b \<Longrightarrow> b \<noteq> 0"
  by (auto simp: is_cont_def)

lemma second_ok_nonzero: "second_ok b c \<Longrightarrow> c \<noteq> 0"
  by (auto simp: second_ok_def is_cont_def split: if_splits)

lemma chunk_of_reads:
  "snd (chunk_of b c d e) = 2 \<Longrightarrow> c \<noteq> 0"
  "snd (chunk_of b c d e) = 3 \<Longrightarrow> d \<noteq> 0"
  "snd (chunk_of b c d e) = 4 \<Longrightarrow> e \<noteq> 0"
  using is_cont_nonzero second_ok_nonzero
  unfolding chunk_of_def by (simp_all split: if_split_asm)

lemma byte_at_nonzero: "byte_at bs i \<noteq> 0 \<Longrightarrow> i < length bs"
  by (auto simp: byte_at_def split: if_splits)

lemma utf8_chunk_within:
  assumes "bs \<noteq> []" shows "snd (utf8_chunk bs) \<le> length bs"
proof -
  have "snd (utf8_chunk bs) \<in> {1, 2, 3, 4}" unfolding utf8_chunk_def by (rule chunk_of_size)
  moreover have "0 < length bs" using assms by simp
  moreover have "snd (utf8_chunk bs) = 2 \<Longrightarrow> 1 < length bs"
    unfolding utf8_chunk_def by (drule chunk_of_reads, rule byte_at_nonzero)
  moreover have "snd (utf8_chunk bs) = 3 \<Longrightarrow> 2 < length bs"
    unfolding utf8_chunk_def by (drule chunk_of_reads, rule byte_at_nonzero)
  moreover have "snd (utf8_chunk bs) = 4 \<Longrightarrow> 3 < length bs"
    unfolding utf8_chunk_def by (drule chunk_of_reads, rule byte_at_nonzero)
  ultimately show ?thesis by (auto simp: Suc_le_eq)
qed

text \<open>A well-formed sequence is recognised by its own bytes only.\<close>

lemma chunk_of_agree:
  assumes "chunk_of b c d e = (True, n)" "n < 2 \<or> c' = c" "n < 3 \<or> d' = d" "n < 4 \<or> e' = e"
  shows "chunk_of b c' d' e' = (True, n)"
  using assms(1) unfolding chunk_of_def
  by (simp split: if_split_asm) (use assms(2-4) in simp_all)

lemma utf8_chunk_agree:
  assumes "fst (utf8_chunk bs)" "\<And>i. i < snd (utf8_chunk bs) \<Longrightarrow> byte_at cs i = byte_at bs i"
  shows "utf8_chunk cs = utf8_chunk bs"
proof -
  obtain n where n: "utf8_chunk bs = (True, n)" using assms(1) by (cases "utf8_chunk bs") auto
  then have c: "chunk_of (byte_at bs 0) (byte_at bs 1) (byte_at bs 2) (byte_at bs 3) = (True, n)"
    by (simp only: utf8_chunk_def)
  have at: "i < n \<Longrightarrow> byte_at cs i = byte_at bs i" for i using n assms(2) by simp
  have "0 < n" using utf8_chunk_pos [of bs] n by simp
  then have h: "byte_at cs 0 = byte_at bs 0" by (rule at)
  have "n < 2 \<or> byte_at cs 1 = byte_at bs 1" "n < 3 \<or> byte_at cs 2 = byte_at bs 2"
    "n < 4 \<or> byte_at cs 3 = byte_at bs 3"
    using at [of 1] at [of 2] at [of 3] by linarith+
  then have "utf8_chunk cs = (True, n)"
    unfolding utf8_chunk_def h by (rule chunk_of_agree [OF c])
  then show ?thesis by (simp only: n)
qed

lemma utf8_chunk_append:
  assumes "bs \<noteq> []" "fst (utf8_chunk bs)"
  shows "utf8_chunk (bs @ cs) = utf8_chunk bs"
proof (rule utf8_chunk_agree [OF assms(2)])
  fix i assume "i < snd (utf8_chunk bs)"
  then have "i < length bs" using utf8_chunk_within [OF assms(1)] by simp
  then show "byte_at (bs @ cs) i = byte_at bs i" by (simp add: byte_at_def nth_append)
qed

function utf8_valid :: "bytes \<Rightarrow> bool" where
  "utf8_valid bs =
     (if bs = [] then True
      else fst (utf8_chunk bs) \<and> utf8_valid (drop (snd (utf8_chunk bs)) bs))"
  by pat_completeness auto
termination
  by (relation "measure length") auto

function utf8_lossy :: "bytes \<Rightarrow> bytes" where
  "utf8_lossy bs =
     (if bs = [] then []
      else (if fst (utf8_chunk bs) then take (snd (utf8_chunk bs)) bs else [0xEF, 0xBF, 0xBD])
           @ utf8_lossy (drop (snd (utf8_chunk bs)) bs))"
  by pat_completeness auto
termination
  by (relation "measure length") auto

declare utf8_valid.simps [simp del] utf8_lossy.simps [simp del]

definition from_utf8 :: "bytes \<Rightarrow> string option" where
  "from_utf8 bs = (if utf8_valid bs then Some (bytes_str bs) else None)"

definition from_utf8_lossy :: "bytes \<Rightarrow> string" where
  "from_utf8_lossy bs = bytes_str (utf8_lossy bs)"

text \<open>Every Rust \<open>String\<close> satisfies this.\<close>

definition is_str :: "string \<Rightarrow> bool" where
  "is_str s \<longleftrightarrow> utf8_valid (str_bytes s)"

lemma utf8_valid_Nil [simp]: "utf8_valid []"
  by (subst utf8_valid.simps) simp

lemma utf8_lossy_Nil [simp]: "utf8_lossy [] = []"
  by (subst utf8_lossy.simps) simp

lemma utf8_valid_append:
  "utf8_valid bs \<Longrightarrow> utf8_valid (bs @ cs) = utf8_valid cs"
proof (induction bs rule: utf8_valid.induct)
  case (1 bs)
  show ?case
  proof (cases "bs = []")
    case False
    with "1.prems" have c: "fst (utf8_chunk bs)" "utf8_valid (drop (snd (utf8_chunk bs)) bs)"
      using utf8_valid.simps [of bs] by simp_all
    have n: "snd (utf8_chunk bs) \<le> length bs" using False by (rule utf8_chunk_within)
    have a: "utf8_chunk (bs @ cs) = utf8_chunk bs" using False c(1) by (rule utf8_chunk_append)
    from False c n a "1.IH" show ?thesis
      using utf8_valid.simps [of "bs @ cs"] by simp
  qed simp
qed

lemma utf8_lossy_id: "utf8_valid bs \<Longrightarrow> utf8_lossy bs = bs"
proof (induction bs rule: utf8_valid.induct)
  case (1 bs)
  show ?case
  proof (cases "bs = []")
    case False
    with "1.prems" have c: "fst (utf8_chunk bs)" "utf8_valid (drop (snd (utf8_chunk bs)) bs)"
      using utf8_valid.simps [of bs] by simp_all
    with False "1.IH" show ?thesis using utf8_lossy.simps [of bs] by simp
  qed simp
qed

lemma utf8_chunk_take_valid:
  assumes "bs \<noteq> []" "fst (utf8_chunk bs)"
  shows "utf8_valid (take (snd (utf8_chunk bs)) bs)"
proof -
  let ?n = "snd (utf8_chunk bs)"
  have n: "?n \<le> length bs" using assms(1) by (rule utf8_chunk_within)
  have eq: "utf8_chunk (take ?n bs) = utf8_chunk bs"
    by (rule utf8_chunk_agree [OF assms(2)]) (use n in \<open>simp add: byte_at_def\<close>)
  have "take ?n bs \<noteq> []" using assms(1) by simp
  then show ?thesis
    using eq assms(2) n utf8_valid.simps [of "take ?n bs"] by simp
qed

lemma utf8_replacement_valid: "utf8_valid [0xEF, 0xBF, 0xBD]"
  by (subst utf8_valid.simps) (simp add: utf8_chunk_def chunk_of_def lead1_def lead2_def lead3_def byte_at_def second_ok_def is_cont_def)

lemma utf8_lossy_valid: "utf8_valid (utf8_lossy bs)"
proof (induction bs rule: utf8_lossy.induct)
  case (1 bs)
  show ?case
  proof (cases "bs = []")
    case False
    let ?h = "if fst (utf8_chunk bs) then take (snd (utf8_chunk bs)) bs else [0xEF, 0xBF, 0xBD]"
    have "utf8_valid ?h"
      using False utf8_chunk_take_valid utf8_replacement_valid by simp
    from utf8_valid_append [OF this] "1.IH" [OF False] False show ?thesis
      by (simp only: utf8_lossy.simps [of bs] if_False)
  qed simp
qed

lemma is_str_from_lossy [simp]: "is_str (from_utf8_lossy bs)"
  by (simp add: is_str_def from_utf8_lossy_def utf8_lossy_valid)

lemma from_utf8_str [simp]: "is_str s \<Longrightarrow> from_utf8 (str_bytes s) = Some s"
  by (simp add: is_str_def from_utf8_def)

lemma from_utf8_lossy_str [simp]: "is_str s \<Longrightarrow> from_utf8_lossy (str_bytes s) = s"
  by (simp add: is_str_def from_utf8_lossy_def utf8_lossy_id)

lemma from_utf8_SomeD: "from_utf8 bs = Some s \<Longrightarrow> str_bytes s = bs \<and> is_str s"
  by (auto simp: from_utf8_def is_str_def split: if_splits)

lemma is_str_Nil [simp]: "is_str []"
  by (simp add: is_str_def)

lemma is_str_append: "is_str s \<Longrightarrow> is_str (s @ t) = is_str t"
  by (simp add: is_str_def utf8_valid_append)

lemma utf8_valid_ascii: "list_all (\<lambda>b. b < 0x80) bs \<Longrightarrow> utf8_valid bs"
proof (induction bs)
  case (Cons b bs)
  then have "utf8_chunk (b # bs) = (True, 1)"
    by (simp add: utf8_chunk_def chunk_of_def lead1_def byte_at_def)
  with Cons show ?case by (subst utf8_valid.simps) simp
qed simp

lemma is_str_ascii: "list_all (\<lambda>c. of_char c < (128::nat)) s \<Longrightarrow> is_str s"
proof -
  assume a: "list_all (\<lambda>c. of_char c < (128::nat)) s"
  have "(of_nat (of_char c) :: byte) < 0x80" if "of_char c < (128::nat)" for c
    using that by (simp add: word_less_nat_alt)
  with a have "list_all (\<lambda>b. b < 0x80) (str_bytes s)"
    by (simp add: str_bytes_def list_all_iff)
  then show ?thesis by (simp add: is_str_def utf8_valid_ascii)
qed

section \<open>Characters\<close>

text \<open>A Rust \<open>char\<close> is a Unicode scalar value; \<open>char::encode_utf8\<close>.\<close>

type_synonym rchar = nat

definition is_scalar :: "rchar \<Rightarrow> bool" where
  "is_scalar c \<longleftrightarrow> c < 0xD800 \<or> 0xE000 \<le> c \<and> c < 0x110000"

definition utf8_encode :: "rchar \<Rightarrow> string" where
  "utf8_encode c =
     (if c < 0x80 then [char_of c]
      else if c < 0x800 then [char_of (0xC0 + c div 64), char_of (0x80 + c mod 64)]
      else if c < 0x10000 then
        [char_of (0xE0 + c div 4096), char_of (0x80 + c div 64 mod 64), char_of (0x80 + c mod 64)]
      else [char_of (0xF0 + c div 262144), char_of (0x80 + c div 4096 mod 64),
            char_of (0x80 + c div 64 mod 64), char_of (0x80 + c mod 64)])"

definition str_push :: "string \<Rightarrow> rchar \<Rightarrow> string" where
  "str_push s c = s @ utf8_encode c"

text \<open>\<open>String::pop\<close> drops the last character: its continuation bytes and the byte before them.\<close>

definition is_cont_char :: "char \<Rightarrow> bool" where
  "is_cont_char c \<longleftrightarrow> 128 \<le> (of_char c :: nat) \<and> (of_char c :: nat) < 192"

definition str_pop :: "string \<Rightarrow> string" where
  "str_pop s = rev (tl (dropWhile is_cont_char (rev s)))"

lemma utf8_encode_length: "1 \<le> length (utf8_encode c)" "length (utf8_encode c) \<le> 4"
  by (simp_all add: utf8_encode_def)

lemma utf8_encode_nonempty [simp]: "utf8_encode c \<noteq> []"
  by (simp add: utf8_encode_def)

lemma cont_char_of: "n < 64 \<Longrightarrow> is_cont_char (char_of (128 + n :: nat))"
  by (simp add: is_cont_char_def)

lemma not_cont_lead: "192 \<le> n \<Longrightarrow> n < 256 \<Longrightarrow> \<not> is_cont_char (char_of (n :: nat))"
  "n < 128 \<Longrightarrow> \<not> is_cont_char (char_of (n :: nat))"
  by (simp_all add: is_cont_char_def)

lemma str_pop_push: "is_scalar c \<Longrightarrow> str_pop (str_push s c) = s"
proof -
  assume c: "is_scalar c"
  then have "c < 0x110000" by (auto simp: is_scalar_def)
  then show ?thesis
    using cont_char_of [of "c mod 64"] cont_char_of [of "c div 64 mod 64"]
      cont_char_of [of "c div 4096 mod 64"]
      not_cont_lead(1) [of "192 + c div 64"] not_cont_lead(1) [of "224 + c div 4096"]
      not_cont_lead(1) [of "240 + c div 262144"] not_cont_lead(2) [of c]
    by (auto simp: str_pop_def str_push_def utf8_encode_def)
qed

lemma str_pop_length: "length (str_pop s) \<le> length s - 1"
proof -
  have "length (dropWhile is_cont_char (rev s)) \<le> length s"
    by (metis length_dropWhile_le length_rev)
  then show ?thesis by (simp add: str_pop_def)
qed

lemma str_push_length: "length (str_push s c) \<le> length s + 4" "length s < length (str_push s c)"
  using utf8_encode_length [of c] by (simp_all add: str_push_def)

text \<open>\<open>str::is_char_boundary\<close>; slicing anywhere else panics.\<close>

definition char_boundary :: "string \<Rightarrow> nat \<Rightarrow> bool" where
  "char_boundary s n \<longleftrightarrow> n = 0 \<or> n = length s \<or> n < length s \<and> \<not> is_cont_char (s ! n)"

section \<open>Symbols of the user interface\<close>

text \<open>The non-ASCII characters the source's texts contain, in UTF-8.\<close>

definition em_dash :: string where "em_dash = utf8_encode 0x2014"

definition ellipsis :: string where "ellipsis = utf8_encode 0x2026"

end
