(* ===== verification/Storage_Db.thy ===== *)
theory Storage_Db
  imports Utf8 "HOL-Library.List_Lexorder" "HOL-Library.Char_ord" "HOL-Library.Multiset"
begin

text \<open>
  The SQLite storage layer (\<open>src/storage.rs\<close>). Each table is a list of rows in rowid order;
  each SQL statement of the source is the list operation that SQLite documents for it. A
  statement may also fail as a whole (disk full, locked database): the field \<open>faults\<close> is the
  schedule of those failures, so every \<open>?\<close> of the source is a branch here.

  Where SQL leaves the order open (\<open>ORDER BY\<close> with ties) the order is a parameter \<open>ord\<close> and
  \<open>desc_by_time\<close> states what SQL promises of it.
\<close>

section \<open>Rows and tables\<close>

record stored_message =
  sm_id :: string
  sm_peer_id :: string
  sm_text :: string
  sm_direction :: string
  sm_timestamp_ms :: i64
  sm_delivery_status :: string

record stored_contact =
  sc_user_id :: string
  sc_display_name :: string
  sc_identity_key_b64 :: string

record db =
  messages :: "stored_message list"
  contacts :: "stored_contact list"
  pending_acks :: "(string \<times> i64) list"
  secure_store :: "(string \<times> bytes) list"
  records :: "(string \<times> string) list"
  faults :: "bool list"

definition empty_db :: db where
  "empty_db = \<lparr>messages = [], contacts = [], pending_acks = [], secure_store = [], records = [],
     faults = []\<rparr>"

text \<open>One SQL statement: it fails and changes nothing, or takes effect.\<close>

definition stmt :: "db \<Rightarrow> (db \<Rightarrow> (db \<times> (string + 'a))) \<Rightarrow> db \<times> (string + 'a)" where
  "stmt d f =
     (case faults d of
        [] \<Rightarrow> f d
      | b # fs \<Rightarrow> if b then (d\<lparr>faults := fs\<rparr>, Err ''sqlite error'') else f (d\<lparr>faults := fs\<rparr>))"

section \<open>Messages\<close>

text \<open>The CHECK constraint of the \<open>messages\<close> table.\<close>

definition direction_ok :: "string \<Rightarrow> bool" where
  "direction_ok s \<longleftrightarrow> s = ''sent'' \<or> s = ''received'' \<or> s = ''pending''"

text \<open>\<open>INSERT OR REPLACE\<close>: a CHECK violation aborts; a row with the same key is replaced.\<close>

definition store_message :: "db \<Rightarrow> stored_message \<Rightarrow> db \<times> (string + unit)" where
  "store_message d msg = stmt d (\<lambda>d.
     if direction_ok (sm_direction msg) then
       (d\<lparr>messages := filter (\<lambda>m. sm_id m \<noteq> sm_id msg) (messages d) @ [msg]\<rparr>, Ok ())
     else (d, Err ''CHECK constraint failed''))"

text \<open>\<open>INSERT OR IGNORE\<close>: a violation of the key or of the CHECK skips the row without error.\<close>

definition store_inbound_message :: "db \<Rightarrow> stored_message \<Rightarrow> db \<times> (string + unit)" where
  "store_inbound_message d msg = stmt d (\<lambda>d.
     if sm_id msg \<in> sm_id ` set (messages d) \<or> \<not> direction_ok (sm_direction msg) then (d, Ok ())
     else (d\<lparr>messages := messages d @ [msg]\<rparr>, Ok ()))"

text \<open>\<open>LIMIT ?\<close> with \<open>limit as i64\<close>: from \<open>2 ^ 63\<close> on the cast is negative, which is no limit.\<close>

definition sql_limit :: "u64 \<Rightarrow> 'a list \<Rightarrow> 'a list" where
  "sql_limit n xs = (if 2 ^ 63 \<le> unat n then xs else take (unat n) xs)"

definition get_messages ::
  "(stored_message list \<Rightarrow> stored_message list) \<Rightarrow> db \<Rightarrow> string \<Rightarrow> u64
     \<Rightarrow> db \<times> (string + stored_message list)" where
  "get_messages ord d peer_id limit = stmt d (\<lambda>d.
     (d, Ok (rev (sql_limit limit (ord (filter (\<lambda>m. sm_peer_id m = peer_id) (messages d)))))))"

definition mark_delivered :: "db \<Rightarrow> string \<Rightarrow> db \<times> (string + unit)" where
  "mark_delivered d message_id = stmt d (\<lambda>d.
     (d\<lparr>messages := map (\<lambda>m. if sm_id m = message_id
                              then m\<lparr>sm_delivery_status := ''delivered''\<rparr> else m) (messages d)\<rparr>, Ok ()))"

section \<open>Contacts and acknowledgements\<close>

definition upsert_contact :: "db \<Rightarrow> stored_contact \<Rightarrow> db \<times> (string + unit)" where
  "upsert_contact d c = stmt d (\<lambda>d.
     (d\<lparr>contacts := filter (\<lambda>x. sc_user_id x \<noteq> sc_user_id c) (contacts d) @ [c]\<rparr>, Ok ()))"

definition get_contacts ::
  "(stored_contact list \<Rightarrow> stored_contact list) \<Rightarrow> db \<Rightarrow> db \<times> (string + stored_contact list)" where
  "get_contacts ord d = stmt d (\<lambda>d. (d, Ok (ord (contacts d))))"

definition get_contact_by_id :: "db \<Rightarrow> string \<Rightarrow> db \<times> (string + stored_contact option)" where
  "get_contact_by_id d user_id = stmt d (\<lambda>d.
     (d, Ok (find (\<lambda>c. sc_user_id c = user_id) (contacts d))))"

definition store_ack :: "db \<Rightarrow> string \<Rightarrow> i64 \<Rightarrow> db \<times> (string + unit)" where
  "store_ack d message_id ts = stmt d (\<lambda>d.
     if message_id \<in> fst ` set (pending_acks d) then (d, Ok ())
     else (d\<lparr>pending_acks := pending_acks d @ [(message_id, ts)]\<rparr>, Ok ()))"

definition pop_all_acks :: "db \<Rightarrow> db \<times> (string + (string \<times> i64) list)" where
  "pop_all_acks d =
     (case stmt d (\<lambda>d. (d, Ok (pending_acks d))) of
        (d, Err e) \<Rightarrow> (d, Err e)
      | (d, Ok rows) \<Rightarrow>
          if rows = [] then (d, Ok rows)
          else (case stmt d (\<lambda>d. (d\<lparr>pending_acks := []\<rparr>, Ok ())) of
                  (d, Err e) \<Rightarrow> (d, Err e)
                | (d, Ok _) \<Rightarrow> (d, Ok rows)))"

definition prune_acks :: "db \<Rightarrow> i64 \<Rightarrow> db \<times> (string + unit)" where
  "prune_acks d cutoff = stmt d (\<lambda>d.
     (d\<lparr>pending_acks := filter (\<lambda>a. \<not> snd a < cutoff) (pending_acks d)\<rparr>, Ok ()))"

definition has_ack :: "db \<Rightarrow> string \<Rightarrow> db \<times> (string + bool)" where
  "has_ack d message_id = stmt d (\<lambda>d.
     (d, Ok (0 < length (filter (\<lambda>a. fst a = message_id) (pending_acks d)))))"

section \<open>Deleting a contact\<close>

text \<open>SQLite \<open>LIKE\<close>: case-insensitive on ASCII, \<open>%\<close> any run, \<open>_\<close> any one character.\<close>

definition drop_char :: "string \<Rightarrow> string" where
  "drop_char s = dropWhile is_cont_char (tl s)"

lemma drop_char_shorter: "s \<noteq> [] \<Longrightarrow> length (drop_char s) < length s"
  using length_dropWhile_le [of is_cont_char "tl s"] by (cases s) (simp_all add: drop_char_def)

function sql_like :: "string \<Rightarrow> string \<Rightarrow> bool" where
  "sql_like [] s = (s = [])"
| "sql_like (p # ps) s =
     (if p = CHR 0x25 then sql_like ps s \<or> (if s = [] then False else sql_like (p # ps) (drop_char s))
      else if p = CHR 0x5F then (if s = [] then False else sql_like ps (drop_char s))
      else (case s of [] \<Rightarrow> False | c # cs \<Rightarrow> ascii_lower p = ascii_lower c \<and> sql_like ps cs))"
  by pat_completeness auto
termination
  by (relation "measure (\<lambda>(p, s). length p + length s)") (auto simp: drop_char_shorter less_SucI)

definition delete_contact :: "db \<Rightarrow> string \<Rightarrow> db \<times> (string + nat)" where
  "delete_contact d user_id =
     (case stmt d (\<lambda>d.
        (d\<lparr>contacts := filter (\<lambda>c. sc_user_id c \<noteq> user_id) (contacts d)\<rparr>, Ok ())) of
        (d, Err e) \<Rightarrow> (d, Err e)
      | (d, Ok _) \<Rightarrow>
        (case stmt d (\<lambda>d.
           (d\<lparr>messages := filter (\<lambda>m. sm_peer_id m \<noteq> user_id) (messages d)\<rparr>,
            Ok (length (filter (\<lambda>m. sm_peer_id m = user_id) (messages d))))) of
           (d, Err e) \<Rightarrow> (d, Err e)
         | (d, Ok msg_count) \<Rightarrow>
           (case stmt d (\<lambda>d.
              (d\<lparr>secure_store :=
                   filter (\<lambda>kv. \<not> sql_like (CHR 0x25 # user_id @ [CHR 0x25]) (fst kv)) (secure_store d)\<rparr>,
               Ok ())) of
              (d, Err e) \<Rightarrow> (d, Err e)
            | (d, Ok _) \<Rightarrow> (d, Ok msg_count))))"

section \<open>Secure key-value store\<close>

definition secure_save :: "db \<Rightarrow> string \<Rightarrow> bytes \<Rightarrow> db \<times> (string + unit)" where
  "secure_save d key v = stmt d (\<lambda>d.
     (d\<lparr>secure_store := filter (\<lambda>kv. fst kv \<noteq> key) (secure_store d) @ [(key, v)]\<rparr>, Ok ()))"

definition secure_delete :: "db \<Rightarrow> string \<Rightarrow> db \<times> (string + unit)" where
  "secure_delete d key = stmt d (\<lambda>d.
     (d\<lparr>secure_store := filter (\<lambda>kv. fst kv \<noteq> key) (secure_store d)\<rparr>, Ok ()))"

definition secure_save_or_delete :: "db \<Rightarrow> string \<Rightarrow> bytes \<Rightarrow> db \<times> (string + unit)" where
  "secure_save_or_delete d key v = (if v = [] then secure_delete d key else secure_save d key v)"

definition secure_load :: "db \<Rightarrow> string \<Rightarrow> db \<times> (string + bytes option)" where
  "secure_load d key = stmt d (\<lambda>d. (d, Ok (map_of (secure_store d) key)))"

section \<open>Stream cursor\<close>

text \<open>Redis stream ids \<open>millis-seq\<close>, ordered as Rust orders pairs.\<close>

datatype stream_id = StreamId (sid_ms: u64) (sid_seq: u64)

instantiation stream_id :: linorder
begin

definition less_eq_stream_id :: "stream_id \<Rightarrow> stream_id \<Rightarrow> bool" where
  "a \<le> b \<longleftrightarrow> sid_ms a < sid_ms b \<or> sid_ms a = sid_ms b \<and> sid_seq a \<le> sid_seq b"

definition less_stream_id :: "stream_id \<Rightarrow> stream_id \<Rightarrow> bool" where
  "(a :: stream_id) < b \<longleftrightarrow> sid_ms a < sid_ms b \<or> sid_ms a = sid_ms b \<and> sid_seq a < sid_seq b"

instance
  by standard (auto simp: less_eq_stream_id_def less_stream_id_def stream_id.expand)

end

definition parse_stream_cursor :: "string \<Rightarrow> stream_id option" where
  "parse_stream_cursor s =
     (case split_once (CHR 0x2D) s of
        None \<Rightarrow> None
      | Some (ms, seq) \<Rightarrow>
          (case parse_u64 ms of None \<Rightarrow> None
           | Some a \<Rightarrow> (case parse_u64 seq of None \<Rightarrow> None | Some b \<Rightarrow> Some (StreamId a b))))"

definition cursor_after :: "string \<Rightarrow> string \<Rightarrow> bool" where
  "cursor_after new old =
     (case (parse_stream_cursor new, parse_stream_cursor old) of
        (Some a, Some b) \<Rightarrow> b < a
      | _ \<Rightarrow> old < new)"

definition STREAM_CURSOR_KEY :: string where
  "STREAM_CURSOR_KEY = ''stream_cursor''"

text \<open>What a stored cursor blob reads as.\<close>

definition cursor_of_blob :: "bytes option \<Rightarrow> string option" where
  "cursor_of_blob b =
     (case b of None \<Rightarrow> None
      | Some v \<Rightarrow> (case from_utf8 v of None \<Rightarrow> None | Some s \<Rightarrow> if s = [] then None else Some s))"

definition load_stream_cursor :: "db \<Rightarrow> db \<times> (string + string option)" where
  "load_stream_cursor d =
     (case secure_load d STREAM_CURSOR_KEY of
        (d, Err e) \<Rightarrow> (d, Err e)
      | (d, Ok b) \<Rightarrow> (d, Ok (cursor_of_blob b)))"

definition save_stream_cursor :: "db \<Rightarrow> string \<Rightarrow> db \<times> (string + bool)" where
  "save_stream_cursor d cursor =
     (if cursor = [] then (d, Ok False)
      else (case load_stream_cursor d of
        (d, Err e) \<Rightarrow> (d, Err e)
      | (d, Ok old) \<Rightarrow>
          if (case old of None \<Rightarrow> False | Some o' \<Rightarrow> \<not> cursor_after cursor o') then (d, Ok False)
          else (case secure_save d STREAM_CURSOR_KEY (str_bytes cursor) of
                  (d, Err e) \<Rightarrow> (d, Err e)
                | (d, Ok _) \<Rightarrow> (d, Ok True))))"

definition clear_stream_cursor :: "db \<Rightarrow> db \<times> (string + unit)" where
  "clear_stream_cursor d = secure_delete d STREAM_CURSOR_KEY"

section \<open>Generic records\<close>

definition persist_record :: "db \<Rightarrow> string \<Rightarrow> string \<Rightarrow> db \<times> (string + unit)" where
  "persist_record d table_name json = stmt d (\<lambda>d.
     (d\<lparr>records := records d @ [(table_name, json)]\<rparr>, Ok ()))"

definition query_last_record :: "db \<Rightarrow> string \<Rightarrow> db \<times> (string + string option)" where
  "query_last_record d table_name = stmt d (\<lambda>d.
     (d, Ok (map_option snd (find (\<lambda>r. fst r = table_name) (rev (records d))))))"


section \<open>Statements\<close>

lemma stmt_no_faults [simp]: "faults d = [] \<Longrightarrow> stmt d f = f d"
  by (simp add: stmt_def)

lemma stmt_cases:
  assumes "stmt d f = (d', r)"
  obtains (failed) fs where "d' = d\<lparr>faults := fs\<rparr>" "r = Err ''sqlite error''"
        | (ran) fs where "f (d\<lparr>faults := fs\<rparr>) = (d', r)"
proof (cases "faults d")
  case Nil
  then have eq: "d\<lparr>faults := []\<rparr> = d" by (cases d) simp
  have "f (d\<lparr>faults := []\<rparr>) = (d', r)" unfolding eq using assms Nil by (simp add: stmt_def)
  then show ?thesis by (rule ran)
next
  case (Cons b fs)
  then show ?thesis using assms failed [of fs] ran [of fs] by (cases b) (auto simp: stmt_def)
qed

lemma stmt_read:
  "stmt d (\<lambda>d. (d, g d)) = (d', r) \<Longrightarrow>
     \<exists>fs. d' = d\<lparr>faults := fs\<rparr> \<and> (r = Err ''sqlite error'' \<or> r = g (d\<lparr>faults := fs\<rparr>))"
  by (erule stmt_cases) auto

text \<open>The view of the key-value table.\<close>

abbreviation kvs :: "db \<Rightarrow> string \<Rightarrow> bytes option" where
  "kvs d \<equiv> map_of (secure_store d)"

lemma map_of_filter_key: "map_of (filter (\<lambda>p. P (fst p)) xs) = (\<lambda>k. if P k then map_of xs k else None)"
  by (induction xs) (auto simp: fun_eq_iff)

lemma kv_del: "map_of (filter (\<lambda>p. fst p \<noteq> k) xs) = (map_of xs)(k := None)"
  by (simp add: map_of_filter_key [where P = "\<lambda>x. x \<noteq> k"] fun_eq_iff)

lemma kv_put: "map_of (filter (\<lambda>p. fst p \<noteq> k) xs @ [(k, v)]) = (map_of xs)(k \<mapsto> v)"
  by (simp add: map_add_def kv_del fun_eq_iff split: option.split)

section \<open>The key-value interface\<close>

locale secure_kv =
  fixes save :: "'s \<Rightarrow> 'k \<Rightarrow> 'v \<Rightarrow> 's \<times> ('e + unit)"
    and remove :: "'s \<Rightarrow> 'k \<Rightarrow> 's \<times> ('e + unit)"
    and view :: "'s \<Rightarrow> 'k \<Rightarrow> 'v option"
  assumes save_ok: "save s k v = (s', Inr u) \<Longrightarrow> view s' = (view s)(k \<mapsto> v)"
    and save_err: "save s k v = (s', Inl e) \<Longrightarrow> view s' = view s"
    and remove_ok: "remove s k = (s', Inr u) \<Longrightarrow> view s' = (view s)(k := None)"
    and remove_err: "remove s k = (s', Inl e) \<Longrightarrow> view s' = view s"
begin

lemma save_other: "k' \<noteq> k \<Longrightarrow> view (fst (save s k v)) k' = view s k'"
  by (cases "save s k v"; cases "snd (save s k v)") (auto dest: save_ok save_err)

lemma remove_other: "k' \<noteq> k \<Longrightarrow> view (fst (remove s k)) k' = view s k'"
  by (cases "remove s k"; cases "snd (remove s k)") (auto dest: remove_ok remove_err)

text \<open>Archive under one key, then drop another: the hot entry goes only once the archive is in.\<close>

lemma archive_then_remove:
  assumes "save s a v = (s1, r1)" "remove s1 b = (s2, r2)" "a \<noteq> b"
  shows "r1 = Inr () \<Longrightarrow> r2 = Inr () \<Longrightarrow> view s2 = (view s)(a \<mapsto> v, b := None)"
    and "r1 = Inr () \<Longrightarrow> view s2 a = Some v"
    and "r1 = Inl e \<Longrightarrow> view s1 = view s"
  using assms save_ok [of s a v s1] save_err [of s a v s1]
    remove_ok [of s1 b s2] remove_err [of s1 b s2]
  by (cases r2; fastforce)+

end

lemma secure_save_view:
  "secure_save d k v = (d', Ok u) \<Longrightarrow> kvs d' = (kvs d)(k \<mapsto> v)"
  "secure_save d k v = (d', Err e) \<Longrightarrow> kvs d' = kvs d"
  unfolding secure_save_def by (erule stmt_cases; auto simp: kv_put simp del: map_of_append)+

lemma secure_delete_view:
  "secure_delete d k = (d', Ok u) \<Longrightarrow> kvs d' = (kvs d)(k := None)"
  "secure_delete d k = (d', Err e) \<Longrightarrow> kvs d' = kvs d"
  unfolding secure_delete_def by (erule stmt_cases; auto simp: kv_del)+

interpretation store: secure_kv secure_save secure_delete kvs
  by unfold_locales (simp_all add: secure_save_view secure_delete_view)

end
