(* ===== verification/Storage_Props.thy ===== *)
theory Storage_Props
  imports Storage_Db
begin

text \<open>
  What the storage layer promises: the stream cursor is a watermark that never moves back
  (locale \<open>watermark\<close>, interpreted on \<^const>\<open>save_stream_cursor\<close>), inbound messages are stored
  once, history is the newest part of a conversation in chronological order, deleting a contact
  removes what belongs to it, and the table keys stay unique under every operation.
\<close>

section \<open>Well-formed cursors\<close>

definition cursor_ok :: "string \<Rightarrow> bool" where
  "cursor_ok c \<longleftrightarrow> parse_stream_cursor c \<noteq> None"

definition cursor_id :: "string \<Rightarrow> stream_id" where
  "cursor_id c = (case parse_stream_cursor c of None \<Rightarrow> StreamId 0 0 | Some i \<Rightarrow> i)"

lemma cursor_after_ids: "cursor_ok a \<Longrightarrow> cursor_ok b \<Longrightarrow> cursor_after a b \<longleftrightarrow> cursor_id b < cursor_id a"
  by (auto simp: cursor_ok_def cursor_id_def cursor_after_def)

text \<open>A stream id as the server prints it.\<close>

definition show_stream_id :: "stream_id \<Rightarrow> string" where
  "show_stream_id i = dec_of_nat (unat (sid_ms i)) @ CHR 0x2D # dec_of_nat (unat (sid_seq i))"

lemma parse_show_stream_id: "parse_stream_cursor (show_stream_id i) = Some i"
  by (simp add: parse_stream_cursor_def show_stream_id_def split_once_append dash_not_in_dec
      parse_u64_dec)

lemma parse_uint_ascii:
  assumes "parse_uint b s = Some n" shows "list_all (\<lambda>c. of_char c < (128::nat)) s"
proof (cases s)
  case (Cons c r)
  have "is_digit x \<Longrightarrow> of_char x < (128::nat)" for x by (simp add: is_digit_def)
  with assms Cons show ?thesis
    by (auto simp: parse_uint_def Let_def list_all_iff split: if_splits)
qed simp

lemma split_once_join: "split_once c s = Some (a, b) \<Longrightarrow> s = a @ c # b"
proof -
  assume s: "split_once c s = Some (a, b)"
  then have "c \<in> set s" by (auto simp: split_once_def split: if_splits)
  then obtain y ys where d: "dropWhile (\<lambda>x. x \<noteq> c) s = y # ys" "y = c"
    by (metis (mono_tags, lifting) dropWhile_eq_Nil_conv hd_dropWhile list.exhaust_sel)
  have "takeWhile (\<lambda>x. x \<noteq> c) s @ dropWhile (\<lambda>x. x \<noteq> c) s = s" by simp
  with s d show ?thesis by (auto simp: split_once_def split: if_splits)
qed

lemma cursor_ok_str: "cursor_ok c \<Longrightarrow> is_str c \<and> c \<noteq> []"
proof -
  assume "cursor_ok c"
  then obtain a b x y where s: "split_once (CHR 0x2D) c = Some (a, b)"
    and p: "parse_u64 a = Some x" "parse_u64 b = Some y"
    by (auto simp: cursor_ok_def parse_stream_cursor_def split: option.splits)
  have "list_all (\<lambda>c. of_char c < (128::nat)) a" "list_all (\<lambda>c. of_char c < (128::nat)) b"
    using p by (auto simp: parse_u64_def dest: parse_uint_ascii)
  then have "list_all (\<lambda>c. of_char c < (128::nat)) c" using split_once_join [OF s] by simp
  then show ?thesis using is_str_ascii split_once_join [OF s] by simp
qed

section \<open>The watermark interface\<close>

locale watermark =
  fixes after :: "'c \<Rightarrow> 'c \<Rightarrow> bool"
    and good :: "'c \<Rightarrow> bool"
    and save :: "'s \<Rightarrow> 'c \<Rightarrow> 's \<times> ('e + bool)"
    and mark :: "'s \<Rightarrow> 'c option"
    and healthy :: "'s \<Rightarrow> bool"
  assumes after_trans: "good a \<Longrightarrow> good b \<Longrightarrow> good c \<Longrightarrow> after a b \<Longrightarrow> after b c \<Longrightarrow> after a c"
    and after_irrefl: "good a \<Longrightarrow> \<not> after a a"
    and after_total: "good a \<Longrightarrow> good b \<Longrightarrow> good c \<Longrightarrow> after a c \<Longrightarrow> after b c \<or> after a b"
    and save_mark: "good c \<Longrightarrow> mark s = Some m \<Longrightarrow> good m \<Longrightarrow> save s c = (s', r) \<Longrightarrow>
        mark s' = Some m \<and> r \<noteq> Inr True \<or> mark s' = Some c \<and> after c m \<and> r = Inr True"
    and save_healthy: "healthy s \<Longrightarrow> healthy (fst (save s c))"
    and save_takes: "healthy s \<Longrightarrow> good c \<Longrightarrow> mark s = Some m \<Longrightarrow> good m \<Longrightarrow> after c m \<Longrightarrow>
        mark (fst (save s c)) = Some c"
begin

lemma never_back:
  "list_all good cs \<Longrightarrow> mark s = Some m \<Longrightarrow> good m \<Longrightarrow>
   \<exists>m'. mark (foldl (\<lambda>s c. fst (save s c)) s cs) = Some m' \<and> good m' \<and> (m' = m \<or> after m' m)"
proof (induction cs arbitrary: s m)
  case Nil
  then show ?case by simp
next
  case (Cons c cs)
  obtain s' r where sv: "save s c = (s', r)" by (cases "save s c") auto
  have "mark s' = Some m \<or> mark s' = Some c \<and> after c m"
    using save_mark [OF _ Cons.prems(2,3) sv] Cons.prems(1) by auto
  then show ?case
  proof
    assume "mark s' = Some m"
    with Cons show ?thesis by (simp add: sv)
  next
    assume c: "mark s' = Some c \<and> after c m"
    with Cons.IH [of s' c] Cons.prems obtain m' where
      "mark (foldl (\<lambda>s c. fst (save s c)) s' cs) = Some m'" "good m'" "m' = c \<or> after m' c" by auto
    then show ?thesis using c after_trans [of m' c m] Cons.prems by (auto simp: sv)
  qed
qed

lemma reaches_maximum:
  "list_all good cs \<Longrightarrow> mark s = Some m \<Longrightarrow> good m \<Longrightarrow> healthy s \<Longrightarrow>
   \<exists>m'. mark (foldl (\<lambda>s c. fst (save s c)) s cs) = Some m' \<and> good m'
      \<and> (\<forall>c \<in> set (m # cs). \<not> after c m')"
proof (induction cs arbitrary: s m)
  case Nil
  then show ?case using after_irrefl by simp
next
  case (Cons c cs)
  obtain s' r where sv: "save s c = (s', r)" by (cases "save s c") auto
  have h: "healthy s'" using save_healthy [OF Cons.prems(4), of c] sv by simp
  have g: "good c" "list_all good cs" using Cons.prems(1) by simp_all
  obtain k where k: "mark s' = Some k" "good k" "\<not> after c k" "\<not> after m k"
  proof (cases "after c m")
    case True
    then have "mark s' = Some c" using save_takes [OF Cons.prems(4) g(1) Cons.prems(2,3)] sv by simp
    moreover have "\<not> after m c" using after_trans [of c m c] after_irrefl g(1) Cons.prems(3) True by blast
    ultimately show ?thesis using that g(1) after_irrefl by blast
  next
    case False
    then have "mark s' = Some m" using save_mark [OF g(1) Cons.prems(2,3) sv] by blast
    then show ?thesis using that Cons.prems(3) False after_irrefl by blast
  qed
  from Cons.IH [OF g(2) k(1,2) h] obtain m' where
    m': "mark (foldl (\<lambda>s c. fst (save s c)) s' cs) = Some m'" "good m'"
      "\<forall>c \<in> set (k # cs). \<not> after c m'" by blast
  have "\<not> after x m'" if "good x" "\<not> after x k" for x
    using that m' k(2) after_total [of x k m'] by auto
  then show ?case using m' k g(1) Cons.prems(3) sv by auto
qed

end

definition stored_cursor :: "db \<Rightarrow> string option" where
  "stored_cursor d = cursor_of_blob (kvs d STREAM_CURSOR_KEY)"

lemma load_stream_cursor_result:
  "load_stream_cursor d = (d', r) \<Longrightarrow>
     \<exists>fs. d' = d\<lparr>faults := fs\<rparr> \<and> (r = Err ''sqlite error'' \<or> r = Ok (stored_cursor d))"
  unfolding load_stream_cursor_def secure_load_def
  by (auto split: prod.splits sum.splits dest!: stmt_read simp: stored_cursor_def)

lemma cursor_of_blob_str: "is_str c \<Longrightarrow> c \<noteq> [] \<Longrightarrow> cursor_of_blob (Some (str_bytes c)) = Some c"
  by (simp add: cursor_of_blob_def)

lemma stored_cursor_faults [simp]: "stored_cursor (d\<lparr>faults := fs\<rparr>) = stored_cursor d"
  by (simp add: stored_cursor_def)

lemma save_stream_cursor_result:
  assumes "save_stream_cursor d c = (d', r)" "is_str c"
  shows "stored_cursor d' = stored_cursor d \<and> r \<noteq> Ok True
     \<or> stored_cursor d' = Some c \<and> r = Ok True \<and> c \<noteq> []
       \<and> (\<forall>m. stored_cursor d = Some m \<longrightarrow> cursor_after c m)"
proof (cases "c = []")
  case True
  then show ?thesis using assms by (auto simp: save_stream_cursor_def)
next
  case False
  obtain d1 r1 where l: "load_stream_cursor d = (d1, r1)" by (cases "load_stream_cursor d") auto
  obtain fs where d1: "d1 = d\<lparr>faults := fs\<rparr>"
    and r1: "r1 = Err ''sqlite error'' \<or> r1 = Ok (stored_cursor d)"
    using load_stream_cursor_result [OF l] by auto
  obtain d2 r2 where s: "secure_save d1 STREAM_CURSOR_KEY (str_bytes c) = (d2, r2)"
    by (cases "secure_save d1 STREAM_CURSOR_KEY (str_bytes c)") auto
  have ok: "r2 = Ok () \<Longrightarrow> stored_cursor d2 = Some c"
    using s secure_save_view(1) [of d1 STREAM_CURSOR_KEY "str_bytes c" d2] False assms(2)
    by (simp add: stored_cursor_def cursor_of_blob_str)
  have err: "r2 = Err e \<Longrightarrow> stored_cursor d2 = stored_cursor d" for e
    using s secure_save_view(2) [of d1 STREAM_CURSOR_KEY "str_bytes c" d2] d1
    by (simp add: stored_cursor_def)
  show ?thesis
    using assms(1) False l s r1 d1 ok err unfolding save_stream_cursor_def
    by (cases "stored_cursor d"; cases r2) (auto split: if_splits)
qed

lemma save_stream_cursor_takes:
  assumes "faults d = []" "is_str c" "c \<noteq> []" "\<And>m. stored_cursor d = Some m \<Longrightarrow> cursor_after c m"
  shows "stored_cursor (fst (save_stream_cursor d c)) = Some c"
    and "snd (save_stream_cursor d c) = Ok True"
proof -
  have l: "load_stream_cursor d = (d, Ok (stored_cursor d))"
    using assms(1) by (simp add: load_stream_cursor_def secure_load_def stored_cursor_def)
  then show "snd (save_stream_cursor d c) = Ok True"
    using assms by (cases "stored_cursor d") (auto simp: save_stream_cursor_def secure_save_def)
  then show "stored_cursor (fst (save_stream_cursor d c)) = Some c"
    using save_stream_cursor_result [of d c "fst (save_stream_cursor d c)"] assms(2)
    by (metis prod.collapse)
qed

lemma save_stream_cursor_faults: "faults d = [] \<Longrightarrow> faults (fst (save_stream_cursor d c)) = []"
  by (auto simp: save_stream_cursor_def load_stream_cursor_def secure_load_def secure_save_def
      split: option.splits)

interpretation cursor_mark: watermark cursor_after cursor_ok save_stream_cursor stored_cursor
  "\<lambda>d. faults d = []"
proof unfold_locales
  fix c s m s' r
  assume "cursor_ok c" "stored_cursor s = Some m" "save_stream_cursor s c = (s', r)"
  then show "stored_cursor s' = Some m \<and> r \<noteq> Inr True \<or>
      stored_cursor s' = Some c \<and> cursor_after c m \<and> r = Inr True"
    using save_stream_cursor_result [of s c s' r] cursor_ok_str [of c] by auto
next
  fix s c m
  assume "faults s = []" "cursor_ok c" "stored_cursor s = Some m" "cursor_after c m"
  then show "stored_cursor (fst (save_stream_cursor s c)) = Some c"
    using save_stream_cursor_takes [of s c] cursor_ok_str [of c] by auto
qed (auto simp: cursor_after_ids save_stream_cursor_faults)


text \<open>When no statement fails, the stored cursor ends at the maximum of all the cursors
  saved: none of them, nor the one stored before, is after it.\<close>

theorem stream_cursor_reaches_maximum:
  assumes "list_all cursor_ok cs" "stored_cursor d = Some c0" "cursor_ok c0" "faults d = []"
  shows "\<exists>c. stored_cursor (foldl (\<lambda>d c. fst (save_stream_cursor d c)) d cs) = Some c
            \<and> (\<forall>x \<in> set (c0 # cs). \<not> cursor_after x c)"
  using cursor_mark.reaches_maximum [OF assms] by blast


definition sample_db :: db where
  "sample_db = empty_db\<lparr>secure_store := [(STREAM_CURSOR_KEY, str_bytes ''100-0'')]\<rparr>"

lemmas cursor_eval = parse_stream_cursor_def split_once_def parse_u64_def parse_uint_def
  digits_val_def is_digit_def cursor_after_def less_char_def less_stream_id_def

lemma sample_db_cursor: "stored_cursor sample_db = Some ''100-0''" "faults sample_db = []"
proof -
  have "is_str ''100-0''" by (rule is_str_ascii) simp
  then show "stored_cursor sample_db = Some ''100-0''"
    by (simp add: stored_cursor_def sample_db_def cursor_of_blob_str)
qed (simp add: sample_db_def empty_db_def)

lemma sample_cursors: "list_all cursor_ok [''99-0'', ''100-0'', ''100-1'']" "cursor_ok ''100-0''"
  by (simp_all add: cursor_ok_def cursor_eval)


theorem stream_cursor_reaches_maximum_witness:
  "\<exists>c. stored_cursor (foldl (\<lambda>d c. fst (save_stream_cursor d c)) sample_db
          [''99-0'', ''100-0'', ''100-1'']) = Some c
       \<and> (\<forall>x \<in> set [''100-0'', ''99-0'', ''100-0'', ''100-1'']. \<not> cursor_after x c)"
  by (rule stream_cursor_reaches_maximum [OF sample_cursors(1) sample_db_cursor(1) sample_cursors(2)
        sample_db_cursor(2)])

text \<open>The order used for the watermark falls back to comparing text when one side is not a
  Redis id, and the mixture is not an order: one malformed cursor lets the stored watermark fall
  behind a value it already held.\<close>

theorem malformed_cursor_rewinds_watermark:
  "stored_cursor (foldl (\<lambda>d c. fst (save_stream_cursor d c)) empty_db [''10-0'', ''5x'', ''9-0''])
     = Some ''9-0'' \<and> cursor_after ''10-0'' ''9-0''"
proof -
  let ?d1 = "fst (save_stream_cursor empty_db ''10-0'')"
  let ?d2 = "fst (save_stream_cursor ?d1 ''5x'')"
  have s: "is_str ''10-0''" "is_str ''5x''" "is_str ''9-0''" by (rule is_str_ascii; simp)+
  have f: "faults empty_db = []" "stored_cursor empty_db = None"
    by (simp_all add: empty_db_def stored_cursor_def cursor_of_blob_def)
  have d1: "stored_cursor ?d1 = Some ''10-0''" "faults ?d1 = []"
    using save_stream_cursor_takes(1) [OF f(1) s(1)] save_stream_cursor_faults [OF f(1)] f(2) by simp_all
  have "cursor_after ''5x'' ''10-0''" by (simp add: cursor_eval)
  then have d2: "stored_cursor ?d2 = Some ''5x''" "faults ?d2 = []"
    using save_stream_cursor_takes(1) [OF d1(2) s(2)] save_stream_cursor_faults [OF d1(2)] d1(1)
    by simp_all
  have "cursor_after ''9-0'' ''5x''" by (simp add: cursor_eval)
  then have "stored_cursor (fst (save_stream_cursor ?d2 ''9-0'')) = Some ''9-0''"
    using save_stream_cursor_takes(1) [OF d2(2) s(3)] d2(1) by simp
  moreover have "cursor_after ''10-0'' ''9-0''" by (simp add: cursor_eval)
  ultimately show ?thesis by simp
qed

section \<open>Messages\<close>

definition ids_unique :: "db \<Rightarrow> bool" where
  "ids_unique d \<longleftrightarrow> distinct (map sm_id (messages d))"

lemma store_inbound_keeps:
  assumes "store_inbound_message d m = (d', r)"
  shows "\<exists>ys. messages d' = messages d @ ys" and "contacts d' = contacts d"
    and "secure_store d' = secure_store d" and "pending_acks d' = pending_acks d"
  using assms unfolding store_inbound_message_def
  by (auto elim!: stmt_cases split: if_splits)

lemma store_inbound_stored:
  assumes "store_inbound_message d m = (d', Ok u)" "direction_ok (sm_direction m)"
  shows "sm_id m \<in> sm_id ` set (messages d')"
  using assms unfolding store_inbound_message_def
  by (auto elim!: stmt_cases split: if_splits)

lemma foldl_store_inbound_prefix:
  "\<exists>ys. messages (foldl (\<lambda>d m. fst (store_inbound_message d m)) d ms) = messages d @ ys"
proof (induction ms arbitrary: d)
  case Nil
  then show ?case by simp
next
  case (Cons m ms)
  obtain d' r where s: "store_inbound_message d m = (d', r)"
    by (cases "store_inbound_message d m") auto
  show ?case using store_inbound_keeps(1) [OF s] Cons.IH [of d'] by (auto simp: s)
qed

lemma map_of_unique:
  "distinct (map f xs) \<Longrightarrow> x \<in> set xs \<Longrightarrow> find (\<lambda>y. f y = f x) xs = Some x"
  by (induction xs) auto

lemma find_append_Some: "find P xs = Some x \<Longrightarrow> find P (xs @ ys) = Some x"
  by (induction xs) auto

definition message_by_id :: "db \<Rightarrow> string \<Rightarrow> stored_message option" where
  "message_by_id d i = find (\<lambda>m. sm_id m = i) (messages d)"

text \<open>C28. Inbound storage is idempotent: once a message is stored under an id, no later inbound
  message, replayed or new, changes what is stored under that id.\<close>

theorem inbound_replay_does_not_clobber:
  assumes "message_by_id d i = Some m"
  shows "message_by_id (foldl (\<lambda>d m. fst (store_inbound_message d m)) d ms) i = Some m"
  using foldl_store_inbound_prefix [of d ms] assms find_append_Some
  by (auto simp: message_by_id_def)

definition sample_msg :: stored_message where
  "sample_msg = \<lparr>sm_id = ''m1'', sm_peer_id = ''alice'', sm_text = ''hello'',
     sm_direction = ''received'', sm_timestamp_ms = 1, sm_delivery_status = []\<rparr>"

lemma sample_msg_stored: "message_by_id (empty_db\<lparr>messages := [sample_msg]\<rparr>) ''m1'' = Some sample_msg"
  by code_simp

theorem inbound_replay_does_not_clobber_witness:
  "message_by_id (foldl (\<lambda>d m. fst (store_inbound_message d m)) (empty_db\<lparr>messages := [sample_msg]\<rparr>)
      [sample_msg\<lparr>sm_text := ''clobber''\<rparr>]) ''m1'' = Some sample_msg"
  by (rule inbound_replay_does_not_clobber [OF sample_msg_stored])

subsection \<open>History\<close>

text \<open>What SQL promises of \<open>ORDER BY timestamp_ms DESC\<close>: the same rows, newest first.\<close>

definition desc_by_time :: "(stored_message list \<Rightarrow> stored_message list) \<Rightarrow> bool" where
  "desc_by_time ord \<longleftrightarrow>
     (\<forall>xs. mset (ord xs) = mset xs \<and> sorted (rev (map sm_timestamp_ms (ord xs))))"

definition stable_desc :: "stored_message list \<Rightarrow> stored_message list" where
  "stable_desc xs = sort_key (\<lambda>m. - sm_timestamp_ms m) xs"

lemma stable_desc_desc: "desc_by_time stable_desc"
proof -
  have "sorted (rev (map sm_timestamp_ms (stable_desc xs)))" for xs
  proof -
    have "sorted (map (\<lambda>m. - sm_timestamp_ms m) (stable_desc xs))" by (simp add: stable_desc_def)
    then show ?thesis
      by (simp add: sorted_wrt_map sorted_wrt_rev sorted_map) 
  qed
  then show ?thesis by (simp add: desc_by_time_def stable_desc_def)
qed

lemma sql_limit_take: "unat n < 2 ^ 63 \<Longrightarrow> sql_limit n xs = take (unat n) xs"
  by (simp add: sql_limit_def)

lemma sorted_desc_take_drop:
  assumes "sorted (rev (map f xs))" "x \<in> set (take n xs)" "y \<in> set (drop n xs)"
  shows "f y \<le> f x"
proof -
  have "rev (map f xs) = rev (map f (drop n xs)) @ rev (map f (take n xs))"
    by (metis append_take_drop_id map_append rev_append)
  then show ?thesis using assms by (auto simp: sorted_append)
qed

text \<open>C32. \<open>get_messages\<close> returns the newest \<open>limit\<close> messages of the peer in chronological order:
  what it leaves out is never newer than what it returns, and it leaves nothing out while the
  limit is not reached.\<close>

theorem get_messages_newest_chronological:
  assumes "desc_by_time ord" "faults d = []" "unat limit < 2 ^ 63"
  shows "\<exists>rs omitted. get_messages ord d peer limit = (d, Ok rs)
     \<and> sorted (map sm_timestamp_ms rs)
     \<and> mset rs + omitted = mset (filter (\<lambda>m. sm_peer_id m = peer) (messages d))
     \<and> (\<forall>x \<in> set rs. \<forall>y \<in># omitted. sm_timestamp_ms y \<le> sm_timestamp_ms x)
     \<and> length rs = min (unat limit) (length (filter (\<lambda>m. sm_peer_id m = peer) (messages d)))"
proof -
  let ?xs = "ord (filter (\<lambda>m. sm_peer_id m = peer) (messages d))"
  let ?n = "unat limit"
  have o: "mset ?xs = mset (filter (\<lambda>m. sm_peer_id m = peer) (messages d))"
    "sorted (rev (map sm_timestamp_ms ?xs))"
    using assms(1) by (simp_all add: desc_by_time_def)
  have len: "length ?xs = length (filter (\<lambda>m. sm_peer_id m = peer) (messages d))"
    by (rule mset_eq_length [OF o(1)])
  have "rev (map sm_timestamp_ms ?xs) =
      rev (map sm_timestamp_ms (drop ?n ?xs)) @ map sm_timestamp_ms (rev (take ?n ?xs))"
    by (metis append_take_drop_id map_append rev_append rev_map)
  then have "sorted (map sm_timestamp_ms (rev (take ?n ?xs)))"
    using o(2) by (simp add: sorted_append)
  moreover have "get_messages ord d peer limit = (d, Ok (rev (take ?n ?xs)))"
    using assms(2,3) by (simp add: get_messages_def sql_limit_take)
  moreover have "mset (rev (take ?n ?xs)) + mset (drop ?n ?xs) = mset ?xs"
    by (metis append_take_drop_id mset_append mset_rev)
  ultimately show ?thesis
    using o(1) len sorted_desc_take_drop [OF o(2), of _ ?n]
    by (intro exI [of _ "rev (take ?n ?xs)"] exI [of _ "mset (drop ?n ?xs)"]) auto
qed

theorem get_messages_newest_chronological_witness:
  "\<exists>rs omitted. get_messages stable_desc (empty_db\<lparr>messages := [sample_msg]\<rparr>) ''alice'' 50
       = (empty_db\<lparr>messages := [sample_msg]\<rparr>, Ok rs)
     \<and> sorted (map sm_timestamp_ms rs)
     \<and> mset rs + omitted = mset (filter (\<lambda>m. sm_peer_id m = ''alice'') [sample_msg])
     \<and> (\<forall>x \<in> set rs. \<forall>y \<in># omitted. sm_timestamp_ms y \<le> sm_timestamp_ms x)
     \<and> length rs = min 50 (length (filter (\<lambda>m. sm_peer_id m = ''alice'') [sample_msg]))"
  using get_messages_newest_chronological [OF stable_desc_desc,
      of "empty_db\<lparr>messages := [sample_msg]\<rparr>" 50 "''alice''"]
  by (simp add: empty_db_def)


section \<open>Deleting a contact\<close>

definition plain_pattern :: "string \<Rightarrow> bool" where
  "plain_pattern u \<longleftrightarrow> u \<noteq> [] \<and> \<not> is_cont_char (hd u) \<and> CHR 0x25 \<notin> set u \<and> CHR 0x5F \<notin> set u"

abbreviation lower :: "string \<Rightarrow> string" where
  "lower s \<equiv> map ascii_lower s"

declare sql_like.simps(2) [simp del]

lemma sql_like_eval [simp]:
  "sql_like (CHR 0x25 # ps) [] = sql_like ps []"
  "sql_like (CHR 0x25 # ps) (c # cs) \<longleftrightarrow>
     sql_like ps (c # cs) \<or> sql_like (CHR 0x25 # ps) (dropWhile is_cont_char cs)"
  "sql_like (CHR 0x5F # ps) [] = False"
  "sql_like (CHR 0x5F # ps) (c # cs) = sql_like ps (dropWhile is_cont_char cs)"
  by (simp_all add: sql_like.simps(2) drop_char_def)

lemma sql_like_literal [simp]:
  assumes "p \<noteq> CHR 0x25" "p \<noteq> CHR 0x5F"
  shows "sql_like (p # ps) [] = False"
    and "sql_like (p # ps) (c # cs) \<longleftrightarrow> ascii_lower p = ascii_lower c \<and> sql_like ps cs"
  using assms by (simp_all add: sql_like.simps(2))

lemma sql_like_any: "sql_like [CHR 0x25] s"
proof (induction s rule: length_induct)
  case (1 s)
  have "length (dropWhile is_cont_char t) \<le> length t" for t by (rule length_dropWhile_le)
  then show ?case using 1 by (cases s) (simp_all add: less_Suc_eq_le)
qed

lemma sql_like_plain_prefix:
  "CHR 0x25 \<notin> set u \<Longrightarrow> CHR 0x5F \<notin> set u \<Longrightarrow>
   sql_like (u @ [CHR 0x25]) s \<longleftrightarrow> prefix (lower u) (lower s)"
proof (induction u arbitrary: s)
  case Nil
  show ?case by (simp add: sql_like_any)
next
  case (Cons c u)
  then have c: "c \<noteq> CHR 0x25" "c \<noteq> CHR 0x5F" by auto
  show ?case using Cons sql_like_literal [OF c] by (cases s) simp_all
qed

lemma ascii_lower_cont: "is_cont_char (ascii_lower c) \<longleftrightarrow> is_cont_char c"
  by (simp add: ascii_lower_def is_cont_char_def)

lemma sublist_skip_cont:
  assumes "v \<noteq> []" "\<not> is_cont_char (hd v)"
  shows "sublist v (lower (dropWhile is_cont_char s)) \<longleftrightarrow> sublist v (lower s)"
proof (induction s)
  case (Cons c s)
  show ?case
  proof (cases "is_cont_char c")
    case True
    then have "\<not> prefix v (ascii_lower c # lower s)"
      using assms by (cases v) (auto simp: ascii_lower_cont)
    then show ?thesis using True Cons by (simp add: sublist_Cons_right)
  qed simp
qed simp

lemma sql_like_contains:
  assumes "plain_pattern u"
  shows "sql_like (CHR 0x25 # u @ [CHR 0x25]) s \<longleftrightarrow> sublist (lower u) (lower s)"
proof (induction s rule: length_induct)
  case (1 s)
  have u: "u \<noteq> []" "\<not> is_cont_char (hd u)" "CHR 0x25 \<notin> set u" "CHR 0x5F \<notin> set u"
    using assms by (simp_all add: plain_pattern_def)
  have pre: "sql_like (u @ [CHR 0x25]) s \<longleftrightarrow> prefix (lower u) (lower s)"
    by (rule sql_like_plain_prefix [OF u(3,4)])
  show ?case
  proof (cases s)
    case Nil
    then show ?thesis using pre u(1) by simp
  next
    case (Cons c s')
    have "length (dropWhile is_cont_char s') < length s"
      using length_dropWhile_le [of is_cont_char s'] Cons by simp
    then have "sql_like (CHR 0x25 # u @ [CHR 0x25]) (dropWhile is_cont_char s')
        \<longleftrightarrow> sublist (lower u) (lower (dropWhile is_cont_char s'))"
      using 1 by blast
    also have "\<dots> \<longleftrightarrow> sublist (lower u) (lower s')"
      by (rule sublist_skip_cont) (use u in \<open>simp_all add: hd_map ascii_lower_cont\<close>)
    finally have "sql_like (CHR 0x25 # u @ [CHR 0x25]) (dropWhile is_cont_char s')
        \<longleftrightarrow> sublist (lower u) (lower s')" .
    then show ?thesis using pre unfolding Cons sql_like_eval
      by (simp add: sublist_Cons_right)
  qed
qed

lemma stmt_Ok:
  assumes "stmt d f = (d', Ok x)"
  obtains fs where "f (d\<lparr>faults := fs\<rparr>) = (d', Ok x)"
  using assms by (auto elim: stmt_cases)

lemma delete_contact_ok:
  assumes "delete_contact d u = (d', Ok n)"
  shows "contacts d' = filter (\<lambda>c. sc_user_id c \<noteq> u) (contacts d)
     \<and> messages d' = filter (\<lambda>m. sm_peer_id m \<noteq> u) (messages d)
     \<and> secure_store d' = filter (\<lambda>e. \<not> sql_like (CHR 0x25 # u @ [CHR 0x25]) (fst e)) (secure_store d)
     \<and> n = length (filter (\<lambda>m. sm_peer_id m = u) (messages d))"
proof -
  let ?f = "\<lambda>d. (d\<lparr>contacts := filter (\<lambda>c. sc_user_id c \<noteq> u) (contacts d)\<rparr>, Ok () :: string + unit)"
  let ?g = "\<lambda>d. (d\<lparr>messages := filter (\<lambda>m. sm_peer_id m \<noteq> u) (messages d)\<rparr>,
            Ok (length (filter (\<lambda>m. sm_peer_id m = u) (messages d))) :: string + nat)"
  let ?h = "\<lambda>d. (d\<lparr>secure_store :=
      filter (\<lambda>kv. \<not> sql_like (CHR 0x25 # u @ [CHR 0x25]) (fst kv)) (secure_store d)\<rparr>, Ok () :: string + unit)"
  obtain d1 x1 where 1: "stmt d ?f = (d1, Ok x1)"
    using assms unfolding delete_contact_def by (auto split: prod.splits sum.splits)
  then obtain d2 x2 where 2: "stmt d1 ?g = (d2, Ok x2)"
    using assms unfolding delete_contact_def by (auto split: prod.splits sum.splits)
  with 1 obtain x3 where 3: "stmt d2 ?h = (d', Ok x3)" "n = x2"
    using assms unfolding delete_contact_def by (auto split: prod.splits sum.splits)
  obtain fs1 where "?f (d\<lparr>faults := fs1\<rparr>) = (d1, Ok x1)" using 1 by (rule stmt_Ok)
  moreover obtain fs2 where "?g (d1\<lparr>faults := fs2\<rparr>) = (d2, Ok x2)" using 2 by (rule stmt_Ok)
  moreover obtain fs3 where "?h (d2\<lparr>faults := fs3\<rparr>) = (d', Ok x3)" using 3(1) by (rule stmt_Ok)
  ultimately have "d1 = fst (?f (d\<lparr>faults := fs1\<rparr>))" "d2 = fst (?g (d1\<lparr>faults := fs2\<rparr>))"
    "x2 = length (filter (\<lambda>m. sm_peer_id m = u) (messages d1))" "d' = fst (?h (d2\<lparr>faults := fs3\<rparr>))"
    by simp_all
  then show ?thesis using 3(2) by simp
qed


definition two_sessions_db :: db where
  "two_sessions_db = empty_db\<lparr>messages := [sample_msg],
     secure_store := [(''session_alice'', [1]), (''session_bob'', [2])]\<rparr>"


text \<open>The key pattern is a substring match: deleting one contact also wipes the ratchet
  session of every other contact whose id contains the deleted id, and \<open>_\<close> in an id acts as a
  wildcard.\<close>

theorem delete_contact_wipes_other_sessions:
  "kvs two_sessions_db ''session_alice'' = Some [1]
   \<and> kvs (fst (delete_contact two_sessions_db ''al'')) ''session_alice'' = None
   \<and> kvs (fst (delete_contact two_sessions_db ''b_b'')) ''session_bob'' = None"
proof -
  have p: "plain_pattern ''al''" by (simp add: plain_pattern_def is_cont_char_def)
  have "sql_like ''%al%'' ''session_alice''"
    using sql_like_contains [OF p, of "''session_alice''"]
    by (simp add: sublist_Cons_right ascii_lower_def)
  moreover have "sql_like ''%b_b%'' ''session_bob''"
    by (simp add: is_cont_char_def ascii_lower_def)
  moreover have "kvs (fst (delete_contact two_sessions_db u)) =
      map_of (filter (\<lambda>kv. \<not> sql_like (CHR 0x25 # u @ [CHR 0x25]) (fst kv))
        [(''session_alice'', [1]), (''session_bob'', [2])])" for u
    by (simp add: delete_contact_def stmt_def two_sessions_db_def empty_db_def
        del: filter.simps sql_like_eval sql_like_literal)
  ultimately show ?thesis
    by (simp only: append.simps filter.simps fst_conv)
      (simp add: two_sessions_db_def empty_db_def del: sql_like_literal sql_like_eval)
qed

section \<open>Table keys\<close>

definition keys_ok :: "db \<Rightarrow> bool" where
  "keys_ok d \<longleftrightarrow> distinct (map sm_id (messages d)) \<and> distinct (map sc_user_id (contacts d))
     \<and> distinct (map fst (pending_acks d)) \<and> distinct (map fst (secure_store d))
     \<and> list_all (\<lambda>m. direction_ok (sm_direction m)) (messages d)"

text \<open>Every writing operation of the storage as a step; a step is taken whatever the schedule of
  failing statements does.\<close>

inductive db_step :: "db \<Rightarrow> db \<Rightarrow> bool" where
  store: "store_message d m = (d', r) \<Longrightarrow> db_step d d'"
| inbound: "store_inbound_message d m = (d', r) \<Longrightarrow> db_step d d'"
| delivered: "mark_delivered d i = (d', r) \<Longrightarrow> db_step d d'"
| upsert: "upsert_contact d c = (d', r) \<Longrightarrow> db_step d d'"
| ack: "store_ack d i t = (d', r) \<Longrightarrow> db_step d d'"
| pop: "pop_all_acks d = (d', rs) \<Longrightarrow> db_step d d'"
| prune: "prune_acks d t = (d', r) \<Longrightarrow> db_step d d'"
| delete: "delete_contact d u = (d', rn) \<Longrightarrow> db_step d d'"
| save: "secure_save d k v = (d', r) \<Longrightarrow> db_step d d'"
| remove: "secure_delete d k = (d', r) \<Longrightarrow> db_step d d'"
| save_or_delete: "secure_save_or_delete d k v = (d', r) \<Longrightarrow> db_step d d'"
| cursor: "save_stream_cursor d c = (d', rb) \<Longrightarrow> db_step d d'"
| clear: "clear_stream_cursor d = (d', r) \<Longrightarrow> db_step d d'"
| reading: "db_step d (d\<lparr>faults := fs\<rparr>)"   \<comment> \<open>a read uses up outcomes of the schedule\<close>
| persisted: "persist_record d t j = (d', r) \<Longrightarrow> db_step d d'"

lemma keys_ok_faults [simp]: "keys_ok (d\<lparr>faults := fs\<rparr>) = keys_ok d"
  by (simp add: keys_ok_def)

lemma stmt_keys_ok:
  assumes "stmt d f = (d', r)" "keys_ok d" "\<And>d0 d1 r. keys_ok d0 \<Longrightarrow> f d0 = (d1, r) \<Longrightarrow> keys_ok d1"
  shows "keys_ok d'"
  using assms(1)
proof (rule stmt_cases)
  show "d' = d\<lparr>faults := fs\<rparr> \<Longrightarrow> r = Err ''sqlite error'' \<Longrightarrow> ?thesis" for fs
    using assms(2) by simp
  show "f (d\<lparr>faults := fs\<rparr>) = (d', r) \<Longrightarrow> ?thesis" for fs
    using assms(3) [of "d\<lparr>faults := fs\<rparr>"] assms(2) by simp
qed

lemma distinct_map_filter_key: "distinct (map f xs) \<Longrightarrow> distinct (map f (filter P xs))"
  by (simp add: distinct_map_filter)

lemma secure_save_keys: "secure_save d k v = (d', r) \<Longrightarrow> keys_ok d \<Longrightarrow> keys_ok d'"
  unfolding secure_save_def
  by (erule (1) stmt_keys_ok) (auto simp: keys_ok_def distinct_map_filter)

lemma secure_delete_keys: "secure_delete d k = (d', r) \<Longrightarrow> keys_ok d \<Longrightarrow> keys_ok d'"
  unfolding secure_delete_def
  by (erule (1) stmt_keys_ok) (auto simp: keys_ok_def distinct_map_filter)

lemma store_message_keys: "store_message d m = (d', r) \<Longrightarrow> keys_ok d \<Longrightarrow> keys_ok d'"
  unfolding store_message_def
  by (erule (1) stmt_keys_ok)
    (auto simp: keys_ok_def distinct_map_filter list_all_iff split: if_splits)

lemma store_inbound_keys: "store_inbound_message d m = (d', r) \<Longrightarrow> keys_ok d \<Longrightarrow> keys_ok d'"
  unfolding store_inbound_message_def
  by (erule (1) stmt_keys_ok) (auto simp: keys_ok_def list_all_iff split: if_splits)

lemma mark_delivered_keys: "mark_delivered d i = (d', r) \<Longrightarrow> keys_ok d \<Longrightarrow> keys_ok d'"
proof -
  have "map sm_id (map (\<lambda>m. if sm_id m = i then m\<lparr>sm_delivery_status := s\<rparr> else m) ms) = map sm_id ms"
    for s and ms :: "stored_message list" by (induction ms) simp_all
  then show "mark_delivered d i = (d', r) \<Longrightarrow> keys_ok d \<Longrightarrow> keys_ok d'"
    unfolding mark_delivered_def
    by (elim stmt_keys_ok) (auto simp: keys_ok_def list_all_iff simp del: map_map)
qed

lemma upsert_contact_keys: "upsert_contact d c = (d', r) \<Longrightarrow> keys_ok d \<Longrightarrow> keys_ok d'"
  unfolding upsert_contact_def
  by (erule (1) stmt_keys_ok) (auto simp: keys_ok_def distinct_map_filter)

lemma ack_keys:
  "store_ack d i t = (d', r) \<Longrightarrow> keys_ok d \<Longrightarrow> keys_ok d'"
  "prune_acks d t = (d', r) \<Longrightarrow> keys_ok d \<Longrightarrow> keys_ok d'"
  "pop_all_acks d = (d', rs) \<Longrightarrow> keys_ok d \<Longrightarrow> keys_ok d'"
    apply (unfold store_ack_def, erule (1) stmt_keys_ok)
    apply (auto simp: keys_ok_def split: if_splits)[1]
   apply (unfold prune_acks_def, erule (1) stmt_keys_ok)
   apply (auto simp: keys_ok_def distinct_map_filter)[1]
  apply (unfold pop_all_acks_def)
  apply (auto elim!: stmt_cases simp: keys_ok_def split: prod.splits sum.splits if_splits)
  done

lemma delete_contact_keys: "delete_contact d u = (d', r) \<Longrightarrow> keys_ok d \<Longrightarrow> keys_ok d'"
  unfolding delete_contact_def
  by (auto elim!: stmt_cases simp: keys_ok_def distinct_map_filter list_all_iff
      split: prod.splits sum.splits)

lemma save_stream_cursor_keys: "save_stream_cursor d c = (d', r) \<Longrightarrow> keys_ok d \<Longrightarrow> keys_ok d'"
  unfolding save_stream_cursor_def
  by (auto dest: secure_save_keys dest!: load_stream_cursor_result split: prod.splits sum.splits if_splits)

lemma persist_record_keys: "persist_record d t j = (d', r) \<Longrightarrow> keys_ok d \<Longrightarrow> keys_ok d'"
  unfolding persist_record_def by (erule (1) stmt_keys_ok) (auto simp: keys_ok_def)

lemmas table_keys = secure_save_keys secure_delete_keys store_message_keys store_inbound_keys
  mark_delivered_keys upsert_contact_keys ack_keys delete_contact_keys save_stream_cursor_keys
  persist_record_keys

lemma db_step_keys: "db_step d d' \<Longrightarrow> keys_ok d \<Longrightarrow> keys_ok d'"
  by (induction rule: db_step.induct)
    (auto simp: secure_save_or_delete_def clear_stream_cursor_def dest: table_keys split: if_splits)



end
