(* ===== verification/Grpc_Framing.thy ===== *)
theory Grpc_Framing
  imports Prelude
begin

text \<open>
  The gRPC error type (\<open>src/grpc/error.rs\<close>), the length-prefixed message framing
  (\<open>src/grpc/framing.rs\<close>) and the pump task of the bidirectional stream
  (\<open>src/grpc/stream.rs\<close>), which reassembles frames from arbitrary HTTP/2 DATA chunks.

  The locale \<open>frame_cutter\<close> is the interface between the pump and the frame format: what the
  receive loop needs to know of "take one frame off the front of the buffer".
\<close>

section \<open>Errors\<close>

datatype grpc_error =
    Transport string
  | Tls string
  | Status u32 string
  | Unauthenticated string
  | PermissionDenied string

definition is_unauthenticated :: "grpc_error \<Rightarrow> bool" where
  "is_unauthenticated e =
     (case e of Unauthenticated _ \<Rightarrow> True | Status c _ \<Rightarrow> c = 16 | _ \<Rightarrow> False)"

definition is_permission_denied :: "grpc_error \<Rightarrow> bool" where
  "is_permission_denied e =
     (case e of PermissionDenied _ \<Rightarrow> True | Status c _ \<Rightarrow> c = 7 | _ \<Rightarrow> False)"

definition is_retryable_transport :: "grpc_error \<Rightarrow> bool" where
  "is_retryable_transport e = (case e of Transport _ \<Rightarrow> True | Tls _ \<Rightarrow> True | _ \<Rightarrow> False)"

text \<open>\<open>Display\<close> of an error, as derived by \<open>thiserror\<close> from the attributes of the enum.\<close>

definition grpc_error_show :: "grpc_error \<Rightarrow> string" where
  "grpc_error_show e =
     (case e of
        Transport m \<Rightarrow> ''transport: '' @ m
      | Tls m \<Rightarrow> ''tls: '' @ m
      | Status c m \<Rightarrow> ''grpc '' @ dec_of_nat (unat c) @ '': '' @ m
      | Unauthenticated m \<Rightarrow> ''unauthenticated: '' @ m
      | PermissionDenied m \<Rightarrow> ''permission denied: '' @ m)"

lemma error_classes_disjoint:
  "\<not> (is_retryable_transport e \<and> (is_unauthenticated e \<or> is_permission_denied e))"
  "\<not> (is_unauthenticated e \<and> is_permission_denied e)"
  by (cases e; simp add: is_retryable_transport_def is_unauthenticated_def is_permission_denied_def)+

section \<open>Frames\<close>

text \<open>\<open>proto_bytes.len() as u32\<close> keeps the low 32 bits, as \<^const>\<open>be_bytes\<close> does.\<close>

definition encode_frame :: "bytes \<Rightarrow> bytes" where
  "encode_frame p = 0 # be_bytes 4 (length p) @ p"

definition decode_frame :: "bytes \<Rightarrow> grpc_error + bytes \<times> bytes" where
  "decode_frame data =
     (if length data < 5 then
        Err (Transport (''gRPC frame too short: '' @ dec_of_nat (length data) @ '' bytes''))
      else if hd data \<noteq> 0 then Err (Transport ''compressed gRPC frames not supported'')
      else let msg_len = be_val (take 4 (tl data)); data = drop 4 (tl data)
           in if length data < msg_len then
                Err (Transport (''gRPC frame incomplete: need '' @ dec_of_nat msg_len
                       @ '' bytes, have '' @ dec_of_nat (length data)))
              else Ok (take msg_len data, drop msg_len data))"

lemma length_encode_frame [simp]: "length (encode_frame p) = 5 + length p"
  by (simp add: encode_frame_def)

lemma decode_encode_frame [codec_simps]:
  "length p < 2 ^ 32 \<Longrightarrow> decode_frame (encode_frame p @ r) = Ok (p, r)"
  by (simp add: decode_frame_def encode_frame_def be_val_be_bytes)

lemma decode_frame_length: "decode_frame data = Ok (m, r) \<Longrightarrow> length m < 2 ^ 32"
  using be_val_less [of "take 4 (tl data)"]
  by (auto simp: decode_frame_def Let_def split: if_splits)

lemma decode_frame_inverse [codec_simps]:
  assumes "decode_frame data = Ok (m, r)"
  shows "data = encode_frame m @ r"
proof -
  from assms have l: "5 \<le> length data" and h: "hd data = 0"
    and n: "be_val (take 4 (tl data)) \<le> length (drop 4 (tl data))"
    and mr: "m = take (be_val (take 4 (tl data))) (drop 4 (tl data))"
            "r = drop (be_val (take 4 (tl data))) (drop 4 (tl data))"
    by (auto simp: decode_frame_def Let_def split: if_splits)
  have "length (take 4 (tl data)) = 4" using l by simp
  then have "be_bytes 4 (be_val (take 4 (tl data))) = take 4 (tl data)"
    using be_bytes_be_val [of "take 4 (tl data)"] by simp
  moreover have "length m = be_val (take 4 (tl data))" using mr(1) n by simp
  moreover have "m @ r = drop 4 (tl data)" unfolding mr by (rule append_take_drop_id)
  moreover have "data = 0 # tl data" using l h by (cases data) auto
  ultimately show ?thesis by (metis encode_frame_def append_Cons append_assoc append_take_drop_id)
qed

section \<open>Reassembly\<close>

text \<open>
  The client side of the interface: a receive loop that appends each chunk to its buffer and
  then drains every complete frame.
\<close>

fun feed_chunks ::
  "('b list \<Rightarrow> 'b list list \<times> 'b list) \<Rightarrow> 'b list \<Rightarrow> 'b list list \<Rightarrow> 'b list list \<times> 'b list" where
  "feed_chunks drain buf [] = ([], buf)"
| "feed_chunks drain buf (c # cs) =
     (let (fs, buf') = drain (buf @ c); (gs, buf'') = feed_chunks drain buf' cs in (fs @ gs, buf''))"

locale frame_cutter =
  fixes cut :: "'b list \<Rightarrow> ('b list \<times> 'b list) option"
    and drain :: "'b list \<Rightarrow> 'b list list \<times> 'b list"
  assumes cut_split: "cut b = Some (f, r) \<Longrightarrow> b = f @ r"
    and cut_progress: "cut b = Some (f, r) \<Longrightarrow> f \<noteq> []"
    and cut_more: "cut b = Some (f, r) \<Longrightarrow> cut (b @ c) = Some (f, r @ c)"
    and drain_stop: "cut b = None \<Longrightarrow> drain b = ([], b)"
    and drain_step: "cut b = Some (f, r) \<Longrightarrow> drain b = (f # fst (drain r), snd (drain r))"
begin

lemma drain_concat: "concat (fst (drain b)) @ snd (drain b) = b"
proof (induction b rule: length_induct)
  case (1 b)
  show ?case
  proof (cases "cut b")
    case (Some x)
    then obtain f r where c: "cut b = Some (f, r)" by (cases x) auto
    have b: "b = f @ r" and f: "f \<noteq> []" using cut_split cut_progress c by blast+
    then have "length r < length b" by simp
    then show ?thesis using 1 c b drain_step [OF c] by simp
  qed (simp add: drain_stop)
qed

lemma drain_rest: "cut (snd (drain b)) = None"
proof (induction b rule: length_induct)
  case (1 b)
  show ?case
  proof (cases "cut b")
    case (Some x)
    then obtain f r where c: "cut b = Some (f, r)" by (cases x) auto
    then have "length r < length b" using cut_split [OF c] cut_progress [OF c] by simp
    then show ?thesis using 1 drain_step [OF c] by simp
  qed (simp add: drain_stop)
qed

lemma drain_append:
  "drain (a @ b) =
     (fst (drain a) @ fst (drain (snd (drain a) @ b)), snd (drain (snd (drain a) @ b)))"
proof (induction a rule: length_induct)
  case (1 a)
  show ?case
  proof (cases "cut a")
    case None
    then show ?thesis by (simp add: drain_stop)
  next
    case (Some x)
    then obtain f r where c: "cut a = Some (f, r)" by (cases x) auto
    then have "length r < length a" using cut_split [OF c] cut_progress [OF c] by simp
    then show ?thesis
      using 1 drain_step [OF c] drain_step [OF cut_more [OF c, of b]] by simp
  qed
qed

text \<open>However the bytes are cut into chunks, the loop delivers what one drain of them all does.\<close>

lemma feed_chunks_drain:
  "cut buf = None \<Longrightarrow> feed_chunks drain buf cs = drain (buf @ concat cs)"
proof (induction cs arbitrary: buf)
  case Nil
  then show ?case by (simp add: drain_stop)
next
  case (Cons c cs)
  have "feed_chunks drain (snd (drain (buf @ c))) cs = drain (snd (drain (buf @ c)) @ concat cs)"
    by (rule Cons.IH) (rule drain_rest)
  then show ?case
    using drain_append [of "buf @ c" "concat cs"] by (simp add: case_prod_beta Let_def)
qed

lemma drain_frames_of:
  assumes "\<And>f r. f \<in> set fs \<Longrightarrow> cut (f @ r) = Some (f, r)" "cut t = None"
  shows "drain (concat fs @ t) = (fs, t)"
  using assms(1)
proof (induction fs)
  case Nil
  then show ?case using assms(2) by (simp add: drain_stop)
next
  case (Cons f fs)
  have c: "cut (f @ concat fs @ t) = Some (f, concat fs @ t)" using Cons.prems by simp
  have "drain (concat fs @ t) = (fs, t)" using Cons by simp
  then show ?case using drain_step [OF c] by simp
qed

end

subsection \<open>The gRPC provider\<close>

definition cut_frame :: "bytes \<Rightarrow> (bytes \<times> bytes) option" where
  "cut_frame buf =
     (if length buf < 5 then None
      else let msg_len = be_val (take 4 (drop 1 buf))
           in if length buf < 5 + msg_len then None
              else Some (take (5 + msg_len) buf, drop (5 + msg_len) buf))"

lemma cut_frame_length: "cut_frame b = Some (f, r) \<Longrightarrow> length r < length b"
  by (auto simp: cut_frame_def Let_def split: if_splits)

function drain_frames :: "bytes \<Rightarrow> bytes list \<times> bytes" where
  "drain_frames buf =
     (case cut_frame buf of
        None \<Rightarrow> ([], buf)
      | Some (f, r) \<Rightarrow> (let (fs, t) = drain_frames r in (f # fs, t)))"
  by pat_completeness auto
termination
  by (relation "measure length") (auto simp: cut_frame_length)

declare drain_frames.simps [simp del]

interpretation grpc: frame_cutter cut_frame drain_frames
proof unfold_locales
  fix b f r c assume "cut_frame b = Some (f, r)"
  then show "b = f @ r" and "f \<noteq> []" and "cut_frame (b @ c) = Some (f, r @ c)"
    by (auto simp: cut_frame_def Let_def split: if_splits)
qed (simp_all add: drain_frames.simps case_prod_beta Let_def)

lemma cut_frame_encoded [frame_rules]:
  "length p < 2 ^ 32 \<Longrightarrow> cut_frame (encode_frame p @ r) = Some (encode_frame p, r)"
  by (simp add: cut_frame_def encode_frame_def be_val_be_bytes Let_def take_Cons' drop_Cons')

lemma cut_frame_short: "length t < 5 \<Longrightarrow> cut_frame t = None"
  by (simp add: cut_frame_def)

section \<open>The pump task\<close>

datatype pump_event =
    Outgoing bytes bool   \<comment> \<open>a frame to send, and whether \<open>send_h2_data\<close> accepted it\<close>
  | OutgoingClosed        \<comment> \<open>every sender of the outgoing channel is gone\<close>
  | Incoming bytes        \<comment> \<open>a DATA chunk\<close>
  | RecvError
  | ServerClosed
  | PollTimeout

datatype pump_end = SendFailed | LocalClosed | RecvFailed | RemoteClosed

record pump =
  recv_buf :: bytes
  delivered :: "bytes list"
  wire :: "bytes list"
  ended :: "pump_end option"

definition pump_init :: pump where
  "pump_init = \<lparr>recv_buf = [], delivered = [], wire = [], ended = None\<rparr>"

text \<open>One turn of the \<open>select!\<close> loop of \<open>pump_task\<close>; a finished task ignores events.\<close>

definition pump_step :: "pump \<Rightarrow> pump_event \<Rightarrow> pump" where
  "pump_step p e =
     (if ended p \<noteq> None then p
      else case e of
        Outgoing frame ok \<Rightarrow>
          if ok then p\<lparr>wire := wire p @ [frame]\<rparr> else p\<lparr>ended := Some SendFailed\<rparr>
      | OutgoingClosed \<Rightarrow> p\<lparr>wire := wire p @ [[]], ended := Some LocalClosed\<rparr>
      | Incoming chunk \<Rightarrow>
          (let (fs, buf) = drain_frames (recv_buf p @ chunk)
           in p\<lparr>recv_buf := buf, delivered := delivered p @ fs\<rparr>)
      | RecvError \<Rightarrow> p\<lparr>ended := Some RecvFailed\<rparr>
      | ServerClosed \<Rightarrow> p\<lparr>ended := Some RemoteClosed\<rparr>
      | PollTimeout \<Rightarrow> p)"

definition pump_run :: "pump \<Rightarrow> pump_event list \<Rightarrow> pump" where
  "pump_run = foldl pump_step"

text \<open>The chunks a run receives before it ends.\<close>

definition ends_pump :: "pump_event \<Rightarrow> bool" where
  "ends_pump e = (case e of Outgoing _ ok \<Rightarrow> \<not> ok | OutgoingClosed \<Rightarrow> True | RecvError \<Rightarrow> True
     | ServerClosed \<Rightarrow> True | _ \<Rightarrow> False)"

definition chunks_of :: "pump_event list \<Rightarrow> bytes list" where
  "chunks_of es =
     concat (map (\<lambda>e. case e of Incoming c \<Rightarrow> [c] | _ \<Rightarrow> []) (takeWhile (\<lambda>e. \<not> ends_pump e) es))"

lemma pump_run_simps [simp]: "pump_run p [] = p" "pump_run p (e # es) = pump_run (pump_step p e) es"
  by (simp_all add: pump_run_def)

lemma pump_run_ended: "ended p \<noteq> None \<Longrightarrow> pump_run p es = p"
  by (induction es) (simp_all add: pump_step_def)

lemma pump_run_feed:
  "ended p = None \<Longrightarrow> cut_frame (recv_buf p) = None \<Longrightarrow>
   delivered (pump_run p es) = delivered p @ fst (feed_chunks drain_frames (recv_buf p) (chunks_of es))
   \<and> recv_buf (pump_run p es) = snd (feed_chunks drain_frames (recv_buf p) (chunks_of es))"
proof (induction es arbitrary: p)
  case Nil
  then show ?case by (simp add: chunks_of_def)
next
  case (Cons e es)
  show ?case
  proof (cases "ends_pump e")
    case True
    then have "ended (pump_step p e) \<noteq> None" "delivered (pump_step p e) = delivered p"
      "recv_buf (pump_step p e) = recv_buf p"
      using Cons.prems(1) by (auto simp: pump_step_def ends_pump_def split: pump_event.splits)
    then show ?thesis using True by (simp add: pump_run_ended chunks_of_def)
  next
    case False
    have "ended (pump_step p e) = None"
      using False Cons.prems(1)
      by (auto simp: pump_step_def ends_pump_def case_prod_beta Let_def split: pump_event.splits)
    moreover have "cut_frame (recv_buf (pump_step p e)) = None"
      using False Cons.prems grpc.drain_rest
      by (auto simp: pump_step_def ends_pump_def case_prod_beta Let_def split: pump_event.splits)
    ultimately show ?thesis
      using Cons.IH [of "pump_step p e"] False Cons.prems(1)
      by (auto simp: pump_step_def ends_pump_def chunks_of_def case_prod_beta Let_def
          split: pump_event.splits)
  qed
qed

section \<open>The properties\<close>

text \<open>C23. \<open>decode_frame\<close> accepts exactly the encodings of messages shorter than 4 GiB: it returns the
  message and the untouched rest of the input, and every other input is an error.\<close>

theorem decode_frame_exact:
  "decode_frame data = Ok (m, r) \<longleftrightarrow> data = encode_frame m @ r \<and> length m < 2 ^ 32"
proof
  assume dec: "decode_frame data = Ok (m, r)"
  show "data = encode_frame m @ r \<and> length m < 2 ^ 32"
    using decode_frame_inverse [OF dec] decode_frame_length [OF dec] by (rule conjI)
next
  assume "data = encode_frame m @ r \<and> length m < 2 ^ 32"
  then show "decode_frame data = Ok (m, r)" by (simp add: decode_encode_frame)
qed

text \<open>C21. Whatever the interleaving of the pump's events and wherever the network cuts the bytes,
  the frames handed to the callback are exactly the complete frames of the received byte
  sequence, each decoding to its message, and the incomplete tail stays in the buffer.\<close>

theorem pump_delivers_frames:
  assumes "concat (chunks_of es) = concat (map encode_frame ps) @ t"
    and "\<forall>p \<in> set ps. length p < 2 ^ 32" "cut_frame t = None"
  shows "delivered (pump_run pump_init es) = map encode_frame ps
     \<and> map decode_frame (delivered (pump_run pump_init es)) = map (\<lambda>p. Ok (p, [])) ps
     \<and> recv_buf (pump_run pump_init es) = t"
proof -
  have start: "cut_frame (recv_buf pump_init) = None" "ended pump_init = None" "recv_buf pump_init = []"
    "delivered pump_init = []"
    by (simp_all add: pump_init_def cut_frame_def)
  have "feed_chunks drain_frames [] (chunks_of es) = (map encode_frame ps, t)"
    unfolding grpc.feed_chunks_drain [OF start(1), unfolded start(3)] append_Nil assms(1)
    by (rule grpc.drain_frames_of) (use assms(2,3) cut_frame_encoded in auto)
  then have "delivered (pump_run pump_init es) = map encode_frame ps"
    "recv_buf (pump_run pump_init es) = t"
    using pump_run_feed [OF start(2,1), of es] by (simp_all add: start)
  moreover have "decode_frame (encode_frame p) = Ok (p, [])" if "p \<in> set ps" for p
    using decode_encode_frame [of p "[]"] assms(2) that by simp
  ultimately show ?thesis by simp
qed

lemma be_bytes_4: "be_bytes 4 v = [of_nat (v div 256 ^ 3), of_nat (v div 256 ^ 2), of_nat (v div 256), of_nat v]"
proof -
  have four: "4 = Suc (Suc (Suc (Suc 0)))" by simp
  show ?thesis unfolding four be_bytes.simps by simp
qed

theorem pump_delivers_frames_witness:
  "delivered (pump_run pump_init [Incoming [0, 0, 0, 0], PollTimeout, Outgoing [9] True,
       Incoming [2, 7, 8, 0, 0], ServerClosed, Incoming [1]]) = [encode_frame [7, 8]]"
proof -
  let ?es = "[Incoming [0, 0, 0, 0], PollTimeout, Outgoing [9] True,
       Incoming [2, 7, 8, 0, 0], ServerClosed, Incoming [1]]"
  have "concat (chunks_of ?es) = concat (map encode_frame [[7, 8]]) @ [0, 0]"
    by (simp add: chunks_of_def ends_pump_def encode_frame_def be_bytes_4)
  from pump_delivers_frames [OF this] show ?thesis by (simp add: cut_frame_short)
qed

end
