(* ===== verification/Stream_Worker.thy ===== *)
theory Stream_Worker
  imports Wire Storage_Props Grpc_Framing Complex_Main
begin

text \<open>
  \<open>streaming.rs\<close>: the worker that keeps the bidirectional message stream alive. It reconnects
  with a growing delay, buffers what cannot be sent, subscribes from the committed cursor and
  turns every incoming frame into an event. The worker is a step machine over the outcomes the
  environment produces (a polled command, an opened connection, a tick, a frame); the schedule
  \<open>w_sends\<close> says which sends on the stream fail.
\<close>

section \<open>Commands and events\<close>

datatype stream_cmd =
    CmdSend envelope
  | CmdSubscribe "string list" "string option"
  | CmdClose
  | CmdShutdown

datatype stream_event =
    EvMessage envelope "string option"
  | EvAck string "string option"
  | EvHeartbeat i64 i64 "string option"
  | EvStreamError string int string bool "i64 option" "string option"
  | EvConnected
  | EvDisconnected
  | EvReconnecting u32 rat   \<comment> \<open>attempt and delay in seconds\<close>
  | EvAuthRequired

section \<open>The cursor tracker\<close>

text \<open>The watermark shared by the worker and the orchestrator; \<open>pending\<close> maps a message id to the
  cursor it arrived with.\<close>

record cursor_tracker =
  ct_committed :: "string option"
  ct_pending :: "(string, string) Map.map"

definition tracker_load :: "db \<Rightarrow> db \<times> cursor_tracker" where
  "tracker_load d =
     (let (d, r) = load_stream_cursor d
      in (d, \<lparr>ct_committed = (case r of Err _ \<Rightarrow> None | Ok c \<Rightarrow> c), ct_pending = Map.empty\<rparr>))"

definition nonempty_cursor :: "string option \<Rightarrow> string option" where
  "nonempty_cursor c = (case c of None \<Rightarrow> None | Some s \<Rightarrow> if s = [] then None else Some s)"

definition tracker_note :: "cursor_tracker \<Rightarrow> string \<Rightarrow> string option \<Rightarrow> cursor_tracker" where
  "tracker_note t message_id cursor =
     (case nonempty_cursor cursor of
        None \<Rightarrow> t
      | Some c \<Rightarrow> t\<lparr>ct_pending := (ct_pending t)(message_id \<mapsto> c)\<rparr>)"

definition tracker_persist :: "cursor_tracker \<Rightarrow> db \<Rightarrow> string option \<Rightarrow> cursor_tracker \<times> db" where
  "tracker_persist t d cursor =
     (case cursor of
        None \<Rightarrow> (t, d)
      | Some c \<Rightarrow>
          (case save_stream_cursor d c of
             (d, Ok True) \<Rightarrow> (t\<lparr>ct_committed := Some c\<rparr>, d)
           | (d, _) \<Rightarrow> (t, d)))"

definition tracker_commit :: "cursor_tracker \<Rightarrow> db \<Rightarrow> string \<Rightarrow> cursor_tracker \<times> db" where
  "tracker_commit t d message_id =
     tracker_persist (t\<lparr>ct_pending := (ct_pending t)(message_id := None)\<rparr>) d
       (ct_pending t message_id)"

definition tracker_commit_direct :: "cursor_tracker \<Rightarrow> db \<Rightarrow> string option \<Rightarrow> cursor_tracker \<times> db" where
  "tracker_commit_direct t d cursor = tracker_persist t d (nonempty_cursor cursor)"

section \<open>The outgoing buffer\<close>

definition OUTGOING_BUFFER_CAP :: nat where
  "OUTGOING_BUFFER_CAP = 256"

definition push_pending :: "'e list \<Rightarrow> 'e \<Rightarrow> 'e list" where
  "push_pending pending envelope =
     (let pending = (if OUTGOING_BUFFER_CAP \<le> length pending then tl pending else pending)
      in pending @ [envelope])"

locale bounded_queue =
  fixes push :: "'e list \<Rightarrow> 'e \<Rightarrow> 'e list" and cap :: nat
  assumes cap_pos: "0 < cap"
    and push_room: "length q < cap \<Longrightarrow> push q e = q @ [e]"
    and push_full: "length q = cap \<Longrightarrow> push q e = tl q @ [e]"
begin

lemma push_bound: "length q \<le> cap \<Longrightarrow> length (push q e) \<le> cap"
  using cap_pos push_room [of q e] push_full [of q e] by (cases "length q = cap") simp_all

lemma push_last: "length q \<le> cap \<Longrightarrow> push q e = drop (length (q @ [e]) - cap) (q @ [e])"
proof (cases "length q = cap")
  case True
  then show ?thesis using push_full [of q e] cap_pos by (cases q) simp_all
qed (use push_room [of q e] in simp)

lemma pushes_newest:
  "length q \<le> cap \<Longrightarrow> foldl push q es = drop (length (q @ es) - cap) (q @ es)"
proof (induction es rule: rev_induct)
  case (snoc e es)
  define qs where "qs = q @ es"
  have q: "foldl push q es = drop (length qs - cap) qs" using snoc by (simp add: qs_def)
  have "push (drop (length qs - cap) qs) e = drop (length (qs @ [e]) - cap) (qs @ [e])"
  proof (cases "length qs \<le> cap")
    case True
    then show ?thesis using push_last [OF True, of e] by simp
  next
    case False
    then have "push (drop (length qs - cap) qs) e = drop (Suc (length qs - cap)) qs @ [e]"
      using push_full [of "drop (length qs - cap) qs" e] by (simp add: drop_Suc tl_drop)
    then show ?thesis using False cap_pos by (simp add: Suc_diff_le)
  qed
  then show ?case using q by (simp add: qs_def)
qed simp

end

interpretation outgoing: bounded_queue push_pending OUTGOING_BUFFER_CAP
  by unfold_locales (simp_all add: push_pending_def OUTGOING_BUFFER_CAP_def)

section \<open>Backoff\<close>

definition backoff_base_secs :: "u32 \<Rightarrow> u64" where
  "backoff_base_secs attempt = min (push_bit (unat (min attempt 6)) 1) 60"

text \<open>\<open>r\<close> is the random sample of \<open>[0, 1)\<close>; seconds are exact rationals where the source has
  \<open>f64\<close>.\<close>

definition backoff_delay :: "rat \<Rightarrow> u32 \<Rightarrow> rat" where
  "backoff_delay r attempt =
     (let base = of_nat (unat (backoff_base_secs attempt)); jitter = base * (1 / 5) * (r * 2 - 1)
      in max (base + jitter) (1 / 5))"

definition saturating_inc :: "u32 \<Rightarrow> u32" where
  "saturating_inc n = (if n = - 1 then n else n + 1)"

section \<open>Incoming frames\<close>

text \<open>\<open>dec\<close> is \<open>MessageStreamResponse::decode\<close>.\<close>

definition dispatch_incoming :: "(bytes \<Rightarrow> stream_response option) \<Rightarrow> bytes \<Rightarrow> stream_event option" where
  "dispatch_incoming dec frame =
     (case decode_frame frame of
        Err _ \<Rightarrow> None
      | Ok (msg, _) \<Rightarrow>
          (case dec msg of
             None \<Rightarrow> None
           | Some resp \<Rightarrow>
               let stream_cursor = rp_stream_cursor resp
               in case rp_reply resp of
                    Some (RepMessage envelope) \<Rightarrow> Some (EvMessage envelope stream_cursor)
                  | Some (RepAck i) \<Rightarrow> Some (EvAck i stream_cursor)
                  | Some (RepHeartbeatAck t s) \<Rightarrow> Some (EvHeartbeat t s stream_cursor)
                  | Some (RepError i c m r a) \<Rightarrow> Some (EvStreamError i c m r a stream_cursor)
                  | Some RepReceipt \<Rightarrow> None
                  | Some RepTyping \<Rightarrow> None
                  | Some RepPresence \<Rightarrow> None
                  | Some RepP2pHandoff \<Rightarrow> None
                  | None \<Rightarrow> None))"

definition encode_envelope :: "string \<Rightarrow> bytes \<Rightarrow> string \<Rightarrow> envelope" where
  "encode_envelope conversation_id encrypted_payload message_id =
     envelope_default\<lparr>env_conversation_id := conversation_id,
       env_encrypted_payload := encrypted_payload,
       env_message_id_type := Some (MessageId message_id)\<rparr>"

section \<open>The worker\<close>

text \<open>\<open>Connecting\<close> is the head of the outer loop, \<open>Opening\<close> the pending \<open>open_message_stream\<close>,
  \<open>Live\<close> the \<open>select!\<close> loop, \<open>Backoff\<close> the wait; \<open>Exited\<close> is the returned worker.\<close>

datatype phase = Connecting | Opening | Live | Backoff | Exited

record worker =
  w_phase :: phase
  w_users :: "string list"
  w_queue :: "envelope list"                       \<comment> \<open>\<open>pending\<close>\<close>
  w_attempt :: u32
  w_sends :: "bool list"                           \<comment> \<open>which sends fail; none is left: all succeed\<close>
  w_wire :: "stream_request list"                  \<comment> \<open>requests the stream accepted\<close>
  w_opens :: "(string list \<times> string option) list"  \<comment> \<open>the subscription of every opening\<close>
  w_events :: "stream_event list"
  w_fresh :: nat                                   \<comment> \<open>how many uuids, clock reads and samples were used\<close>

text \<open>The sources of request ids, time and randomness, by position.\<close>

record worker_env =
  we_uuid :: "nat \<Rightarrow> string"
  we_clock :: "nat \<Rightarrow> i64"
  we_rand :: "nat \<Rightarrow> rat"
  we_decode :: "bytes \<Rightarrow> stream_response option"

definition worker_init :: "string list \<Rightarrow> worker" where
  "worker_init subscribed_users = \<lparr>w_phase = Connecting, w_users = subscribed_users, w_queue = [],
     w_attempt = 0, w_sends = [], w_wire = [], w_opens = [], w_events = [], w_fresh = 0\<rparr>"

definition emit :: "stream_event \<Rightarrow> worker \<Rightarrow> worker" where
  "emit e w = w\<lparr>w_events := w_events w @ [e]\<rparr>"

text \<open>\<open>send_frame\<close> with the next outcome of the schedule.\<close>

definition send_request :: "worker_env \<Rightarrow> stream_body \<Rightarrow> worker \<Rightarrow> bool \<times> worker" where
  "send_request E body w =
     (let req = \<lparr>sr_body = body, sr_request_id = we_uuid E (w_fresh w)\<rparr>;
          w = w\<lparr>w_fresh := w_fresh w + 1\<rparr>
      in case w_sends w of
           True # ss \<Rightarrow> (False, w\<lparr>w_sends := ss\<rparr>)
         | ss \<Rightarrow> (True, w\<lparr>w_sends := tl ss, w_wire := w_wire w @ [req]\<rparr>))"

definition send_envelope :: "worker_env \<Rightarrow> envelope \<Rightarrow> worker \<Rightarrow> bool \<times> worker" where
  [simp]: "send_envelope E envelope w = send_request E (ReqSend envelope) w"

definition send_heartbeat :: "worker_env \<Rightarrow> worker \<Rightarrow> bool \<times> worker" where
  "send_heartbeat E w = send_request E (ReqHeartbeat (we_clock E (w_fresh w))) w"

text \<open>The first half of \<open>wait_backoff\<close>: announce, count the attempt, start to wait.\<close>

definition start_backoff :: "worker_env \<Rightarrow> worker \<Rightarrow> worker" where
  "start_backoff E w =
     (let delay = backoff_delay (we_rand E (w_fresh w)) (w_attempt w);
          w = emit (EvReconnecting (w_attempt w + 1) delay) w
      in w\<lparr>w_attempt := saturating_inc (w_attempt w), w_fresh := w_fresh w + 1, w_phase := Backoff\<rparr>)"

text \<open>The connection is dropped, announced, and the worker backs off.\<close>

definition lose_stream :: "worker_env \<Rightarrow> worker \<Rightarrow> worker" where
  "lose_stream E w = start_backoff E (emit EvDisconnected w)"

text \<open>Sending what was buffered: an envelope whose send fails is already popped.\<close>

fun flush :: "worker_env \<Rightarrow> envelope list \<Rightarrow> worker \<Rightarrow> worker" where
  "flush E [] w = w\<lparr>w_queue := []\<rparr>"
| "flush E (e # es) w =
     (case send_envelope E e w of
        (True, w) \<Rightarrow> flush E es w
      | (False, w) \<Rightarrow> w\<lparr>w_queue := es\<rparr>)"

text \<open>After a successful opening: flush, reset the attempts, announce, first heartbeat.\<close>

definition go_live :: "worker_env \<Rightarrow> worker \<Rightarrow> worker" where
  "go_live E w =
     (let w = flush E (w_queue w) w;
          w = emit EvConnected (w\<lparr>w_attempt := 0\<rparr>)
      in case send_heartbeat E w of
           (True, w) \<Rightarrow> w\<lparr>w_phase := Live\<rparr>
         | (False, w) \<Rightarrow> lose_stream E w)"

datatype poll = Polled stream_cmd | PollEmpty | PollClosed

datatype worker_input =
    Poll poll                                  \<comment> \<open>\<open>try_recv\<close> at the loop head\<close>
  | Opened "string option" "grpc_error + unit" \<comment> \<open>committed cursor, result of the opening\<close>
  | Tick
  | Cmd "stream_cmd option"                    \<comment> \<open>\<open>None\<close>: every command sender is gone\<close>
  | Frame "bytes option"                       \<comment> \<open>\<open>None\<close>: the pump ended\<close>
  | Slept

definition step_connecting :: "poll \<Rightarrow> worker \<Rightarrow> worker" where
  "step_connecting p w =
     (case p of
        Polled CmdShutdown \<Rightarrow> w\<lparr>w_phase := Exited\<rparr>
      | Polled CmdClose \<Rightarrow> w\<lparr>w_phase := Exited\<rparr>
      | PollClosed \<Rightarrow> w\<lparr>w_phase := Exited\<rparr>
      | Polled (CmdSend e) \<Rightarrow> w\<lparr>w_queue := push_pending (w_queue w) e, w_phase := Opening\<rparr>
      | Polled (CmdSubscribe ids _) \<Rightarrow> w\<lparr>w_users := ids, w_phase := Opening\<rparr>
      | PollEmpty \<Rightarrow> w\<lparr>w_phase := Opening\<rparr>)"

definition step_opening :: "worker_env \<Rightarrow> string option \<Rightarrow> grpc_error + unit \<Rightarrow> worker \<Rightarrow> worker" where
  "step_opening E since r w =
     (let w = w\<lparr>w_opens := w_opens w @ [(w_users w, since)]\<rparr>
      in case r of
           Ok _ \<Rightarrow> go_live E w
         | Err e \<Rightarrow>
             start_backoff E (if is_unauthenticated e then emit EvAuthRequired w else w))"

definition step_live :: "worker_env \<Rightarrow> worker_input \<Rightarrow> worker \<Rightarrow> worker" where
  "step_live E i w =
     (case i of
        Tick \<Rightarrow> (case send_heartbeat E w of (True, w) \<Rightarrow> w | (False, w) \<Rightarrow> lose_stream E w)
      | Cmd (Some (CmdSend e)) \<Rightarrow>
          (case send_envelope E e w of
             (True, w) \<Rightarrow> w
           | (False, w) \<Rightarrow> lose_stream E (w\<lparr>w_queue := push_pending (w_queue w) e\<rparr>))
      | Cmd (Some (CmdSubscribe ids c)) \<Rightarrow>
          (case send_request E (ReqSubscribe ids c False) (w\<lparr>w_users := ids\<rparr>) of
             (True, w) \<Rightarrow> w
           | (False, w) \<Rightarrow> lose_stream E w)
      | Cmd _ \<Rightarrow> w\<lparr>w_phase := Exited\<rparr>
      | Frame None \<Rightarrow> lose_stream E w
      | Frame (Some f) \<Rightarrow>
          (case dispatch_incoming (we_decode E) f of None \<Rightarrow> w | Some e \<Rightarrow> emit e w)
      | _ \<Rightarrow> w)"

text \<open>The second half of \<open>wait_backoff\<close>: one sleep or one command ends the wait.\<close>

definition step_backoff :: "worker_input \<Rightarrow> worker \<Rightarrow> worker" where
  "step_backoff i w =
     (case i of
        Slept \<Rightarrow> w\<lparr>w_phase := Connecting\<rparr>
      | Cmd (Some (CmdSend e)) \<Rightarrow> w\<lparr>w_queue := push_pending (w_queue w) e, w_phase := Connecting\<rparr>
      | Cmd (Some (CmdSubscribe ids _)) \<Rightarrow> w\<lparr>w_users := ids, w_phase := Connecting\<rparr>
      | Cmd _ \<Rightarrow> w\<lparr>w_phase := Exited\<rparr>
      | _ \<Rightarrow> w)"

text \<open>An input that cannot occur in a phase leaves the worker as it is.\<close>

definition worker_step :: "worker_env \<Rightarrow> worker \<Rightarrow> worker_input \<Rightarrow> worker" where
  "worker_step E w i =
     (case w_phase w of
        Connecting \<Rightarrow> (case i of Poll p \<Rightarrow> step_connecting p w | _ \<Rightarrow> w)
      | Opening \<Rightarrow> (case i of Opened since r \<Rightarrow> step_opening E since r w | _ \<Rightarrow> w)
      | Live \<Rightarrow> step_live E i w
      | Backoff \<Rightarrow> step_backoff i w
      | Exited \<Rightarrow> w)"

definition worker_run :: "worker_env \<Rightarrow> worker \<Rightarrow> worker_input list \<Rightarrow> worker" where
  "worker_run E = foldl (worker_step E)"

text \<open>\<open>spawn_stream_worker\<close>: the events the application receives once the worker is gone.\<close>

definition stream_events :: "worker \<Rightarrow> stream_event list" where
  "stream_events w = w_events w @ (if w_phase w = Exited then [EvDisconnected] else [])"

end
