(* ===== verification/Grpc_Client.thy ===== *)
theory Grpc_Client
  imports Wire Grpc_Framing
begin

text \<open>
  \<open>grpc/client.rs\<close> and the unary RPC wrappers of \<open>auth.rs\<close>, \<open>keys.rs\<close>, \<open>users.rs\<close>: one HTTP/2
  session that is opened on demand and dropped on a transport error, a single retry, the
  authentication headers, the gRPC status in headers and trailers. The network is the record
  \<open>grpc_env\<close>: what the n-th dial and the n-th exchange yield. Protobuf codecs are parameters.
\<close>

section \<open>HTTP/2 as the client sees it\<close>

type_synonym headers = "(string \<times> string) list"

record http_request =
  hq_path :: string
  hq_headers :: headers
  hq_body :: bytes

record h2_reply =
  hr_status :: nat
  hr_headers :: headers
  hr_body :: "(string + bytes) list"      \<comment> \<open>DATA chunks; \<open>Err\<close> is a failing receive\<close>
  hr_trailers :: "headers option"

record exchange =
  ex_open :: "string option"              \<comment> \<open>error of \<open>send_request\<close>\<close>
  ex_data :: "grpc_error option"          \<comment> \<open>error of \<open>send_h2_data\<close>\<close>
  ex_end :: "string option"               \<comment> \<open>error of the closing \<open>send_data\<close>\<close>
  ex_reply :: "string + h2_reply"

record grpc_env =
  ge_connect :: "nat \<Rightarrow> string \<Rightarrow> u16 \<Rightarrow> grpc_error + unit"
  ge_exchange :: "nat \<Rightarrow> http_request \<Rightarrow> exchange"
  ge_bad_request :: "http_request \<Rightarrow> string option"   \<comment> \<open>what the request builder rejects\<close>
  ge_status_text :: "nat \<Rightarrow> string"
  ge_version :: string

record grpc_client =
  cl_host :: string
  cl_port :: u16
  cl_session :: "nat option"
  cl_token :: "string option"
  cl_device_id :: "string option"
  cl_dials :: nat
  cl_sent :: "http_request list"

section \<open>The client\<close>

definition parse_server_url :: "string \<Rightarrow> string \<times> u16" where
  "parse_server_url url =
     (let rest = trim_start_matches ''http://'' (trim_start_matches ''https://'' (trim url));
          hostport = takeWhile (\<lambda>c. c \<noteq> CHR 0x2F) rest
      in case split_once (CHR 0x3A) hostport of
           Some (host, port) \<Rightarrow>
             (host, case parse_uint (2 ^ 16) port of Some p \<Rightarrow> of_nat p | None \<Rightarrow> 443)
         | None \<Rightarrow> (hostport, 443))"

definition client_new :: "string \<Rightarrow> grpc_client" where
  "client_new server_url =
     (let (host, port) = parse_server_url server_url
      in \<lparr>cl_host = host, cl_port = port, cl_session = None, cl_token = None, cl_device_id = None,
          cl_dials = 0, cl_sent = []\<rparr>)"

definition set_token :: "string option \<Rightarrow> grpc_client \<Rightarrow> grpc_client" where
  "set_token t c = c\<lparr>cl_token := t\<rparr>"

definition set_device_id :: "string option \<Rightarrow> grpc_client \<Rightarrow> grpc_client" where
  "set_device_id i c = c\<lparr>cl_device_id := i\<rparr>"

definition authority :: "grpc_client \<Rightarrow> string" where
  "authority c = cl_host c @ '':'' @ dec_of_nat (unat (cl_port c))"

definition invalidate :: "grpc_client \<Rightarrow> grpc_client" where
  "invalidate c = c\<lparr>cl_session := None\<rparr>"

definition ensure_session :: "grpc_env \<Rightarrow> grpc_client \<Rightarrow> grpc_client \<times> (grpc_error + unit)" where
  "ensure_session E c =
     (case cl_session c of
        Some _ \<Rightarrow> (c, Ok ())
      | None \<Rightarrow>
          (case ge_connect E (cl_dials c) (cl_host c) (cl_port c) of
             Err e \<Rightarrow> (c\<lparr>cl_dials := cl_dials c + 1\<rparr>, Err e)
           | Ok _ \<Rightarrow> (c\<lparr>cl_dials := cl_dials c + 1, cl_session := Some (cl_dials c)\<rparr>, Ok ())))"

text \<open>The sender of the live session; \<open>ensure\<close> leaves one, so that the error needs another task's
  \<open>invalidate\<close> in between.\<close>

definition client_send_request :: "grpc_client \<Rightarrow> grpc_error + nat" where
  "client_send_request c =
     (case cl_session c of Some session \<Rightarrow> Ok session | None \<Rightarrow> Err (Transport ''H2 not connected''))"

definition send_request_handle :: "grpc_env \<Rightarrow> grpc_client \<Rightarrow> grpc_client \<times> (grpc_error + nat)" where
  "send_request_handle E c =
     (case ensure_session E c of (c, Err e) \<Rightarrow> (c, Err e) | (c, Ok _) \<Rightarrow> (c, client_send_request c))"

lemma send_request_after_ensure:
  "ensure_session E c = (c', Ok u) \<Longrightarrow> \<exists>session. cl_session c' = Some session \<and> client_send_request c' = Ok session"
  by (auto simp: ensure_session_def client_send_request_def split: option.splits sum.splits)

definition auth_headers :: "grpc_client \<Rightarrow> string option \<times> string option" where
  "auth_headers c = (cl_token c, cl_device_id c)"

definition apply_auth_headers :: "string \<Rightarrow> headers \<Rightarrow> string option \<Rightarrow> string option \<Rightarrow> headers" where
  "apply_auth_headers version hs token device_id =
     hs @ [(''content-type'', ''application/grpc''), (''te'', ''trailers''),
           (''grpc-encoding'', ''identity''), (''user-agent'', ''konstruct-tui/'' @ version)]
        @ (case token of None \<Rightarrow> [] | Some t \<Rightarrow> [(''authorization'', ''Bearer '' @ t)])
        @ (case device_id of None \<Rightarrow> [] | Some i \<Rightarrow> [(''x-device-id'', i)])"

text \<open>\<open>HeaderValue::to_str\<close> succeeds on visible ASCII and tabs.\<close>

definition header_str :: "string \<Rightarrow> string option" where
  "header_str v =
     (if list_all (\<lambda>c. 32 \<le> (of_char c :: nat) \<and> (of_char c :: nat) < 127 \<or> c = CHR 0x09) v
      then Some v else None)"

definition check_grpc_status :: "headers \<Rightarrow> grpc_error + unit" where
  "check_grpc_status hs =
     (case Option.bind (Option.bind (map_of hs ''grpc-status'') header_str) (parse_uint (2 ^ 32)) of
        None \<Rightarrow> Ok ()
      | Some code \<Rightarrow>
          if code = 0 then Ok ()
          else
            let msg = (case Option.bind (map_of hs ''grpc-message'') header_str of None \<Rightarrow> [] | Some m \<Rightarrow> m)
            in if code = 16 then Err (Unauthenticated msg)
               else if code = 7 then Err (PermissionDenied msg)
               else Err (Status (of_nat code) msg))"

fun collect_body :: "bytes \<Rightarrow> (string + bytes) list \<Rightarrow> grpc_error + bytes" where
  "collect_body body [] = Ok body"
| "collect_body body (Err e # cs) = Err (Transport (''recv_data: '' @ e))"
| "collect_body body (Ok c # cs) = collect_body (body @ c) cs"

definition read_reply :: "grpc_env \<Rightarrow> string \<Rightarrow> h2_reply \<Rightarrow> grpc_error + bytes" where
  "read_reply E path r =
     (if hr_status r \<noteq> 200 then
        Err (Transport (''HTTP '' @ ge_status_text E (hr_status r) @ '' from '' @ [CHR 0x27] @ path @ [CHR 0x27]))
      else
        rbind (check_grpc_status (hr_headers r)) (\<lambda>_.
        rbind (collect_body [] (hr_body r)) (\<lambda>body.
        rbind (case hr_trailers r of None \<Rightarrow> Ok () | Some t \<Rightarrow> check_grpc_status t) (\<lambda>_.
          if body = [] then Ok []
          else rbind (decode_frame body) (\<lambda>(msg, _). Ok msg)))))"

definition do_unary ::
  "grpc_env \<Rightarrow> grpc_client \<Rightarrow> string \<Rightarrow> bytes \<Rightarrow> grpc_client \<times> (grpc_error + bytes)" where
  "do_unary E c path request_bytes =
     (let req = \<lparr>hq_path = path,
                 hq_headers = apply_auth_headers (ge_version E) [(''host'', authority c)]
                                (cl_token c) (cl_device_id c),
                 hq_body = encode_frame request_bytes\<rparr>
      in case ge_bad_request E req of
           Some e \<Rightarrow> (c, Err (Transport (''build request: '' @ e)))
         | None \<Rightarrow>
             let x = ge_exchange E (length (cl_sent c)) req; c = c\<lparr>cl_sent := cl_sent c @ [req]\<rparr>
             in (c, case ex_open x of
                      Some e \<Rightarrow> Err (Transport (''send_request '' @ [CHR 0x27] @ path @ [CHR 0x27] @ '': '' @ e))
                    | None \<Rightarrow>
                 (case ex_data x of
                    Some e \<Rightarrow> Err e
                  | None \<Rightarrow>
                 (case ex_end x of
                    Some e \<Rightarrow> Err (Transport (''end stream: '' @ e))
                  | None \<Rightarrow>
                 (case ex_reply x of
                    Err e \<Rightarrow> Err (Transport (''recv_response '' @ [CHR 0x27] @ path @ [CHR 0x27] @ '': '' @ e))
                  | Ok r \<Rightarrow> read_reply E path r)))))"

definition unary_once ::
  "grpc_env \<Rightarrow> grpc_client \<Rightarrow> string \<Rightarrow> bytes \<Rightarrow> grpc_client \<times> (grpc_error + bytes)" where
  "unary_once E c path request_bytes =
     (case ensure_session E c of
        (c, Err e) \<Rightarrow> (c, Err e)
      | (c, Ok _) \<Rightarrow>
          (case do_unary E c path request_bytes of
             (c, Err e) \<Rightarrow> (if is_retryable_transport e then invalidate c else c, Err e)
           | (c, Ok b) \<Rightarrow> (c, Ok b)))"

definition unary ::
  "grpc_env \<Rightarrow> grpc_client \<Rightarrow> string \<Rightarrow> bytes \<Rightarrow> grpc_client \<times> (grpc_error + bytes)" where
  "unary E c path request_bytes =
     (case unary_once E c path request_bytes of
        (c, Err e) \<Rightarrow>
          if is_retryable_transport e then unary_once E (invalidate c) path request_bytes else (c, Err e)
      | (c, Ok b) \<Rightarrow> (c, Ok b))"

section \<open>Waiting for send capacity\<close>

text \<open>What \<open>poll_capacity\<close> yields: a grant, with the capacity then held; an error; the end.\<close>

datatype capacity_poll = Granted nat nat | CapacityErr string | CapacityClosed

text \<open>\<open>None\<close>: still waiting after the given polls.\<close>

fun wait_capacity :: "nat \<Rightarrow> capacity_poll list \<Rightarrow> (grpc_error + unit) option" where
  "wait_capacity needed [] = None"
| "wait_capacity needed (Granted n held # ps) =
     (if needed \<le> n \<or> needed \<le> held then Some (Ok ()) else wait_capacity needed ps)"
| "wait_capacity needed (CapacityErr e # ps) = Some (Err (Transport (''h2 capacity: '' @ e)))"
| "wait_capacity needed (CapacityClosed # ps) = Some (Err (Transport ''h2 send stream closed''))"

definition send_h2_data :: "nat \<Rightarrow> capacity_poll list \<Rightarrow> string option \<Rightarrow> bytes \<Rightarrow> (grpc_error + unit) option" where
  "send_h2_data capacity polls send_error data =
     (case (if capacity < length data then wait_capacity (length data) polls else Some (Ok ())) of
        None \<Rightarrow> None
      | Some (Err e) \<Rightarrow> Some (Err e)
      | Some (Ok _) \<Rightarrow>
          Some (case send_error of None \<Rightarrow> Ok () | Some e \<Rightarrow> Err (Transport (''h2 send_data: '' @ e))))"

end
