(* ===== verification/Grpc_Rpc.thy ===== *)
theory Grpc_Rpc
  imports Grpc_Client
begin

text \<open>
  The unary RPCs of \<open>grpc/auth.rs\<close>, \<open>grpc/keys.rs\<close> and \<open>grpc/users.rs\<close>. The record
  \<open>rpc_codec\<close> holds the prost encoders and decoders of their messages and the two enum numbers
  \<open>bundle_to_x3dh\<close> compares with.
\<close>

section \<open>Messages\<close>

record auth_tokens =
  at_user_id :: string
  at_access_token :: string
  at_refresh_token :: string
  at_expires_at :: i64

record device_keys =
  dk_verifying_key :: bytes
  dk_identity_public :: bytes
  dk_signed_prekey_public :: bytes
  dk_signed_prekey_signature :: bytes
  dk_crypto_suite :: string

record pow_solution =
  pw_challenge :: string
  pw_nonce :: u64
  pw_hash :: bytes

record register_request =
  rg_username :: "string option"
  rg_device_id :: string
  rg_public_keys :: device_keys
  rg_pow :: pow_solution

record server_bundle =
  sb_crypto_suite :: int
  sb_identity_key :: bytes
  sb_signed_pre_key :: bytes
  sb_signed_pre_key_signature :: bytes
  sb_one_time_pre_key :: "bytes option"
  sb_one_time_pre_key_id :: "u32 option"
  sb_spk_uploaded_at :: i64
  sb_spk_rotation_epoch :: u32
  sb_kyber_pre_key :: "bytes option"
  sb_kyber_one_time_pre_key :: "bytes option"
  sb_kyber_one_time_pre_key_id :: "u32 option"
  sb_kyber_spk_uploaded_at :: "i64 option"
  sb_kyber_spk_rotation_epoch :: "u32 option"

datatype suite_id = CLASSIC | PQ_HYBRID

record x3dh_bundle =
  xb_identity_public :: bytes
  xb_signed_prekey_public :: bytes
  xb_signature :: bytes
  xb_verifying_key :: bytes
  xb_suite_id :: suite_id
  xb_one_time_prekey_public :: "bytes option"
  xb_one_time_prekey_id :: "u32 option"
  xb_spk_uploaded_at :: u64
  xb_spk_rotation_epoch :: u32
  xb_kyber_spk_uploaded_at :: u64
  xb_kyber_spk_rotation_epoch :: u32
  xb_supports_pq_ratchet :: bool

record fetched_bundle =
  fb_x3dh :: x3dh_bundle
  fb_kyber_pre_key :: "bytes option"
  fb_kyber_one_time_prekey :: "bytes option"
  fb_kyber_one_time_prekey_id :: "u32 option"

record rpc_codec =
  rc_hybrid_1024 :: int
  rc_hybrid_768 :: int
  rc_enc_pow :: bytes
  rc_dec_pow :: "bytes \<Rightarrow> string + string \<times> u32"
  rc_enc_register :: "register_request \<Rightarrow> bytes"
  rc_enc_authenticate :: "string \<Rightarrow> i64 \<Rightarrow> bytes \<Rightarrow> bytes"
  rc_enc_refresh :: "string \<Rightarrow> string \<Rightarrow> bytes"
  rc_enc_confirm :: "string \<Rightarrow> string \<Rightarrow> device_keys \<Rightarrow> bytes"
  rc_dec_tokens :: "bytes \<Rightarrow> string + auth_tokens option"
  rc_dec_refresh :: "bytes \<Rightarrow> string + string \<times> string option \<times> i64"
  rc_enc_get_bundle :: "string \<Rightarrow> bytes"
  rc_dec_bundle :: "bytes \<Rightarrow> string + server_bundle option \<times> bytes"
  rc_enc_upload :: "string \<Rightarrow> (u32 \<times> bytes) list \<Rightarrow> bool \<Rightarrow> bytes"
  rc_dec_upload :: "bytes \<Rightarrow> string + u32"
  rc_enc_find :: "string \<Rightarrow> bytes"
  rc_dec_find :: "bytes \<Rightarrow> string + string"

section \<open>Paths\<close>

definition AUTH_POW_CHALLENGE :: string where
  "AUTH_POW_CHALLENGE = ''/shared.proto.services.v1.AuthService/GetPowChallenge''"

definition AUTH_REGISTER :: string where
  "AUTH_REGISTER = ''/shared.proto.services.v1.AuthService/RegisterDevice''"

definition AUTH_AUTHENTICATE :: string where
  "AUTH_AUTHENTICATE = ''/shared.proto.services.v1.AuthService/AuthenticateDevice''"

definition AUTH_REFRESH :: string where
  "AUTH_REFRESH = ''/shared.proto.services.v1.AuthService/RefreshToken''"

definition DEVICE_CONFIRM_LINK :: string where
  "DEVICE_CONFIRM_LINK = ''/shared.proto.services.v1.DeviceLinkService/ConfirmDeviceLink''"

definition KEY_GET_BUNDLE :: string where
  "KEY_GET_BUNDLE = ''/shared.proto.services.v1.KeyService/GetPreKeyBundle''"

definition KEY_UPLOAD :: string where
  "KEY_UPLOAD = ''/shared.proto.services.v1.KeyService/UploadPreKeys''"

definition USER_FIND :: string where
  "USER_FIND = ''/shared.proto.services.v1.UserService/FindUser''"

section \<open>Calls\<close>

text \<open>\<open>client.unary(path, bytes).await?\<close> followed by \<open>decode(..).map_err(..)?\<close>.\<close>

definition call_rpc ::
  "grpc_env \<Rightarrow> grpc_client \<Rightarrow> string \<Rightarrow> bytes \<Rightarrow> string \<Rightarrow> (bytes \<Rightarrow> string + 'r)
    \<Rightarrow> grpc_client \<times> (grpc_error + 'r)" where
  "call_rpc E c path request name decode =
     (case unary E c path request of
        (c, Err e) \<Rightarrow> (c, Err e)
      | (c, Ok b) \<Rightarrow>
          (c, case decode b of Ok r \<Rightarrow> Ok r | Err e \<Rightarrow> Err (Transport (name @ '' decode: '' @ e))))"

definition get_pow_challenge ::
  "grpc_env \<Rightarrow> rpc_codec \<Rightarrow> grpc_client \<Rightarrow> grpc_client \<times> (grpc_error + string \<times> u32)" where
  "get_pow_challenge E C c =
     (case call_rpc E c AUTH_POW_CHALLENGE (rc_enc_pow C) ''GetPowChallenge'' (rc_dec_pow C) of
        (c, Err e) \<Rightarrow> (c, Err e)
      | (c, Ok (challenge, difficulty)) \<Rightarrow>
          (c, if challenge = [] then
                Err (Transport ''GetPowChallenge returned an empty challenge (HTTP/2 body missing?)'')
              else Ok (challenge, difficulty)))"

definition tokens_from :: "auth_tokens option \<Rightarrow> grpc_error + auth_tokens" where
  "tokens_from tokens = ok_or (Transport ''server returned empty tokens'') tokens"

definition register_device ::
  "grpc_env \<Rightarrow> rpc_codec \<Rightarrow> grpc_client \<Rightarrow> string option \<Rightarrow> string \<Rightarrow> device_keys \<Rightarrow> u64 \<times> bytes \<Rightarrow> string
    \<Rightarrow> grpc_client \<times> (grpc_error + auth_tokens)" where
  "register_device E C c username device_id public_keys pow challenge =
     (let req = \<lparr>rg_username = username, rg_device_id = device_id, rg_public_keys = public_keys,
                 rg_pow = \<lparr>pw_challenge = challenge, pw_nonce = fst pow, pw_hash = snd pow\<rparr>\<rparr>;
          (c, r) = call_rpc E c AUTH_REGISTER (rc_enc_register C req) ''RegisterDevice'' (rc_dec_tokens C)
      in (c, rbind r tokens_from))"

definition authenticate_device ::
  "grpc_env \<Rightarrow> rpc_codec \<Rightarrow> grpc_client \<Rightarrow> string \<Rightarrow> i64 \<Rightarrow> bytes
    \<Rightarrow> grpc_client \<times> (grpc_error + auth_tokens)" where
  "authenticate_device E C c device_id timestamp signature =
     (let (c, r) = call_rpc E c AUTH_AUTHENTICATE (rc_enc_authenticate C device_id timestamp signature)
                     ''AuthenticateDevice'' (rc_dec_tokens C)
      in (c, rbind r tokens_from))"

definition refresh_token ::
  "grpc_env \<Rightarrow> rpc_codec \<Rightarrow> grpc_client \<Rightarrow> string \<Rightarrow> string
    \<Rightarrow> grpc_client \<times> (grpc_error + string \<times> string \<times> i64)" where
  "refresh_token E C c token device_id =
     (let (c, r) = call_rpc E c AUTH_REFRESH (rc_enc_refresh C token device_id) ''RefreshToken'' (rc_dec_refresh C)
      in (c, rbind r (\<lambda>(access, refresh, expires).
                Ok (access, case refresh of None \<Rightarrow> [] | Some t \<Rightarrow> t, expires))))"

definition confirm_device_link ::
  "grpc_env \<Rightarrow> rpc_codec \<Rightarrow> grpc_client \<Rightarrow> string \<Rightarrow> string \<Rightarrow> device_keys
    \<Rightarrow> grpc_client \<times> (grpc_error + auth_tokens)" where
  "confirm_device_link E C c link_token device_id public_keys =
     (let (c, r) = call_rpc E c DEVICE_CONFIRM_LINK (rc_enc_confirm C link_token device_id public_keys)
                     ''ConfirmDeviceLink'' (rc_dec_tokens C)
      in (c, rbind r tokens_from))"

definition device_public_keys :: "bytes \<Rightarrow> bytes \<Rightarrow> bytes \<Rightarrow> bytes \<Rightarrow> device_keys" where
  "device_public_keys verifying_key identity_public signed_prekey_public signed_prekey_signature =
     \<lparr>dk_verifying_key = verifying_key, dk_identity_public = identity_public,
      dk_signed_prekey_public = signed_prekey_public,
      dk_signed_prekey_signature = signed_prekey_signature,
      dk_crypto_suite = ''Curve25519+Ed25519''\<rparr>"

definition bundle_to_x3dh ::
  "rpc_codec \<Rightarrow> server_bundle option \<times> bytes \<Rightarrow> grpc_error + x3dh_bundle" where
  "bundle_to_x3dh C resp =
     rbind (ok_or (Transport ''no bundle in response'') (fst resp)) (\<lambda>b.
       Ok \<lparr>xb_identity_public = sb_identity_key b, xb_signed_prekey_public = sb_signed_pre_key b,
           xb_signature = sb_signed_pre_key_signature b, xb_verifying_key = snd resp,
           xb_suite_id = (if sb_crypto_suite b = rc_hybrid_1024 C \<or> sb_crypto_suite b = rc_hybrid_768 C
                          then PQ_HYBRID else CLASSIC),
           xb_one_time_prekey_public = sb_one_time_pre_key b,
           xb_one_time_prekey_id = sb_one_time_pre_key_id b,
           xb_spk_uploaded_at = of_int (sb_spk_uploaded_at b),
           xb_spk_rotation_epoch = sb_spk_rotation_epoch b,
           xb_kyber_spk_uploaded_at =
             of_int (case sb_kyber_spk_uploaded_at b of None \<Rightarrow> 0 | Some t \<Rightarrow> t),
           xb_kyber_spk_rotation_epoch =
             (case sb_kyber_spk_rotation_epoch b of None \<Rightarrow> 0 | Some n \<Rightarrow> n),
           xb_supports_pq_ratchet = False\<rparr>)"

definition get_pre_key_bundle ::
  "grpc_env \<Rightarrow> rpc_codec \<Rightarrow> grpc_client \<Rightarrow> string \<Rightarrow> grpc_client \<times> (grpc_error + fetched_bundle)" where
  "get_pre_key_bundle E C c user_id =
     (let (c, r) = call_rpc E c KEY_GET_BUNDLE (rc_enc_get_bundle C user_id) ''GetPreKeyBundle'' (rc_dec_bundle C)
      in (c, rbind r (\<lambda>resp.
           rbind (bundle_to_x3dh C resp) (\<lambda>x.
             Ok \<lparr>fb_x3dh = x,
                 fb_kyber_pre_key = Option.bind (fst resp) sb_kyber_pre_key,
                 fb_kyber_one_time_prekey = Option.bind (fst resp) sb_kyber_one_time_pre_key,
                 fb_kyber_one_time_prekey_id = Option.bind (fst resp) sb_kyber_one_time_pre_key_id\<rparr>))))"

definition upload_pre_keys ::
  "grpc_env \<Rightarrow> rpc_codec \<Rightarrow> grpc_client \<Rightarrow> string \<Rightarrow> (u32 \<times> bytes) list \<Rightarrow> bool
    \<Rightarrow> grpc_client \<times> (grpc_error + u32)" where
  "upload_pre_keys E C c device_id keys replace_existing =
     call_rpc E c KEY_UPLOAD (rc_enc_upload C device_id keys replace_existing) ''UploadPreKeys'' (rc_dec_upload C)"

section \<open>Users\<close>

definition normalize_username :: "string \<Rightarrow> string" where
  "normalize_username raw = map ascii_lower (trim (dropWhile (\<lambda>c. c = CHR 0x40) (trim raw)))"

definition is_ascii_alnum :: "char \<Rightarrow> bool" where
  "is_ascii_alnum c \<longleftrightarrow> (let n = of_char c :: nat
     in 48 \<le> n \<and> n \<le> 57 \<or> 65 \<le> n \<and> n \<le> 90 \<or> 97 \<le> n \<and> n \<le> 122)"

definition username_is_searchable :: "string \<Rightarrow> bool" where
  "username_is_searchable normalized \<longleftrightarrow> 3 \<le> length normalized \<and> length normalized \<le> 30
     \<and> list_all (\<lambda>c. is_ascii_alnum c \<or> c = CHR 0x5F) normalized"

definition find_user ::
  "grpc_env \<Rightarrow> rpc_codec \<Rightarrow> grpc_client \<Rightarrow> string \<Rightarrow> grpc_client \<times> (grpc_error + string option)" where
  "find_user E C c raw =
     (let username = normalize_username raw
      in if \<not> username_is_searchable username then (c, Ok None)
         else case unary E c USER_FIND (rc_enc_find C username) of
                (c, Ok b) \<Rightarrow>
                  (c, case rc_dec_find C b of
                        Err e \<Rightarrow> Err (Transport (''FindUser decode: '' @ e))
                      | Ok user_id \<Rightarrow> Ok (if user_id = [] then None else Some user_id))
              | (c, Err (Status code m)) \<Rightarrow>
                  (c, if code = 5 then Ok None else Err (Status code m))
              | (c, Err e) \<Rightarrow> (c, Err e))"

end
