(* ===== verification/Bridge.thy ===== *)
theory Bridge
  imports Stream_Worker Grpc_Rpc
begin

text \<open>
  \<open>bridge.rs\<close>: the events from the background tasks to the application, the \<open>TuiBridge\<close> between
  the crypto core, the storage and the stream, and the background refresh of the access token.
\<close>

section \<open>Events\<close>

datatype bridge_event =
    NewMessage string string string i64      \<comment> \<open>peer, message id, text, time\<close>
  | MessageDelivered string
  | StreamStatus bool
  | StreamReconnecting u32 u64
  | BridgeError string
  | SessionReady string

section \<open>The bridge\<close>

record tui_bridge =
  tb_storage :: db
  tb_stream :: "stream_cmd list"
  tb_stream_full :: "bool list"
  tb_ui :: "bridge_event list"
  tb_ui_full :: "bool list"

definition bridge_new :: "db \<Rightarrow> tui_bridge" where
  "bridge_new storage = \<lparr>tb_storage = storage, tb_stream = [], tb_stream_full = [], tb_ui = [], tb_ui_full = []\<rparr>"

definition notify_ui :: "bridge_event \<Rightarrow> tui_bridge \<Rightarrow> tui_bridge" where
  "notify_ui e b =
     (let (fs, q) = try_send (tb_ui_full b) (tb_ui b) e in b\<lparr>tb_ui_full := fs, tb_ui := q\<rparr>)"

definition on_message_decrypted ::
  "tui_bridge \<Rightarrow> string \<Rightarrow> string \<Rightarrow> string \<Rightarrow> i64 \<Rightarrow> tui_bridge \<times> (string + unit)" where
  "on_message_decrypted b peer_id message_id txt timestamp_ms =
     (let msg = \<lparr>sm_id = message_id, sm_peer_id = peer_id, sm_text = txt, sm_direction = ''received'',
                 sm_timestamp_ms = timestamp_ms, sm_delivery_status = ''delivered''\<rparr>
      in case store_message (tb_storage b) msg of
           (d, Err e) \<Rightarrow> (b\<lparr>tb_storage := d\<rparr>, Err e)
         | (d, Ok _) \<Rightarrow>
             (notify_ui (NewMessage peer_id message_id txt timestamp_ms) (b\<lparr>tb_storage := d\<rparr>), Ok ()))"

definition on_message_sent ::
  "tui_bridge \<Rightarrow> string \<Rightarrow> string \<Rightarrow> string \<Rightarrow> i64 \<Rightarrow> tui_bridge \<times> (string + unit)" where
  "on_message_sent b peer_id message_id txt timestamp_ms =
     (let msg = \<lparr>sm_id = message_id, sm_peer_id = peer_id, sm_text = txt, sm_direction = ''sent'',
                 sm_timestamp_ms = timestamp_ms, sm_delivery_status = []\<rparr>;
          (d, r) = store_message (tb_storage b) msg
      in (b\<lparr>tb_storage := d\<rparr>, r))"

definition on_ack :: "tui_bridge \<Rightarrow> string \<Rightarrow> tui_bridge \<times> (string + unit)" where
  "on_ack b message_id =
     (case mark_delivered (tb_storage b) message_id of
        (d, Err e) \<Rightarrow> (b\<lparr>tb_storage := d\<rparr>, Err e)
      | (d, Ok _) \<Rightarrow> (notify_ui (MessageDelivered message_id) (b\<lparr>tb_storage := d\<rparr>), Ok ()))"

definition load_messages ::
  "(stored_message list \<Rightarrow> stored_message list) \<Rightarrow> tui_bridge \<Rightarrow> string \<Rightarrow> u64
    \<Rightarrow> tui_bridge \<times> (string + stored_message list)" where
  "load_messages ord b peer_id limit =
     (let (d, r) = get_messages ord (tb_storage b) peer_id limit in (b\<lparr>tb_storage := d\<rparr>, r))"

definition bridge_subscribe :: "tui_bridge \<Rightarrow> string \<Rightarrow> tui_bridge" where
  "bridge_subscribe b user_id =
     (let (fs, q) = try_send (tb_stream_full b) (tb_stream b) (CmdSubscribe [user_id] None)
      in b\<lparr>tb_stream_full := fs, tb_stream := q\<rparr>)"

text \<open>The callbacks of \<open>PlatformBridge\<close>; errors are only printed.\<close>

definition save_to_secure_store :: "tui_bridge \<Rightarrow> string \<Rightarrow> bytes \<Rightarrow> tui_bridge" where
  "save_to_secure_store b key v = b\<lparr>tb_storage := fst (secure_save_or_delete (tb_storage b) key v)\<rparr>"

definition load_from_secure_store :: "tui_bridge \<Rightarrow> string \<Rightarrow> tui_bridge \<times> bytes option" where
  "load_from_secure_store b key =
     (let (d, r) = secure_load (tb_storage b) key
      in (b\<lparr>tb_storage := d\<rparr>, case r of Ok v \<Rightarrow> v | Err _ \<Rightarrow> None))"

definition bridge_persist_record :: "tui_bridge \<Rightarrow> string \<Rightarrow> string \<Rightarrow> tui_bridge" where
  "bridge_persist_record b table json = b\<lparr>tb_storage := fst (persist_record (tb_storage b) table json)\<rparr>"

definition query_record :: "tui_bridge \<Rightarrow> string \<Rightarrow> tui_bridge \<times> string option" where
  "query_record b table =
     (let (d, r) = query_last_record (tb_storage b) table
      in (b\<lparr>tb_storage := d\<rparr>, case r of Ok v \<Rightarrow> v | Err _ \<Rightarrow> None))"

section \<open>Token refresh\<close>

datatype token_refresh_msg =
    Refreshed string string i64    \<comment> \<open>access token, refresh token, expiry\<close>
  | FailedTransport string
  | FailedAuth string

definition do_refresh ::
  "grpc_env \<Rightarrow> rpc_codec \<Rightarrow> grpc_client \<Rightarrow> string \<Rightarrow> string \<Rightarrow> grpc_client \<times> token_refresh_msg" where
  "do_refresh E C c device_id token =
     (case refresh_token E C (set_device_id (Some device_id) c) token device_id of
        (c, Ok (access, new_refresh, expires_at)) \<Rightarrow>
          (c, Refreshed access (if new_refresh = [] then token else new_refresh) expires_at)
      | (c, Err e) \<Rightarrow>
          (c, if is_unauthenticated e \<or> is_permission_denied e then FailedAuth (grpc_error_show e)
              else FailedTransport (grpc_error_show e)))"

text \<open>\<open>i64::saturating_sub\<close>; the subtraction of the clock is the plain operator, which wraps in a
  release build.\<close>

definition i64_saturating_sub :: "i64 \<Rightarrow> i64 \<Rightarrow> i64" where
  "i64_saturating_sub a b = max (- (2 ^ 63)) (min i64_max (a - b))"

definition REFRESH_AHEAD_SECS :: i64 where
  "REFRESH_AHEAD_SECS = 5 * 60"

text \<open>How long \<open>token_refresh_loop\<close> sleeps when the clock reads \<open>now\<close>.\<close>

definition refresh_delay :: "i64 \<Rightarrow> i64 \<Rightarrow> nat" where
  "refresh_delay now expires_at =
     (let wake_at = i64_saturating_sub expires_at REFRESH_AHEAD_SECS
      in nat (max (i64_wrap (wake_at - now)) 0))"

definition token_refresh_loop ::
  "grpc_env \<Rightarrow> rpc_codec \<Rightarrow> i64 \<Rightarrow> grpc_client \<Rightarrow> string \<Rightarrow> string \<Rightarrow> i64
    \<Rightarrow> grpc_client \<times> nat \<times> token_refresh_msg" where
  "token_refresh_loop E C now c device_id token expires_at =
     (let delay = refresh_delay now expires_at; (c, msg) = do_refresh E C c device_id token
      in (c, delay, msg))"

text \<open>The channels the two tasks answer on, with the one message they send.\<close>

definition spawn_token_refresh ::
  "grpc_env \<Rightarrow> rpc_codec \<Rightarrow> i64 \<Rightarrow> grpc_client \<Rightarrow> string \<Rightarrow> string \<Rightarrow> i64
    \<Rightarrow> grpc_client \<times> token_refresh_msg list" where
  "spawn_token_refresh E C now c device_id token expires_at =
     (let (c, _, msg) = token_refresh_loop E C now c device_id token expires_at in (c, [msg]))"

definition spawn_token_refresh_now ::
  "grpc_env \<Rightarrow> rpc_codec \<Rightarrow> grpc_client \<Rightarrow> string \<Rightarrow> string \<Rightarrow> grpc_client \<times> token_refresh_msg list" where
  "spawn_token_refresh_now E C c device_id token =
     (let (c, msg) = do_refresh E C c device_id token in (c, [msg]))"

section \<open>Properties\<close>



end
