(* ===== verification/Knst.thy ===== *)
theory Knst
  imports Wire Utf8 Grpc_Framing
begin

text \<open>
  \<open>knst.rs\<close>: the plaintext frame inside the ciphertext. A 30-byte header (magic, version, type
  byte, message uuid, chunk counters, payload length) precedes the payload. The record
  \<open>knst_env\<close> holds what the module takes from other crates: the uuid parser, the prost codecs of
  \<open>MessageContent\<close> and \<open>SessionControl\<close>, the enum numbers.
\<close>

record knst_env =
  ke_types :: content_types
  ke_parse_uuid :: "string \<Rightarrow> bytes option"
  ke_encode_content :: "string \<Rightarrow> bytes"                    \<comment> \<open>a \<open>MessageContent\<close> holding this text\<close>
  ke_decode_content :: "bytes \<Rightarrow> string option option"      \<comment> \<open>decoded; its text, if it is one\<close>
  ke_encode_control :: "string \<Rightarrow> bytes"                    \<comment> \<open>\<open>SessionControl\<close> ping with this nonce\<close>

definition MAGIC :: bytes where
  "MAGIC = [0x4B, 0x4E, 0x53, 0x54]"

definition VERSION :: byte where
  "VERSION = 1"

definition HEADER_SIZE :: nat where
  "HEADER_SIZE = 30"

definition frame_whole :: "knst_env \<Rightarrow> bytes \<Rightarrow> byte \<Rightarrow> string \<Rightarrow> bytes" where
  "frame_whole K payload content_type message_id =
     (let uuid = (case ke_parse_uuid K message_id of Some u \<Rightarrow> u | None \<Rightarrow> replicate 16 0)
      in MAGIC @ [VERSION, content_type] @ uuid @ be_bytes 2 0 @ be_bytes 2 1
           @ be_bytes 4 (length payload) @ payload)"

definition encode_text :: "knst_env \<Rightarrow> string \<Rightarrow> string \<Rightarrow> bytes" where
  "encode_text K s message_id =
     frame_whole K (ke_encode_content K s) (ct_e2ee_signal (ke_types K)) message_id"

definition encode_session_ping :: "knst_env \<Rightarrow> string \<Rightarrow> bytes" where
  "encode_session_ping K message_id =
     frame_whole K (ke_encode_control K message_id) (ct_session_ping (ke_types K)) message_id"

definition is_frame :: "bytes \<Rightarrow> bool" where
  "is_frame data \<longleftrightarrow> HEADER_SIZE \<le> length data \<and> take 4 data = MAGIC \<and> data ! 4 = VERSION"

datatype disposition_kind = TranscriptIncoming | TranscriptOwnDevice | SilentControl | NotCarried

definition disposition :: "content_types \<Rightarrow> byte \<Rightarrow> disposition_kind" where
  "disposition T content_type =
     (if content_type = ct_e2ee_signal T then TranscriptIncoming
      else if content_type = ct_sender_sync T then TranscriptOwnDevice
      else if content_type \<in> {ct_call_signal T, ct_heartbeat T, ct_delivery_receipt T,
          ct_session_reset T, ct_session_reset_init T, ct_session_ping T, ct_session_ready T}
        then SilentControl
      else NotCarried)"

definition is_silent_type :: "content_types \<Rightarrow> byte \<Rightarrow> bool" where
  "is_silent_type T content_type \<longleftrightarrow> disposition T content_type = SilentControl"

definition decode_text :: "knst_env \<Rightarrow> bytes \<Rightarrow> string" where
  "decode_text K plaintext =
     (if \<not> is_frame plaintext then from_utf8_lossy plaintext
      else if is_silent_type (ke_types K) (plaintext ! 5) then []
      else
        let payload_len = be_val (take 4 (drop 26 plaintext));
            raw = drop HEADER_SIZE plaintext;
            payload = take (min payload_len (length raw)) raw
        in case ke_decode_content K payload of
             Some (Some s) \<Rightarrow> s
           | _ \<Rightarrow> from_utf8_lossy payload)"

section \<open>Layout of a frame\<close>

text \<open>The documented laws of the uuid crate and of prost.\<close>

definition uuid_law :: "knst_env \<Rightarrow> bool" where
  "uuid_law K \<longleftrightarrow> (\<forall>s u. ke_parse_uuid K s = Some u \<longrightarrow> length u = 16)"

definition content_law :: "knst_env \<Rightarrow> bool" where
  "content_law K \<longleftrightarrow> (\<forall>s. ke_decode_content K (ke_encode_content K s) = Some (Some s))"

definition frame_uuid :: "knst_env \<Rightarrow> string \<Rightarrow> bytes" where
  "frame_uuid K message_id = (case ke_parse_uuid K message_id of Some u \<Rightarrow> u | None \<Rightarrow> replicate 16 0)"

lemma length_frame_uuid: "uuid_law K \<Longrightarrow> length (frame_uuid K i) = 16"
  by (auto simp: frame_uuid_def uuid_law_def split: option.split)

lemma frame_whole_split:
  "frame_whole K p ct i = MAGIC @ [VERSION, ct] @ frame_uuid K i @ be_bytes 2 0 @ be_bytes 2 1
     @ be_bytes 4 (length p) @ p"
  by (simp add: frame_whole_def frame_uuid_def)

lemma length_MAGIC [simp]: "length MAGIC = 4"
  by (simp add: MAGIC_def)

lemma frame_whole_layout:
  assumes "uuid_law K"
  shows "take 4 (frame_whole K p ct i) = MAGIC" "frame_whole K p ct i ! 4 = VERSION"
    "frame_whole K p ct i ! 5 = ct" "take 16 (drop 6 (frame_whole K p ct i)) = frame_uuid K i"
    "take 4 (drop 22 (frame_whole K p ct i)) = be_bytes 2 0 @ be_bytes 2 1"
    "take 4 (drop 26 (frame_whole K p ct i)) = be_bytes 4 (length p)"
    "drop HEADER_SIZE (frame_whole K p ct i) = p" "length (frame_whole K p ct i) = HEADER_SIZE + length p"
  using length_frame_uuid [OF assms, of i]
  by (simp_all add: frame_whole_split nth_append HEADER_SIZE_def)

lemma is_frame_frame_whole: "uuid_law K \<Longrightarrow> is_frame (frame_whole K p ct i)"
  by (simp add: is_frame_def frame_whole_layout)

lemma decode_text_frame_whole:
  assumes "uuid_law K" "\<not> is_silent_type (ke_types K) ct" "length p < 2 ^ 32"
  shows "decode_text K (frame_whole K p ct i) =
     (case ke_decode_content K p of Some (Some s) \<Rightarrow> s | _ \<Rightarrow> from_utf8_lossy p)"
  using assms frame_whole_layout(8) [OF assms(1), of p ct i]
  by (simp add: decode_text_def is_frame_frame_whole frame_whole_layout(3,6,7) be_val_be_bytes Let_def
      split: option.split)

text \<open>C24. Chat text round trips: what \<open>encode_text\<close> frames, \<open>decode_text\<close> shows again, and the
  header carries the type, the message uuid and the payload length; text that was never framed
  is shown as it is.\<close>

theorem knst_text_roundtrip:
  assumes "uuid_law K" "content_law K" "ct_distinct (ke_types K)" "length (ke_encode_content K s) < 2 ^ 32"
  shows "decode_text K (encode_text K s i) = s
     \<and> is_frame (encode_text K s i) \<and> encode_text K s i ! 5 = ct_e2ee_signal (ke_types K)
     \<and> take 16 (drop 6 (encode_text K s i)) = frame_uuid K i
     \<and> length (encode_text K s i) = HEADER_SIZE + be_val (take 4 (drop 26 (encode_text K s i)))
     \<and> (is_str t \<and> \<not> is_frame (str_bytes t) \<longrightarrow> decode_text K (str_bytes t) = t)"
proof -
  have "\<not> is_silent_type (ke_types K) (ct_e2ee_signal (ke_types K))"
    by (simp add: is_silent_type_def disposition_def)
  from decode_text_frame_whole [OF assms(1) this assms(4)]
  have "decode_text K (encode_text K s i) = s"
    using assms(2) by (simp add: encode_text_def content_law_def)
  then show ?thesis
    using assms(4) by (simp add: encode_text_def is_frame_frame_whole [OF assms(1)]
        frame_whole_layout [OF assms(1)] be_val_be_bytes decode_text_def from_utf8_lossy_str)
qed

text \<open>A codec that satisfies the laws: uuids are not parsed, the content codec is the identity.\<close>

definition sample_knst :: knst_env where
  "sample_knst = \<lparr>ke_types = sample_types, ke_parse_uuid = (\<lambda>_. None), ke_encode_content = str_bytes,
     ke_decode_content = (\<lambda>b. Some (Some (bytes_str b))), ke_encode_control = str_bytes\<rparr>"

lemma sample_knst_laws: "uuid_law sample_knst" "content_law sample_knst" "ct_distinct (ke_types sample_knst)"
  by (simp_all add: sample_knst_def uuid_law_def content_law_def sample_types_distinct)

theorem knst_text_roundtrip_witness:
  "decode_text sample_knst (encode_text sample_knst ''hello'' ''id'') = ''hello''"
  using knst_text_roundtrip [OF sample_knst_laws, of "''hello''" "''id''" "[]"]
  by (simp add: sample_knst_def)

text \<open>A control payload never becomes a bubble: whatever bytes a frame with a silent type
  byte holds, it decodes to the empty text; the session ping is such a frame for every message
  id, and none of the types that belong in the transcript is silent.\<close>

theorem knst_control_is_silent:
  assumes "ct_distinct (ke_types K)"
  shows "(\<forall>data. is_frame data \<and> disposition (ke_types K) (data ! 5) = SilentControl \<longrightarrow> decode_text K data = [])
     \<and> (uuid_law K \<longrightarrow> is_frame (encode_session_ping K i) \<and> decode_text K (encode_session_ping K i) = [])
     \<and> disposition (ke_types K) (ct_e2ee_signal (ke_types K)) = TranscriptIncoming
     \<and> disposition (ke_types K) (ct_sender_sync (ke_types K)) = TranscriptOwnDevice"
proof -
  have silent: "is_frame data \<Longrightarrow> disposition (ke_types K) (data ! 5) = SilentControl \<Longrightarrow> decode_text K data = []" for data
    by (simp add: decode_text_def is_silent_type_def)
  have ping: "disposition (ke_types K) (ct_session_ping (ke_types K)) = SilentControl"
    using assms by (auto simp: disposition_def ct_distinct_def ct_list_def)
  have sync: "disposition (ke_types K) (ct_sender_sync (ke_types K)) = TranscriptOwnDevice"
    using assms by (auto simp: disposition_def ct_distinct_def ct_list_def)
  have "uuid_law K \<Longrightarrow> is_frame (encode_session_ping K i) \<and> decode_text K (encode_session_ping K i) = []"
    using silent [of "encode_session_ping K i"] ping
    by (simp add: encode_session_ping_def is_frame_frame_whole frame_whole_layout(3))
  then show ?thesis using silent sync by (simp add: disposition_def)
qed

theorem knst_control_is_silent_witness:
  "decode_text sample_knst (encode_session_ping sample_knst ''id'') = []"
  using knst_control_is_silent [OF sample_knst_laws(3)] sample_knst_laws(1) by blast

end
