(* ===== verification/Orchestrator.thy ===== *)
theory Orchestrator
  imports Bridge Knst
begin

text \<open>
  \<open>orchestrator_task.rs\<close>: the actor that owns the crypto core's \<open>Orchestrator\<close> and carries out
  its actions. The core is code of another crate: the record \<open>core\<close> holds the functions the
  actor calls on its state \<open>'o\<close>. Time, randomness and the fetch of a key bundle are functions of
  a position that every use advances. A background job (a sleep, a fetch) is recorded when it is
  spawned and completes as a step of its own.
\<close>

section \<open>Events and actions of the core\<close>

datatype incoming_event =
    MessageReceived string string bytes u32 bytes u32 bool byte
      \<comment> \<open>message id, from, data, message number, kem ciphertext, one-time key, control, type\<close>
  | AckReceived string
  | NetworkReconnected
  | AppLaunched
  | ActiveChatChanged string bool
  | OutgoingMessage string string bytes byte   \<comment> \<open>contact, message id, plaintext, type\<close>
  | SessionInitCompleted string bytes
  | SessionLoaded string "bytes option"
  | KeyBundleFetched string string
  | AckDbResult string bool
  | TimerFired string

datatype action =
    InitSession string string                  \<comment> \<open>contact, bundle\<close>
  | DecryptMessage
  | EncryptMessage
  | ApplyPQContribution
  | ArchiveSession
  | MessageDecrypted string string bytes       \<comment> \<open>contact, message id, plaintext\<close>
  | CallSignalDecrypted
  | EndSessionSuppressed
  | MessageQueuedPendingInit
  | SessionHealNeeded string string            \<comment> \<open>contact, role\<close>
  | HealSuppressed string u64
  | SaveSessionToSecureStore string bytes
  | LoadSessionFromSecureStore string
  | PersistMessage string
  | PersistAck string u64
  | PruneAckStore u64
  | MarkMessageDelivered string
  | CheckAckInDb string
  | FetchPublicKeyBundle string
  | SendEncryptedMessage string bytes string byte  \<comment> \<open>to, payload, message id, type\<close>
  | SendReceipt string string
  | SendEndSession string
  | SendHeartbeat string
  | NotifyNewMessage string string
  | NotifySessionCreated string
  | NotifyError string string
  | NotifyLinkedDevicesOfSessionReset
  | ScheduleTimer string u64
  | CancelTimer string
  | SessionTerminated string bytes

record session_init_bundle =
  si_x3dh :: x3dh_bundle
  si_kyber_pre_key_public :: "bytes option"
  si_kyber_one_time_prekey_public :: "bytes option"
  si_kyber_one_time_prekey_id :: "u32 option"

record 'o core =
  co_handle_event :: "'o \<Rightarrow> incoming_event \<Rightarrow> 'o \<times> action list"
  co_pending_count :: "'o \<Rightarrow> string \<Rightarrow> nat"
  co_peek :: "'o \<Rightarrow> string \<Rightarrow> bytes option"
  co_pop_first :: "'o \<Rightarrow> string \<Rightarrow> 'o \<times> string option"
  co_take_heal :: "'o \<Rightarrow> string \<Rightarrow> 'o \<times> bytes option"
  co_init_receiving :: "'o \<Rightarrow> string \<Rightarrow> bytes \<Rightarrow> bytes \<Rightarrow> 'o \<times> (string + bytes)"
  co_init_session :: "'o \<Rightarrow> string \<Rightarrow> session_init_bundle \<Rightarrow> 'o \<times> (string + string)"
  co_has_session :: "'o \<Rightarrow> string \<Rightarrow> bool"
  co_forget :: "'o \<Rightarrow> string \<Rightarrow> 'o"
  co_export :: "'o \<Rightarrow> string + bytes"

record orch_env =
  oe_user :: string
  oe_device :: string
  oe_knst :: knst_env
  oe_rng :: "nat \<Rightarrow> bytes"                                \<comment> \<open>16 bytes of \<open>OsRng\<close>\<close>
  oe_clock :: "nat \<Rightarrow> u64"                                \<comment> \<open>milliseconds since the epoch\<close>
  oe_fetch :: "nat \<Rightarrow> string \<Rightarrow> string + string"           \<comment> \<open>\<open>fetch_bundle_json\<close>\<close>
  oe_parse_bundle :: "string \<Rightarrow> string + session_init_bundle" \<comment> \<open>\<open>serde_json::from_str\<close>\<close>

section \<open>State\<close>

datatype job = SleepJob u64 incoming_event | FetchJob string

record 'o task =
  tk_core :: 'o
  tk_db :: db
  tk_cursor :: cursor_tracker
  tk_stream :: "stream_cmd list"          \<comment> \<open>what the stream worker was handed\<close>
  tk_stream_full :: "bool list"
  tk_ui :: "bridge_event list"
  tk_inbox :: "incoming_event list"       \<comment> \<open>the channel of \<open>tx\<close> and \<open>self_tx\<close>\<close>
  tk_jobs :: "job list"
  tk_aborted :: "nat list"
  tk_timers :: "(string, nat) Map.map"
  tk_established :: "(string, u64) Map.map" \<comment> \<open>\<open>session_established_at_ms\<close>\<close>
  tk_used :: nat

text \<open>\<open>follow_ups\<close> and \<open>session_inited\<close> of one dispatch cycle.\<close>

record cycle =
  cy_follow_ups :: "incoming_event list"
  cy_inited :: "string set"

definition new_cycle :: cycle where
  "new_cycle = \<lparr>cy_follow_ups = [], cy_inited = {}\<rparr>"

definition ui :: "bridge_event \<Rightarrow> 'o task \<Rightarrow> 'o task" where
  "ui e t = t\<lparr>tk_ui := tk_ui t @ [e]\<rparr>"

definition self_send :: "incoming_event \<Rightarrow> 'o task \<Rightarrow> 'o task" where
  "self_send e t = t\<lparr>tk_inbox := tk_inbox t @ [e]\<rparr>"

definition stream_try_send :: "envelope \<Rightarrow> 'o task \<Rightarrow> 'o task" where
  "stream_try_send env t =
     (let (fs, q) = try_send (tk_stream_full t) (tk_stream t) (CmdSend env)
      in t\<lparr>tk_stream_full := fs, tk_stream := q\<rparr>)"

definition spawn :: "job \<Rightarrow> 'o task \<Rightarrow> 'o task" where
  "spawn j t = t\<lparr>tk_jobs := tk_jobs t @ [j]\<rparr>"

section \<open>Helpers\<close>

definition hex_digit :: "nat \<Rightarrow> char" where
  "hex_digit n = (if n < 10 then char_of (48 + n) else char_of (87 + n))"

text \<open>\<open>{:0wx}\<close> for a value below \<open>16 ^ w\<close>.\<close>

fun hex_fixed :: "nat \<Rightarrow> nat \<Rightarrow> string" where
  "hex_fixed 0 v = []"
| "hex_fixed (Suc w) v = hex_fixed w (v div 16) @ [hex_digit (v mod 16)]"

definition uuid_v4 :: "bytes \<Rightarrow> string" where
  "uuid_v4 b =
     (let b = b[6 := or (and (b ! 6) 0x0F) 0x40]; b = b[8 := or (and (b ! 8) 0x3F) 0x80]
      in hex_fixed 8 (be_val (take 4 b)) @ ''-'' @ hex_fixed 4 (be_val (take 2 (drop 4 b))) @ ''-''
         @ hex_fixed 4 (be_val (take 2 (drop 6 b))) @ ''-'' @ hex_fixed 4 (be_val (take 2 (drop 8 b)))
         @ ''-'' @ hex_fixed 12 (be_val (drop 10 b)))"

definition fresh_uuid :: "orch_env \<Rightarrow> 'o task \<Rightarrow> string \<times> 'o task" where
  "fresh_uuid E t = (uuid_v4 (oe_rng E (tk_used t)), t\<lparr>tk_used := tk_used t + 1\<rparr>)"

definition now_ms_u64 :: "orch_env \<Rightarrow> 'o task \<Rightarrow> u64 \<times> 'o task" where
  "now_ms_u64 E t = (oe_clock E (tk_used t), t\<lparr>tk_used := tk_used t + 1\<rparr>)"

definition now_ms :: "orch_env \<Rightarrow> 'o task \<Rightarrow> i64 \<times> 'o task" where
  "now_ms E t = (let (n, t) = now_ms_u64 E t in (min (uint n) i64_max, t))"

definition fetch_bundle :: "orch_env \<Rightarrow> string \<Rightarrow> 'o task \<Rightarrow> (string + string) \<times> 'o task" where
  "fetch_bundle E user t = (oe_fetch E (tk_used t) user, t\<lparr>tk_used := tk_used t + 1\<rparr>)"

definition content_type_from_u8 :: "content_types \<Rightarrow> byte \<Rightarrow> byte" where
  "content_type_from_u8 T v =
     (if v = 1 then ct_e2ee_signal T else if v = 12 then ct_call_signal T
      else if v = 20 then ct_key_exchange T else if v = 21 then ct_session_reset T
      else if v = 24 then ct_session_reset_init T else ct_e2ee_signal T)"

definition build_envelope ::
  "string \<Rightarrow> string \<Rightarrow> string \<Rightarrow> bytes \<Rightarrow> string \<Rightarrow> byte \<Rightarrow> envelope" where
  "build_envelope from_user from_device to_user payload message_id content_type =
     envelope_default\<lparr>
       env_sender := Some \<lparr>ur_user_id = from_user, ur_domain = None, ur_display_name = None\<rparr>,
       env_sender_device := Some \<lparr>dr_user = None, dr_device_id = from_device\<rparr>,
       env_recipient := Some \<lparr>ur_user_id = to_user, ur_domain = None, ur_display_name = None\<rparr>,
       env_content_type := uint content_type,
       env_message_id_type := Some (MessageId message_id),
       env_encrypted_payload := payload,
       env_conversation_id :=
         (let (a, b) = (if from_user < to_user then (from_user, to_user) else (to_user, from_user))
          in ''direct:'' @ a @ '':'' @ b)\<rparr>"

definition build_control_envelope ::
  "string \<Rightarrow> string \<Rightarrow> string \<Rightarrow> byte \<Rightarrow> bytes \<Rightarrow> string \<Rightarrow> envelope" where
  "build_control_envelope from_user from_device to_user content_type payload message_id =
     build_envelope from_user from_device to_user payload message_id content_type"

definition persist_inbound :: "string \<Rightarrow> stored_message \<Rightarrow> 'o task \<Rightarrow> 'o task" where
  "persist_inbound message_id msg t =
     (case store_inbound_message (tk_db t) msg of
        (d, Err _) \<Rightarrow> t\<lparr>tk_db := d\<rparr>
      | (d, Ok _) \<Rightarrow>
          (let (c, d) = tracker_commit (tk_cursor t) d message_id in t\<lparr>tk_db := d, tk_cursor := c\<rparr>))"

definition apply_secure_store_save :: "db \<Rightarrow> string \<Rightarrow> bytes \<Rightarrow> db \<times> (string + unit)" where
  [simp]: "apply_secure_store_save d key data = secure_save_or_delete d key data"

definition apply_session_terminated :: "db \<Rightarrow> string \<Rightarrow> bytes \<Rightarrow> db \<times> (string + unit)" where
  "apply_session_terminated d contact_id archive_bytes =
     (case secure_save d (''archive_'' @ contact_id) archive_bytes of
        (d, Err e) \<Rightarrow> (d, Err e)
      | (d, Ok _) \<Rightarrow>
          (case secure_delete d (''session_'' @ contact_id) of
             (d, Err e) \<Rightarrow> (d, Err e)
           | (d, Ok _) \<Rightarrow> (d, Ok ())))"

text \<open>\<open>fetch_bundle_json\<close>: the bundle of the key service in the form \<open>InitSession\<close> carries; \<open>show\<close> is
  \<open>serde_json::to_string\<close>.\<close>

definition session_bundle_of :: "fetched_bundle \<Rightarrow> session_init_bundle" where
  "session_bundle_of fetched =
     \<lparr>si_x3dh = fb_x3dh fetched, si_kyber_pre_key_public = fb_kyber_pre_key fetched,
      si_kyber_one_time_prekey_public = fb_kyber_one_time_prekey fetched,
      si_kyber_one_time_prekey_id = fb_kyber_one_time_prekey_id fetched\<rparr>"

definition fetch_bundle_json ::
  "grpc_env \<Rightarrow> rpc_codec \<Rightarrow> (session_init_bundle \<Rightarrow> string) \<Rightarrow> grpc_client \<Rightarrow> string
    \<Rightarrow> grpc_client \<times> (string + string)" where
  "fetch_bundle_json G C show c user_id =
     (case get_pre_key_bundle G C c user_id of
        (c, Err e) \<Rightarrow> (c, Err (grpc_error_show e))
      | (c, Ok fetched) \<Rightarrow> (c, Ok (show (session_bundle_of fetched))))"

definition init_initiator_from_json ::
  "'o core \<Rightarrow> orch_env \<Rightarrow> string \<Rightarrow> string \<Rightarrow> 'o task \<Rightarrow> 'o task \<times> (string + string)" where
  "init_initiator_from_json K E contact_id bundle_json t =
     (case oe_parse_bundle E bundle_json of
        Err e \<Rightarrow> (t, Err e)
      | Ok bundle \<Rightarrow>
          (let (core, r) = co_init_session K (tk_core t) contact_id bundle
           in (t\<lparr>tk_core := core\<rparr>, r)))"

text \<open>What the key service answered is what the core starts the session with, the post-quantum keys included.\<close>

lemma fetched_bundle_reaches_core:
  assumes "get_pre_key_bundle G C c user = (c', Ok fetched)" "\<And>b. oe_parse_bundle E (show b) = Ok b"
    and "fetch_bundle_json G C show c user = (c'', Ok json)"
  shows "init_initiator_from_json K E user json t
     = (t\<lparr>tk_core := fst (co_init_session K (tk_core t) user (session_bundle_of fetched))\<rparr>,
        snd (co_init_session K (tk_core t) user (session_bundle_of fetched)))"
  using assms by (auto simp: fetch_bundle_json_def init_initiator_from_json_def split: prod.split)

section \<open>Replays\<close>

record stream_context =
  sc_contact_id :: string
  sc_message_id :: string
  sc_stream_cursor :: "string option"
  sc_content_type :: byte
  sc_msg_num :: u32

definition is_replay_sensitive :: "content_types \<Rightarrow> stream_context \<Rightarrow> bool" where
  "is_replay_sensitive T c \<longleftrightarrow> sc_msg_num c = 0 \<or> sc_content_type c = ct_session_reset T
     \<or> sc_content_type c = ct_session_reset_init T"

definition stream_cursor_millis :: "string option \<Rightarrow> u64 option" where
  "stream_cursor_millis cursor =
     (case cursor of None \<Rightarrow> None
      | Some c \<Rightarrow> (case split_once (CHR 0x2D) c of None \<Rightarrow> None | Some (millis, _) \<Rightarrow> parse_u64 millis))"

definition should_drop_stale_session_replay ::
  "content_types \<Rightarrow> stream_context \<Rightarrow> (string, u64) Map.map \<Rightarrow> bool" where
  "should_drop_stale_session_replay T context established =
     (if \<not> is_replay_sensitive T context then False
      else (case established (sc_contact_id context) of
              None \<Rightarrow> False
            | Some established_at_ms \<Rightarrow>
                (case stream_cursor_millis (sc_stream_cursor context) of
                   None \<Rightarrow> False
                 | Some cursor_ms \<Rightarrow> cursor_ms < established_at_ms)))"

end
