(* ===== verification/Orchestrator_Dispatch.thy ===== *)
theory Orchestrator_Dispatch
  imports Orchestrator
begin

text \<open>
  \<open>dispatch\<close> and the main loop of \<open>orchestrator_task.rs\<close>: one definition per group of arms,
  composed as the source composes them, then the preparation of outgoing events, the commands
  and the turn of the \<open>select!\<close> loop.
\<close>

section \<open>Starting sessions\<close>

text \<open>The first message of a session a peer opened: its plaintext comes with the session and is
  not decrypted again, so it is stored and shown here unless it is a control text.\<close>

definition is_user_text :: "string \<Rightarrow> bool" where
  "is_user_text s \<longleftrightarrow> s \<noteq> [] \<and> hd s \<noteq> CHR 0x00 \<and> \<not> str_contains s ''__session_ping_''
     \<and> \<not> str_contains s ''__heartbeat__''"

definition received_message :: "string \<Rightarrow> string \<Rightarrow> string \<Rightarrow> i64 \<Rightarrow> stored_message" where
  "received_message message_id peer_id txt now =
     \<lparr>sm_id = message_id, sm_peer_id = peer_id, sm_text = txt, sm_direction = ''received'',
      sm_timestamp_ms = now, sm_delivery_status = []\<rparr>"

definition show_received :: "orch_env \<Rightarrow> string \<Rightarrow> string \<Rightarrow> string \<Rightarrow> 'o task \<Rightarrow> 'o task" where
  "show_received E contact_id message_id txt t =
     (let (n, t) = now_ms_u64 E t; now = sint n;
          t = persist_inbound message_id (received_message message_id contact_id txt now) t
      in ui (NewMessage contact_id message_id txt now) t)"

definition surface_first :: "orch_env \<Rightarrow> string \<Rightarrow> string \<Rightarrow> bytes \<Rightarrow> 'o task \<Rightarrow> 'o task" where
  "surface_first E contact_id message_id first_plaintext t =
     (let first_text = decode_text (oe_knst E) first_plaintext
      in if is_user_text first_text then show_received E contact_id message_id first_text t else t)"

text \<open>\<open>pop_first_pending(..).unwrap_or_else(uuid_v4)\<close>.\<close>

definition pop_first_id :: "'o core \<Rightarrow> orch_env \<Rightarrow> string \<Rightarrow> 'o task \<Rightarrow> string \<times> 'o task" where
  "pop_first_id K E contact_id t =
     (let (core, i) = co_pop_first K (tk_core t) contact_id; t = t\<lparr>tk_core := core\<rparr>
      in case i of Some m \<Rightarrow> (m, t) | None \<Rightarrow> fresh_uuid E t)"

definition init_failed :: "string \<Rightarrow> 'o task \<Rightarrow> 'o task" where
  "init_failed e t = ui (BridgeError (''[SESSION_INIT_FAILED] '' @ e)) t"

text \<open>The end of the \<open>InitSession\<close> arm, reached when a session exists.\<close>

definition session_started :: "orch_env \<Rightarrow> string \<Rightarrow> 'o task \<times> cycle \<Rightarrow> 'o task \<times> cycle" where
  "session_started E contact_id s =
     (let (t, cy) = s; (now, t) = now_ms_u64 E t
      in (t\<lparr>tk_established := (tk_established t)(contact_id \<mapsto> now)\<rparr>,
          cy\<lparr>cy_inited := insert contact_id (cy_inited cy),
             cy_follow_ups := cy_follow_ups cy @ [SessionInitCompleted contact_id []]\<rparr>))"

definition init_session_arm ::
  "'o core \<Rightarrow> orch_env \<Rightarrow> string \<Rightarrow> string \<Rightarrow> 'o task \<times> cycle \<Rightarrow> 'o task \<times> cycle" where
  "init_session_arm K E contact_id bundle_json s =
     (let (t, cy) = s
      in if 0 < co_pending_count K (tk_core t) contact_id then
           (case co_peek K (tk_core t) contact_id of
              Some wp \<Rightarrow>
                (case co_init_receiving K (tk_core t) contact_id (str_bytes bundle_json) wp of
                   (core, Err e) \<Rightarrow> (t\<lparr>tk_core := core\<rparr>, cy)
                 | (core, Ok first_plaintext) \<Rightarrow>
                     (let (first_id, t) = pop_first_id K E contact_id (t\<lparr>tk_core := core\<rparr>);
                          cy = cy\<lparr>cy_inited := insert contact_id (cy_inited cy)\<rparr>;
                          t = surface_first E contact_id first_id first_plaintext t
                      in session_started E contact_id (t, cy)))
            | None \<Rightarrow>
                (case init_initiator_from_json K E contact_id bundle_json t of
                   (t, Err e) \<Rightarrow> (init_failed e t, cy)
                 | (t, Ok _) \<Rightarrow> session_started E contact_id (t, cy)))
         else
           (case init_initiator_from_json K E contact_id bundle_json t of
              (t, Err e) \<Rightarrow> (init_failed e t, cy)
            | (t, Ok _) \<Rightarrow> session_started E contact_id (t, cy)))"

definition message_decrypted_arm ::
  "orch_env \<Rightarrow> string \<Rightarrow> string \<Rightarrow> bytes \<Rightarrow> 'o task \<Rightarrow> 'o task" where
  "message_decrypted_arm E contact_id message_id plaintext t =
     show_received E contact_id message_id (decode_text (oe_knst E) plaintext) t"

section \<open>Healing\<close>

definition send_session_reset :: "orch_env \<Rightarrow> string \<Rightarrow> 'o task \<Rightarrow> 'o task" where
  "send_session_reset E contact_id t =
     (let (i, t) = fresh_uuid E t
      in stream_try_send (build_control_envelope (oe_user E) (oe_device E) contact_id
           (ct_session_reset (ke_types (oe_knst E))) (replicate 16 0) i) t)"

definition session_ping :: "orch_env \<Rightarrow> string \<Rightarrow> string \<Rightarrow> incoming_event" where
  "session_ping E contact_id ping_id =
     OutgoingMessage contact_id ping_id (encode_session_ping (oe_knst E) ping_id) 0"

definition heal_initiator ::
  "'o core \<Rightarrow> orch_env \<Rightarrow> string \<Rightarrow> 'o task \<times> cycle \<Rightarrow> 'o task \<times> cycle" where
  "heal_initiator K E contact_id s =
     (let (t, cy) = s; t = send_session_reset E contact_id t
      in case fetch_bundle E contact_id t of
           (Err e, t) \<Rightarrow> (t, cy)
         | (Ok bundle_json, t) \<Rightarrow>
             (case init_initiator_from_json K E contact_id bundle_json t of
                (t, Err e) \<Rightarrow> (t, cy)
              | (t, Ok _) \<Rightarrow>
                  (let (ping_id, t) = fresh_uuid E t
                   in (t, cy\<lparr>cy_follow_ups := cy_follow_ups cy
                          @ [SessionInitCompleted contact_id [], session_ping E contact_id ping_id]\<rparr>))))"

definition heal_responder ::
  "'o core \<Rightarrow> orch_env \<Rightarrow> string \<Rightarrow> 'o task \<times> cycle \<Rightarrow> 'o task \<times> cycle" where
  "heal_responder K E contact_id s =
     (let (t, cy) = s; (core, wire_payload) = co_take_heal K (tk_core t) contact_id;
          t = t\<lparr>tk_core := core\<rparr>
      in case wire_payload of
           None \<Rightarrow> (t, cy)
         | Some wp \<Rightarrow>
             (case fetch_bundle E contact_id t of
                (Err e, t) \<Rightarrow> (t, cy)
              | (Ok bundle_json, t) \<Rightarrow>
                  (case co_init_receiving K (tk_core t) contact_id (str_bytes bundle_json) wp of
                     (core, Ok first_plaintext) \<Rightarrow>
                       (let (first_id, t) = pop_first_id K E contact_id (t\<lparr>tk_core := core\<rparr>);
                            t = surface_first E contact_id first_id first_plaintext t
                        in (t, cy\<lparr>cy_follow_ups := cy_follow_ups cy @ [SessionInitCompleted contact_id []]\<rparr>))
                   | (core, Err e) \<Rightarrow> (send_session_reset E contact_id (t\<lparr>tk_core := core\<rparr>), cy))))"

definition session_heal_arm ::
  "'o core \<Rightarrow> orch_env \<Rightarrow> string \<Rightarrow> string \<Rightarrow> 'o task \<times> cycle \<Rightarrow> 'o task \<times> cycle" where
  "session_heal_arm K E contact_id role s =
     (if contact_id \<in> cy_inited (snd s) then s
      else if role = ''Initiator'' then heal_initiator K E contact_id s
      else heal_responder K E contact_id s)"

section \<open>Persistence, network, timers\<close>

definition dispatch_storage :: "action \<Rightarrow> 'o task \<times> cycle \<Rightarrow> 'o task \<times> cycle" where
  "dispatch_storage a s =
     (let (t, cy) = s
      in case a of
           SaveSessionToSecureStore key data \<Rightarrow>
             (t\<lparr>tk_db := fst (apply_secure_store_save (tk_db t) key data)\<rparr>, cy)
         | LoadSessionFromSecureStore key \<Rightarrow>
             (let (d, r) = secure_load (tk_db t) key; data = (case r of Ok v \<Rightarrow> v | Err _ \<Rightarrow> None)
              in (t\<lparr>tk_db := d\<rparr>, cy\<lparr>cy_follow_ups := cy_follow_ups cy @ [SessionLoaded key data]\<rparr>))
         | PersistMessage json \<Rightarrow> (t\<lparr>tk_db := fst (persist_record (tk_db t) ''msg'' json)\<rparr>, cy)
         | PersistAck i ts \<Rightarrow> (t\<lparr>tk_db := fst (store_ack (tk_db t) i (sint ts))\<rparr>, cy)
         | PruneAckStore ts \<Rightarrow> (t\<lparr>tk_db := fst (prune_acks (tk_db t) (sint ts))\<rparr>, cy)
         | MarkMessageDelivered i \<Rightarrow> (t\<lparr>tk_db := fst (mark_delivered (tk_db t) i)\<rparr>, cy)
         | CheckAckInDb i \<Rightarrow>
             (let (d, r) = has_ack (tk_db t) i; is_processed = (case r of Ok b \<Rightarrow> b | Err _ \<Rightarrow> False)
              in (t\<lparr>tk_db := d\<rparr>, cy\<lparr>cy_follow_ups := cy_follow_ups cy @ [AckDbResult i is_processed]\<rparr>))
         | SessionTerminated contact_id archive_bytes \<Rightarrow>
             (t\<lparr>tk_db := fst (apply_session_terminated (tk_db t) contact_id archive_bytes),
                tk_established := (tk_established t)(contact_id := None)\<rparr>, cy)
         | _ \<Rightarrow> (t, cy))"

text \<open>A heal that was put off is tried again when its cooldown is over, by a fresh launch event.\<close>

definition heal_suppressed_arm :: "u64 \<Rightarrow> 'o task \<Rightarrow> 'o task" where
  [simp]: "heal_suppressed_arm retry_after_ms t = spawn (SleepJob retry_after_ms AppLaunched) t"

definition dispatch_network :: "orch_env \<Rightarrow> action \<Rightarrow> 'o task \<Rightarrow> 'o task" where
  "dispatch_network E a t =
     (case a of
        HealSuppressed _ retry_after_ms \<Rightarrow> heal_suppressed_arm retry_after_ms t
      | FetchPublicKeyBundle user_id \<Rightarrow> spawn (FetchJob user_id) t
      | SendEncryptedMessage to payload message_id content_type \<Rightarrow>
          stream_try_send (build_envelope (oe_user E) (oe_device E) to payload message_id
            (content_type_from_u8 (ke_types (oe_knst E)) content_type)) t
      | SendEndSession contact_id \<Rightarrow>
          stream_try_send (build_control_envelope (oe_user E) (oe_device E) contact_id
            (ct_session_reset (ke_types (oe_knst E))) [] (''end-session-'' @ contact_id)) t
      | SendHeartbeat contact_id \<Rightarrow>
          (let (message_id, t) = fresh_uuid E t
           in self_send (OutgoingMessage contact_id message_id
                (0 # str_bytes ''HEARTBEAT'' @ [0]) 0) t)
      | ScheduleTimer timer_id delay_ms \<Rightarrow>
          (let h = length (tk_jobs t)
           in spawn (SleepJob delay_ms (TimerFired timer_id)) (t\<lparr>tk_timers := (tk_timers t)(timer_id \<mapsto> h)\<rparr>))
      | CancelTimer timer_id \<Rightarrow>
          (case tk_timers t timer_id of
             None \<Rightarrow> t
           | Some h \<Rightarrow> t\<lparr>tk_timers := (tk_timers t)(timer_id := None), tk_aborted := tk_aborted t @ [h]\<rparr>)
      | _ \<Rightarrow> t)"

definition dispatch_ui :: "orch_env \<Rightarrow> action \<Rightarrow> 'o task \<Rightarrow> 'o task" where
  "dispatch_ui E a t =
     (case a of
        NotifyNewMessage chat_id preview \<Rightarrow>
          (let (now, t) = now_ms E t in ui (NewMessage chat_id [] preview now) t)
      | NotifySessionCreated contact_id \<Rightarrow> ui (SessionReady contact_id) t
      | NotifyError code message \<Rightarrow> ui (BridgeError (''['' @ code @ ''] '' @ message)) t
      | _ \<Rightarrow> t)"

definition dispatch ::
  "'o core \<Rightarrow> orch_env \<Rightarrow> action \<Rightarrow> 'o task \<times> cycle \<Rightarrow> 'o task \<times> cycle" where
  "dispatch K E a s =
     (let (t, cy) = s
      in case a of
           InitSession contact_id bundle_json \<Rightarrow> init_session_arm K E contact_id bundle_json s
         | MessageDecrypted contact_id message_id plaintext \<Rightarrow>
             (message_decrypted_arm E contact_id message_id plaintext t, cy)
         | SessionHealNeeded contact_id role \<Rightarrow> session_heal_arm K E contact_id role s
         | SaveSessionToSecureStore _ _ \<Rightarrow> dispatch_storage a s
         | LoadSessionFromSecureStore _ \<Rightarrow> dispatch_storage a s
         | PersistMessage _ \<Rightarrow> dispatch_storage a s
         | PersistAck _ _ \<Rightarrow> dispatch_storage a s
         | PruneAckStore _ \<Rightarrow> dispatch_storage a s
         | MarkMessageDelivered _ \<Rightarrow> dispatch_storage a s
         | CheckAckInDb _ \<Rightarrow> dispatch_storage a s
         | SessionTerminated _ _ \<Rightarrow> dispatch_storage a s
         | NotifyNewMessage _ _ \<Rightarrow> (dispatch_ui E a t, cy)
         | NotifySessionCreated _ \<Rightarrow> (dispatch_ui E a t, cy)
         | NotifyError _ _ \<Rightarrow> (dispatch_ui E a t, cy)
         | _ \<Rightarrow> (dispatch_network E a t, cy))"

section \<open>Events\<close>

definition dispatch_all ::
  "'o core \<Rightarrow> orch_env \<Rightarrow> action list \<Rightarrow> 'o task \<times> cycle \<Rightarrow> 'o task \<times> cycle" where
  "dispatch_all K E as s = foldl (\<lambda>s a. dispatch K E a s) s as"

definition core_event :: "'o core \<Rightarrow> incoming_event \<Rightarrow> 'o task \<Rightarrow> action list \<times> 'o task" where
  "core_event K e t =
     (let (core, as) = co_handle_event K (tk_core t) e in (as, t\<lparr>tk_core := core\<rparr>))"

text \<open>One level of follow-ups: those of the second level are collected nowhere.\<close>

definition follow_up :: "'o core \<Rightarrow> orch_env \<Rightarrow> 'o task \<times> cycle \<Rightarrow> incoming_event \<Rightarrow> 'o task \<times> cycle" where
  "follow_up K E s e =
     (let (t, cy) = s; (as, t) = core_event K e t
      in foldl (\<lambda>(t, cy) a. let (t, cy') = dispatch K E a (t, cy\<lparr>cy_follow_ups := []\<rparr>)
                            in (t, cy\<lparr>cy_inited := cy_inited cy'\<rparr>)) (t, cy) as)"

definition process_event :: "'o core \<Rightarrow> orch_env \<Rightarrow> incoming_event \<Rightarrow> 'o task \<Rightarrow> 'o task" where
  "process_event K E e t =
     (let (as, t) = core_event K e t; (t, cy) = dispatch_all K E as (t, new_cycle)
      in fst (foldl (follow_up K E) (t, cy) (cy_follow_ups cy)))"

text \<open>Events whose follow-ups are dropped.\<close>

definition process_once :: "'o core \<Rightarrow> orch_env \<Rightarrow> incoming_event \<Rightarrow> 'o task \<Rightarrow> 'o task" where
  "process_once K E e t =
     (let (as, t) = core_event K e t in fst (dispatch_all K E as (t, new_cycle)))"

definition establish_session ::
  "'o core \<Rightarrow> orch_env \<Rightarrow> string \<Rightarrow> 'o task \<Rightarrow> 'o task \<times> (string + bool)" where
  "establish_session K E contact_id t =
     (if co_has_session K (tk_core t) contact_id then (t, Ok False)
      else case fetch_bundle E contact_id t of
             (Err e, t) \<Rightarrow> (t, Err (''GetPreKeyBundle: '' @ e))
           | (Ok bundle_json, t) \<Rightarrow>
               (let t = process_event K E (KeyBundleFetched contact_id bundle_json) t
                in (t, if co_has_session K (tk_core t) contact_id then Ok True
                       else Err ''no session after InitSession'')))"

definition wrap_plaintext :: "knst_env \<Rightarrow> bytes \<Rightarrow> string \<Rightarrow> bytes" where
  "wrap_plaintext N plaintext message_id =
     (if is_frame plaintext \<or> (plaintext \<noteq> [] \<and> hd plaintext = 0) then plaintext
      else encode_text N (from_utf8_lossy plaintext) message_id)"

definition prepare_outgoing ::
  "'o core \<Rightarrow> orch_env \<Rightarrow> incoming_event \<Rightarrow> 'o task \<Rightarrow> 'o task \<times> incoming_event option" where
  "prepare_outgoing K E e t =
     (case e of
        ActiveChatChanged contact_id is_active \<Rightarrow>
          if \<not> is_active then (t, Some e)
          else
            let had_inbound = 0 < co_pending_count K (tk_core t) contact_id
            in (case establish_session K E contact_id t of
                  (t, Ok True) \<Rightarrow>
                    if \<not> had_inbound then
                      let (ping_id, t) = fresh_uuid E t
                      in (process_once K E (session_ping E contact_id ping_id) t, Some e)
                    else (t, Some e)
                | (t, Ok False) \<Rightarrow> (t, Some e)
                | (t, Err err) \<Rightarrow> (init_failed err t, Some e))
      | OutgoingMessage contact_id message_id plaintext content_type \<Rightarrow>
          (let wrapped = OutgoingMessage contact_id message_id
                 (wrap_plaintext (oe_knst E) plaintext message_id) content_type
           in if co_has_session K (tk_core t) contact_id then (t, Some wrapped)
              else case establish_session K E contact_id t of
                     (t, Err err) \<Rightarrow> (init_failed err t, None)
                   | (t, Ok _) \<Rightarrow> (t, Some wrapped))
      | _ \<Rightarrow> (t, Some e))"

section \<open>Commands and the main loop\<close>

datatype orch_command =
    ForgetContact string
  | StreamMessage incoming_event stream_context

definition forget_contact :: "'o core \<Rightarrow> orch_env \<Rightarrow> string \<Rightarrow> 'o task \<Rightarrow> 'o task" where
  "forget_contact K E contact_id t =
     (let t = process_once K E (ActiveChatChanged contact_id False) t;
          t = t\<lparr>tk_core := co_forget K (tk_core t) contact_id,
                tk_established := (tk_established t)(contact_id := None)\<rparr>;
          d = (case co_export K (tk_core t) of
                 Ok state \<Rightarrow> fst (secure_save_or_delete (tk_db t) ''construct.orchestrator_state'' state)
               | Err _ \<Rightarrow> tk_db t);
          d = fst (secure_delete d (''session_'' @ contact_id));
          d = fst (secure_delete d (''archive_'' @ contact_id))
      in t\<lparr>tk_db := d\<rparr>)"

definition stream_message :: "'o core \<Rightarrow> orch_env \<Rightarrow> incoming_event \<Rightarrow> stream_context \<Rightarrow> 'o task \<Rightarrow> 'o task" where
  "stream_message K E event context t =
     (if should_drop_stale_session_replay (ke_types (oe_knst E)) context (tk_established t) then
        (let (c, d) = tracker_commit_direct (tk_cursor t) (tk_db t) (sc_stream_cursor context)
         in t\<lparr>tk_cursor := c, tk_db := d\<rparr>)
      else
        process_event K E event
          (t\<lparr>tk_cursor := tracker_note (tk_cursor t) (sc_message_id context) (sc_stream_cursor context)\<rparr>))"

definition handle_command :: "'o core \<Rightarrow> orch_env \<Rightarrow> orch_command \<Rightarrow> 'o task \<Rightarrow> 'o task" where
  "handle_command K E c t =
     (case c of
        ForgetContact contact_id \<Rightarrow> forget_contact K E contact_id t
      | StreamMessage event context \<Rightarrow> stream_message K E event context t)"

text \<open>One event taken from the channel.\<close>

definition run_event :: "'o core \<Rightarrow> orch_env \<Rightarrow> incoming_event \<Rightarrow> 'o task \<Rightarrow> 'o task" where
  "run_event K E e t =
     (case prepare_outgoing K E e t of
        (t, None) \<Rightarrow> t
      | (t, Some e) \<Rightarrow> process_event K E e t)"

text \<open>What the end of a background job does, unless the job was aborted.\<close>

definition finish_job :: "nat \<Rightarrow> string + string \<Rightarrow> 'o task \<Rightarrow> 'o task" where
  "finish_job h fetched t =
     (if length (tk_jobs t) \<le> h \<or> h \<in> set (tk_aborted t) then t
      else case tk_jobs t ! h of
             SleepJob _ e \<Rightarrow> self_send e t
           | FetchJob user_id \<Rightarrow>
               (case fetched of
                  Ok bundle_json \<Rightarrow> self_send (KeyBundleFetched user_id bundle_json) t
                | Err e \<Rightarrow> ui (BridgeError (''[PREKEY_BUNDLE] '' @ e)) t))"

datatype task_input =
    Command orch_command
  | Arrive incoming_event            \<comment> \<open>\<open>OrchestratorHandle::send\<close>\<close>
  | Turn                             \<comment> \<open>the loop takes the next event of the channel\<close>
  | JobDone nat "string + string"

definition task_step :: "'o core \<Rightarrow> orch_env \<Rightarrow> 'o task \<Rightarrow> task_input \<Rightarrow> 'o task" where
  "task_step K E t i =
     (case i of
        Command c \<Rightarrow> handle_command K E c t
      | Arrive e \<Rightarrow> self_send e t
      | Turn \<Rightarrow> (case tk_inbox t of [] \<Rightarrow> t | e # es \<Rightarrow> run_event K E e (t\<lparr>tk_inbox := es\<rparr>))
      | JobDone h r \<Rightarrow> finish_job h r t)"

definition task_run :: "'o core \<Rightarrow> orch_env \<Rightarrow> 'o task \<Rightarrow> task_input list \<Rightarrow> 'o task" where
  "task_run K E = foldl (task_step K E)"

end
