(* ===== verification/Actor_Contract.thy ===== *)
theory Actor_Contract
  imports Orchestrator_Dispatch
begin

text \<open>
  The contract between the actor of \<open>orchestrator_task.rs\<close> and what it writes. The locale \<open>actor_contract\<close>
  collects every way the actor touches the database and the cursor tracker as laws of a relation; inside
  it, each definition of \<open>Orchestrator_Dispatch\<close> is shown to stay within that relation, up to a step of the
  loop. A property of the tables is then an interpretation: \<open>Orchestrator_Props\<close> gives one for the keys of
  the tables, \<open>Delivery\<close> one for the watermark.
\<close>

section \<open>What the actor writes\<close>

definition tables :: "'o task \<Rightarrow> db \<times> cursor_tracker" where
  "tables t = (tk_db t, tk_cursor t)"

text \<open>The keys the crypto core asks to write, which are its own choice.\<close>

definition saves_only :: "(string \<Rightarrow> bool) \<Rightarrow> action \<Rightarrow> bool" where
  "saves_only tame a = (case a of SaveSessionToSecureStore key _ \<Rightarrow> tame key | _ \<Rightarrow> True)"

definition core_saves_only :: "(string \<Rightarrow> bool) \<Rightarrow> 'o core \<Rightarrow> bool" where
  "core_saves_only tame K \<longleftrightarrow> (\<forall>o' e. list_all (saves_only tame) (snd (co_handle_event K o' e)))"

lemma tables_same [simp]:
  "tables (ui e t) = tables t" "tables (self_send v t) = tables t" "tables (spawn j t) = tables t"
  "tables (stream_try_send x t) = tables t" "tables (snd (fresh_uuid E t)) = tables t"
  "tables (snd (now_ms_u64 E t)) = tables t" "tables (snd (now_ms E t)) = tables t"
  "tables (snd (fetch_bundle E u t)) = tables t" "tables (snd (pop_first_id K E c t)) = tables t"
  "tables (init_failed m t) = tables t" "tables (send_session_reset E c t) = tables t"
  "tables (fst (init_initiator_from_json K E c b t)) = tables t"
  by (simp_all add: tables_def ui_def self_send_def spawn_def stream_try_send_def fresh_uuid_def now_ms_u64_def
      now_ms_def fetch_bundle_def pop_first_id_def init_failed_def send_session_reset_def
      init_initiator_from_json_def Let_def case_prod_beta split: option.split sum.split)

lemma tables_update [simp]:
  "tables (t\<lparr>tk_core := o'\<rparr>) = tables t" "tables (t\<lparr>tk_inbox := es\<rparr>) = tables t"
  "tables (t\<lparr>tk_established := m\<rparr>) = tables t" "tables (t\<lparr>tk_used := n\<rparr>) = tables t"
  "tables (t\<lparr>tk_db := d\<rparr>) = (d, tk_cursor t)" "tables (t\<lparr>tk_cursor := c\<rparr>) = (tk_db t, c)"
  by (simp_all add: tables_def)

lemma tables_of:
  "init_initiator_from_json K E c b t = (t', r) \<Longrightarrow> tables t' = tables t"
  "fetch_bundle E c t = (f, t') \<Longrightarrow> tables t' = tables t"
  "fresh_uuid E t = (i, t') \<Longrightarrow> tables t' = tables t"
  "pop_first_id K E c t = (i, t') \<Longrightarrow> tables t' = tables t"
  "now_ms_u64 E t = (n, t') \<Longrightarrow> tables t' = tables t"
  using tables_same(12) [of K E c b t] tables_same(8) [of E c t] tables_same(5) [of E t]
    tables_same(9) [of K E c t] tables_same(6) [of E t] by simp_all

lemma core_event_tables [simp]: "tables (snd (core_event K e t)) = tables t"
  by (simp add: core_event_def Let_def case_prod_beta)

lemma core_event_saves: "core_saves_only tame K \<Longrightarrow> list_all (saves_only tame) (fst (core_event K e t))"
  by (simp add: core_saves_only_def core_event_def Let_def case_prod_beta)

lemma session_started_tables [simp]: "tables (fst (session_started E c s)) = tables (fst s)"
  by (cases s) (simp add: session_started_def Let_def case_prod_beta)

lemma dispatch_network_tables [simp]: "tables (dispatch_network E a t) = tables t"
  by (cases a) (simp_all add: dispatch_network_def tables_def Let_def case_prod_beta spawn_def stream_try_send_def
      fresh_uuid_def self_send_def split: option.split)

lemma dispatch_ui_tables [simp]: "tables (dispatch_ui E a t) = tables t"
  by (cases a) (simp_all add: dispatch_ui_def Let_def case_prod_beta)

lemma heal_initiator_tables [simp]: "tables (fst (heal_initiator K E c s)) = tables (fst s)"
  by (cases s) (auto simp: heal_initiator_def Let_def dest!: tables_of split: prod.split sum.split)

lemma finish_job_tables [simp]: "tables (finish_job h r t) = tables t"
  by (simp add: finish_job_def split: job.split sum.split)

section \<open>The contract\<close>

locale actor_contract =
  fixes R :: "db \<times> cursor_tracker \<Rightarrow> db \<times> cursor_tracker \<Rightarrow> bool" and tame :: "string \<Rightarrow> bool"
  assumes R_refl: "R s s"
    and R_trans: "R s s' \<Longrightarrow> R s' s'' \<Longrightarrow> R s s''"
    and R_reading: "R (d, c) (d\<lparr>faults := fs\<rparr>, c)"
    and R_save: "tame k \<Longrightarrow> R (d, c) (fst (secure_save d k v), c)"
    and R_remove: "tame k \<Longrightarrow> R (d, c) (fst (secure_delete d k), c)"
    and R_record: "R (d, c) (fst (persist_record d tn j), c)"
    and R_ack: "R (d, c) (fst (store_ack d i ts), c)"
    and R_prune: "R (d, c) (fst (prune_acks d ts), c)"
    and R_delivered: "R (d, c) (fst (mark_delivered d i), c)"
    and R_refused: "store_inbound_message d m = (d', Err e) \<Longrightarrow> R (d, c) (d', c)"
    and R_stored: "store_inbound_message d m = (d', Ok ()) \<Longrightarrow> direction_ok (sm_direction m) \<Longrightarrow>
        tracker_commit c d' (sm_id m) = (c', d'') \<Longrightarrow> R (d, c) (d'', c')"
    and tame_keys: "tame (''session_'' @ u)" "tame (''archive_'' @ u)" "tame ''construct.orchestrator_state''"
begin

lemma R_read: "R (d, c) (fst (stmt d (\<lambda>d. (d, g d))), c)"
proof (cases "stmt d (\<lambda>d. (d, g d))")
  case (Pair d' r)
  then show ?thesis using stmt_read [OF Pair] R_reading by auto
qed

lemma R_save_or_delete: "tame k \<Longrightarrow> R (d, c) (fst (secure_save_or_delete d k v), c)"
  by (simp add: secure_save_or_delete_def R_save R_remove)

lemma show_received: "R (tables t) (tables (show_received E c m s t))"
proof -
  obtain n t1 where n: "now_ms_u64 E t = (n, t1)" by fastforce
  let ?m = "received_message m c s (sint n)"
  obtain d r where st: "store_inbound_message (tk_db t1) ?m = (d, r)" by fastforce
  have m: "sm_id ?m = m" "direction_ok (sm_direction ?m)" by (simp_all add: received_message_def direction_ok_def)
  have "R (tables t1) (tables (persist_inbound m ?m t1))"
  proof (cases r)
    case (Inl e)
    then show ?thesis using R_refused [OF st [unfolded Inl], of "tk_cursor t1"]
      by (simp add: persist_inbound_def st tables_def)
  next
    case (Inr u)
    obtain c' d' where k: "tracker_commit (tk_cursor t1) d m = (c', d')" by fastforce
    then show ?thesis using R_stored [OF _ m(2), of "tk_db t1" d "tk_cursor t1" c' d'] st Inr m(1)
      by (simp add: persist_inbound_def tables_def)
  qed
  then show ?thesis using tables_of(5) [OF n] by (simp add: show_received_def n Let_def)
qed

lemma surface_first: "R (tables t) (tables (surface_first E c m p t))"
  by (simp add: surface_first_def Let_def show_received R_refl)

lemma session_terminated: "R (d, c) (fst (apply_session_terminated d u b), c)"
proof -
  obtain d1 r1 where s: "secure_save d (''archive_'' @ u) b = (d1, r1)" by fastforce
  have "R (d, c) (d1, c)" using R_save [OF tame_keys(2), of d c u b] s by simp
  moreover have "R (d1, c) (fst (secure_delete d1 (''session_'' @ u)), c)" by (rule R_remove [OF tame_keys(1)])
  ultimately show ?thesis unfolding apply_session_terminated_def s
    by (cases r1; cases "secure_delete d1 (''session_'' @ u)"; cases "snd (secure_delete d1 (''session_'' @ u))")
      (auto intro: R_trans)
qed

lemma surface_popped:
  "R (tables t) (tables (surface_first E c m p (snd (pop_first_id K E c (t\<lparr>tk_core := core\<rparr>)))))"
  using surface_first [of "snd (pop_first_id K E c (t\<lparr>tk_core := core\<rparr>))" E c m p] by simp

lemma init_session: "R (tables (fst s)) (tables (fst (init_session_arm K E c b s)))"
  by (cases s) (auto simp: init_session_arm_def Let_def case_prod_beta R_refl surface_popped
      split: option.split sum.split)

lemma session_heal: "R (tables (fst s)) (tables (fst (session_heal_arm K E c r s)))"
proof (cases s)
  case (Pair t cy)
  have "R (tables t) (tables (fst (heal_responder K E c (t, cy))))"
  proof (cases "co_take_heal K (tk_core t) c")
    case (Pair core w)
    let ?t = "t\<lparr>tk_core := core\<rparr>"
    obtain f t1 where f: "fetch_bundle E c ?t = (f, t1)" by fastforce
    have t1: "tables t1 = tables t" using tables_of(2) [OF f] by simp
    show ?thesis
      using t1 surface_popped [of t1]
      by (auto simp: heal_responder_def Pair f Let_def case_prod_beta R_refl split: option.split sum.split)
  qed
  then show ?thesis by (simp add: Pair session_heal_arm_def R_refl)
qed

lemma dispatch_storage:
  assumes "saves_only tame a"
  shows "R (tables (fst s)) (tables (fst (dispatch_storage a s)))"
proof -
  have reads: "R (d, c) (fst (secure_load d k), c)" "R (d, c) (fst (has_ack d k), c)" for d c k
    unfolding secure_load_def has_ack_def by (rule R_read)+
  show ?thesis
    using assms by (cases s; cases a)
      (simp_all add: dispatch_storage_def Let_def case_prod_beta tables_def reads session_terminated R_refl
        R_save_or_delete R_record R_ack R_prune R_delivered saves_only_def)
qed

lemma dispatch: "saves_only tame a \<Longrightarrow> R (tables (fst s)) (tables (fst (dispatch K E a s)))"
  using init_session [of s K E] session_heal [of s K E] dispatch_storage [of a s]
  by (cases s; cases a) (simp_all add: dispatch_def message_decrypted_arm_def show_received R_refl)

lemma dispatch_all:
  "list_all (saves_only tame) as \<Longrightarrow> R (tables (fst s)) (tables (fst (dispatch_all K E as s)))"
proof (induction "as" arbitrary: s)
  case (Cons a "as")
  then show ?case
    using R_trans [OF dispatch [of a s K E] Cons.IH [of "dispatch K E a s"]] by (simp add: dispatch_all_def)
qed (simp add: dispatch_all_def R_refl)

end

section \<open>Events, commands and the loop\<close>

context actor_contract
begin

lemma follow_up:
  assumes "core_saves_only tame K"
  shows "R (tables (fst s)) (tables (fst (follow_up K E s e)))"
proof -
  have fold: "R (tables t) (tables (fst (foldl (\<lambda>(t, cy) a.
      let (t, cy') = dispatch K E a (t, cy\<lparr>cy_follow_ups := []\<rparr>) in (t, cy\<lparr>cy_inited := cy_inited cy'\<rparr>)) (t, cy) as)))"
    if "list_all (saves_only tame) as" for t cy "as"
    using that
  proof (induction "as" arbitrary: t cy)
    case (Cons a "as")
    obtain t' cy' where d: "dispatch K E a (t, cy\<lparr>cy_follow_ups := []\<rparr>) = (t', cy')" by fastforce
    have "R (tables t) (tables t')"
      using dispatch [of a "(t, cy\<lparr>cy_follow_ups := []\<rparr>)" K E] d Cons.prems by simp
    moreover have "R (tables t') (tables (fst (foldl (\<lambda>(t, cy) a.
      let (t, cy') = dispatch K E a (t, cy\<lparr>cy_follow_ups := []\<rparr>)
      in (t, cy\<lparr>cy_inited := cy_inited cy'\<rparr>)) (t', cy\<lparr>cy_inited := cy_inited cy'\<rparr>) as)))"
      using Cons by simp
    ultimately show ?case using d by (auto intro: R_trans)
  qed (simp add: R_refl)
  obtain t cy where s: "s = (t, cy)" by fastforce
  obtain "as" t' where e: "core_event K e t = (as, t')" by fastforce
  then show ?thesis
    using fold [of "as" t' cy] core_event_tables [of K e t] core_event_saves [OF assms, of e t]
    by (simp add: follow_up_def s)
qed

lemma follow_ups:
  assumes "core_saves_only tame K"
  shows "R (tables (fst s)) (tables (fst (foldl (follow_up K E) s es)))"
proof (induction es arbitrary: s)
  case (Cons e es)
  show ?case using R_trans [OF follow_up [OF assms] Cons.IH] by simp
qed (simp add: R_refl)

lemma process_event:
  assumes "core_saves_only tame K"
  shows "R (tables t) (tables (process_event K E e t))"
proof -
  obtain "as" t1 where c: "core_event K e t = (as, t1)" by fastforce
  obtain t2 cy where d: "dispatch_all K E as (t1, new_cycle) = (t2, cy)" by fastforce
  have "tables t1 = tables t" "list_all (saves_only tame) as"
    using core_event_tables [of K e t] core_event_saves [OF assms, of e t] c by simp_all
  then have "R (tables t) (tables t2)" using dispatch_all [of "as" "(t1, new_cycle)" K E] d by simp
  then show ?thesis
    using follow_ups [OF assms, of "(t2, cy)" E] by (auto simp: process_event_def c d intro: R_trans)
qed

lemma process_once:
  "core_saves_only tame K \<Longrightarrow> R (tables t) (tables (process_once K E e t))"
  using dispatch_all [of "fst (core_event K e t)" "(snd (core_event K e t), new_cycle)" K E]
    core_event_saves [of tame K e t]
  by (simp add: process_once_def Let_def case_prod_beta)

lemma establish:
  assumes "core_saves_only tame K"
  shows "R (tables t) (tables (fst (establish_session K E c t)))"
proof -
  have "R (tables t) (tables (process_event K E e (snd (fetch_bundle E c t))))" for e
    using process_event [OF assms, of "snd (fetch_bundle E c t)"] by simp
  then show ?thesis using tables_same(8) [of E c t]
    by (cases "fetch_bundle E c t"; cases "fst (fetch_bundle E c t)")
      (simp_all add: establish_session_def Let_def R_refl)
qed

lemma prepare:
  assumes "core_saves_only tame K"
  shows "R (tables t) (tables (fst (prepare_outgoing K E e t)))"
proof (cases e)
  case (ActiveChatChanged c b)
  obtain t1 r where s: "establish_session K E c t = (t1, r)" by fastforce
  have t1: "R (tables t) (tables t1)" using establish [OF assms, of t E c] s by simp
  obtain i t2 where f: "fresh_uuid E t1 = (i, t2)" by fastforce
  have "R (tables t) (tables (process_once K E x t2))" for x
    using R_trans [OF t1] process_once [OF assms, of t2 E x] tables_of(3) [OF f] by simp
  then show ?thesis
    using t1 by (auto simp: ActiveChatChanged prepare_outgoing_def s f Let_def R_refl split: sum.split bool.split)
next
  case (OutgoingMessage c m p ct)
  obtain t1 r where s: "establish_session K E c t = (t1, r)" by fastforce
  have "R (tables t) (tables t1)" using establish [OF assms, of t E c] s by simp
  then show ?thesis by (auto simp: OutgoingMessage prepare_outgoing_def s Let_def R_refl split: sum.split)
qed (simp_all add: prepare_outgoing_def R_refl)

lemma run_event:
  assumes "core_saves_only tame K"
  shows "R (tables t) (tables (run_event K E e t))"
proof -
  obtain t1 r where p: "prepare_outgoing K E e t = (t1, r)" by fastforce
  have "R (tables t) (tables t1)" using prepare [OF assms, of t E e] p by simp
  then show ?thesis using process_event [OF assms, of t1 E]
    by (auto simp: run_event_def p intro: R_trans split: option.split)
qed

lemma forget_contact:
  assumes "core_saves_only tame K"
  shows "R (tables t) (tables (forget_contact K E u t))"
proof -
  let ?t = "process_once K E (ActiveChatChanged u False) t"
  have del: "R (d, c) (fst (secure_delete (fst (secure_delete d (''session_'' @ u))) (''archive_'' @ u)), c)" for d c
    using R_trans [OF R_remove R_remove] tame_keys by blast
  have saved: "R (d, c) (fst (secure_delete (fst (secure_delete
      (fst (secure_save_or_delete d ''construct.orchestrator_state'' st)) (''session_'' @ u))) (''archive_'' @ u)), c)"
    for d c st
    using R_trans [OF R_save_or_delete del] tame_keys(3) by blast
  have "R (tables ?t) (tables (forget_contact K E u t))"
    using del saved
    by (cases "co_export K (co_forget K (tk_core ?t) u)")
      (simp_all add: forget_contact_def Let_def tables_def del: append.simps append_Cons)
  then show ?thesis using R_trans [OF process_once [OF assms]] by blast
qed

text \<open>A step of the loop, unless it takes a message of the stream.\<close>

lemma quiet_step:
  assumes "core_saves_only tame K" "\<And>e x. i \<noteq> Command (StreamMessage e x)"
  shows "R (tables t) (tables (task_step K E t i))"
proof (cases i)
  case (Command c)
  then show ?thesis using assms(2)
    by (cases c) (simp_all add: task_step_def handle_command_def forget_contact [OF assms(1)])
next
  case Turn
  show ?thesis
  proof (cases "tk_inbox t")
    case (Cons e es)
    then show ?thesis using run_event [OF assms(1), of "t\<lparr>tk_inbox := es\<rparr>" E e] by (simp add: Turn task_step_def)
  qed (simp add: Turn task_step_def R_refl)
qed (simp_all add: task_step_def R_refl)

end

end
