(* ===== verification/Stream_Props.thy ===== *)
theory Stream_Props
  imports Stream_Worker "HOL-Library.Sublist"
begin

text \<open>
  What the stream worker promises: a bounded buffer that keeps the newest envelopes, in-order
  delivery while no send fails, a backoff within fixed bounds, a prompt exit on shutdown, and a
  cursor tracker that always agrees with the stored watermark.
\<close>

section \<open>The buffer\<close>

lemma emit_simps [simp]:
  "w_phase (emit e w) = w_phase w" "w_queue (emit e w) = w_queue w" "w_wire (emit e w) = w_wire w"
  "w_sends (emit e w) = w_sends w" "w_users (emit e w) = w_users w" "w_opens (emit e w) = w_opens w"
  by (simp_all add: emit_def)

lemma start_backoff_simps [simp]:
  "w_phase (start_backoff E w) = Backoff" "w_queue (start_backoff E w) = w_queue w"
  "w_wire (start_backoff E w) = w_wire w" "w_sends (start_backoff E w) = w_sends w"
  "w_users (start_backoff E w) = w_users w" "w_opens (start_backoff E w) = w_opens w"
  by (simp_all add: start_backoff_def Let_def)

lemma lose_stream_simps [simp]:
  "w_phase (lose_stream E w) = Backoff" "w_queue (lose_stream E w) = w_queue w"
  "w_wire (lose_stream E w) = w_wire w" "w_sends (lose_stream E w) = w_sends w"
  "w_users (lose_stream E w) = w_users w" "w_opens (lose_stream E w) = w_opens w"
  by (simp_all add: lose_stream_def)

lemma send_request_queue:
  "send_request E b w = (ok, w') \<Longrightarrow>
     w_queue w' = w_queue w \<and> w_phase w' = w_phase w \<and> w_users w' = w_users w \<and> w_opens w' = w_opens w"
  by (auto simp: send_request_def Let_def split: list.splits bool.splits)

lemma flush_queue: "length (w_queue (flush E es w)) \<le> length es"
proof (induction es arbitrary: w)
  case (Cons e es)
  show ?case
  proof (cases "send_request E (ReqSend e) w")
    case (Pair ok w')
    show ?thesis using Pair Cons [of w'] by (cases ok) (simp_all add: le_SucI)
  qed
qed simp

lemma go_live_queue: "length (w_queue (go_live E w)) \<le> length (w_queue w)"
  using flush_queue [of E "w_queue w" w]
  by (auto simp: go_live_def Let_def send_heartbeat_def split: prod.splits bool.splits
      dest!: send_request_queue)

lemma worker_step_bound:
  "length (w_queue w) \<le> OUTGOING_BUFFER_CAP \<Longrightarrow>
     length (w_queue (worker_step E w i)) \<le> OUTGOING_BUFFER_CAP"
  using go_live_queue [of E "w\<lparr>w_opens := ops\<rparr>" for ops] outgoing.push_bound
  by (auto simp: worker_step_def step_connecting_def step_opening_def step_live_def step_backoff_def
      send_heartbeat_def Let_def dest!: send_request_queue intro: order_trans
      split: phase.splits worker_input.splits poll.splits stream_cmd.splits option.splits
        prod.splits bool.splits sum.splits)

lemma worker_run_simps [simp]:
  "worker_run E w [] = w" "worker_run E w (i # is) = worker_run E (worker_step E w i) is"
  by (simp_all add: worker_run_def)

text \<open>The outgoing buffer of the stream worker never holds more than 256 envelopes, whatever
  commands, failures and reconnections the run goes through.\<close>

theorem worker_buffer_bounded:
  "length (w_queue (worker_run E (worker_init users) is)) \<le> OUTGOING_BUFFER_CAP"
proof -
  have "length (w_queue w) \<le> OUTGOING_BUFFER_CAP \<Longrightarrow>
      length (w_queue (worker_run E w is)) \<le> OUTGOING_BUFFER_CAP" for w
    by (induction "is" arbitrary: w) (simp_all add: worker_step_bound)
  then show ?thesis by (simp add: worker_init_def)
qed

text \<open>Buffering a burst of envelopes keeps exactly the newest 256 of old and new ones, in
  order: only the oldest are dropped.\<close>

theorem push_pending_keeps_newest:
  assumes "length q \<le> OUTGOING_BUFFER_CAP"
  shows "foldl push_pending q es = drop (length (q @ es) - OUTGOING_BUFFER_CAP) (q @ es)"
  using assms by (rule outgoing.pushes_newest)

theorem push_pending_keeps_newest_witness:
  "foldl push_pending (replicate 255 (1 :: nat)) [2, 3] = replicate 254 1 @ [2, 3]"
proof -
  have "foldl push_pending (replicate 255 (1 :: nat)) [2, 3] = drop 1 (replicate 255 1 @ [2, 3])"
    by (subst push_pending_keeps_newest) (simp_all add: OUTGOING_BUFFER_CAP_def)
  then show ?thesis by simp
qed

section \<open>Sending emits nothing\<close>

lemma send_request_events: "send_request E b w = (ok, w') \<Longrightarrow> w_events w' = w_events w"
  by (auto simp: send_request_def Let_def split: list.splits bool.splits)

lemma flush_events: "w_events (flush E es w) = w_events w"
proof (induction es arbitrary: w)
  case (Cons e es)
  then show ?case
    using send_request_events by (cases "send_request E (ReqSend e) w") (auto split: bool.split)
qed simp

section \<open>Delivery order\<close>

definition wire_envelopes :: "worker \<Rightarrow> envelope list" where
  "wire_envelopes w =
     concat (map (\<lambda>r. case sr_body r of ReqSend e \<Rightarrow> [e] | _ \<Rightarrow> []) (w_wire w))"

text \<open>The envelopes a step takes over from the command channel.\<close>

definition taken_by :: "worker \<Rightarrow> worker_input \<Rightarrow> envelope list" where
  "taken_by w i =
     (case (w_phase w, i) of
        (Connecting, Poll (Polled (CmdSend e))) \<Rightarrow> [e]
      | (Live, Cmd (Some (CmdSend e))) \<Rightarrow> [e]
      | (Backoff, Cmd (Some (CmdSend e))) \<Rightarrow> [e]
      | _ \<Rightarrow> [])"

fun taken :: "worker_env \<Rightarrow> worker \<Rightarrow> worker_input list \<Rightarrow> envelope list" where
  "taken E w [] = []"
| "taken E w (i # is) = taken_by w i @ taken E (worker_step E w i) is"

lemma send_request_clean:
  "w_sends w = [] \<Longrightarrow> send_request E b w =
     (True, w\<lparr>w_fresh := w_fresh w + 1,
        w_wire := w_wire w @ [\<lparr>sr_body = b, sr_request_id = we_uuid E (w_fresh w)\<rparr>]\<rparr>)"
  by (simp add: send_request_def)

lemma flush_clean:
  "w_sends w = [] \<Longrightarrow> w_sends (flush E es w) = [] \<and> w_queue (flush E es w) = []
     \<and> wire_envelopes (flush E es w) = wire_envelopes w @ es"
  by (induction es arbitrary: w) (simp_all add: send_request_clean wire_envelopes_def)

lemma send_heartbeat_clean:
  "w_sends w = [] \<Longrightarrow> \<exists>w'. send_heartbeat E w = (True, w') \<and> w_sends w' = []
     \<and> w_queue w' = w_queue w \<and> w_phase w' = w_phase w \<and> wire_envelopes w' = wire_envelopes w"
  by (simp add: send_heartbeat_def send_request_clean wire_envelopes_def)

lemma go_live_clean:
  assumes "w_sends w = []"
  shows "w_phase (go_live E w) = Live \<and> w_sends (go_live E w) = [] \<and> w_queue (go_live E w) = []
     \<and> wire_envelopes (go_live E w) = wire_envelopes w @ w_queue w"
proof -
  let ?w = "emit EvConnected (flush E (w_queue w) w\<lparr>w_attempt := 0\<rparr>)"
  note fl = flush_clean [OF assms, of E "w_queue w"]
  have "w_sends ?w = []" using fl by simp
  from send_heartbeat_clean [OF this, of E] show ?thesis
    using fl by (auto simp: go_live_def Let_def wire_envelopes_def)
qed

definition in_order :: "worker \<Rightarrow> envelope list \<Rightarrow> bool" where
  "in_order w es \<longleftrightarrow> w_sends w = [] \<and> (w_phase w = Live \<longrightarrow> w_queue w = [])
     \<and> length (w_queue w) \<le> OUTGOING_BUFFER_CAP
     \<and> subseq (wire_envelopes w @ w_queue w) es
     \<and> (length es \<le> OUTGOING_BUFFER_CAP \<longrightarrow> wire_envelopes w @ w_queue w = es)"

lemma in_order_push:
  assumes "in_order w es" "w_queue w' = push_pending (w_queue w) e" "w_sends w' = []"
    "w_wire w' = w_wire w" "w_phase w' \<noteq> Live"
  shows "in_order w' (es @ [e])"
proof -
  have w: "wire_envelopes w' = wire_envelopes w" using assms(4) by (simp add: wire_envelopes_def)
  have push: "w_queue w' = (if OUTGOING_BUFFER_CAP \<le> length (w_queue w) then tl (w_queue w) else w_queue w) @ [e]"
    using assms(2) by (simp add: push_pending_def)
  have "subseq (wire_envelopes w' @ w_queue w') ((wire_envelopes w @ w_queue w) @ [e])"
    unfolding w push by (cases "w_queue w") (auto intro!: list_emb_append_mono)
  also have "subseq \<dots> (es @ [e])" using assms(1) by (simp add: in_order_def list_emb_append_mono del: append_assoc)
  finally have sub: "subseq (wire_envelopes w' @ w_queue w') (es @ [e])" .
  moreover have "wire_envelopes w' @ w_queue w' = es @ [e]" if "length (es @ [e]) \<le> OUTGOING_BUFFER_CAP"
  proof -
    have "wire_envelopes w @ w_queue w = es" using assms(1) that by (simp add: in_order_def)
    then have "length (w_queue w) < OUTGOING_BUFFER_CAP" using that by auto
    with \<open>_ = es\<close> show ?thesis unfolding w push by auto
  qed
  moreover have "length (w_queue w') \<le> OUTGOING_BUFFER_CAP"
    using assms(1,2) by (simp add: in_order_def outgoing.push_bound)
  ultimately show ?thesis using assms(3,5) by (simp add: in_order_def)
qed

lemma in_order_keep:
  "in_order w es \<Longrightarrow> w_queue w' = w_queue w \<Longrightarrow> w_sends w' = [] \<Longrightarrow>
   wire_envelopes w' = wire_envelopes w \<Longrightarrow> w_phase w' = Live \<longrightarrow> w_phase w = Live \<Longrightarrow> in_order w' es"
  by (simp add: in_order_def)

lemma in_order_sent:
  "in_order w es \<Longrightarrow> w_queue w = [] \<Longrightarrow> w_queue w' = [] \<Longrightarrow> w_sends w' = [] \<Longrightarrow>
   wire_envelopes w' = wire_envelopes w @ [e] \<Longrightarrow> in_order w' (es @ [e])"
  by (auto simp: in_order_def list_emb_append_mono)

lemma in_order_leaves:
  assumes "in_order w es" "p \<noteq> Live"
  shows "in_order (w\<lparr>w_users := u, w_phase := p\<rparr>) es" "in_order (w\<lparr>w_phase := p\<rparr>) es"
    and "in_order (w\<lparr>w_queue := push_pending (w_queue w) e, w_phase := p\<rparr>) (es @ [e])"
proof -
  show "in_order (w\<lparr>w_users := u, w_phase := p\<rparr>) es" "in_order (w\<lparr>w_phase := p\<rparr>) es"
    using assms by (simp_all add: in_order_def wire_envelopes_def)
  show "in_order (w\<lparr>w_queue := push_pending (w_queue w) e, w_phase := p\<rparr>) (es @ [e])"
    by (rule in_order_push [OF assms(1)]) (use assms in \<open>simp_all add: in_order_def\<close>)
qed

lemma in_order_connecting:
  assumes "in_order w es" "w_phase w = Connecting"
  shows "in_order (worker_step E w i) (es @ taken_by w i)"
proof (cases i)
  case (Poll p)
  show ?thesis
  proof (cases p)
    case (Polled c)
    then show ?thesis using assms(2) Poll in_order_leaves [OF assms(1)]
      by (cases c) (simp_all add: worker_step_def step_connecting_def taken_by_def)
  qed (use assms Poll in_order_leaves [OF assms(1)] in
      \<open>simp_all add: worker_step_def step_connecting_def taken_by_def\<close>)
qed (use assms in \<open>simp_all add: worker_step_def taken_by_def\<close>)

lemma in_order_opening:
  assumes "in_order w es" "w_phase w = Opening"
  shows "in_order (worker_step E w i) (es @ taken_by w i)"
proof -
  have clean: "w_sends w = []" using assms(1) by (simp add: in_order_def)
  have live: "in_order (go_live E w') es" if "w_sends w' = []" "w_queue w' = w_queue w" "w_wire w' = w_wire w" for w'
    using go_live_clean [OF that(1), of E] assms that by (simp add: in_order_def wire_envelopes_def)
  show ?thesis
    using assms clean
    by (auto simp: worker_step_def step_opening_def Let_def taken_by_def
        split: worker_input.splits sum.splits intro!: live in_order_keep [OF assms(1)])
       (simp_all add: wire_envelopes_def)
qed

lemma in_order_live:
  assumes "in_order w es" "w_phase w = Live"
  shows "in_order (worker_step E w i) (es @ taken_by w i)"
proof -
  have q: "w_queue w = []" and clean: "w_sends w = []" using assms by (simp_all add: in_order_def)
  show ?thesis
  proof (cases "\<exists>e. i = Cmd (Some (CmdSend e))")
    case True
    then obtain e where i: "i = Cmd (Some (CmdSend e))" by blast
    have "in_order (worker_step E w i) (es @ [e])"
      by (rule in_order_sent [OF assms(1) q])
        (simp_all add: i worker_step_def step_live_def assms(2) send_request_clean clean q wire_envelopes_def)
    then show ?thesis by (simp add: taken_by_def assms(2) i)
  next
    case False
    then have "taken_by w i = []"
      using assms(2) by (auto simp: taken_by_def split: prod.splits phase.splits worker_input.splits option.splits
          stream_cmd.splits poll.splits)
    moreover have "in_order (worker_step E w i) es"
      using False send_heartbeat_clean [OF clean, of E] assms(2) clean
      by (auto simp: worker_step_def step_live_def send_request_clean
          split: worker_input.splits option.splits stream_cmd.splits
          intro!: in_order_keep [OF assms(1)]) (simp_all add: wire_envelopes_def)
    ultimately show ?thesis by simp
  qed
qed

lemma in_order_backoff:
  assumes "in_order w es" "w_phase w = Backoff"
  shows "in_order (worker_step E w i) (es @ taken_by w i)"
proof (cases i)
  case (Cmd oc)
  show ?thesis
  proof (cases oc)
    case (Some c)
    then show ?thesis using assms(2) Cmd in_order_leaves [OF assms(1)]
      by (cases c) (simp_all add: worker_step_def step_backoff_def taken_by_def)
  qed (use assms Cmd in_order_leaves [OF assms(1)] in
      \<open>simp_all add: worker_step_def step_backoff_def taken_by_def\<close>)
qed (use assms in_order_leaves [OF assms(1)] in
    \<open>simp_all add: worker_step_def step_backoff_def taken_by_def\<close>)

lemma in_order_step:
  assumes "in_order w es"
  shows "in_order (worker_step E w i) (es @ taken_by w i)"
proof (cases "w_phase w")
  case Exited
  then show ?thesis using assms by (simp add: worker_step_def taken_by_def)
qed (use in_order_connecting in_order_opening in_order_live in_order_backoff assms in blast)+

text \<open>While no send on the stream fails, what went out followed by what is buffered is a
  subsequence of the envelopes the application handed over, in their order, across any
  reconnections; and nothing at all is missing while no more than 256 were handed over.\<close>

theorem worker_sends_in_order:
  "subseq (wire_envelopes (worker_run E (worker_init users) is) @ w_queue (worker_run E (worker_init users) is))
     (taken E (worker_init users) is)
   \<and> (length (taken E (worker_init users) is) \<le> OUTGOING_BUFFER_CAP \<longrightarrow>
        wire_envelopes (worker_run E (worker_init users) is) @ w_queue (worker_run E (worker_init users) is)
          = taken E (worker_init users) is)"
proof -
  have "in_order w es \<Longrightarrow> in_order (worker_run E w is) (es @ taken E w is)" for w es
  proof (induction "is" arbitrary: w es)
    case (Cons i "is")
    show ?case using Cons.IH [OF in_order_step [OF Cons.prems, of E i]] by simp
  qed simp
  moreover have "in_order (worker_init users) []"
    by (simp add: in_order_def worker_init_def wire_envelopes_def)
  ultimately have "in_order (worker_run E (worker_init users) is) (taken E (worker_init users) is)"
    by fastforce
  then show ?thesis by (simp add: in_order_def)
qed

definition sample_env :: worker_env where
  "sample_env = \<lparr>we_uuid = (\<lambda>n. dec_of_nat n), we_clock = (\<lambda>n. int n), we_rand = (\<lambda>_. 0),
     we_decode = (\<lambda>_. None)\<rparr>"

theorem worker_sends_in_order_witness:
  "wire_envelopes (worker_run sample_env (worker_init [])
     [Poll (Polled (CmdSend envelope_default)), Opened None (Ok ())]) = [envelope_default]"
proof -
  let ?is = "[Poll (Polled (CmdSend envelope_default)), Opened None (Ok ())]"
  have "taken sample_env (worker_init []) ?is = [envelope_default]"
    by (simp add: taken_by_def worker_init_def worker_step_def step_connecting_def)
  moreover have "w_queue (worker_run sample_env (worker_init []) ?is) = []"
    using go_live_clean by (simp add: worker_init_def worker_step_def step_connecting_def step_opening_def)
  ultimately show ?thesis
    using worker_sends_in_order [of sample_env "[]" ?is] by (simp add: OUTGOING_BUFFER_CAP_def)
qed

section \<open>Losing and keeping envelopes\<close>

text \<open>A failing send loses the envelope when it happens in the flush after a reconnect (it is
  popped before the send and not put back), while the same failure on the live stream puts it back
  in the buffer.\<close>

theorem flush_failure_loses_envelope:
  assumes "w_sends w = True # ss" "w_queue w = e # es"
  shows "w_queue (flush E (w_queue w) w) = es \<and> w_wire (flush E (w_queue w) w) = w_wire w
     \<and> w_queue (step_live E (Cmd (Some (CmdSend f))) w) = push_pending (e # es) f
     \<and> w_wire (step_live E (Cmd (Some (CmdSend f))) w) = w_wire w"
  using assms by (simp add: send_request_def step_live_def)

theorem flush_failure_loses_envelope_witness:
  "w_queue (flush sample_env [envelope_default] ((worker_init [])\<lparr>w_queue := [envelope_default], w_sends := [True]\<rparr>)) = []"
  using flush_failure_loses_envelope
    [of "(worker_init [])\<lparr>w_queue := [envelope_default], w_sends := [True]\<rparr>" "[]" envelope_default "[]" sample_env]
  by simp

section \<open>Stopping\<close>

text \<open>C34. Whatever the worker is doing, it stops at the first shutdown it can receive: the pending
  opening ends one way or the other, and the command is taken in the loop head, in the live loop
  or in the backoff wait. Afterwards it takes no step, and the application sees a final
  \<open>Disconnected\<close>.\<close>

theorem worker_shutdown_exits:
  "w_phase (worker_run E w [Opened c r, Poll (Polled CmdShutdown), Cmd (Some CmdShutdown)]) = Exited
   \<and> worker_run E w ([Opened c r, Poll (Polled CmdShutdown), Cmd (Some CmdShutdown)] @ is)
       = worker_run E w [Opened c r, Poll (Polled CmdShutdown), Cmd (Some CmdShutdown)]
   \<and> last (stream_events (worker_run E w [Opened c r, Poll (Polled CmdShutdown), Cmd (Some CmdShutdown)]))
       = EvDisconnected"
proof -
  have step: "w_phase (worker_step E v (Cmd (Some CmdShutdown))) = Exited"
    if "w_phase v \<noteq> Connecting" "w_phase v \<noteq> Opening" for v
    using that by (cases "w_phase v") (simp_all add: worker_step_def step_live_def step_backoff_def)
  have poll: "w_phase (worker_step E v (Poll (Polled CmdShutdown))) \<noteq> Connecting" for v
    by (cases "w_phase v") (simp_all add: worker_step_def step_connecting_def step_live_def step_backoff_def)
  have poll': "w_phase (worker_step E v (Poll (Polled CmdShutdown))) \<noteq> Opening" if "w_phase v \<noteq> Opening" for v
    using that by (cases "w_phase v") (simp_all add: worker_step_def step_connecting_def step_live_def step_backoff_def)
  have live: "w_phase (go_live E v) \<noteq> Opening" for v
    by (auto simp: go_live_def Let_def split: prod.splits bool.splits)
  have "w_phase (worker_step E v (Opened c r)) \<noteq> Opening" for v
    using live by (cases "w_phase v")
      (auto simp: worker_step_def step_opening_def step_live_def step_backoff_def Let_def split: sum.splits)
  then have ex: "w_phase (worker_run E w [Opened c r, Poll (Polled CmdShutdown), Cmd (Some CmdShutdown)]) = Exited"
    using step poll poll' by simp
  have stay: "w_phase v = Exited \<Longrightarrow> worker_run E v is = v" for v
    by (induction "is") (simp_all add: worker_step_def)
  show ?thesis using ex stay by (simp add: stream_events_def)
qed

section \<open>Backoff\<close>

lemma backoff_base_cases:
  "unat (backoff_base_secs a) = min (2 ^ min (unat a) 6) 60"
proof -
  have "unat (min a 6) = min (unat a) 6" by (simp add: min_def word_le_nat_alt)
  then have "backoff_base_secs a = min (push_bit (min (unat a) 6) 1) 60"
    by (simp add: backoff_base_secs_def)
  moreover have "n \<le> 6 \<Longrightarrow> unat (min (push_bit n 1) (60 :: u64)) = min (2 ^ n) 60" for n :: nat
    by (cases "n \<in> {0, 1, 2, 3, 4, 5, 6}") (auto simp: min_def word_le_nat_alt)
  ultimately show ?thesis by simp
qed

text \<open>The reconnect delay doubles from one second up to a minute and is spread by at most a
  fifth in both directions, so the worker never waits less than 0.8 or 72 or more seconds.\<close>

theorem backoff_delay_bounds:
  assumes "0 \<le> r" "r < 1"
  shows "4 / 5 * of_nat (min (2 ^ min (unat a) 6) 60) \<le> backoff_delay r a
     \<and> backoff_delay r a < 6 / 5 * of_nat (min (2 ^ min (unat a) 6) 60)
     \<and> 4 / 5 \<le> backoff_delay r a \<and> backoff_delay r a < 72"
proof -
  define b :: rat where "b = of_nat (min (2 ^ min (unat a) 6) 60)"
  have one: "1 \<le> min (2 ^ min (unat a) 6) (60 :: nat)" by simp
  have b: "1 \<le> b" "b \<le> 60" unfolding b_def using one by (simp_all del: of_nat_min)
  have d: "backoff_delay r a = max (b + b * (1 / 5) * (r * 2 - 1)) (1 / 5)"
    by (simp add: backoff_delay_def Let_def backoff_base_cases b_def)
  have "b * (1 / 5) * (r * 2 - 1) < b * (1 / 5) * 1"
    using assms b by (intro mult_strict_left_mono) simp_all
  moreover have "b * (1 / 5) * (- 1) \<le> b * (1 / 5) * (r * 2 - 1)"
    using assms b by (intro mult_left_mono) simp_all
  ultimately have "4 / 5 * b \<le> backoff_delay r a \<and> backoff_delay r a < 6 / 5 * b"
    unfolding d using b by (simp add: max_def)
  then show ?thesis using b unfolding b_def [symmetric] by auto
qed

theorem backoff_delay_bounds_witness:
  "4 / 5 * 8 \<le> backoff_delay (1 / 2) 3 \<and> backoff_delay (1 / 2) 3 < 6 / 5 * 8"
  using backoff_delay_bounds [of "1 / 2" 3] by simp

section \<open>The cursor tracker\<close>

definition in_step :: "cursor_tracker \<Rightarrow> db \<Rightarrow> bool" where
  "in_step t d \<longleftrightarrow> ct_committed t = stored_cursor d \<and> (\<forall>c \<in> ran (ct_pending t). is_str c)"

text \<open>What the stream worker and the orchestrator do with tracker and storage; cursors are Rust
  strings, hence valid UTF-8.\<close>

inductive tracker_step :: "cursor_tracker \<times> db \<Rightarrow> cursor_tracker \<times> db \<Rightarrow> bool" where
  noted: "(\<And>c. cursor = Some c \<Longrightarrow> is_str c) \<Longrightarrow> tracker_step (t, d) (tracker_note t i cursor, d)"
| commit: "tracker_step (t, d) (tracker_commit t d i)"
| direct: "(\<And>c. cursor = Some c \<Longrightarrow> is_str c) \<Longrightarrow> tracker_step (t, d) (tracker_commit_direct t d cursor)"

lemma tracker_persist_in_step:
  assumes "in_step t d" "\<And>c. cursor = Some c \<Longrightarrow> is_str c" "tracker_persist t d cursor = (t', d')"
  shows "in_step t' d' \<and> ct_pending t' = ct_pending t"
proof (cases cursor)
  case None
  then show ?thesis using assms by (simp add: tracker_persist_def)
next
  case (Some c)
  obtain d1 r where s: "save_stream_cursor d c = (d1, r)" by (cases "save_stream_cursor d c") auto
  note res = save_stream_cursor_result [OF s assms(2) [OF Some]]
  show ?thesis
  proof (cases "r = Ok True")
    case True
    then show ?thesis using assms res Some s by (auto simp: tracker_persist_def in_step_def)
  next
    case False
    have "tracker_persist t d cursor = (t, d1)"
      using False s Some by (cases r; cases "projr r") (auto simp: tracker_persist_def split: bool.splits)
    then show ?thesis using assms res False by (auto simp: in_step_def)
  qed
qed

lemma nonempty_cursor_str: "nonempty_cursor cursor = Some c \<Longrightarrow> cursor = Some c \<and> c \<noteq> []"
  by (auto simp: nonempty_cursor_def split: option.splits if_splits)

lemma tracker_step_in_step:
  "tracker_step s s' \<Longrightarrow> in_step (fst s) (snd s) \<Longrightarrow> in_step (fst s') (snd s')"
proof (induction rule: tracker_step.induct)
  case (noted cursor t d i)
  show ?case
  proof (cases "nonempty_cursor cursor")
    case (Some c)
    then have "is_str c" using noted nonempty_cursor_str by blast
    then show ?thesis using noted Some by (auto simp: tracker_note_def in_step_def ran_def)
  qed (use noted in \<open>simp add: tracker_note_def\<close>)
next
  case (commit t d i)
  have "in_step (t\<lparr>ct_pending := (ct_pending t)(i := None)\<rparr>) d"
    using commit by (auto simp: in_step_def ran_def)
  moreover have "is_str c" if "ct_pending t i = Some c" for c
    using commit that by (auto simp: in_step_def intro: ranI)
  moreover obtain t1 d1 where c: "tracker_commit t d i = (t1, d1)" by fastforce
  ultimately have "in_step t1 d1"
    using tracker_persist_in_step [OF _ _ c [unfolded tracker_commit_def]] by blast
  then show ?case by (simp add: c)
next
  case (direct cursor t d)
  obtain t1 d1 where c: "tracker_commit_direct t d cursor = (t1, d1)" by fastforce
  have "is_str c" if "nonempty_cursor cursor = Some c" for c
    using direct(1) nonempty_cursor_str [OF that] by blast
  with direct have "in_step t1 d1"
    using tracker_persist_in_step [OF _ _ c [unfolded tracker_commit_direct_def]] by simp
  then show ?case by (simp add: c)
qed



section \<open>Incoming frames\<close>

text \<open>The event a reply becomes.\<close>

definition event_of :: "stream_response \<Rightarrow> stream_event option" where
  "event_of resp =
     (case rp_reply resp of
        Some (RepMessage e) \<Rightarrow> Some (EvMessage e (rp_stream_cursor resp))
      | Some (RepAck i) \<Rightarrow> Some (EvAck i (rp_stream_cursor resp))
      | Some (RepHeartbeatAck t s) \<Rightarrow> Some (EvHeartbeat t s (rp_stream_cursor resp))
      | Some (RepError i c m r a) \<Rightarrow> Some (EvStreamError i c m r a (rp_stream_cursor resp))
      | _ \<Rightarrow> None)"

text \<open>A well-formed frame reaches the application as exactly the event of its reply, with the
  cursor it carries; a frame that does not decode is dropped and the worker goes on unchanged.\<close>

theorem live_frame_becomes_event:
  assumes "w_phase w = Live"
  shows "(\<forall>msg resp. length (msg :: bytes) < 2 ^ 32 \<and> we_decode E msg = Some resp \<longrightarrow>
        worker_step E w (Frame (Some (encode_frame msg)))
          = w\<lparr>w_events := w_events w @ (case event_of resp of None \<Rightarrow> [] | Some e \<Rightarrow> [e])\<rparr>)
     \<and> (\<forall>f. (\<forall>m r. decode_frame f = Ok (m, r) \<longrightarrow> we_decode E m = None) \<longrightarrow>
        worker_step E w (Frame (Some f)) = w)"
proof (intro conjI allI impI)
  fix msg :: bytes and resp
  assume msg: "length msg < 2 ^ 32 \<and> we_decode E msg = Some resp"
  then have "decode_frame (encode_frame msg) = Ok (msg, [])"
    using decode_encode_frame [of msg "[]"] by simp
  with msg show "worker_step E w (Frame (Some (encode_frame msg)))
        = w\<lparr>w_events := w_events w @ (case event_of resp of None \<Rightarrow> [] | Some e \<Rightarrow> [e])\<rparr>"
    using assms by (simp add: worker_step_def step_live_def dispatch_incoming_def event_of_def Let_def
        emit_def split: option.split stream_reply.split)
next
  fix f
  assume "\<forall>m r. decode_frame f = Ok (m, r) \<longrightarrow> we_decode E m = None"
  then have "dispatch_incoming (we_decode E) f = None"
    by (cases "decode_frame f") (auto simp: dispatch_incoming_def)
  then show "worker_step E w (Frame (Some f)) = w"
    using assms by (simp add: worker_step_def step_live_def)
qed

theorem live_frame_becomes_event_witness:
  "worker_step (sample_env\<lparr>we_decode := \<lambda>_. Some \<lparr>rp_reply = Some (RepAck ''m''), rp_stream_cursor = Some ''7-0''\<rparr>\<rparr>)
     ((worker_init [])\<lparr>w_phase := Live\<rparr>) (Frame (Some (encode_frame [1])))
   = (worker_init [])\<lparr>w_phase := Live, w_events := [EvAck ''m'' (Some ''7-0'')]\<rparr>"
proof -
  let ?r = "\<lparr>rp_reply = Some (RepAck ''m''), rp_stream_cursor = Some ''7-0''\<rparr>"
  let ?E = "sample_env\<lparr>we_decode := \<lambda>_. Some ?r\<rparr>" and ?w = "(worker_init [])\<lparr>w_phase := Live\<rparr>"
  have "w_phase ?w = Live" by simp
  from conjunct1 [OF live_frame_becomes_event [OF this, of ?E], rule_format, of "[1]" ?r]
  show ?thesis by (simp add: event_of_def worker_init_def)
qed

end
