(* ===== verification/Orchestrator_Props.thy ===== *)
theory Orchestrator_Props
  imports Actor_Contract Stream_Props
begin

text \<open>
  What the actor promises: both sides name a conversation alike, stale replays touch nothing but
  the cursor, the cursor moves only over stored messages, a terminated session is archived
  before it is dropped, chat text is wrapped once and shows again as it was typed, a session
  that was just made is not healed away, and no input breaks the tables.
\<close>

section \<open>Envelopes\<close>

lemma split_colon:
  assumes "CHR 0x3A \<notin> set a" "CHR 0x3A \<notin> set c" "a @ CHR 0x3A # b = c @ CHR 0x3A # d"
  shows "a = c \<and> b = d"
proof -
  have "split_once (CHR 0x3A) (a @ CHR 0x3A # b) = Some (a, b)"
    by (rule split_once_append) (rule assms)
  moreover have "split_once (CHR 0x3A) (c @ CHR 0x3A # d) = Some (c, d)"
    by (rule split_once_append) (rule assms)
  ultimately have "Some (a, b) = Some (c, d)" unfolding assms(3) by (rule trans [OF sym])
  then show ?thesis by blast
qed

definition conversation_of :: "string \<Rightarrow> string \<Rightarrow> string" where
  "conversation_of u v = env_conversation_id (build_envelope u [] v [] [] 0)"

text \<open>Both peers file their messages under the same conversation, whoever sends and whatever
  is sent, and two conversations share an id only if they have the same two members (user ids
  hold no colon).\<close>

theorem conversation_id_symmetric:
  "env_conversation_id (build_envelope u dev v p m ct) = env_conversation_id (build_envelope v dev' u p' m' ct')
   \<and> (CHR 0x3A \<notin> set (u @ v @ x @ y) \<and> conversation_of u v = conversation_of x y \<longrightarrow> {u, v} = {x, y})"
proof -
  have c: "env_conversation_id (build_envelope u dev v p m ct)
      = ''direct:'' @ (if u < v then u @ CHR 0x3A # v else v @ CHR 0x3A # u)" for u dev v p m ct
    by (simp add: build_envelope_def Let_def)
  have "{u, v} = {x, y}" if "CHR 0x3A \<notin> set (u @ v @ x @ y)" "conversation_of u v = conversation_of x y"
  proof -
    have "(if u < v then u @ CHR 0x3A # v else v @ CHR 0x3A # u) = (if x < y then x @ CHR 0x3A # y else y @ CHR 0x3A # x)"
      using that(2) by (simp only: conversation_of_def c append_Cons append_Nil list.inject)
    then show ?thesis
      using that(1) by (auto split: if_splits dest!: split_colon [rotated 2])
  qed
  then show ?thesis using less_asym by (auto simp: c)
qed

theorem conversation_id_symmetric_witness:
  "conversation_of ''bob'' ''alice'' = ''direct:alice:bob''
   \<and> env_conversation_id (build_envelope ''alice'' [] ''bob'' [] [] 0) = ''direct:alice:bob''"
proof -
  have "\<not> ''bob'' < ''alice''" by simp
  then have "conversation_of ''bob'' ''alice'' = ''direct:alice:bob''"
    by (simp add: conversation_of_def build_envelope_def Let_def)
  with conjunct1 [OF conversation_id_symmetric [of "''bob''" "[]" "''alice''" "[]" "[]" 0 "[]" "[]" "[]" 0]]
  show ?thesis by (simp add: conversation_of_def)
qed

section \<open>Stale replays\<close>

lemma drop_stale_iff:
  "should_drop_stale_session_replay T c est \<longleftrightarrow> is_replay_sensitive T c
     \<and> (\<exists>e ms. est (sc_contact_id c) = Some e \<and> stream_cursor_millis (sc_stream_cursor c) = Some ms \<and> ms < e)"
  by (auto simp: should_drop_stale_session_replay_def split: option.split)

lemma tracker_commit_direct_step:
  "tracker_commit_direct t d cursor = (t', d') \<Longrightarrow> messages d' = messages d \<and> contacts d' = contacts d
     \<and> (\<forall>k. k \<noteq> STREAM_CURSOR_KEY \<longrightarrow> kvs d' k = kvs d k)"
proof -
  have save: "save_stream_cursor d c = (d', r) \<Longrightarrow> messages d' = messages d \<and> contacts d' = contacts d
     \<and> (\<forall>k. k \<noteq> STREAM_CURSOR_KEY \<longrightarrow> kvs d' k = kvs d k)" for c r d'
  proof (cases "c = []")
    case False
    assume s: "save_stream_cursor d c = (d', r)"
    obtain d1 r1 where l: "load_stream_cursor d = (d1, r1)" by fastforce
    obtain fs where d1: "d1 = d\<lparr>faults := fs\<rparr>" using load_stream_cursor_result [OF l] by auto
    obtain d2 r2 where w: "secure_save d1 STREAM_CURSOR_KEY (str_bytes c) = (d2, r2)" by fastforce
    have "messages d2 = messages d1 \<and> contacts d2 = contacts d1"
      using w unfolding secure_save_def by (auto elim!: stmt_cases)
    moreover have "k \<noteq> STREAM_CURSOR_KEY \<Longrightarrow> kvs d2 k = kvs d1 k" for k
      using store.save_other [of k STREAM_CURSOR_KEY d1 "str_bytes c"] w by simp
    moreover have "d' = d1 \<or> d' = d2"
      using s False l w unfolding save_stream_cursor_def by (auto split: sum.splits if_splits)
    ultimately show ?thesis using d1 by auto
  qed (simp add: save_stream_cursor_def)
  assume "tracker_commit_direct t d cursor = (t', d')"
  then show ?thesis
    using save by (fastforce simp: tracker_commit_direct_def tracker_persist_def
        split: option.splits prod.splits sum.splits bool.splits)
qed


text \<open>A small core: sessions are a list of contacts; a fetched bundle starts one, an outgoing message
  is sent as it is, a session needs healing when the contact sends.\<close>

definition sample_core :: "string list core" where
  "sample_core = \<lparr>co_handle_event = (\<lambda>s e. (s, case e of
        KeyBundleFetched u b \<Rightarrow> [InitSession u b]
      | OutgoingMessage c m p ct \<Rightarrow> [SendEncryptedMessage c p m ct]
      | MessageReceived m f p n k ok ctl ct \<Rightarrow> [MessageDecrypted f m p]
      | _ \<Rightarrow> [])),
     co_pending_count = (\<lambda>_ _. 0), co_peek = (\<lambda>_ _. None), co_pop_first = (\<lambda>s _. (s, None)),
     co_take_heal = (\<lambda>s _. (s, None)), co_init_receiving = (\<lambda>s c _ _. (c # s, Ok [])),
     co_init_session = (\<lambda>s c _. (c # s, Ok ''sid'')), co_has_session = (\<lambda>s c. c \<in> set s),
     co_forget = (\<lambda>s c. removeAll c s), co_export = (\<lambda>_. Ok [])\<rparr>"

definition sample_bundle :: session_init_bundle where
  "sample_bundle = \<lparr>si_x3dh = \<lparr>xb_identity_public = [], xb_signed_prekey_public = [], xb_signature = [],
       xb_verifying_key = [], xb_suite_id = CLASSIC, xb_one_time_prekey_public = None,
       xb_one_time_prekey_id = None, xb_spk_uploaded_at = 0, xb_spk_rotation_epoch = 0,
       xb_kyber_spk_uploaded_at = 0, xb_kyber_spk_rotation_epoch = 0, xb_supports_pq_ratchet = False\<rparr>,
     si_kyber_pre_key_public = None, si_kyber_one_time_prekey_public = None,
     si_kyber_one_time_prekey_id = None\<rparr>"

definition sample_orch :: orch_env where
  "sample_orch = \<lparr>oe_user = ''me'', oe_device = ''dev'', oe_knst = sample_knst,
     oe_rng = (\<lambda>_. replicate 16 0), oe_clock = (\<lambda>_. 2000), oe_fetch = (\<lambda>_ _. Ok ''{}''),
     oe_parse_bundle = (\<lambda>_. Ok sample_bundle)\<rparr>"

definition task_init :: "'o \<Rightarrow> db \<Rightarrow> 'o task" where
  "task_init core d =
     (let (d, c) = tracker_load d
      in \<lparr>tk_core = core, tk_db = d, tk_cursor = c, tk_stream = [], tk_stream_full = [], tk_ui = [],
          tk_inbox = [], tk_jobs = [], tk_aborted = [], tk_timers = Map.empty,
          tk_established = Map.empty, tk_used = 0\<rparr>)"


section \<open>Cursor and storage\<close>

lemma store_inbound_stores:
  "store_inbound_message d m = (d', Ok u) \<Longrightarrow> direction_ok (sm_direction m) \<Longrightarrow>
     sm_id m \<in> sm_id ` set (messages d')"
  unfolding store_inbound_message_def by (auto elim!: stmt_cases split: if_splits)

lemma save_stream_cursor_messages: "messages (fst (save_stream_cursor d c)) = messages d"
proof (cases "c = []")
  case False
  obtain d1 r1 where l: "load_stream_cursor d = (d1, r1)" by fastforce
  obtain fs where d1: "d1 = d\<lparr>faults := fs\<rparr>" using load_stream_cursor_result [OF l] by auto
  obtain d2 r2 where w: "secure_save d1 STREAM_CURSOR_KEY (str_bytes c) = (d2, r2)" by fastforce
  have "messages d2 = messages d1" using w unfolding secure_save_def by (auto elim!: stmt_cases)
  then show ?thesis using d1 False l w unfolding save_stream_cursor_def
    by (auto split: sum.splits if_splits)
qed (simp add: save_stream_cursor_def)

lemma tracker_commit_messages: "tracker_commit t d i = (t', d') \<Longrightarrow> messages d' = messages d"
  using save_stream_cursor_messages
  by (auto simp: tracker_commit_def tracker_persist_def split: option.splits prod.splits sum.splits bool.splits)
    (metis fst_conv)+

lemma store_inbound_cursor:
  "store_inbound_message d m = (d', r) \<Longrightarrow> stored_cursor d' = stored_cursor d"
  unfolding store_inbound_message_def
  by (auto elim!: stmt_cases simp: stored_cursor_def split: if_splits)

text \<open>The watermark moves over a message only when that message is in the database: if storing
  an inbound message changes the stored cursor, or the one the next reconnect subscribes from,
  then a row with its id is there.\<close>

theorem cursor_moves_over_stored_messages:
  assumes "stored_cursor (tk_db (persist_inbound i (received_message i p txt now) t)) \<noteq> stored_cursor (tk_db t)
     \<or> tk_cursor (persist_inbound i (received_message i p txt now) t) \<noteq> tk_cursor t"
  shows "i \<in> sm_id ` set (messages (tk_db (persist_inbound i (received_message i p txt now) t)))"
proof -
  let ?m = "received_message i p txt now"
  have m: "direction_ok (sm_direction ?m)" "sm_id ?m = i"
    by (simp_all add: received_message_def direction_ok_def)
  obtain d r where s: "store_inbound_message (tk_db t) ?m = (d, r)" by fastforce
  show ?thesis
  proof (cases r)
    case (Inl e)
    then show ?thesis using assms s store_inbound_cursor [OF s] by (simp add: persist_inbound_def)
  next
    case (Inr u)
    obtain c d' where k: "tracker_commit (tk_cursor t) d i = (c, d')" by fastforce
    show ?thesis
      using store_inbound_stores [OF s [unfolded Inr] m(1)] tracker_commit_messages [OF k] s Inr k
      by (simp add: persist_inbound_def m(2))
  qed
qed

definition noted_task :: "unit task" where
  "noted_task = (task_init () empty_db)\<lparr>tk_db := empty_db,
     tk_cursor := \<lparr>ct_committed = None, ct_pending = [''m1'' \<mapsto> ''7-0'']\<rparr>\<rparr>"

theorem cursor_moves_over_stored_messages_witness:
  "''m1'' \<in> sm_id ` set (messages (tk_db
     (persist_inbound ''m1'' (received_message ''m1'' ''bob'' ''hi'' 1) noted_task)))"
proof (rule cursor_moves_over_stored_messages)
  let ?m = "received_message ''m1'' ''bob'' ''hi'' 1"
  have p: "tk_cursor (persist_inbound ''m1'' ?m noted_task)
      = fst (tracker_commit (tk_cursor noted_task) (fst (store_inbound_message empty_db ?m)) ''m1'')"
    by (simp add: persist_inbound_def noted_task_def case_prod_beta store_inbound_message_def
        direction_ok_def received_message_def empty_db_def)
  have "ct_pending (tk_cursor (persist_inbound ''m1'' ?m noted_task)) ''m1'' = None"
    unfolding p by (simp add: tracker_commit_def tracker_persist_def case_prod_beta
        split: option.split sum.split bool.split)
  moreover have "ct_pending (tk_cursor noted_task) ''m1'' = Some ''7-0''" by (simp add: noted_task_def)
  ultimately show "stored_cursor (tk_db (persist_inbound ''m1'' ?m noted_task)) \<noteq> stored_cursor (tk_db noted_task)
     \<or> tk_cursor (persist_inbound ''m1'' ?m noted_task) \<noteq> tk_cursor noted_task" by auto
qed

section \<open>Terminated sessions\<close>

text \<open>Terminating a session never loses it: when the archive cannot be written the hot session
  stays, and when the update succeeds the archive holds the given bytes, the hot session is gone
  and every other key is as before.\<close>

theorem session_terminated_keeps_archive:
  assumes "apply_session_terminated d c bs = (d', r)"
  shows "(r = Ok () \<longrightarrow> kvs d' = (kvs d)(''archive_'' @ c \<mapsto> bs, ''session_'' @ c := None))
     \<and> (kvs d' (''session_'' @ c) = None \<and> kvs d (''session_'' @ c) \<noteq> None \<longrightarrow>
          kvs d' (''archive_'' @ c) = Some bs)"
proof -
  obtain d1 r1 where s: "secure_save d (''archive_'' @ c) bs = (d1, r1)" by fastforce
  obtain d2 r2 where k: "secure_delete d1 (''session_'' @ c) = (d2, r2)" by fastforce
  have "''archive_'' @ c \<noteq> ''session_'' @ c" by simp
  note arch = store.archive_then_remove [OF s k this]
  have d': "(d', r) = (case r1 of Inl e \<Rightarrow> (d1, Err e) | Inr _ \<Rightarrow> (d2, r2))"
    using assms s k by (auto simp: apply_session_terminated_def split: sum.splits)
  show ?thesis
  proof (cases r1)
    case (Inl e)
    then show ?thesis using d' arch(3) [OF Inl] by auto
  next
    case (Inr u)
    then show ?thesis using d' arch(1,2) by simp
  qed
qed

theorem session_terminated_keeps_archive_witness:
  "kvs (fst (apply_session_terminated (empty_db\<lparr>secure_store := [(''session_bob'', [1])]\<rparr>) ''bob'' [2])) ''archive_bob''
     = Some [2]"
proof -
  let ?d = "empty_db\<lparr>secure_store := [(''session_bob'', [1])]\<rparr>"
  obtain d' where a: "apply_session_terminated ?d ''bob'' [2] = (d', Ok ())"
    by (simp add: apply_session_terminated_def secure_save_def secure_delete_def empty_db_def)
  show ?thesis
    using conjunct1 [OF session_terminated_keeps_archive [OF a]] by (simp add: a)
qed

section \<open>Chat text on its way out\<close>

lemma str_bytes_hd:
  assumes "s \<noteq> []" "hd s \<noteq> CHR 0x00" shows "hd (str_bytes s) \<noteq> 0"
proof
  assume z: "hd (str_bytes s) = 0"
  have "[hd s] = bytes_str (str_bytes [hd s])" by simp
  also have "str_bytes [hd s] = [hd (str_bytes s)]" using assms(1) by (simp add: str_bytes_def hd_map)
  also have "\<dots> = [0]" by (simp add: z)
  also have "bytes_str [0] = [CHR 0x00]" by (simp add: bytes_str_def char_of_def)
  finally show False using assms(2) by simp
qed

text \<open>A chat text, in the sense of the two sides: a string that is no frame and no control text, and that
  fits a frame.\<close>

definition chat_text :: "knst_env \<Rightarrow> string \<Rightarrow> bool" where
  "chat_text N s \<longleftrightarrow> is_str s \<and> \<not> is_frame (str_bytes s) \<and> (s \<noteq> [] \<longrightarrow> hd s \<noteq> CHR 0x00)
     \<and> length (ke_encode_content N s) < 2 ^ 32"

lemma wrap_chat_text: "chat_text N s \<Longrightarrow> wrap_plaintext N (str_bytes s) i = encode_text N s i"
  using str_bytes_hd [of s] by (auto simp: chat_text_def wrap_plaintext_def)

lemma decode_chat_text:
  assumes "uuid_law N" "content_law N" "chat_text N s"
  shows "decode_text N (encode_text N s i) = s"
proof -
  have "\<not> is_silent_type (ke_types N) (ct_e2ee_signal (ke_types N))"
    by (simp add: is_silent_type_def disposition_def)
  then show ?thesis
    using decode_text_frame_whole [OF assms(1)] assms(2,3) by (simp add: encode_text_def content_law_def chat_text_def)
qed

text \<open>Chat text is wrapped exactly once: an outgoing text becomes a KNST frame from which the
  peer reads the same text, and wrapping an already wrapped plaintext, whatever message id it
  gets, changes nothing.\<close>

theorem wrap_once_roundtrip:
  assumes "uuid_law N" "content_law N" "ct_distinct (ke_types N)" "length (ke_encode_content N s) < 2 ^ 32"
    and "is_str s" "\<not> is_frame (str_bytes s)" "s \<noteq> [] \<longrightarrow> hd s \<noteq> CHR 0x00"
  shows "is_frame (wrap_plaintext N (str_bytes s) i)
     \<and> decode_text N (wrap_plaintext N (str_bytes s) i) = s
     \<and> wrap_plaintext N (wrap_plaintext N (str_bytes s) i) j = wrap_plaintext N (str_bytes s) i"
proof -
  have c: "chat_text N s" using assms(4-7) by (simp add: chat_text_def)
  show ?thesis
    using wrap_chat_text [OF c] decode_chat_text [OF assms(1,2) c] is_frame_frame_whole [OF assms(1)]
    by (simp add: encode_text_def wrap_plaintext_def)
qed

theorem wrap_once_roundtrip_witness:
  "decode_text sample_knst (wrap_plaintext sample_knst (str_bytes ''hi'') ''id'') = ''hi''"
proof -
  have "\<not> is_frame (str_bytes ''hi'')" by (simp add: is_frame_def HEADER_SIZE_def)
  moreover have "is_str ''hi''" by (rule is_str_ascii) simp
  ultimately show ?thesis
    using wrap_once_roundtrip [OF sample_knst_laws, of "''hi''" "''id''"] by (simp add: sample_knst_def)
qed

section \<open>Control frames that reach the screen\<close>

text \<open>The decrypted-message arm does not look at what the frame decodes to: a silent control
  frame is stored as an empty message and shown as an empty bubble.\<close>

theorem silent_frame_becomes_empty_bubble:
  assumes "is_frame data" "disposition (ke_types (oe_knst E)) (data ! 5) = SilentControl"
  shows "\<exists>now. tk_ui (fst (dispatch K E (MessageDecrypted c m data) (t, cy)))
       = tk_ui t @ [NewMessage c m [] now]
     \<and> tk_db (fst (dispatch K E (MessageDecrypted c m data) (t, cy)))
       = tk_db (persist_inbound m (received_message m c [] now) t)"
proof -
  have "decode_text (oe_knst E) data = []"
    using assms by (simp add: decode_text_def is_silent_type_def)
  moreover have "tk_db (persist_inbound m x (t\<lparr>tk_used := n\<rparr>)) = tk_db (persist_inbound m x t)"
    "tk_ui (persist_inbound m x (t\<lparr>tk_used := n\<rparr>)) = tk_ui t" for x n
    by (simp_all add: persist_inbound_def case_prod_beta split: sum.split)
  ultimately show ?thesis
    by (auto simp: dispatch_def message_decrypted_arm_def show_received_def now_ms_u64_def ui_def Let_def)
qed

theorem silent_frame_becomes_empty_bubble_witness:
  "\<exists>now. tk_ui (fst (dispatch sample_core sample_orch
      (MessageDecrypted ''bob'' ''m1'' (encode_session_ping sample_knst ''m1'')) (task_init [] empty_db, new_cycle)))
    = [NewMessage ''bob'' ''m1'' [] now]"
proof -
  let ?f = "encode_session_ping sample_knst ''m1''"
  have f: "is_frame ?f" "?f ! 5 = ct_session_ping sample_types"
    using frame_whole_layout(3) [OF sample_knst_laws(1)] is_frame_frame_whole [OF sample_knst_laws(1)]
    by (simp_all add: encode_session_ping_def sample_knst_def)
  have "disposition (ke_types (oe_knst sample_orch)) (?f ! 5) = SilentControl"
    unfolding f(2) by (simp add: sample_orch_def sample_knst_def disposition_def sample_types_def)
  from silent_frame_becomes_empty_bubble [OF f(1) this, of sample_core "''bob''" "''m1''" "task_init [] empty_db" new_cycle]
  show ?thesis by (auto simp: task_init_def case_prod_beta Let_def)
qed

section \<open>Healing\<close>

lemma dispatch_inited_mono: "c \<in> cy_inited (snd s) \<Longrightarrow> c \<in> cy_inited (snd (dispatch K E a s))"
  by (cases s; cases a)
    (auto simp: dispatch_def init_session_arm_def session_started_def session_heal_arm_def heal_initiator_def
      heal_responder_def dispatch_storage_def Let_def split: prod.splits option.splits sum.splits)

lemma dispatch_all_inited_mono:
  "c \<in> cy_inited (snd s) \<Longrightarrow> c \<in> cy_inited (snd (dispatch_all K E as s))"
  by (induction "as" arbitrary: s) (simp_all add: dispatch_all_def dispatch_inited_mono)

lemma follow_up_inited_mono:
  assumes "c \<in> cy_inited (snd s)" shows "c \<in> cy_inited (snd (follow_up K E s e))"
proof -
  have "c \<in> cy_inited cy \<Longrightarrow> c \<in> cy_inited (snd (foldl (\<lambda>(t, cy) a.
      let (t, cy') = dispatch K E a (t, cy\<lparr>cy_follow_ups := []\<rparr>) in (t, cy\<lparr>cy_inited := cy_inited cy'\<rparr>)) (t, cy) as))"
    for t cy "as"
  proof (induction "as" arbitrary: t cy)
    case (Cons a "as")
    obtain t' cy' where d: "dispatch K E a (t, cy\<lparr>cy_follow_ups := []\<rparr>) = (t', cy')" by fastforce
    have "c \<in> cy_inited cy'"
      using dispatch_inited_mono [of c "(t, cy\<lparr>cy_follow_ups := []\<rparr>)" K E a] d Cons.prems by simp
    then show ?case using Cons.IH [of "cy\<lparr>cy_inited := cy_inited cy'\<rparr>" t'] d by simp
  qed simp
  then show ?thesis using assms by (cases s) (simp add: follow_up_def case_prod_beta Let_def)
qed

lemma heal_suppressed: "c \<in> cy_inited (snd s) \<Longrightarrow> dispatch K E (SessionHealNeeded c r) s = s"
  by (cases s) (simp add: dispatch_def session_heal_arm_def)

lemma init_session_marks:
  assumes "SessionInitCompleted c [] \<notin> set (cy_follow_ups cy)"
    and "SessionInitCompleted c [] \<in> set (cy_follow_ups (snd (dispatch K E (InitSession c b) (t, cy))))"
  shows "c \<in> cy_inited (snd (dispatch K E (InitSession c b) (t, cy)))"
  using assms by (auto simp: dispatch_def init_session_arm_def session_started_def Let_def
      split: prod.splits option.splits sum.splits if_splits)

text \<open>C13. A session that was just started is not healed away: once \<open>InitSession\<close> succeeded for a
  contact, a later \<open>SessionHealNeeded\<close> for it in the same cycle, among the actions or in a
  follow-up, changes nothing at all.\<close>

theorem heal_after_init_suppressed:
  assumes "SessionInitCompleted c [] \<notin> set (cy_follow_ups cy)"
    and "SessionInitCompleted c [] \<in> set (cy_follow_ups (snd (dispatch K E (InitSession c b) (t, cy))))"
  shows "dispatch_all K E (InitSession c b # as @ [SessionHealNeeded c r]) (t, cy)
       = dispatch_all K E (InitSession c b # as) (t, cy)
     \<and> dispatch K E (SessionHealNeeded c r) (foldl (follow_up K E) (dispatch_all K E (InitSession c b # as) (t, cy)) es)
       = foldl (follow_up K E) (dispatch_all K E (InitSession c b # as) (t, cy)) es"
proof -
  let ?s = "dispatch_all K E (InitSession c b # as) (t, cy)"
  have "c \<in> cy_inited (snd (dispatch_all K E as (dispatch K E (InitSession c b) (t, cy))))"
    by (rule dispatch_all_inited_mono) (rule init_session_marks [OF assms])
  then have s: "c \<in> cy_inited (snd ?s)" by (simp add: dispatch_all_def)
  moreover have "c \<in> cy_inited (snd (foldl (follow_up K E) s es))" if "c \<in> cy_inited (snd s)" for s
    using that by (induction es arbitrary: s) (simp_all add: follow_up_inited_mono)
  ultimately show ?thesis
    using heal_suppressed [OF s, of K E r] by (simp add: heal_suppressed dispatch_all_def)
qed

theorem heal_after_init_suppressed_witness:
  "dispatch_all sample_core sample_orch [InitSession ''bob'' ''{}'', SessionHealNeeded ''bob'' ''Initiator'']
     (task_init [] empty_db, new_cycle)
   = dispatch_all sample_core sample_orch [InitSession ''bob'' ''{}''] (task_init [] empty_db, new_cycle)"
proof -
  have "SessionInitCompleted ''bob'' [] \<notin> set (cy_follow_ups new_cycle)" by (simp add: new_cycle_def)
  moreover have "SessionInitCompleted ''bob'' [] \<in> set (cy_follow_ups
      (snd (dispatch sample_core sample_orch (InitSession ''bob'' ''{}'') (task_init [] empty_db, new_cycle))))"
    by (simp add: dispatch_def init_session_arm_def sample_core_def sample_orch_def session_started_def
        init_initiator_from_json_def now_ms_u64_def Let_def)
  ultimately show ?thesis
    using conjunct1 [OF heal_after_init_suppressed, of "''bob''" new_cycle sample_core sample_orch "''{}''"
        "task_init [] empty_db" "[]" "''Initiator''"] by simp
qed

section \<open>Timers\<close>

text \<open>Scheduling a timer again under its id forgets the first handle without aborting it:
  cancelling stops only the second, and the first still fires.\<close>

theorem rescheduled_timer_still_fires:
  assumes "length (tk_jobs t) \<notin> set (tk_aborted t)"
  shows "let t' = fst (dispatch_all K E [ScheduleTimer i d1, ScheduleTimer i d2, CancelTimer i] (t, cy))
     in tk_timers t' i = None
        \<and> tk_inbox (finish_job (length (tk_jobs t)) r t') = tk_inbox t' @ [TimerFired i]
        \<and> tk_inbox (finish_job (Suc (length (tk_jobs t))) r t') = tk_inbox t'"
  using assms by (simp add: dispatch_all_def dispatch_def dispatch_network_def spawn_def finish_job_def
      self_send_def Let_def nth_append)

theorem rescheduled_timer_still_fires_witness:
  "tk_inbox (finish_job 0 (Ok []) (fst (dispatch_all sample_core sample_orch
     [ScheduleTimer ''ping'' 10, ScheduleTimer ''ping'' 20, CancelTimer ''ping''] (task_init [] empty_db, new_cycle))))
   = [TimerFired ''ping'']"
  using rescheduled_timer_still_fires [of "task_init [] empty_db" sample_core sample_orch "''ping''" 10 20 new_cycle "Ok []"]
  by (simp add: task_init_def case_prod_beta Let_def dispatch_all_def dispatch_def dispatch_network_def spawn_def)

section \<open>The tables under the actor\<close>

definition keeps_keys :: "db \<times> cursor_tracker \<Rightarrow> db \<times> cursor_tracker \<Rightarrow> bool" where
  "keeps_keys s s' \<longleftrightarrow> (keys_ok (fst s) \<longrightarrow> keys_ok (fst s'))"

lemma keeps_keys_step: "db_step d d' \<Longrightarrow> keeps_keys (d, c) (d', c')"
  using db_step_keys by (auto simp: keeps_keys_def)

lemma keeps_keys_cursor:
  "keeps_keys (d, c) (snd (tracker_commit c d i), c')" "keeps_keys (d, c) (snd (tracker_commit_direct c d x), c')"
proof -
  have "keys_ok (snd (tracker_persist t d x))" if "keys_ok d" for t x
    using that db_step_keys [OF db_step.cursor [OF prod.collapse [symmetric]]]
    by (auto simp: tracker_persist_def split: option.split prod.split sum.split bool.split) (metis fst_conv)+
  then show "keeps_keys (d, c) (snd (tracker_commit c d i), c')"
    "keeps_keys (d, c) (snd (tracker_commit_direct c d x), c')"
    by (simp_all add: keeps_keys_def tracker_commit_def tracker_commit_direct_def)
qed

interpretation actor_keys: actor_contract keeps_keys "\<lambda>_. True"
proof unfold_locales
  fix d m d' c c' d''
  assume "store_inbound_message d m = (d', Ok ())" "tracker_commit c d' (sm_id m) = (c', d'')"
  then show "keeps_keys (d, c) (d'', c')"
    using keeps_keys_step [OF db_step.inbound] keeps_keys_cursor(1) [of d' c "sm_id m" c']
    by (auto simp: keeps_keys_def)
qed (auto simp: keeps_keys_def intro: db_step_keys db_step.intros prod.collapse [symmetric])

lemma task_step_keys: "keeps_keys (tables t) (tables (task_step K E t i))"
proof -
  have K: "core_saves_only (\<lambda>_. True) K"
    by (simp add: core_saves_only_def list_all_iff saves_only_def split: action.split)
  show ?thesis
  proof (cases "\<exists>e x. i = Command (StreamMessage e x)")
    case True
    then obtain e x where i: "i = Command (StreamMessage e x)" by blast
    have "keeps_keys (tables t) (tables (process_event K E e (t\<lparr>tk_cursor := c\<rparr>)))" for c
      using actor_keys.process_event [OF K, of "t\<lparr>tk_cursor := c\<rparr>" E e] by (simp add: keeps_keys_def tables_def)
    then show ?thesis
      using keeps_keys_cursor(2) [of "tk_db t" "tk_cursor t"]
      by (simp add: i task_step_def handle_command_def stream_message_def Let_def case_prod_beta tables_def)
  next
    case False
    then show ?thesis using actor_keys.quiet_step [OF K] by blast
  qed
qed

text \<open>Whatever the crypto core answers, whatever arrives and in whatever order, and whichever
  statements of the database fail, every state of the actor keeps the primary keys of the tables
  unique and every stored direction legal.\<close>

theorem actor_keeps_tables:
  assumes "keys_ok d"
  shows "keys_ok (tk_db (task_run K E ((task_init core d)\<lparr>tk_db := d\<rparr>) is))"
proof -
  have "keeps_keys (tables t) (tables (task_run K E t is))" for t
  proof (induction "is" arbitrary: t)
    case (Cons i "is")
    show ?case using actor_keys.R_trans [OF task_step_keys Cons.IH] by (simp add: task_run_def)
  qed (simp add: task_run_def actor_keys.R_refl)
  then show ?thesis using assms unfolding keeps_keys_def tables_def
    by (metis fst_conv task.select_convs(2) task.surjective task.update_convs(2))
qed

theorem actor_keeps_tables_witness:
  "keys_ok (tk_db (task_run sample_core sample_orch ((task_init [] empty_db)\<lparr>tk_db := empty_db\<rparr>)
     [Arrive (OutgoingMessage ''bob'' ''m'' [1] 0), Turn, Command (ForgetContact ''bob'')]))"
  by (rule actor_keeps_tables) (simp add: keys_ok_def empty_db_def)

section \<open>Message ids\<close>

lemma length_hex_fixed [simp]: "length (hex_fixed w v) = w"
  by (induction w arbitrary: v) simp_all

lemma hex_fixed_digits: "c \<in> set (hex_fixed w v) \<Longrightarrow> \<exists>n < 16. c = hex_digit n"
  by (induction w arbitrary: v) (auto intro: exI [of _ "_ mod 16"])

lemma hex_fixed_top: "hex_fixed (Suc w) v ! 0 = hex_digit (v div 16 ^ w mod 16)"
proof (induction w arbitrary: v)
  case (Suc w)
  have "hex_fixed (Suc (Suc w)) v ! 0 = hex_fixed (Suc w) (v div 16) ! 0"
    by (simp add: nth_append)
  also have "\<dots> = hex_digit (v div 16 div 16 ^ w mod 16)" by (rule Suc)
  finally show ?case by (simp add: div_mult2_eq)
qed simp

lemma top_nibble: "be_val [x, y] div 16 ^ 3 mod 16 = unat x div 16"
proof -
  have "unat y < 256" "unat x < 256" using unsigned_less [of y, where 'a = nat] unsigned_less [of x, where 'a = nat] by simp_all
  then show ?thesis by simp
qed

lemma version_nibble: "unat (or (and b 0x0F) 0x40 :: byte) div 16 = 4"
proof -
  have "or (and b 0x0F) 0x40 div 16 = (4 :: byte)" by (simp flip: drop_bit_eq_div [of 4, simplified])
  from arg_cong [OF this, of unat, unfolded unat_div] show ?thesis by simp
qed

lemma variant_nibble: "unat (or (and b 0x3F) 0x80 :: byte) div 16 \<in> {8, 9, 10, 11}"
proof -
  have "or (and b 0x3F) 0x80 div 64 = (2 :: byte)" by (simp flip: drop_bit_eq_div [of 6, simplified])
  from arg_cong [OF this, of unat, unfolded unat_div]
  have "unat (or (and b 0x3F) 0x80 :: byte) div 64 = 2" by simp
  then show ?thesis by auto
qed

lemma hex_digit_chars: "hex_digit 4 = CHR ''4''" "hex_digit 8 = CHR ''8''" "hex_digit 9 = CHR ''9''"
  "hex_digit 10 = CHR ''a''" "hex_digit 11 = CHR ''b''"
  by code_simp+

text \<open>The ids the actor makes are version 4 uuids in their canonical text form: 36 characters,
  dashes at the four fixed places, lower-case hex digits elsewhere, the version digit 4 and a
  variant digit 8, 9, a or b, whatever the random bytes are.\<close>

theorem uuid_v4_wellformed:
  assumes "length b = 16"
  shows "length (uuid_v4 b) = 36 \<and> uuid_v4 b ! 14 = CHR ''4'' \<and> uuid_v4 b ! 19 \<in> set ''89ab''
     \<and> (\<forall>i \<in> {8, 13, 18, 23}. uuid_v4 b ! i = CHR ''-'')
     \<and> (\<forall>c \<in> set (uuid_v4 b). c = CHR ''-'' \<or> (\<exists>n < 16. c = hex_digit n))"
proof -
  define b' where "b' = b[6 := or (and (b ! 6) 0x0F) 0x40]"
  define b2 where "b2 = b'[8 := or (and (b' ! 8) 0x3F) 0x80]"
  have l: "length b2 = 16" using assms by (simp add: b2_def b'_def)
  let ?A = "hex_fixed 8 (be_val (take 4 b2))" and ?B = "hex_fixed 4 (be_val (take 2 (drop 4 b2)))"
  let ?C = "hex_fixed 4 (be_val (take 2 (drop 6 b2)))" and ?D = "hex_fixed 4 (be_val (take 2 (drop 8 b2)))"
  let ?F = "hex_fixed 12 (be_val (drop 10 b2))"
  have u: "uuid_v4 b = ?A @ ''-'' @ ?B @ ''-'' @ ?C @ ''-'' @ ?D @ ''-'' @ ?F"
    by (simp add: uuid_v4_def b2_def b'_def Let_def)
  have two: "take 2 (drop i b2) = [b2 ! i, b2 ! Suc i]" if "Suc i < 16" for i
    using that l by (simp add: numeral_2_eq_2 Cons_nth_drop_Suc [symmetric])
  have four: "4 = Suc 3" by simp
  have "b2 ! 6 = or (and (b ! 6) 0x0F) 0x40" "b2 ! 8 = or (and (b ! 8) 0x3F) 0x80"
    using assms by (simp_all add: b2_def b'_def)
  then have c: "?C ! 0 = hex_digit 4" and d: "?D ! 0 \<in> hex_digit ` {8, 9, 10, 11}"
    using version_nibble [of "b ! 6"] variant_nibble [of "b ! 8"]
    by (simp_all only: four hex_fixed_top two top_nibble) auto
  have "uuid_v4 b ! 14 = ?C ! 0" "uuid_v4 b ! 19 = ?D ! 0" unfolding u by (simp_all add: nth_append)
  moreover have "\<forall>i \<in> {8, 13, 18, 23}. uuid_v4 b ! i = CHR ''-''" unfolding u by (simp add: nth_append)
  moreover have "\<forall>c \<in> set (uuid_v4 b). c = CHR ''-'' \<or> (\<exists>n < 16. c = hex_digit n)"
    unfolding u by (auto dest: hex_fixed_digits)
  moreover have "hex_digit 4 = CHR ''4''" "hex_digit ` {8, 9, 10, 11} = set ''89ab''"
    by (simp_all add: hex_digit_chars)
  ultimately show ?thesis using c d by (simp add: u)
qed

theorem uuid_v4_wellformed_witness:
  "uuid_v4 (replicate 16 0) ! 14 = CHR ''4''"
  using uuid_v4_wellformed [of "replicate 16 0"] by simp

end
