(* ===== verification/Delivery.thy ===== *)
theory Delivery
  imports Orchestrator_Props
begin

text \<open>
  The watermark under the whole actor: through every step of the loop it moves only forward, and only to
  the position of a message that is stored or of a replay that was dropped. The laws of \<open>actor_contract\<close>
  are discharged here for the relation \<open>advances\<close>; and one lemma shows what the watermark does not
  promise, that everything before it is stored.
\<close>

section \<open>How the watermark moves\<close>

definition message_ids :: "db \<Rightarrow> string set" where
  "message_ids d = sm_id ` set (messages d)"

definition mark_ok :: "string option \<Rightarrow> bool" where
  "mark_ok m \<longleftrightarrow> (\<forall>x. m = Some x \<longrightarrow> cursor_ok x)"

definition noted_ok :: "cursor_tracker \<Rightarrow> bool" where
  "noted_ok c \<longleftrightarrow> (\<forall>i x. ct_pending c i = Some x \<longrightarrow> cursor_ok x)"

definition ahead :: "string option \<Rightarrow> string option \<Rightarrow> bool" where
  "ahead m m' \<longleftrightarrow> m' = m \<or> m = None \<or> (\<exists>x y. m = Some x \<and> m' = Some y \<and> cursor_after y x)"

lemma ahead_refl [simp]: "ahead m m" "ahead None m"
  by (simp_all add: ahead_def)

lemma ahead_trans: "mark_ok m \<Longrightarrow> mark_ok m' \<Longrightarrow> mark_ok m'' \<Longrightarrow> ahead m m' \<Longrightarrow> ahead m' m'' \<Longrightarrow> ahead m m''"
proof -
  assume ok: "mark_ok m" "mark_ok m'" "mark_ok m''" and a: "ahead m m'" "ahead m' m''"
  show ?thesis
  proof (cases "m' = m \<or> m = None \<or> m'' = m'")
    case False
    then obtain x y z where m: "m = Some x" "m' = Some y" "m'' = Some z" "cursor_after y x" "cursor_after z y"
      using a by (auto simp: ahead_def)
    then have "cursor_after z x" using ok cursor_mark.after_trans [of z y x] by (simp add: mark_ok_def)
    then show ?thesis using m by (simp add: ahead_def)
  qed (use a in auto)
qed

text \<open>From one state of the tables to a later one, when the cursors known so far are well-formed.\<close>

definition advances :: "db \<times> cursor_tracker \<Rightarrow> db \<times> cursor_tracker \<Rightarrow> bool" where
  "advances s s' \<longleftrightarrow> mark_ok (stored_cursor (fst s)) \<and> noted_ok (snd s) \<longrightarrow>
     message_ids (fst s) \<subseteq> message_ids (fst s')
     \<and> ct_pending (snd s') \<subseteq>\<^sub>m ct_pending (snd s)
     \<and> ahead (stored_cursor (fst s)) (stored_cursor (fst s'))
     \<and> (stored_cursor (fst s') = stored_cursor (fst s)
        \<or> (\<exists>i \<in> message_ids (fst s'). stored_cursor (fst s') = ct_pending (snd s) i \<and> ct_pending (snd s) i \<noteq> None))"

lemma noted_ok_mono: "noted_ok c \<Longrightarrow> ct_pending c' \<subseteq>\<^sub>m ct_pending c \<Longrightarrow> noted_ok c'"
  unfolding noted_ok_def map_le_def by (metis domI)

lemma noted_mark_ok: "noted_ok c \<Longrightarrow> mark_ok (ct_pending c i)"
  by (simp add: noted_ok_def mark_ok_def)

lemma advances_keeps_ok:
  "advances s s' \<Longrightarrow> mark_ok (stored_cursor (fst s)) \<Longrightarrow> noted_ok (snd s) \<Longrightarrow>
     mark_ok (stored_cursor (fst s')) \<and> noted_ok (snd s')"
  using noted_ok_mono noted_mark_ok unfolding advances_def by metis

lemma advances_trans:
  assumes "advances s s'" "advances s' s''"
  shows "advances s s''"
proof (unfold advances_def, intro impI)
  assume ok: "mark_ok (stored_cursor (fst s)) \<and> noted_ok (snd s)"
  note ok' = advances_keeps_ok [OF assms(1)] and ok'' = advances_keeps_ok [OF assms(2)]
  have a: "message_ids (fst s) \<subseteq> message_ids (fst s')" "ct_pending (snd s') \<subseteq>\<^sub>m ct_pending (snd s)"
    "ahead (stored_cursor (fst s)) (stored_cursor (fst s'))"
    "stored_cursor (fst s') = stored_cursor (fst s) \<or> (\<exists>i \<in> message_ids (fst s').
       stored_cursor (fst s') = ct_pending (snd s) i \<and> ct_pending (snd s) i \<noteq> None)"
    using assms(1) ok by (simp_all add: advances_def)
  have b: "message_ids (fst s') \<subseteq> message_ids (fst s'')" "ct_pending (snd s'') \<subseteq>\<^sub>m ct_pending (snd s')"
    "ahead (stored_cursor (fst s')) (stored_cursor (fst s''))"
    "stored_cursor (fst s'') = stored_cursor (fst s') \<or> (\<exists>i \<in> message_ids (fst s'').
       stored_cursor (fst s'') = ct_pending (snd s') i \<and> ct_pending (snd s') i \<noteq> None)"
    using assms(2) ok' ok by (simp_all add: advances_def)
  have late: "\<exists>i \<in> message_ids (fst s''). stored_cursor (fst s'') = ct_pending (snd s) i \<and> ct_pending (snd s) i \<noteq> None"
    if ne: "stored_cursor (fst s'') \<noteq> stored_cursor (fst s')"
  proof -
    obtain i where i: "i \<in> message_ids (fst s'')" "stored_cursor (fst s'') = ct_pending (snd s') i" "ct_pending (snd s') i \<noteq> None"
      using b(4) ne by blast
    then have "ct_pending (snd s) i = ct_pending (snd s') i" using a(2) i(3) unfolding map_le_def by (metis domIff)
    then show ?thesis using i by (intro bexI [of _ i]) simp_all
  qed
  have ah: "ahead (stored_cursor (fst s)) (stored_cursor (fst s''))"
    using ahead_trans [OF _ _ _ a(3) b(3)] ok ok' ok'' by blast
  have "stored_cursor (fst s'') = stored_cursor (fst s) \<or> (\<exists>i \<in> message_ids (fst s'').
          stored_cursor (fst s'') = ct_pending (snd s) i \<and> ct_pending (snd s) i \<noteq> None)"
  proof (cases "stored_cursor (fst s'') = stored_cursor (fst s')")
    case True
    then show ?thesis using a(4) b(1) by auto
  qed (use late in blast)
  then show "message_ids (fst s) \<subseteq> message_ids (fst s'') \<and> ct_pending (snd s'') \<subseteq>\<^sub>m ct_pending (snd s)
     \<and> ahead (stored_cursor (fst s)) (stored_cursor (fst s''))
     \<and> (stored_cursor (fst s'') = stored_cursor (fst s) \<or> (\<exists>i \<in> message_ids (fst s'').
          stored_cursor (fst s'') = ct_pending (snd s) i \<and> ct_pending (snd s) i \<noteq> None))"
    using a(1) b(1) map_le_trans [OF b(2) a(2)] ah by blast
qed

section \<open>The operations\<close>

lemma advances_quiet:
  "message_ids d \<subseteq> message_ids d' \<Longrightarrow> kvs d' STREAM_CURSOR_KEY = kvs d STREAM_CURSOR_KEY \<Longrightarrow> advances (d, c) (d', c)"
  by (simp add: advances_def stored_cursor_def)

lemma secure_save_messages [simp]: "messages (fst (secure_save d k v)) = messages d"
  by (cases "secure_save d k v") (auto simp: secure_save_def elim!: stmt_cases)

lemma secure_delete_messages [simp]: "messages (fst (secure_delete d k)) = messages d"
  by (cases "secure_delete d k") (auto simp: secure_delete_def elim!: stmt_cases)

lemma advances_stmt:
  assumes "\<And>d0. fst (f d0) = g d0" "\<And>d0. message_ids d0 \<subseteq> message_ids (g d0)"
    and "\<And>d0. secure_store (g d0) = secure_store d0"
  shows "advances (d, c) (fst (stmt d f), c)"
proof (cases "stmt d f")
  case (Pair d' r)
  then show ?thesis
  proof (cases rule: stmt_cases [case_names failed ran])
    case (failed fs)
    then show ?thesis using Pair by (simp add: advances_quiet message_ids_def)
  next
    case (ran fs)
    then have "d' = g (d\<lparr>faults := fs\<rparr>)" using assms(1) [of "d\<lparr>faults := fs\<rparr>"] by simp
    then show ?thesis
      using Pair assms(2,3) [of "d\<lparr>faults := fs\<rparr>"] by (intro advances_quiet) (simp_all add: message_ids_def)
  qed
qed

lemma store_inbound_result:
  assumes "store_inbound_message d m = (d', r)"
  shows "message_ids d \<subseteq> message_ids d'" "kvs d' = kvs d"
    and "r = Ok () \<Longrightarrow> direction_ok (sm_direction m) \<Longrightarrow> sm_id m \<in> message_ids d'"
  using assms unfolding store_inbound_message_def message_ids_def
  by (auto elim!: stmt_cases split: if_splits)

lemma commit_advances:
  assumes "tracker_commit c d i = (c', d')" "i \<in> message_ids d"
  shows "advances (d, c) (d', c')"
proof (cases "ct_pending c i")
  case None
  then show ?thesis using assms(1)
    by (auto simp: tracker_commit_def tracker_persist_def advances_def map_le_def split: if_splits)
next
  case (Some x)
  obtain d1 r where s: "save_stream_cursor d x = (d1, r)" by fastforce
  have d': "d' = d1" "ct_pending c' = (ct_pending c)(i := None)"
    using assms(1) s by (auto simp: tracker_commit_def tracker_persist_def Some split: sum.splits bool.splits)
  have ids: "message_ids d' = message_ids d"
    using save_stream_cursor_messages [of d x] s d'(1) by (simp add: message_ids_def)
  have "ahead (stored_cursor d) (stored_cursor d')
      \<and> (stored_cursor d' = stored_cursor d \<or> stored_cursor d' = Some x)" if "cursor_ok x"
    using save_stream_cursor_result [OF s] cursor_ok_str [OF that] d'(1)
    by (cases "stored_cursor d") (auto simp: ahead_def)
  moreover have "cursor_ok x" if "noted_ok c" using that Some by (simp add: noted_ok_def)
  moreover have "\<exists>j \<in> message_ids d'. stored_cursor d' = ct_pending c j \<and> ct_pending c j \<noteq> None"
    if "stored_cursor d' = Some x"
    using that Some assms(2) ids by (intro bexI [of _ i]) simp_all
  moreover have "ct_pending c' \<subseteq>\<^sub>m ct_pending c" using d'(2) by (simp add: map_le_def)
  ultimately show ?thesis using ids by (auto simp: advances_def; metis option.distinct(1))
qed

interpretation actor_mark: actor_contract advances "\<lambda>k. k \<noteq> STREAM_CURSOR_KEY"
proof unfold_locales
  fix d c fs
  show "advances (d, c) (d\<lparr>faults := fs\<rparr>, c)" by (simp add: advances_quiet message_ids_def)
next
  fix k d c v
  assume "k \<noteq> STREAM_CURSOR_KEY"
  then show "advances (d, c) (fst (secure_save d k v), c)" "advances (d, c) (fst (secure_delete d k), c)"
    using store.save_other [of STREAM_CURSOR_KEY k d v] store.remove_other [of STREAM_CURSOR_KEY k d]
    by (simp_all add: advances_quiet message_ids_def)
next
  fix d c tn j i ts
  show "advances (d, c) (fst (persist_record d tn j), c)" "advances (d, c) (fst (store_ack d i ts), c)"
    "advances (d, c) (fst (prune_acks d ts), c)"
    unfolding persist_record_def store_ack_def prune_acks_def
    by (rule advances_stmt [OF refl]; force simp: message_ids_def)+
  have "sm_id ` (\<lambda>m. if sm_id m = i then m\<lparr>sm_delivery_status := ''delivered''\<rparr> else m) ` M = sm_id ` M" for M :: "stored_message set"
    unfolding image_image by (rule image_cong) simp_all
  then show "advances (d, c) (fst (mark_delivered d i), c)"
    unfolding mark_delivered_def
    by (intro advances_stmt [OF refl]) (simp_all add: message_ids_def del: if_image_distrib)
next
  fix d m d' e c
  assume "store_inbound_message d m = (d', Err e)"
  then show "advances (d, c) (d', c)" using store_inbound_result by (intro advances_quiet) auto
next
  fix d m d' c c' d''
  assume s: "store_inbound_message d m = (d', Ok ())" and "direction_ok (sm_direction m)"
    and k: "tracker_commit c d' (sm_id m) = (c', d'')"
  then have "sm_id m \<in> message_ids d'" using store_inbound_result(3) by blast
  moreover have "advances (d, c) (d', c)" using store_inbound_result [OF s] by (intro advances_quiet) auto
  ultimately show "advances (d, c) (d'', c')" using commit_advances [OF k] advances_trans by blast
next
  show "advances s s" for s by (simp add: advances_def)
next
  show "advances s s' \<Longrightarrow> advances s' s'' \<Longrightarrow> advances s s''" for s s' s'' by (rule advances_trans)
qed (simp_all add: STREAM_CURSOR_KEY_def)

section \<open>The whole actor\<close>

fun stream_contexts :: "task_input list \<Rightarrow> stream_context list" where
  "stream_contexts [] = []"
| "stream_contexts (Command (StreamMessage e x) # is) = x # stream_contexts is"
| "stream_contexts (_ # is) = stream_contexts is"

definition context_ok :: "stream_context \<Rightarrow> bool" where
  "context_ok x \<longleftrightarrow> mark_ok (nonempty_cursor (sc_stream_cursor x))"

text \<open>The watermark is the one at the start, or that of a message which is stored, or of one which is
  dropped as a stale replay.\<close>

definition accounted :: "content_types \<Rightarrow> stream_context set \<Rightarrow> string option \<Rightarrow> db \<Rightarrow> bool" where
  "accounted T C m d \<longleftrightarrow> stored_cursor d = m
     \<or> (\<exists>x \<in> C. stored_cursor d = sc_stream_cursor x \<and> (sc_message_id x \<in> message_ids d \<or> is_replay_sensitive T x))"

definition noted_from :: "stream_context set \<Rightarrow> cursor_tracker \<Rightarrow> bool" where
  "noted_from C c \<longleftrightarrow> (\<forall>i y. ct_pending c i = Some y \<longrightarrow>
     (\<exists>x \<in> C. sc_message_id x = i \<and> sc_stream_cursor x = Some y \<and> cursor_ok y))"

definition on_track :: "content_types \<Rightarrow> stream_context set \<Rightarrow> string option \<Rightarrow> db \<times> cursor_tracker \<Rightarrow> bool" where
  "on_track T C m s \<longleftrightarrow> mark_ok (stored_cursor (fst s)) \<and> noted_from C (snd s)
     \<and> accounted T C m (fst s) \<and> ahead m (stored_cursor (fst s))"

lemma noted_from_ok: "noted_from C c \<Longrightarrow> noted_ok c"
  by (auto simp: noted_from_def noted_ok_def)

lemma noted_from_mono: "noted_from C c \<Longrightarrow> ct_pending c' \<subseteq>\<^sub>m ct_pending c \<Longrightarrow> noted_from C c'"
  unfolding noted_from_def map_le_def by (metis domI)

lemma advances_on_track:
  assumes "advances s s'" "on_track T C m s" "mark_ok m"
  shows "on_track T C m s'"
proof -
  have s: "mark_ok (stored_cursor (fst s))" "noted_from C (snd s)" "accounted T C m (fst s)"
    "ahead m (stored_cursor (fst s))" "noted_ok (snd s)"
    using assms(2) noted_from_ok [of C "snd s"] by (simp_all add: on_track_def)
  have a: "message_ids (fst s) \<subseteq> message_ids (fst s')" "ct_pending (snd s') \<subseteq>\<^sub>m ct_pending (snd s)"
    "ahead (stored_cursor (fst s)) (stored_cursor (fst s'))"
    "stored_cursor (fst s') = stored_cursor (fst s) \<or> (\<exists>i \<in> message_ids (fst s').
       stored_cursor (fst s') = ct_pending (snd s) i \<and> ct_pending (snd s) i \<noteq> None)"
    using assms(1) s by (simp_all add: advances_def)
  have ok: "mark_ok (stored_cursor (fst s'))" using advances_keeps_ok [OF assms(1)] s by blast
  have "accounted T C m (fst s')"
  proof (cases "stored_cursor (fst s') = stored_cursor (fst s)")
    case True
    then show ?thesis using s(3) a(1) unfolding accounted_def by (metis subsetD)
  next
    case False
    then obtain i y where "i \<in> message_ids (fst s')" "stored_cursor (fst s') = Some y" "ct_pending (snd s) i = Some y"
      using a(4) by auto
    then show ?thesis using s(2) unfolding noted_from_def accounted_def by metis
  qed
  then show ?thesis
    using ok noted_from_mono [OF s(2) a(2)] ahead_trans [OF assms(3) s(1) ok s(4) a(3)] by (simp add: on_track_def)
qed

lemma note_on_track:
  assumes "on_track T C m (d, c)" "x \<in> C" "context_ok x"
  shows "on_track T C m (d, tracker_note c (sc_message_id x) (sc_stream_cursor x))"
proof (cases "nonempty_cursor (sc_stream_cursor x)")
  case (Some y)
  then have "sc_stream_cursor x = Some y" by (auto simp: nonempty_cursor_def split: option.splits if_splits)
  moreover have "cursor_ok y" using assms(3) Some by (simp add: context_ok_def mark_ok_def)
  ultimately show ?thesis using assms(1,2) Some by (auto simp: on_track_def noted_from_def tracker_note_def)
qed (use assms in \<open>simp add: tracker_note_def\<close>)

lemma replay_on_track:
  assumes "on_track T C m (d, c)" "x \<in> C" "context_ok x" "is_replay_sensitive T x" "mark_ok m"
    and "tracker_commit_direct c d (sc_stream_cursor x) = (c', d')"
  shows "on_track T C m (d', c')"
proof (cases "nonempty_cursor (sc_stream_cursor x)")
  case None
  then show ?thesis using assms by (simp add: tracker_commit_direct_def tracker_persist_def)
next
  case (Some y)
  have y: "sc_stream_cursor x = Some y" using Some by (auto simp: nonempty_cursor_def split: option.splits if_splits)
  have ok: "cursor_ok y" using assms(3) Some by (simp add: context_ok_def mark_ok_def)
  obtain d1 r where s: "save_stream_cursor d y = (d1, r)" by fastforce
  have d': "d' = d1" "ct_pending c' = ct_pending c"
    using assms(6) s by (auto simp: tracker_commit_direct_def tracker_persist_def Some split: sum.splits bool.splits)
  have "message_ids d' = message_ids d"
    using save_stream_cursor_messages [of d y] s d'(1) by (simp add: message_ids_def)
  moreover have "ahead (stored_cursor d) (stored_cursor d')
      \<and> (stored_cursor d' = stored_cursor d \<or> stored_cursor d' = Some y)"
    using save_stream_cursor_result [OF s] cursor_ok_str [OF ok] d'(1)
    by (cases "stored_cursor d") (auto simp: ahead_def)
  moreover have "mark_ok (Some y)" using ok by (simp add: mark_ok_def)
  ultimately show ?thesis
    using assms(1,2,4,5) y d'(2) ahead_trans [of m "stored_cursor d" "stored_cursor d'"]
    by (auto simp: on_track_def accounted_def noted_from_def)
qed

lemma step_on_track:
  assumes "core_saves_only (\<lambda>k. k \<noteq> STREAM_CURSOR_KEY) K" "mark_ok m"
    and "set (stream_contexts [i]) \<subseteq> C" "\<forall>x \<in> C. context_ok x"
    and "on_track (ke_types (oe_knst E)) C m (tables t)"
  shows "on_track (ke_types (oe_knst E)) C m (tables (task_step K E t i))"
proof (cases "\<exists>e x. i = Command (StreamMessage e x)")
  case True
  then obtain e x where i: "i = Command (StreamMessage e x)" by blast
  have x: "x \<in> C" "context_ok x" using assms(3,4) by (auto simp: i)
  show ?thesis
  proof (cases "should_drop_stale_session_replay (ke_types (oe_knst E)) x (tk_established t)")
    case True
    obtain c d where k: "tracker_commit_direct (tk_cursor t) (tk_db t) (sc_stream_cursor x) = (c, d)" by fastforce
    have "is_replay_sensitive (ke_types (oe_knst E)) x"
      using True by (simp add: should_drop_stale_session_replay_def split: if_splits)
    then have "on_track (ke_types (oe_knst E)) C m (d, c)"
      using replay_on_track [OF _ x _ assms(2) k] assms(5) by (simp add: tables_def)
    then show ?thesis
      using True k by (simp add: i task_step_def handle_command_def stream_message_def tables_def)
  next
    case False
    let ?t = "t\<lparr>tk_cursor := tracker_note (tk_cursor t) (sc_message_id x) (sc_stream_cursor x)\<rparr>"
    have "on_track (ke_types (oe_knst E)) C m (tables ?t)"
      using note_on_track [OF _ x] assms(5) by (simp add: tables_def)
    then have "on_track (ke_types (oe_knst E)) C m (tables (process_event K E e ?t))"
      using advances_on_track [OF actor_mark.process_event [OF assms(1)]] assms(2) by blast
    then show ?thesis using False by (simp add: i task_step_def handle_command_def stream_message_def)
  qed
next
  case False
  then show ?thesis using advances_on_track [OF actor_mark.quiet_step [OF assms(1)] assms(5,2)] by blast
qed

lemma stream_contexts_Cons: "stream_contexts (i # is) = stream_contexts [i] @ stream_contexts is"
  by (cases i; simp) (metis append_Cons append_Nil orch_command.exhaust stream_contexts.simps)

lemma run_on_track:
  assumes "core_saves_only (\<lambda>k. k \<noteq> STREAM_CURSOR_KEY) K" "mark_ok m" "\<forall>x \<in> C. context_ok x"
  shows "set (stream_contexts is) \<subseteq> C \<Longrightarrow> on_track (ke_types (oe_knst E)) C m (tables t) \<Longrightarrow>
     on_track (ke_types (oe_knst E)) C m (tables (task_run K E t is))"
proof (induction "is" arbitrary: t)
  case (Cons i "is")
  have C: "set (stream_contexts [i]) \<subseteq> C" "set (stream_contexts is) \<subseteq> C"
    using Cons.prems(1) stream_contexts_Cons [of i "is"] by simp_all
  show ?case
    using Cons.IH [OF C(2) step_on_track [OF assms(1,2) C(1) assms(3) Cons.prems(2)]] by (simp add: task_run_def)
qed (simp add: task_run_def)

lemma task_init_on_track:
  "mark_ok (stored_cursor d) \<Longrightarrow> on_track T C (stored_cursor d) (tables (task_init core d))"
proof -
  assume ok: "mark_ok (stored_cursor d)"
  obtain d' r where l: "load_stream_cursor d = (d', r)" by fastforce
  then have "stored_cursor d' = stored_cursor d" using load_stream_cursor_result [OF l] by auto
  then show ?thesis using ok l
    by (simp add: task_init_def tracker_load_def tables_def on_track_def noted_from_def accounted_def case_prod_beta)
qed


definition sample_context :: stream_context where
  "sample_context = \<lparr>sc_contact_id = ''bob'', sc_message_id = ''m1'', sc_stream_cursor = Some ''200-0'',
     sc_content_type = 1, sc_msg_num = 3\<rparr>"

lemma sample_core_saves_only: "core_saves_only tame sample_core"
  by (simp add: core_saves_only_def sample_core_def saves_only_def split: incoming_event.split)


section \<open>What the watermark does not promise\<close>

text \<open>A message that could not be stored is passed over by the commit of the next one: the server resumes
  behind it, and it is never delivered again.\<close>

definition failing_task :: "unit task" where
  "failing_task = (task_init () empty_db)\<lparr>tk_db := empty_db\<lparr>faults := [True]\<rparr>,
     tk_cursor := \<lparr>ct_committed = None, ct_pending = [''m1'' \<mapsto> ''7-0'', ''m2'' \<mapsto> ''8-0'']\<rparr>\<rparr>"

lemma later_commit_skips_unstored:
  "let t = persist_inbound ''m2'' (received_message ''m2'' ''bob'' ''two'' 2)
             (persist_inbound ''m1'' (received_message ''m1'' ''bob'' ''one'' 1) failing_task)
   in stored_cursor (tk_db t) = Some ''8-0'' \<and> ''m1'' \<notin> message_ids (tk_db t) \<and> cursor_after ''8-0'' ''7-0''"
proof -
  let ?d = "empty_db\<lparr>messages := [received_message ''m2'' ''bob'' ''two'' 2]\<rparr>"
  have m1: "persist_inbound ''m1'' (received_message ''m1'' ''bob'' ''one'' 1) failing_task
      = failing_task\<lparr>tk_db := empty_db\<rparr>"
    by (simp add: persist_inbound_def failing_task_def store_inbound_message_def stmt_def empty_db_def)
  have m2: "store_inbound_message empty_db (received_message ''m2'' ''bob'' ''two'' 2) = (?d, Ok ())"
    by (simp add: store_inbound_message_def stmt_def empty_db_def received_message_def direction_ok_def)
  have d: "faults ?d = []" "stored_cursor ?d = None"
    by (simp_all add: empty_db_def stored_cursor_def cursor_of_blob_def)
  have ok: "cursor_ok ''8-0''" "cursor_after ''8-0'' ''7-0''" by (simp_all add: cursor_ok_def cursor_eval)
  obtain d' r where s: "save_stream_cursor ?d ''8-0'' = (d', r)" by fastforce
  then have "stored_cursor d' = Some ''8-0''" "messages d' = messages ?d"
    using save_stream_cursor_takes(1) [of ?d "''8-0''"] save_stream_cursor_messages [of ?d "''8-0''"]
      cursor_ok_str [OF ok(1)] d by simp_all
  moreover have "tk_db (persist_inbound ''m2'' (received_message ''m2'' ''bob'' ''two'' 2)
      (failing_task\<lparr>tk_db := empty_db\<rparr>)) = d'"
    using s by (simp add: persist_inbound_def m2 failing_task_def tracker_commit_def tracker_persist_def
        case_prod_beta split: sum.split bool.split)
  ultimately show ?thesis
    unfolding m1 using ok(2) by (simp add: Let_def message_ids_def received_message_def)
qed

end
