(* ===== verification/Invite.thy ===== *)
theory Invite
  imports Utf8 Grpc_Rpc
begin

text \<open>
  \<open>invite.rs\<close>: minting, encoding and reading contact invites, and \<open>grpc/invite.rs\<close>. The compact
  binary container is modelled byte by byte. The record \<open>invite_env\<close> holds what comes from other
  crates: uuid, hex and base64 codecs, ed25519, the JSON reader of legacy invites, Unicode
  lower-casing, and the clock.
\<close>

record invite =
  iv_v :: byte
  iv_jti :: string
  iv_uuid :: string
  iv_device_id :: string
  iv_server :: string
  iv_eph_key :: string
  iv_ts :: i64
  iv_sig :: string
  iv_un :: "string option"
  iv_ttl :: "u32 option"

text \<open>The fields of a legacy invite as \<open>serde\<close> reads them from its JSON.\<close>

record legacy_json =
  lj_v :: byte
  lj_jti :: string
  lj_uuid :: string
  lj_device_id :: string
  lj_server :: string
  lj_eph_key :: string
  lj_ts :: i64
  lj_sig :: string
  lj_un :: "string option"
  lj_ttl :: "u32 option"

record invite_env =
  ie_uuid_parse :: "string \<Rightarrow> bytes option"
  ie_uuid_show :: "bytes \<Rightarrow> string"
  ie_new_uuid :: bytes
  ie_hex_decode :: "string \<Rightarrow> bytes option"
  ie_hex_encode :: "bytes \<Rightarrow> string"
  ie_b64_decode :: "string \<Rightarrow> bytes option"
  ie_b64_encode :: "bytes \<Rightarrow> string"
  ie_b64url_decode :: "string \<Rightarrow> bytes option"
  ie_b64url_encode :: "bytes \<Rightarrow> string"
  ie_json :: "bytes \<Rightarrow> legacy_json option"
  ie_lowercase :: "string \<Rightarrow> string"
  ie_sign :: "bytes \<Rightarrow> bytes \<Rightarrow> bytes"              \<comment> \<open>key, message\<close>
  ie_verify :: "bytes \<Rightarrow> bytes \<Rightarrow> bytes \<Rightarrow> bool"     \<comment> \<open>signing key, message, signature\<close>
  ie_now :: i64

definition CURRENT_VERSION :: byte where "CURRENT_VERSION = 5"

definition QR_TTL_SECONDS :: u32 where "QR_TTL_SECONDS = 300"

definition LINK_TTL_SECONDS :: u32 where "LINK_TTL_SECONDS = 43200"

definition MIN_TTL_SECONDS :: u32 where "MIN_TTL_SECONDS = 60"

definition MAX_FUTURE_SKEW :: i64 where "MAX_FUTURE_SKEW = 300"

definition CIV1 :: bytes where "CIV1 = [0x43, 0x49, 0x76, 0x31]"

definition HTTPS_ADD :: string where "HTTPS_ADD = ''https://konstruct.cc/add?invite=''"

definition SCHEME_ADD :: string where "SCHEME_ADD = ''konstruct://add?invite=''"

section \<open>Canonical string and expiry\<close>

definition str_or_empty :: "string option \<Rightarrow> string" where
  "str_or_empty s = (case s of None \<Rightarrow> [] | Some x \<Rightarrow> x)"

fun join_pipe :: "string list \<Rightarrow> string" where
  "join_pipe [] = []"
| "join_pipe [x] = x"
| "join_pipe (x # xs) = x @ ''|'' @ join_pipe xs"

definition canonical_string :: "invite_env \<Rightarrow> invite \<Rightarrow> string + string" where
  "canonical_string I i =
     (let v = dec_of_nat (unat (iv_v i)); jti = ie_lowercase I (iv_jti i); uuid = ie_lowercase I (iv_uuid i);
          dev = iv_device_id i; server = iv_server i; eph = iv_eph_key i; ts = dec_of_int (iv_ts i);
          un = str_or_empty (iv_un i)
      in if iv_v i = 1 then Ok (join_pipe [v, jti, uuid, server, eph, ts])
         else if iv_v i = 2 then Ok (join_pipe [v, jti, uuid, dev, server, eph, ts])
         else if iv_v i = 3 then Ok (join_pipe [v, jti, uuid, dev, server, eph, ts, un])
         else if iv_v i = 4 then Ok (join_pipe [v, jti, uuid, dev, server, ts, un])
         else if iv_v i = 5 then
           (case iv_ttl i of
              None \<Rightarrow> Err ''v5 invite without ttl''
            | Some ttl \<Rightarrow> Ok (join_pipe [v, jti, uuid, dev, server, ts, un, dec_of_nat (unat ttl)]))
         else Err (''unsupported invite version '' @ v))"

definition effective_ttl :: "invite \<Rightarrow> u32" where
  "effective_ttl i = (case iv_ttl i of Some t \<Rightarrow> min t LINK_TTL_SECONDS | None \<Rightarrow> LINK_TTL_SECONDS)"

definition is_expired :: "invite \<Rightarrow> i64 \<Rightarrow> bool" where
  "is_expired i now \<longleftrightarrow> i64_wrap (iv_ts i + uint (effective_ttl i)) < now"

section \<open>Encoding\<close>

definition trimmed_username :: "string option \<Rightarrow> string option" where
  "trimmed_username u =
     (case u of None \<Rightarrow> None | Some s \<Rightarrow> let s = trim s in if s = [] then None else Some s)"

definition encode_binary :: "invite_env \<Rightarrow> invite \<Rightarrow> string + bytes" where
  "encode_binary I i =
     rbind (ok_or ''uuid'' (ie_uuid_parse I (iv_jti i))) (\<lambda>jti.
     rbind (ok_or ''uuid'' (ie_uuid_parse I (iv_uuid i))) (\<lambda>uuid.
     rbind (ok_or ''device id hex'' (ie_hex_decode I (iv_device_id i))) (\<lambda>device.
     rbind (ensure (length device = 16) ''device id must be 16 bytes'') (\<lambda>_.
     rbind (ok_or ''sig base64'' (ie_b64_decode I (iv_sig i))) (\<lambda>sig.
     rbind (ensure (length sig = 64) ''signature must be 64 bytes'') (\<lambda>_.
     let un = trimmed_username (iv_un i) in
     rbind (ensure (case un of None \<Rightarrow> True | Some b \<Rightarrow> length b \<le> 255) ''username too long'') (\<lambda>_.
     let server = str_bytes (iv_server i) in
     rbind (ensure (server \<noteq> [] \<and> length server \<le> 255) ''invalid server'') (\<lambda>_.
     rbind (if iv_v i \<le> 3 then
              rbind (ok_or ''ephKey'' (ie_b64_decode I (iv_eph_key i))) (\<lambda>eph.
              rbind (ensure (length eph = 32) ''ephKey must be 32 bytes'') (\<lambda>_. Ok eph))
            else Ok []) (\<lambda>eph.
     rbind (ensure (0 \<le> iv_ts i) ''out of range integral type conversion attempted'') (\<lambda>_.
     rbind (if 5 \<le> iv_v i then
              rbind (ok_or ''v5 invite without ttl'' (iv_ttl i)) (\<lambda>ttl. Ok (be_bytes 4 (unat ttl)))
            else Ok []) (\<lambda>ttl.
       Ok (CIV1 @ [if un \<noteq> None then 1 else 0, iv_v i] @ jti @ uuid @ device @ eph
           @ be_bytes 8 (nat (iv_ts i)) @ sig @ [of_nat (length server)] @ server
           @ (case un of None \<Rightarrow> [] | Some b \<Rightarrow> of_nat (length b) # str_bytes b) @ ttl))))))))))))"

definition to_base64url :: "invite_env \<Rightarrow> invite \<Rightarrow> string + string" where
  "to_base64url I i = rbind (encode_binary I i) (\<lambda>b. Ok (ie_b64url_encode I b))"

definition https_link :: "invite_env \<Rightarrow> invite \<Rightarrow> string + string" where
  "https_link I i = rbind (to_base64url I i) (\<lambda>s. Ok (HTTPS_ADD @ s))"

definition scheme_link :: "invite_env \<Rightarrow> invite \<Rightarrow> string + string" where
  "scheme_link I i = rbind (to_base64url I i) (\<lambda>s. Ok (SCHEME_ADD @ s))"

section \<open>Decoding\<close>

text \<open>The \<open>Reader\<close> as the bytes it has left.\<close>

definition reader_take :: "nat \<Rightarrow> bytes \<Rightarrow> string + bytes \<times> bytes" where
  "reader_take n data =
     (if n \<le> length data then Ok (take n data, drop n data) else Err ''truncated CIv1'')"

definition reader_u8 :: "bytes \<Rightarrow> string + byte \<times> bytes" where
  "reader_u8 data = rbind (reader_take 1 data) (\<lambda>(b, r). Ok (hd b, r))"

definition reader_str :: "string \<Rightarrow> bytes \<Rightarrow> string + string \<times> bytes" where
  "reader_str err data =
     rbind (reader_u8 data) (\<lambda>(n, r).
     rbind (reader_take (unat n) r) (\<lambda>(b, r).
     rbind (ok_or err (from_utf8 b)) (\<lambda>s. Ok (s, r))))"

definition decode_binary :: "invite_env \<Rightarrow> bytes \<Rightarrow> string + invite" where
  "decode_binary I data =
     rbind (reader_take 4 data) (\<lambda>(magic, r).
     rbind (ensure (magic = CIV1) ''bad CIv1 magic'') (\<lambda>_.
     rbind (reader_u8 r) (\<lambda>(flags, r).
     rbind (reader_u8 r) (\<lambda>(v, r).
     rbind (reader_take 16 r) (\<lambda>(jti, r).
     rbind (reader_take 16 r) (\<lambda>(uuid, r).
     rbind (reader_take 16 r) (\<lambda>(device, r).
     rbind (if v \<le> 3 then rbind (reader_take 32 r) (\<lambda>(e, r). Ok (ie_b64_encode I e, r)) else Ok ([], r)) (\<lambda>(eph, r).
     rbind (reader_take 8 r) (\<lambda>(ts_bytes, r).
     let ts = i64_wrap (int (be_val ts_bytes)) in
     rbind (reader_take 64 r) (\<lambda>(sig, r).
     rbind (reader_str ''server utf8'' r) (\<lambda>(server, r).
     rbind (if and flags 1 \<noteq> 0 then rbind (reader_str ''un utf8'' r) (\<lambda>(u, r). Ok (Some u, r)) else Ok (None, r)) (\<lambda>(un, r).
     rbind (if 5 \<le> v then rbind (reader_take 4 r) (\<lambda>(t, r). Ok (Some (of_nat (be_val t) :: u32), r)) else Ok (None, r)) (\<lambda>(ttl, r).
     rbind (ensure (r = []) ''trailing bytes'') (\<lambda>_.
     rbind (ensure (0 < ts \<and> ts \<le> ie_now I + MAX_FUTURE_SKEW) ''invalid timestamp'') (\<lambda>_.
     rbind (if 5 \<le> v then
              rbind (ok_or ''v5 invite without ttl'' ttl) (\<lambda>t. ensure (MIN_TTL_SECONDS \<le> t) ''ttl below floor'')
            else Ok ()) (\<lambda>_.
       Ok \<lparr>iv_v = v, iv_jti = ie_uuid_show I jti, iv_uuid = ie_uuid_show I uuid,
           iv_device_id = ie_hex_encode I device, iv_server = server, iv_eph_key = eph, iv_ts = ts,
           iv_sig = ie_b64_encode I sig, iv_un = un, iv_ttl = ttl\<rparr>))))))))))))))))"

definition decode_legacy_json :: "invite_env \<Rightarrow> bytes \<Rightarrow> invite option" where
  "decode_legacy_json I b =
     map_option (\<lambda>j. \<lparr>iv_v = lj_v j, iv_jti = lj_jti j, iv_uuid = lj_uuid j, iv_device_id = lj_device_id j,
        iv_server = lj_server j, iv_eph_key = lj_eph_key j, iv_ts = lj_ts j, iv_sig = lj_sig j,
        iv_un = lj_un j, iv_ttl = lj_ttl j\<rparr>) (ie_json I b)"

definition extract_invite_param :: "string \<Rightarrow> string option" where
  "extract_invite_param raw =
     (case str_find ''invite='' raw of
        None \<Rightarrow> None
      | Some q \<Rightarrow> Some (takeWhile (\<lambda>c. c \<noteq> CHR 0x26) (drop (q + 7) raw)))"

definition decode_payload :: "invite_env \<Rightarrow> string \<Rightarrow> bytes option" where
  "decode_payload I s =
     (case ie_b64url_decode I (trim s) of Some b \<Rightarrow> Some b | None \<Rightarrow> ie_b64_decode I (trim s))"

definition parse_invite :: "invite_env \<Rightarrow> string \<Rightarrow> string + invite" where
  "parse_invite I raw =
     (let trimmed = trim raw;
          payload = (case extract_invite_param trimmed of None \<Rightarrow> trimmed | Some p \<Rightarrow> p)
      in case decode_payload I payload of
           None \<Rightarrow> Err ''unrecognized invite payload''
         | Some b \<Rightarrow>
             if take 4 b = CIV1 then decode_binary I b
             else (case decode_legacy_json I b of
                     Some i \<Rightarrow> Ok i
                   | None \<Rightarrow> Err ''unrecognized invite payload''))"

definition looks_like_invite :: "invite_env \<Rightarrow> string \<Rightarrow> bool" where
  "looks_like_invite I raw =
     (let t = trim raw
      in str_contains t ''invite='' \<or> prefix ''konstruct://'' t \<or> str_contains t ''konstruct.cc/add''
         \<or> (40 < length t \<and> (case ie_b64url_decode I t of None \<Rightarrow> False | Some b \<Rightarrow> take 4 b = CIV1)))"

section \<open>Minting\<close>

definition normalize_server :: "string \<Rightarrow> string" where
  "normalize_server server_url =
     (let s = trim_end_matches ''/'' (trim_start_matches ''http://'' (trim_start_matches ''https://'' (trim server_url)))
      in if suffix '':443'' s then take (length s - 4) s else s)"

definition is_hex_char :: "char \<Rightarrow> bool" where
  "is_hex_char c \<longleftrightarrow> (let n = of_char c :: nat
     in 48 \<le> n \<and> n \<le> 57 \<or> 65 \<le> n \<and> n \<le> 70 \<or> 97 \<le> n \<and> n \<le> 102)"

definition mint ::
  "invite_env \<Rightarrow> string \<Rightarrow> string \<Rightarrow> string \<Rightarrow> string \<Rightarrow> string option \<Rightarrow> u32 \<Rightarrow> string + invite" where
  "mint I user_id device_id server_url signing_key_hex username ttl =
     rbind (ensure (MIN_TTL_SECONDS \<le> ttl) ''ttl below floor'') (\<lambda>_.
     rbind (ok_or ''user id'' (ie_uuid_parse I user_id)) (\<lambda>u.
     let uuid = ie_lowercase I (ie_uuid_show I u); device = ie_lowercase I device_id in
     rbind (ensure (length device = 32 \<and> list_all is_hex_char device) ''device id must be 32 hex chars'') (\<lambda>_.
     let unsigned = \<lparr>iv_v = CURRENT_VERSION, iv_jti = ie_uuid_show I (ie_new_uuid I), iv_uuid = uuid,
           iv_device_id = device, iv_server = normalize_server server_url, iv_eph_key = [],
           iv_ts = ie_now I, iv_sig = [], iv_un = trimmed_username username, iv_ttl = Some ttl\<rparr> in
     rbind (canonical_string I unsigned) (\<lambda>canonical.
     rbind (ok_or ''signing key hex'' (ie_hex_decode I signing_key_hex)) (\<lambda>sk.
     rbind (ensure (length sk = 32) ''signing key must be 32 bytes'') (\<lambda>_.
     let sig = ie_sign I sk (str_bytes canonical) in
     rbind (ensure (ie_verify I sk (str_bytes canonical) sig) ''invite self-verify'') (\<lambda>_.
       Ok (unsigned\<lparr>iv_sig := ie_b64_encode I sig\<rparr>))))))))"

definition generate_invite_qr ::
  "invite_env \<Rightarrow> string \<Rightarrow> string \<Rightarrow> string \<Rightarrow> string \<Rightarrow> string + string" where
  "generate_invite_qr I user_id device_id server_url signing_key_hex =
     rbind (mint I user_id device_id server_url signing_key_hex None QR_TTL_SECONDS) (https_link I)"

section \<open>Accepting\<close>

definition INVITE_ACCEPT :: string where
  "INVITE_ACCEPT = ''/shared.proto.services.v1.InviteService/AcceptInvite''"

record invite_token =
  it_v :: int
  it_jti :: string
  it_uuid :: string
  it_device_id :: "string option"
  it_server :: string
  it_ts :: i64
  it_eph_pub :: string
  it_sig :: string
  it_un :: "string option"
  it_ttl :: "u32 option"

definition invite_token_of :: "invite \<Rightarrow> invite_token" where
  "invite_token_of i =
     \<lparr>it_v = uint (iv_v i), it_jti = iv_jti i, it_uuid = iv_uuid i, it_device_id = Some (iv_device_id i),
      it_server = iv_server i, it_ts = iv_ts i, it_eph_pub = iv_eph_key i, it_sig = iv_sig i,
      it_un = iv_un i, it_ttl = iv_ttl i\<rparr>"

text \<open>\<open>enc\<close> is the protobuf encoder of the request, \<open>dec\<close> reads the user id of the response.\<close>

definition accept_invite ::
  "grpc_env \<Rightarrow> (invite_token \<Rightarrow> bytes) \<Rightarrow> (bytes \<Rightarrow> string + string) \<Rightarrow> grpc_client \<Rightarrow> invite
    \<Rightarrow> grpc_client \<times> (grpc_error + string)" where
  "accept_invite E enc dec c i =
     (let (c, r) = call_rpc E c INVITE_ACCEPT (enc (invite_token_of i)) ''AcceptInvite'' dec
      in (c, rbind r (\<lambda>user_id.
           if user_id = [] then Err (Transport ''AcceptInvite empty user_id'') else Ok user_id)))"

end
