(* ===== verification/Screens.thy ===== *)
theory Screens
  imports Invite "HOL-Library.List_Lexorder"
begin

text \<open>
  The state behind the screens (\<open>screens/*.rs\<close>): panes with a selected row, text fields, the scroll
  position of a conversation, the registration checklist, the connection label and the safety
  number. How they are drawn is in \<open>Screens_Draw\<close>.
\<close>

section \<open>Selections and text fields\<close>

text \<open>A pane that moves a selection over its rows, and the contract its operations share.\<close>

definition sel_ok :: "nat \<Rightarrow> nat option \<Rightarrow> bool" where
  "sel_ok n s = (case s of None \<Rightarrow> True | Some i \<Rightarrow> i < max 1 n)"

lemma sel_ok_simps [simp]: "sel_ok n None" "sel_ok n (Some i) \<longleftrightarrow> i < max 1 n"
  by (simp_all add: sel_ok_def)

locale row_pane =
  fixes rows :: "'s \<Rightarrow> nat" and sel :: "'s \<Rightarrow> nat option" and nxt prv :: "'s \<Rightarrow> 's"
  assumes rows_nxt: "rows (nxt s) = rows s" and rows_prv: "rows (prv s) = rows s"
    and sel_nxt: "sel s = Some i \<Longrightarrow> i < rows s \<Longrightarrow> sel (nxt s) = Some (min (i + 1) (rows s - 1))"
    and sel_prv: "sel s = Some i \<Longrightarrow> sel (prv s) = Some (i - 1)"
    and ok_nxt: "sel_ok (rows s) (sel s) \<Longrightarrow> sel_ok (rows s) (sel (nxt s))"
    and ok_prv: "sel_ok (rows s) (sel s) \<Longrightarrow> sel_ok (rows s) (sel (prv s))"
begin

definition move :: "bool \<Rightarrow> 's \<Rightarrow> 's" where
  "move down s = (if down then nxt s else prv s)"

lemma moves_ok:
  "sel_ok (rows s) (sel s) \<Longrightarrow>
     sel_ok (rows s) (sel (fold move ds s)) \<and> rows (fold move ds s) = rows s"
proof (induction ds arbitrary: s)
  case (Cons d ds)
  have r: "rows (move d s) = rows s" by (simp add: move_def rows_nxt rows_prv)
  have "sel_ok (rows (move d s)) (sel (move d s))"
    using Cons.prems by (simp add: r) (simp add: move_def ok_nxt ok_prv)
  from Cons.IH [OF this] show ?case by (simp add: r)
qed simp

lemma nexts_reach:
  "sel s = Some i \<Longrightarrow> i < rows s \<Longrightarrow>
     sel ((nxt ^^ k) s) = Some (min (i + k) (rows s - 1)) \<and> rows ((nxt ^^ k) s) = rows s"
proof (induction k)
  case (Suc k)
  then have h: "sel ((nxt ^^ k) s) = Some (min (i + k) (rows s - 1))" "rows ((nxt ^^ k) s) = rows s"
    by simp_all
  have "min (i + k) (rows s - 1) < rows s" using Suc.prems(2) by simp
  from sel_nxt [OF h(1)] this have "sel (nxt ((nxt ^^ k) s)) = Some (min (min (i + k) (rows s - 1) + 1) (rows s - 1))"
    by (simp add: h(2))
  moreover have "min (min (i + k) (rows s - 1) + 1) (rows s - 1) = min (i + Suc k) (rows s - 1)" by simp
  ultimately show ?case using h(2) by (simp add: rows_nxt)
qed simp

lemma next_prev: "sel s = Some i \<Longrightarrow> i + 1 < rows s \<Longrightarrow> sel (prv (nxt s)) = sel s"
  using sel_nxt [of s i] sel_prv [of "nxt s" "i + 1"] by simp

end

text \<open>A text field that takes a character while it is shorter than its limit in bytes.\<close>

locale text_field =
  fixes fld :: "'s \<Rightarrow> string" and push :: "'s \<Rightarrow> rchar \<Rightarrow> 's" and pop :: "'s \<Rightarrow> 's"
    and limit :: nat and active :: "'s \<Rightarrow> bool"
  assumes push_fld: "fld (push s c) = (if active s \<and> length (fld s) < limit then str_push (fld s) c else fld s)"
    and pop_fld: "fld (pop s) = (if active s then str_pop (fld s) else fld s)"
    and active_push: "active (push s c) = active s"
begin

lemma push_bound: "length (fld s) \<le> limit + 3 \<Longrightarrow> length (fld (push s c)) \<le> limit + 3"
  using str_push_length(1) [of "fld s" c] by (simp add: push_fld)

lemma typed_bound: "length (fld s) \<le> limit + 3 \<Longrightarrow> length (fld (fold (\<lambda>c s. push s c) cs s)) \<le> limit + 3"
  by (induction cs arbitrary: s) (simp_all add: push_bound)

lemma pop_push:
  "is_scalar c \<Longrightarrow> active s \<Longrightarrow> length (fld s) < limit \<Longrightarrow> fld (pop (push s c)) = fld s"
  by (simp add: push_fld pop_fld active_push str_pop_push)

end

section \<open>Contact list\<close>

record contact =
  cn_id :: string
  cn_display_name :: string
  cn_unread :: nat
  cn_last_message :: "string option"

record chat_list =
  cl_contacts :: "contact list"
  cl_selected :: "nat option"
  cl_focused :: bool

definition chat_list_new :: chat_list where
  "chat_list_new = \<lparr>cl_contacts = [], cl_selected = None, cl_focused = True\<rparr>"

definition set_contacts :: "contact list \<Rightarrow> chat_list \<Rightarrow> chat_list" where
  "set_contacts cs p = p\<lparr>cl_contacts := cs, cl_selected := if cs \<noteq> [] then Some 0 else None\<rparr>"

definition add_contact :: "contact \<Rightarrow> chat_list \<Rightarrow> chat_list" where
  "add_contact c p =
     p\<lparr>cl_contacts := cl_contacts p @ [c],
       cl_selected := (case cl_selected p of None \<Rightarrow> Some 0 | Some i \<Rightarrow> Some i)\<rparr>"

definition chat_list_next :: "chat_list \<Rightarrow> chat_list" where
  "chat_list_next p =
     p\<lparr>cl_selected := map_option (\<lambda>i. min (i + 1) (length (cl_contacts p) - 1)) (cl_selected p)\<rparr>"

definition chat_list_prev :: "chat_list \<Rightarrow> chat_list" where
  "chat_list_prev p = p\<lparr>cl_selected := map_option (\<lambda>i. i - 1) (cl_selected p)\<rparr>"

definition nth_opt :: "'a list \<Rightarrow> nat \<Rightarrow> 'a option" where
  "nth_opt xs i = (if i < length xs then Some (xs ! i) else None)"

definition selected_contact :: "chat_list \<Rightarrow> contact option" where
  "selected_contact p = Option.bind (cl_selected p) (nth_opt (cl_contacts p))"

definition remove_at :: "nat \<Rightarrow> chat_list \<Rightarrow> chat_list" where
  "remove_at index p =
     (if length (cl_contacts p) \<le> index then p
      else let cs = take index (cl_contacts p) @ drop (Suc index) (cl_contacts p)
           in p\<lparr>cl_contacts := cs,
                cl_selected := if cs = [] then None else Some (min index (length cs - 1))\<rparr>)"

interpretation chat_rows: row_pane "\<lambda>p. length (cl_contacts p)" cl_selected chat_list_next chat_list_prev
  by unfold_locales (auto simp: chat_list_next_def chat_list_prev_def sel_ok_def split: option.splits)

definition chat_list_ok :: "chat_list \<Rightarrow> bool" where
  "chat_list_ok p \<longleftrightarrow> (case cl_selected p of None \<Rightarrow> cl_contacts p = [] | Some i \<Rightarrow> i < length (cl_contacts p))"

lemma chat_list_ok_ops:
  "chat_list_ok chat_list_new" "chat_list_ok (set_contacts cs p)"
  "chat_list_ok p \<Longrightarrow> chat_list_ok (add_contact c p)"
  "chat_list_ok p \<Longrightarrow> chat_list_ok (chat_list_next p)"
  "chat_list_ok p \<Longrightarrow> chat_list_ok (chat_list_prev p)"
  "chat_list_ok p \<Longrightarrow> chat_list_ok (remove_at i p)"
  by (auto simp: chat_list_ok_def chat_list_new_def set_contacts_def add_contact_def
      chat_list_next_def chat_list_prev_def remove_at_def Let_def split: option.splits)

lemma selected_after_add: "chat_list_ok p \<Longrightarrow> selected_contact p = Some c \<Longrightarrow> selected_contact (add_contact x p) = Some c"
  by (auto simp: selected_contact_def add_contact_def nth_opt_def nth_append chat_list_ok_def
      split: if_splits option.splits)

section \<open>Conversation\<close>

datatype message_kind = Sent | Received

record chat_message =
  cm_id :: string
  cm_kind :: message_kind
  cm_text :: string
  cm_time :: string

record chat_view =
  cv_contact_name :: string
  cv_messages :: "chat_message list"
  cv_compose :: string
  cv_focused :: bool
  cv_compose_focused :: bool
  cv_scroll_offset :: nat

definition chat_view_new :: "string \<Rightarrow> chat_view" where
  "chat_view_new name = \<lparr>cv_contact_name = name, cv_messages = [], cv_compose = [],
     cv_focused = False, cv_compose_focused = False, cv_scroll_offset = 0\<rparr>"

definition compose_push :: "rchar \<Rightarrow> chat_view \<Rightarrow> chat_view" where
  "compose_push c v = v\<lparr>cv_compose := str_push (cv_compose v) c\<rparr>"

definition compose_pop :: "chat_view \<Rightarrow> chat_view" where
  "compose_pop v = v\<lparr>cv_compose := str_pop (cv_compose v)\<rparr>"

definition take_compose :: "chat_view \<Rightarrow> string \<times> chat_view" where
  "take_compose v = (cv_compose v, v\<lparr>cv_compose := []\<rparr>)"

definition scroll_up :: "nat \<Rightarrow> chat_view \<Rightarrow> chat_view" where
  "scroll_up n v =
     v\<lparr>cv_scroll_offset := min (cv_scroll_offset v + n) (length (cv_messages v) - 1)\<rparr>"

definition scroll_down :: "nat \<Rightarrow> chat_view \<Rightarrow> chat_view" where
  "scroll_down n v = v\<lparr>cv_scroll_offset := cv_scroll_offset v - n\<rparr>"

definition scroll_to_top :: "chat_view \<Rightarrow> chat_view" where
  "scroll_to_top v = v\<lparr>cv_scroll_offset := length (cv_messages v) - 1\<rparr>"

definition scroll_to_bottom :: "chat_view \<Rightarrow> chat_view" where
  "scroll_to_bottom v = v\<lparr>cv_scroll_offset := 0\<rparr>"

definition on_new_message :: "chat_view \<Rightarrow> chat_view" where
  "on_new_message v =
     (if cv_scroll_offset v = 0 then v else v\<lparr>cv_scroll_offset := cv_scroll_offset v + 1\<rparr>)"

text \<open>The messages drawn in an area of \<open>height\<close> rows.\<close>

definition visible_messages :: "nat \<Rightarrow> chat_view \<Rightarrow> chat_message list" where
  "visible_messages height v =
     (let total = length (cv_messages v); e = total - cv_scroll_offset v; s = e - height
      in take (e - s) (drop s (cv_messages v)))"

text \<open>A message that arrives while the user reads history leaves the window on the same messages;
  at the bottom the window follows.\<close>

lemma new_message_keeps_window:
  assumes "0 < cv_scroll_offset v" "cv_scroll_offset v \<le> length (cv_messages v)"
  shows "visible_messages h (on_new_message (v\<lparr>cv_messages := cv_messages v @ [m]\<rparr>)) = visible_messages h v"
proof -
  let ?n = "length (cv_messages v)" and ?o = "cv_scroll_offset v"
  have "Suc ?n - Suc ?o = ?n - ?o" by simp
  then show ?thesis using assms
    by (simp add: visible_messages_def on_new_message_def Let_def)
qed

lemma new_message_follows:
  "cv_scroll_offset v = 0 \<Longrightarrow> 0 < h \<Longrightarrow>
     last (visible_messages h (on_new_message (v\<lparr>cv_messages := cv_messages v @ [m]\<rparr>))) = m"
  by (simp add: visible_messages_def on_new_message_def Let_def last_drop)

section \<open>Contact search\<close>

record search_result =
  rs_user_id :: string
  rs_username :: string
  rs_display_name :: string

record contact_search =
  cs_query :: string
  cs_results :: "search_result list"
  cs_status :: "string option"
  cs_is_error :: bool
  cs_searching :: bool
  cs_selected :: "nat option"

definition contact_search_new :: contact_search where
  "contact_search_new = \<lparr>cs_query = [], cs_results = [], cs_status = None, cs_is_error = False,
     cs_searching = False, cs_selected = None\<rparr>"

definition search_push :: "rchar \<Rightarrow> contact_search \<Rightarrow> contact_search" where
  "search_push c s = s\<lparr>cs_query := str_push (cs_query s) c, cs_results := [], cs_selected := None,
     cs_status := None\<rparr>"

definition search_pop :: "contact_search \<Rightarrow> contact_search" where
  "search_pop s = s\<lparr>cs_query := str_pop (cs_query s), cs_results := [], cs_selected := None,
     cs_status := None\<rparr>"

definition search_next :: "contact_search \<Rightarrow> contact_search" where
  "search_next s =
     (if cs_results s = [] then s
      else s\<lparr>cs_selected := Some (case cs_selected s of
               None \<Rightarrow> 0 | Some i \<Rightarrow> min (i + 1) (length (cs_results s) - 1))\<rparr>)"

definition search_prev :: "contact_search \<Rightarrow> contact_search" where
  "search_prev s = s\<lparr>cs_selected := Some (case cs_selected s of None \<Rightarrow> 0 | Some i \<Rightarrow> i - 1)\<rparr>"

definition set_results :: "search_result list \<Rightarrow> contact_search \<Rightarrow> contact_search" where
  "set_results rs s =
     s\<lparr>cs_results := rs,
       cs_selected := if rs = [] then None else Some 0,
       cs_status := Some (if rs = [] then ''No results'' else ''Enter = add to chats''),
       cs_is_error := False, cs_searching := False\<rparr>"

definition search_error :: "string \<Rightarrow> contact_search \<Rightarrow> contact_search" where
  "search_error msg s = s\<lparr>cs_status := Some msg, cs_is_error := True, cs_searching := False\<rparr>"

definition search_selected :: "contact_search \<Rightarrow> search_result option" where
  "search_selected s = Option.bind (cs_selected s) (nth_opt (cs_results s))"

interpretation search_rows: row_pane "\<lambda>s. length (cs_results s)" cs_selected search_next search_prev
  by unfold_locales (auto simp: search_next_def search_prev_def sel_ok_def split: option.splits)

section \<open>Entry screens\<close>

datatype device_link_tab = ScanTab | ShowTab

record device_link =
  dl_tab :: device_link_tab
  dl_token :: string
  dl_own_token :: "string option"
  dl_status :: "string option"
  dl_is_error :: bool

definition device_link_new :: device_link where
  "device_link_new = \<lparr>dl_tab = ScanTab, dl_token = [], dl_own_token = None,
     dl_status = Some ''Paste or type the link token shown on your other device'', dl_is_error = False\<rparr>"

definition link_push :: "device_link \<Rightarrow> rchar \<Rightarrow> device_link" where
  "link_push s c =
     (if dl_tab s = ScanTab \<and> length (dl_token s) < 64 then s\<lparr>dl_token := str_push (dl_token s) c\<rparr> else s)"

definition link_pop :: "device_link \<Rightarrow> device_link" where
  "link_pop s = (if dl_tab s = ScanTab then s\<lparr>dl_token := str_pop (dl_token s)\<rparr> else s)"

definition toggle_tab :: "device_link \<Rightarrow> device_link" where
  "toggle_tab s = s\<lparr>dl_tab := (case dl_tab s of ScanTab \<Rightarrow> ShowTab | ShowTab \<Rightarrow> ScanTab)\<rparr>"

definition link_status :: "string \<Rightarrow> bool \<Rightarrow> device_link \<Rightarrow> device_link" where
  "link_status msg e s = s\<lparr>dl_status := Some msg, dl_is_error := e\<rparr>"

definition link_clear_status :: "device_link \<Rightarrow> device_link" where
  "link_clear_status s = s\<lparr>dl_status := None, dl_is_error := False\<rparr>"

interpretation link_token: text_field dl_token link_push link_pop 64 "\<lambda>s. dl_tab s = ScanTab"
  by unfold_locales (simp_all add: link_push_def link_pop_def)

record onboarding =
  ob_username :: string
  ob_status :: "string option"
  ob_is_error :: bool

definition onboarding_new :: onboarding where
  "onboarding_new = \<lparr>ob_username = [], ob_status = None, ob_is_error = False\<rparr>"

definition onboarding_push :: "onboarding \<Rightarrow> rchar \<Rightarrow> onboarding" where
  "onboarding_push s c =
     (if length (ob_username s) < 32 then s\<lparr>ob_username := str_push (ob_username s) c\<rparr> else s)"

definition onboarding_pop :: "onboarding \<Rightarrow> onboarding" where
  "onboarding_pop s = s\<lparr>ob_username := str_pop (ob_username s)\<rparr>"

interpretation username: text_field ob_username onboarding_push onboarding_pop 32 "\<lambda>_. True"
  by unfold_locales (simp_all add: onboarding_push_def onboarding_pop_def)

datatype unlock_mode = Unlocking | SetNew

record unlock_screen =
  un_passphrase :: string
  un_error :: "string option"
  un_mode :: unlock_mode

definition unlock_new :: "unlock_mode \<Rightarrow> unlock_screen" where
  "unlock_new mode = \<lparr>un_passphrase = [], un_error = None, un_mode = mode\<rparr>"

definition reset_for_mode :: "unlock_mode \<Rightarrow> unlock_screen \<Rightarrow> unlock_screen" where
  "reset_for_mode mode s = s\<lparr>un_passphrase := [], un_error := None, un_mode := mode\<rparr>"

definition unlock_push :: "unlock_screen \<Rightarrow> rchar \<Rightarrow> unlock_screen" where
  "unlock_push s c =
     (if length (un_passphrase s) < 128 then s\<lparr>un_passphrase := str_push (un_passphrase s) c\<rparr> else s)"

definition unlock_pop :: "unlock_screen \<Rightarrow> unlock_screen" where
  "unlock_pop s = s\<lparr>un_passphrase := str_pop (un_passphrase s)\<rparr>"

definition take_passphrase :: "unlock_screen \<Rightarrow> bytes \<times> unlock_screen" where
  "take_passphrase s = (str_bytes (un_passphrase s), s\<lparr>un_passphrase := []\<rparr>)"

definition unlock_error :: "string \<Rightarrow> unlock_screen \<Rightarrow> unlock_screen" where
  "unlock_error msg s = s\<lparr>un_error := Some msg\<rparr>"

definition unlock_clear_error :: "unlock_screen \<Rightarrow> unlock_screen" where
  "unlock_clear_error s = s\<lparr>un_error := None\<rparr>"

interpretation passphrase: text_field un_passphrase unlock_push unlock_pop 128 "\<lambda>_. True"
  by unfold_locales (simp_all add: unlock_push_def unlock_pop_def)

section \<open>Registration\<close>

definition STEPS :: "string list" where
  "STEPS = [''Generating signing key  (Ed25519)'', ''Generating identity key (X25519)'',
     ''Generating signed pre-key (X25519)'', ''Signing pre-key'', ''Connecting to Construct'',
     ''Solving proof-of-work'', ''Registering identity'']"

record registration =
  rn_active_step :: nat
  rn_spinner_tick :: byte

definition registration_new :: registration where
  "registration_new = \<lparr>rn_active_step = 0, rn_spinner_tick = 0\<rparr>"

definition advance :: "nat \<Rightarrow> registration \<Rightarrow> registration" where
  "advance s r = (if rn_active_step r < s then r\<lparr>rn_active_step := s\<rparr> else r)"

definition registration_tick :: "registration \<Rightarrow> registration" where
  "registration_tick r = r\<lparr>rn_spinner_tick := rn_spinner_tick r + 1\<rparr>"

lemma advance_max: "rn_active_step (fold advance ss r) = foldl max (rn_active_step r) ss"
  by (induction ss arbitrary: r) (auto simp: advance_def max_def)

section \<open>Settings\<close>

datatype settings_action = Logout | ShowSafetyNumber | ExportKeys | ShowMyQr | Back

record settings_item =
  st_label :: string
  st_value :: string
  st_action :: "settings_action option"

text \<open>\<open>se_invite_cache\<close> is the payload with the time, in seconds, it was made at.\<close>

record settings =
  se_server :: string
  se_transport :: string
  se_device_id :: string
  se_user_id :: string
  se_pq_active :: bool
  se_selected :: "nat option"
  se_items :: "settings_item list"
  se_signing_key_hex :: string
  se_invite_cache :: "(string \<times> nat) option"

definition info_item :: "string \<Rightarrow> string \<Rightarrow> settings_item" where
  "info_item l v = \<lparr>st_label = l, st_value = v, st_action = None\<rparr>"

definition action_item :: "string \<Rightarrow> settings_action \<Rightarrow> settings_item" where
  "action_item l a = \<lparr>st_label = l, st_value = [], st_action = Some a\<rparr>"

definition settings_new ::
  "string \<Rightarrow> string \<Rightarrow> string \<Rightarrow> string \<Rightarrow> bool \<Rightarrow> string \<Rightarrow> settings" where
  "settings_new server transport device_id user_id pq_active signing_key_hex =
     \<lparr>se_server = server, se_transport = transport, se_device_id = device_id, se_user_id = user_id,
      se_pq_active = pq_active, se_selected = Some 6,
      se_items =
        [info_item ''Server'' server, info_item ''Transport'' transport,
         info_item ''Device ID'' device_id, info_item ''User ID'' user_id,
         info_item ''Post-quantum'' (if pq_active then ''yes (Kyber-768)'' else ''no (classic)''),
         info_item [] [],
         action_item ''[Q] My QR code'' ShowMyQr, action_item ''[S] Safety number'' ShowSafetyNumber,
         action_item ''[E] Export keys'' ExportKeys, action_item ''[L] Logout'' Logout,
         action_item ''[Esc] Back'' Back],
      se_signing_key_hex = signing_key_hex, se_invite_cache = None\<rparr>"

definition settings_update ::
  "string \<Rightarrow> string \<Rightarrow> string \<Rightarrow> string \<Rightarrow> bool \<Rightarrow> string \<Rightarrow> settings \<Rightarrow> settings" where
  [simp]: "settings_update server transport device_id user_id pq_active signing_key_hex s =
     settings_new server transport device_id user_id pq_active signing_key_hex"

definition settings_next :: "settings \<Rightarrow> settings" where
  "settings_next s =
     s\<lparr>se_selected := Some (case se_selected s of
         None \<Rightarrow> 0 | Some i \<Rightarrow> min (i + 1) (length (se_items s) - 1))\<rparr>"

definition settings_prev :: "settings \<Rightarrow> settings" where
  "settings_prev s = s\<lparr>se_selected := Some (case se_selected s of None \<Rightarrow> 0 | Some i \<Rightarrow> i - 1)\<rparr>"

definition settings_confirm :: "settings \<Rightarrow> settings_action option" where
  "settings_confirm s =
     Option.bind (Option.bind (se_selected s) (nth_opt (se_items s))) st_action"

definition invite_payload :: "invite_env \<Rightarrow> nat \<Rightarrow> settings \<Rightarrow> settings \<times> string option" where
  "invite_payload I now s =
     (let needs_refresh = (case se_invite_cache s of None \<Rightarrow> True | Some (_, ts) \<Rightarrow> 240 \<le> now - ts);
          s = (if needs_refresh \<and> se_signing_key_hex s \<noteq> [] \<and> se_user_id s \<noteq> [] then
                 (case generate_invite_qr I (se_user_id s) (se_device_id s) (se_server s) (se_signing_key_hex s) of
                    Ok payload \<Rightarrow> s\<lparr>se_invite_cache := Some (payload, now)\<rparr>
                  | Err _ \<Rightarrow> s)
               else s)
      in (s, map_option fst (se_invite_cache s)))"

interpretation settings_rows: row_pane "\<lambda>s. length (se_items s)" se_selected settings_next settings_prev
  by unfold_locales (auto simp: settings_next_def settings_prev_def sel_ok_def split: option.splits)

section \<open>Connection state\<close>

text \<open>Times in milliseconds.\<close>

datatype connection_state =
    Disconnected
  | ConnConnecting string
  | Connected string "u32 option"
  | Reconnecting u32 nat nat    \<comment> \<open>attempt, next retry, interval\<close>

section \<open>Safety number\<close>

text \<open>\<open>sha512\<close> is the digest of another crate; an array of 32 bytes is compared byte by byte.\<close>

definition digest_group :: "bytes \<Rightarrow> nat \<Rightarrow> u64" where
  "digest_group digest i =
     foldl (\<lambda>acc b. or (push_bit 8 acc) (ucast b)) 0 (take 5 (drop (i * 5) digest))"

text \<open>\<open>{:05}\<close>.\<close>

definition pad5 :: "nat \<Rightarrow> string" where
  "pad5 n = (let s = dec_of_nat n in replicate (5 - length s) (CHR 0x30) @ s)"

fun join_space :: "string list \<Rightarrow> string" where
  "join_space [] = []"
| "join_space [x] = x"
| "join_space (x # xs) = x @ '' '' @ join_space xs"

definition safety_message :: "bytes \<Rightarrow> bytes \<Rightarrow> bytes" where
  "safety_message our_identity their_identity =
     (let (first, second) = (if our_identity \<le> their_identity then (our_identity, their_identity)
                             else (their_identity, our_identity))
      in str_bytes ''construct-safety-number-v1'' @ [0] @ first @ second)"

definition safety_groups :: "(bytes \<Rightarrow> bytes) \<Rightarrow> bytes \<Rightarrow> bytes \<Rightarrow> string list" where
  "safety_groups sha512 our_identity their_identity =
     (let digest = sha512 (safety_message our_identity their_identity)
      in map (\<lambda>i. pad5 (unat (digest_group digest i mod 100000))) [0..<12])"

definition compute_safety_number :: "(bytes \<Rightarrow> bytes) \<Rightarrow> bytes \<Rightarrow> bytes \<Rightarrow> string" where
  "compute_safety_number sha512 our_identity their_identity =
     join_space (safety_groups sha512 our_identity their_identity)"

record safety_number =
  sf_contact_name :: string
  sf_number :: string

definition safety_number_new :: "(bytes \<Rightarrow> bytes) \<Rightarrow> string \<Rightarrow> bytes \<Rightarrow> bytes \<Rightarrow> safety_number" where
  "safety_number_new sha512 contact_name our_identity their_identity =
     \<lparr>sf_contact_name = contact_name, sf_number = compute_safety_number sha512 our_identity their_identity\<rparr>"

section \<open>The safety number\<close>

lemma dec_of_nat_length: "n < 10 ^ Suc k \<Longrightarrow> length (dec_of_nat n) \<le> Suc k"
proof (induction k arbitrary: n)
  case 0
  then show ?case by (subst dec_of_nat.simps) simp
next
  case (Suc k)
  show ?case
  proof (cases "n < 10")
    case True
    then show ?thesis by (subst dec_of_nat.simps) simp
  next
    case False
    have "n div 10 < 10 ^ Suc k" using Suc.prems by (simp add: less_mult_imp_div_less mult.commute)
    from Suc.IH [OF this] False show ?thesis by (subst dec_of_nat.simps) simp
  qed
qed

lemma pad5_five: "n < 100000 \<Longrightarrow> length (pad5 n) = 5 \<and> list_all is_digit (pad5 n)"
  using dec_of_nat_length [of n 4] dec_of_nat_digits [of n]
  by (auto simp: pad5_def Let_def list_all_iff is_digit_def)

lemma ordered_pair_sym:
  "(if a \<le> b then (a, b) else (b, a)) = (if b \<le> a then (b, a) else (a, b))" for a b :: "'a :: linorder"
  by auto

lemma safety_message_sym: "safety_message a b = safety_message b a"
  unfolding safety_message_def by (simp add: ordered_pair_sym [of a b])

lemma safety_message_inj:
  assumes "length a = 32" "length b = 32" "length c = 32" "length d = 32"
  shows "safety_message a b = safety_message c d \<longleftrightarrow> {a, b} = {c, d}"
proof -
  define lo hi where "lo = min a b" and "hi = max a b"
  define lo' hi' where "lo' = min c d" and "hi' = max c d"
  have m: "safety_message x y = str_bytes ''construct-safety-number-v1'' @ [0] @ min x y @ max x y" for x y
    by (simp add: safety_message_def min_def max_def)
  have l: "length lo = length lo'" using assms by (simp add: lo_def lo'_def min_def)
  have "safety_message a b = safety_message c d \<longleftrightarrow> lo = lo' \<and> hi = hi'"
    using l by (simp add: m lo_def [symmetric] hi_def [symmetric] lo'_def [symmetric] hi'_def [symmetric])
  also have "\<dots> \<longleftrightarrow> {a, b} = {c, d}"
    by (auto simp: lo_def hi_def lo'_def hi'_def min_def max_def doubleton_eq_iff split: if_splits)
  finally show ?thesis .
qed

text \<open>C39. Both sides of a conversation compute the same safety number, whoever computes it; it is
  twelve groups of five decimal digits; and the hashed text determines the two keys, so two pairs
  of keys share a number only when the truncated digests collide.\<close>

theorem safety_number_symmetric:
  "compute_safety_number sha512 a b = compute_safety_number sha512 b a
   \<and> length (safety_groups sha512 a b) = 12
   \<and> (\<forall>g \<in> set (safety_groups sha512 a b). length g = 5 \<and> list_all is_digit g)
   \<and> (length a = 32 \<and> length b = 32 \<and> length c = 32 \<and> length d = 32 \<longrightarrow>
        (safety_message a b = safety_message c d \<longleftrightarrow> {a, b} = {c, d}))"
proof -
  have "compute_safety_number sha512 a b = compute_safety_number sha512 b a"
    unfolding compute_safety_number_def safety_groups_def by (simp only: safety_message_sym [of a b])
  moreover have "unat (digest_group d i mod 100000) < 100000" for d i
    by (simp add: unat_mod)
  then have "\<forall>g \<in> set (safety_groups sha512 a b). length g = 5 \<and> list_all is_digit g"
    using pad5_five by (auto simp: safety_groups_def Let_def)
  moreover have "length (safety_groups sha512 a b) = 12" by (simp add: safety_groups_def Let_def)
  ultimately show ?thesis using safety_message_inj [of a b c d] by blast
qed

theorem safety_number_symmetric_witness:
  "safety_message (replicate 32 1) (replicate 32 2) = safety_message (replicate 32 2) (replicate 32 1)"
  using safety_number_symmetric [of id "replicate 32 1" "replicate 32 2" "replicate 32 2" "replicate 32 1"]
  by auto

end
