(* ===== verification/Config.thy ===== *)
theory Config
  imports Utf8 "HOL-Library.Countable"
begin

text \<open>
  \<open>config/mod.rs\<close>: the session file, its encryption under a passphrase, and the configuration
  file. The directory is a record of its three files. Every operation on it may fail by the schedule
  \<open>dk_faults\<close>; a failing write may also leave other content behind. Argon2, HKDF, AES-GCM, base64,
  JSON and the random generator are the record \<open>config_env\<close>.
\<close>

section \<open>Data\<close>

record session =
  ss_signing_key_hex :: string
  ss_identity_key_hex :: string
  ss_device_id :: string
  ss_user_id :: string
  ss_access_token :: string
  ss_refresh_token :: string
  ss_expires_at :: i64
  ss_spk_key_hex :: string
  ss_spk_sig_hex :: string

record derived_keys =
  ky_session :: bytes
  ky_database :: bytes

record session_key =
  sk_keys :: derived_keys
  sk_master_salt :: bytes

datatype transport_config =
    Direct
  | Obfs4 string
  | Obfs4Tls string string
  | CdnFront string string string

record config =
  cf_server :: string
  cf_transport :: transport_config

record encrypted_session =
  es_v :: u32
  es_salt :: string
  es_nonce :: string
  es_ciphertext :: string

datatype session_state = Encrypted | Plaintext | NoSession

record config_env =
  ce_argon2 :: "nat \<Rightarrow> nat \<Rightarrow> nat \<Rightarrow> nat \<Rightarrow> bytes \<Rightarrow> bytes \<Rightarrow> string + bytes"
    \<comment> \<open>kibibytes, passes, lanes, length of the key; passphrase, salt\<close>
  ce_hkdf :: "bytes \<Rightarrow> string \<Rightarrow> bytes option"         \<comment> \<open>key, info\<close>
  ce_seal :: "bytes \<Rightarrow> bytes \<Rightarrow> bytes \<Rightarrow> bytes option"   \<comment> \<open>key, nonce, plaintext\<close>
  ce_unseal :: "bytes \<Rightarrow> bytes \<Rightarrow> bytes \<Rightarrow> bytes option"
  ce_b64 :: "bytes \<Rightarrow> string"
  ce_unb64 :: "string \<Rightarrow> bytes option"
  ce_enc_json :: "encrypted_session \<Rightarrow> string"
  ce_enc_parse :: "string \<Rightarrow> encrypted_session option"
  ce_session_json :: "session \<Rightarrow> bytes"
  ce_session_pretty :: "session \<Rightarrow> string"
  ce_session_parse :: "bytes \<Rightarrow> session option"
  ce_config_pretty :: "config \<Rightarrow> string"
  ce_config_parse :: "string \<Rightarrow> config option"
  ce_random :: "nat \<Rightarrow> nat \<Rightarrow> bytes"                  \<comment> \<open>draw number, length\<close>

section \<open>The directory\<close>

datatype outcome = Works | Fails | FailsLeaving bytes

record disk =
  dk_has_dir :: bool                \<comment> \<open>\<open>dirs::config_dir()\<close> names a directory\<close>
  dk_enc :: "bytes option"          \<comment> \<open>\<open>session.enc\<close>\<close>
  dk_old :: "bytes option"          \<comment> \<open>\<open>session.json\<close>\<close>
  dk_config :: "bytes option"       \<comment> \<open>\<open>config.json\<close>\<close>
  dk_faults :: "outcome list"
  dk_draws :: nat

type_synonym 'a io = "disk \<Rightarrow> disk \<times> (string + 'a)"

definition io_ok :: "'a \<Rightarrow> 'a io" where "io_ok x = (\<lambda>d. (d, Ok x))"

definition io_lift :: "string + 'a \<Rightarrow> 'a io" where "io_lift r = (\<lambda>d. (d, r))"

definition io_bind :: "'a io \<Rightarrow> ('a \<Rightarrow> 'b io) \<Rightarrow> 'b io" where
  "io_bind m f = (\<lambda>d. case m d of (d, Err e) \<Rightarrow> (d, Err e) | (d, Ok x) \<Rightarrow> f x d)"

text \<open>One call of the file system that changes nothing when it fails.\<close>

definition fs_call :: "(disk \<Rightarrow> disk \<times> 'a) \<Rightarrow> 'a io" where
  "fs_call f = (\<lambda>d. case dk_faults d of
       [] \<Rightarrow> (let (d, x) = f d in (d, Ok x))
     | Works # fs \<Rightarrow> (let (d, x) = f (d\<lparr>dk_faults := fs\<rparr>) in (d, Ok x))
     | _ # fs \<Rightarrow> (d\<lparr>dk_faults := fs\<rparr>, Err ''io error''))"

text \<open>\<open>fs::write\<close> truncates before it writes.\<close>

definition fs_write :: "(bytes option \<Rightarrow> disk \<Rightarrow> disk) \<Rightarrow> bytes \<Rightarrow> unit io" where
  "fs_write upd b = (\<lambda>d. case dk_faults d of
       [] \<Rightarrow> (upd (Some b) d, Ok ())
     | Works # fs \<Rightarrow> (upd (Some b) (d\<lparr>dk_faults := fs\<rparr>), Ok ())
     | Fails # fs \<Rightarrow> (d\<lparr>dk_faults := fs\<rparr>, Err ''io error'')
     | FailsLeaving c # fs \<Rightarrow> (upd (Some c) (d\<lparr>dk_faults := fs\<rparr>), Err ''io error''))"

definition set_enc :: "bytes option \<Rightarrow> disk \<Rightarrow> disk" where
  "set_enc b d = d\<lparr>dk_enc := b\<rparr>"

definition set_config :: "bytes option \<Rightarrow> disk \<Rightarrow> disk" where
  "set_config b d = d\<lparr>dk_config := b\<rparr>"

text \<open>\<open>read_to_string\<close> of a file that exists.\<close>

definition fs_read :: "(disk \<Rightarrow> bytes option) \<Rightarrow> string io" where
  "fs_read file = io_bind (fs_call (\<lambda>d. (d, file d))) (\<lambda>b.
     case b of None \<Rightarrow> io_lift (Err ''not found'')
     | Some b \<Rightarrow> io_lift (ok_or ''stream did not contain valid UTF-8'' (from_utf8 b)))"

definition draw :: "config_env \<Rightarrow> nat \<Rightarrow> bytes io" where
  "draw E n = (\<lambda>d. (d\<lparr>dk_draws := dk_draws d + 1\<rparr>, Ok (ce_random E (dk_draws d) n)))"

definition config_dir :: "unit io" where
  "config_dir = (\<lambda>d. if dk_has_dir d then fs_call (\<lambda>d. (d, ())) d
                     else (d, Err ''cannot locate config dir''))"

definition session_path :: "unit io" where
  "session_path = io_bind config_dir (\<lambda>_ d.
     if dk_old d \<noteq> None \<and> dk_enc d = None
     then fs_call (\<lambda>d. (d\<lparr>dk_enc := dk_old d, dk_old := None\<rparr>, ())) d
     else (d, Ok ()))"

definition if_exists :: "(disk \<Rightarrow> bytes option) \<Rightarrow> 'a \<Rightarrow> 'a io \<Rightarrow> 'a io" where
  "if_exists file absent m = (\<lambda>d. if file d = None then (d, Ok absent) else m d)"

section \<open>Reading\<close>

definition detect_session :: "config_env \<Rightarrow> disk \<Rightarrow> disk \<times> session_state" where
  "detect_session E d =
     (case session_path d of
        (d, Err _) \<Rightarrow> (d, NoSession)
      | (d, Ok _) \<Rightarrow>
          if dk_enc d = None then (d, NoSession)
          else case fs_read dk_enc d of
                 (d, Err _) \<Rightarrow> (d, NoSession)
               | (d, Ok data) \<Rightarrow> (d, if ce_enc_parse E data \<noteq> None then Encrypted else Plaintext))"

definition parse_encrypted :: "config_env \<Rightarrow> string \<Rightarrow> string + encrypted_session" where
  "parse_encrypted E data = ok_or ''session file is not in encrypted format'' (ce_enc_parse E data)"

text \<open>Argon2id with 32 MiB, three passes and one lane.\<close>

definition derive_master_key :: "config_env \<Rightarrow> bytes \<Rightarrow> bytes \<Rightarrow> string + bytes" where
  "derive_master_key E passphrase salt = ce_argon2 E 32768 3 1 32 passphrase salt"

definition derive_keys_from_master :: "config_env \<Rightarrow> bytes \<Rightarrow> string + derived_keys" where
  "derive_keys_from_master E master =
     rbind (ok_or ''HKDF expand (session) failed'' (ce_hkdf E master ''construct-session-v1'')) (\<lambda>s.
     rbind (ok_or ''HKDF expand (database) failed'' (ce_hkdf E master ''construct-database-v1'')) (\<lambda>b.
       Ok \<lparr>ky_session = s, ky_database = b\<rparr>))"

definition read_master_salt :: "config_env \<Rightarrow> bytes option io" where
  "read_master_salt E = io_bind session_path (\<lambda>_. if_exists dk_enc None
     (io_bind (fs_read dk_enc) (\<lambda>data.
      io_lift (rbind (parse_encrypted E data) (\<lambda>enc.
               rbind (ok_or ''bad salt encoding'' (ce_unb64 E (es_salt enc))) (\<lambda>salt.
               rbind (ensure (length salt = 16) ''unexpected salt length'') (\<lambda>_. Ok (Some salt))))))))"

definition session_key_of :: "config_env \<Rightarrow> bytes \<Rightarrow> bytes \<Rightarrow> string + session_key" where
  "session_key_of E passphrase salt =
     rbind (derive_master_key E passphrase salt) (\<lambda>master.
     rbind (derive_keys_from_master E master) (\<lambda>keys. Ok \<lparr>sk_keys = keys, sk_master_salt = salt\<rparr>))"

definition open_session_key :: "config_env \<Rightarrow> bytes \<Rightarrow> session_key option io" where
  "open_session_key E passphrase = io_bind (read_master_salt E) (\<lambda>salt.
     case salt of None \<Rightarrow> io_ok None
     | Some salt \<Rightarrow> io_lift (rbind (session_key_of E passphrase salt) (\<lambda>sk. Ok (Some sk))))"

definition create_session_key :: "config_env \<Rightarrow> bytes \<Rightarrow> session_key io" where
  "create_session_key E passphrase =
     io_bind (draw E 16) (\<lambda>salt. io_lift (session_key_of E passphrase salt))"

text \<open>\<open>Nonce::from_slice\<close> panics unless it is given twelve bytes. The error \<open>PANIC\<close> stands for the
  unwinding of the program; the application treats it apart from the errors it reports.\<close>

definition PANIC :: string where "PANIC = ''panic''"

definition load_session_encrypted :: "config_env \<Rightarrow> session_key \<Rightarrow> session option io" where
  "load_session_encrypted E sk = io_bind session_path (\<lambda>_. if_exists dk_enc None
     (io_bind (fs_read dk_enc) (\<lambda>data.
      io_lift (rbind (parse_encrypted E data) (\<lambda>enc.
               rbind (ok_or ''bad nonce encoding'' (ce_unb64 E (es_nonce enc))) (\<lambda>nonce.
               rbind (ok_or ''bad ciphertext encoding'' (ce_unb64 E (es_ciphertext enc))) (\<lambda>ct.
               rbind (ensure (length nonce = 12) PANIC) (\<lambda>_.
               rbind (ok_or (''Decryption failed '' @ em_dash @ '' wrong passphrase?'')
                        (ce_unseal E (ky_session (sk_keys sk)) nonce ct)) (\<lambda>plain.
               rbind (ok_or ''json'' (ce_session_parse E plain)) (\<lambda>s. Ok (Some s)))))))))))"

definition load_session :: "config_env \<Rightarrow> session option io" where
  "load_session E = io_bind session_path (\<lambda>_. if_exists dk_enc None
     (io_bind (fs_read dk_enc) (\<lambda>data.
      io_lift (rbind (ok_or ''json'' (ce_session_parse E (str_bytes data))) (\<lambda>s. Ok (Some s))))))"

section \<open>Writing\<close>

text \<open>Write the session file, then restrict its permissions.\<close>

definition write_private :: "string \<Rightarrow> unit io" where
  "write_private s =
     io_bind (fs_write set_enc (str_bytes s)) (\<lambda>_. fs_call (\<lambda>d. (d, ())))"

definition save_session_encrypted :: "config_env \<Rightarrow> session \<Rightarrow> session_key \<Rightarrow> unit io" where
  "save_session_encrypted E s sk = io_bind (draw E 12) (\<lambda>nonce.
     io_bind (io_lift (ok_or ''AES-GCM encrypt failed''
        (ce_seal E (ky_session (sk_keys sk)) nonce (ce_session_json E s)))) (\<lambda>ct.
     let enc = \<lparr>es_v = 1, es_salt = ce_b64 E (sk_master_salt sk), es_nonce = ce_b64 E nonce,
                es_ciphertext = ce_b64 E ct\<rparr>
     in io_bind session_path (\<lambda>_. write_private (ce_enc_json E enc))))"

definition save_session :: "config_env \<Rightarrow> session \<Rightarrow> unit io" where
  "save_session E s = io_bind session_path (\<lambda>_. write_private (ce_session_pretty E s))"

definition clear_session :: "config_env \<Rightarrow> unit io" where
  "clear_session E = io_bind session_path (\<lambda>_. if_exists dk_enc ()
     (io_bind (fs_call (\<lambda>d. (d, case dk_enc d of None \<Rightarrow> 0 | Some b \<Rightarrow> length b))) (\<lambda>n.
      io_bind (draw E n) (\<lambda>garbage.
      io_bind (fs_write set_enc garbage) (\<lambda>_.
      fs_call (\<lambda>d. (d\<lparr>dk_enc := None\<rparr>, ())))))))"

section \<open>Configuration\<close>

definition default_server :: string where
  "default_server = ''https://ams.konstruct.cc:443''"

definition config_default :: config where
  "config_default = \<lparr>cf_server = default_server, cf_transport = Direct\<rparr>"

definition load_config :: "config_env \<Rightarrow> config io" where
  "load_config E = io_bind config_dir (\<lambda>_. if_exists dk_config config_default
     (io_bind (fs_read dk_config) (\<lambda>data. io_lift (ok_or ''json'' (ce_config_parse E data)))))"

definition save_config :: "config_env \<Rightarrow> config \<Rightarrow> unit io" where
  "save_config E c = io_bind config_dir (\<lambda>_. fs_write set_config (str_bytes (ce_config_pretty E c)))"

text \<open>\<open>main\<close>: the configuration the application starts with, from the command line, the environment
  and the file.\<close>

record cli =
  ci_server :: "string option"
  ci_bridge :: "string option"
  ci_bridge_tls_sni :: "string option"
  ci_no_encrypt :: bool
  ci_headless :: bool
  ci_post_quantum :: bool

record app_config =
  ac_server_url :: string
  ac_transport :: transport_config
  ac_no_encrypt :: bool
  ac_headless :: bool
  ac_pq_active :: bool

definition cli_transport :: "cli \<Rightarrow> config \<Rightarrow> transport_config" where
  "cli_transport c file_config =
     (case ci_bridge c of
        Some bridge_line \<Rightarrow>
          (case ci_bridge_tls_sni c of Some sni \<Rightarrow> Obfs4Tls bridge_line sni | None \<Rightarrow> Obfs4 bridge_line)
      | None \<Rightarrow> cf_transport file_config)"

definition app_config_of :: "config_env \<Rightarrow> cli \<Rightarrow> bool \<Rightarrow> disk \<Rightarrow> disk \<times> app_config" where
  "app_config_of E c env_no_encrypt d =
     (let (d, r) = load_config E d; file_config = (case r of Ok f \<Rightarrow> f | Err _ \<Rightarrow> config_default)
      in (d, \<lparr>ac_server_url = (case ci_server c of Some s \<Rightarrow> s | None \<Rightarrow> cf_server file_config),
              ac_transport = cli_transport c file_config,
              ac_no_encrypt = ci_no_encrypt c \<or> env_no_encrypt,
              ac_headless = ci_headless c, ac_pq_active = ci_post_quantum c\<rparr>))"

section \<open>Reading back what was written\<close>

lemma io_bindE:
  assumes "io_bind m f d = (d', Ok y)"
  obtains d1 x where "m d = (d1, Ok x)" "f x d1 = (d', Ok y)"
  using assms unfolding io_bind_def by (auto split: prod.splits sum.splits)

lemma io_bind_ok: "m d = (d1, Ok x) \<Longrightarrow> io_bind m f d = f x d1"
  by (simp add: io_bind_def)

lemma fs_writeE:
  assumes "fs_write upd b d = (d', Ok u)"
  obtains fs where "d' = upd (Some b) (d\<lparr>dk_faults := fs\<rparr>)"
  using assms unfolding fs_write_def
  by (cases "dk_faults d") (auto split: outcome.splits, metis disk.surjective disk.update_convs(5))

lemma fs_call_sameE:
  assumes "fs_call (\<lambda>d. (d, ())) d = (d', Ok u)"
  obtains fs where "d' = d\<lparr>dk_faults := fs\<rparr>"
  using assms unfolding fs_call_def
  by (cases "dk_faults d") (auto split: outcome.splits, metis disk.surjective disk.update_convs(5))

lemma write_private_file:
  "write_private s d = (d', Ok u) \<Longrightarrow> dk_enc d' = Some (str_bytes s) \<and> dk_has_dir d' = dk_has_dir d"
  unfolding write_private_def by (elim io_bindE fs_writeE fs_call_sameE) (auto simp: set_enc_def)

lemma session_path_ready:
  "dk_has_dir d \<Longrightarrow> dk_faults d = [] \<Longrightarrow> dk_enc d \<noteq> None \<Longrightarrow> session_path d = (d, Ok ())"
  by (auto simp: session_path_def config_dir_def io_bind_def fs_call_def)

lemma fs_read_ready:
  "dk_faults d = [] \<Longrightarrow> file d = Some (str_bytes s) \<Longrightarrow> is_str s \<Longrightarrow> fs_read file d = (d, Ok s)"
  by (simp add: fs_read_def io_bind_def fs_call_def io_lift_def)

lemma session_path_has_dir: "session_path d = (d', Ok u) \<Longrightarrow> dk_has_dir d'"
  by (auto simp: session_path_def config_dir_def io_bind_def fs_call_def Let_def
      split: if_splits prod.splits sum.splits list.splits outcome.splits)

text \<open>The documented laws of the crates: what was encoded or sealed is read back.\<close>

definition config_laws :: "config_env \<Rightarrow> bool" where
  "config_laws E \<longleftrightarrow>
     (\<forall>k n p c. ce_seal E k n p = Some c \<longrightarrow> ce_unseal E k n c = Some p)
   \<and> (\<forall>b. ce_unb64 E (ce_b64 E b) = Some b)
   \<and> (\<forall>e. ce_enc_parse E (ce_enc_json E e) = Some e \<and> is_str (ce_enc_json E e))
   \<and> (\<forall>s. ce_session_parse E (ce_session_json E s) = Some s)
   \<and> (\<forall>i n. length (ce_random E i n) = n)"

lemma save_session_encrypted_file:
  assumes "save_session_encrypted E s sk d = (d', Ok u)"
  obtains n ct where "ce_seal E (ky_session (sk_keys sk)) (ce_random E n 12) (ce_session_json E s) = Some ct"
    "dk_enc d' = Some (str_bytes (ce_enc_json E \<lparr>es_v = 1, es_salt = ce_b64 E (sk_master_salt sk),
        es_nonce = ce_b64 E (ce_random E n 12), es_ciphertext = ce_b64 E ct\<rparr>))"
    "dk_has_dir d'"
proof -
  from assms obtain d1 n d2 ct d3 where
    n: "draw E 12 d = (d1, Ok n)" and
    ct: "io_lift (ok_or ''AES-GCM encrypt failed'' (ce_seal E (ky_session (sk_keys sk)) n (ce_session_json E s))) d1
      = (d2, Ok ct)" and
    p: "session_path d2 = (d3, Ok ())" and
    w: "write_private (ce_enc_json E \<lparr>es_v = 1, es_salt = ce_b64 E (sk_master_salt sk),
        es_nonce = ce_b64 E n, es_ciphertext = ce_b64 E ct\<rparr>) d3 = (d', Ok u)"
    unfolding save_session_encrypted_def Let_def by (auto elim!: io_bindE)
  have "n = ce_random E (dk_draws d) 12" using n by (auto simp: draw_def)
  moreover have "ce_seal E (ky_session (sk_keys sk)) n (ce_session_json E s) = Some ct"
    using ct by (cases "ce_seal E (ky_session (sk_keys sk)) n (ce_session_json E s)") (auto simp: io_lift_def)
  ultimately show thesis
    using that write_private_file [OF w] session_path_has_dir [OF p] by simp
qed

lemma create_session_keyD:
  "create_session_key E p d = (d', Ok sk) \<Longrightarrow>
     session_key_of E p (sk_master_salt sk) = Ok sk \<and> sk_master_salt sk = ce_random E (dk_draws d) 16"
  by (auto simp: create_session_key_def draw_def io_lift_def session_key_of_def rbind_eq_Inr elim!: io_bindE)

text \<open>C11. A session saved under a fresh passphrase survives a restart: the file is recognised as
  encrypted, the same passphrase derives the same keys from the salt it carries and opens the same
  session; a key that does not open the ciphertext gives an error and not a session; and a later
  reading leaves the directory as it is.\<close>

theorem session_survives_restart:
  assumes "config_laws E"
    and "create_session_key E passphrase d0 = (d1, Ok sk)"
    and "save_session_encrypted E s sk d2 = (d3, Ok ())"
    and "dk_enc d = dk_enc d3" "dk_has_dir d" "dk_faults d = []"
  shows "detect_session E d = (d, Encrypted)
     \<and> open_session_key E passphrase d = (d, Ok (Some sk))
     \<and> load_session_encrypted E sk d = (d, Ok (Some s))
     \<and> (\<exists>n c. ce_seal E (ky_session (sk_keys sk)) n (ce_session_json E s) = Some c
          \<and> (\<forall>sk'. ce_unseal E (ky_session (sk_keys sk')) n c = None \<longrightarrow>
                 \<not> is_ok (snd (load_session_encrypted E sk' d))))"
proof -
  obtain n ct where ct: "ce_seal E (ky_session (sk_keys sk)) (ce_random E n 12) (ce_session_json E s) = Some ct"
    and f: "dk_enc d = Some (str_bytes (ce_enc_json E \<lparr>es_v = 1, es_salt = ce_b64 E (sk_master_salt sk),
        es_nonce = ce_b64 E (ce_random E n 12), es_ciphertext = ce_b64 E ct\<rparr>))"
    using save_session_encrypted_file [OF assms(3)] assms(4) by metis
  define enc where "enc = \<lparr>es_v = (1::u32), es_salt = ce_b64 E (sk_master_salt sk),
        es_nonce = ce_b64 E (ce_random E n 12), es_ciphertext = ce_b64 E ct\<rparr>"
  have laws: "ce_enc_parse E (ce_enc_json E enc) = Some enc" "is_str (ce_enc_json E enc)"
    "ce_unb64 E (ce_b64 E b) = Some b" "length (ce_random E i k) = k"
    "ce_session_parse E (ce_session_json E s) = Some s"
    "ce_unseal E (ky_session (sk_keys sk)) (ce_random E n 12) ct = Some (ce_session_json E s)" for b i k
    using assms(1) ct by (simp_all add: config_laws_def)
  have p: "session_path d = (d, Ok ())" using session_path_ready assms(5,6) f by simp
  have r: "fs_read dk_enc d = (d, Ok (ce_enc_json E enc))"
    using fs_read_ready [OF assms(6), of dk_enc] f laws(2) by (simp add: enc_def)
  note k = create_session_keyD [OF assms(2)]
  have salt: "read_master_salt E d = (d, Ok (Some (sk_master_salt sk)))"
    using laws k by (simp add: read_master_salt_def io_bind_def p if_exists_def f r io_lift_def
        parse_encrypted_def) (simp add: enc_def)
  have l: "load_session_encrypted E sk' d = (d,
      rbind (ok_or (''Decryption failed '' @ em_dash @ '' wrong passphrase?'')
        (ce_unseal E (ky_session (sk_keys sk')) (ce_random E n 12) ct)) (\<lambda>plain.
      rbind (ok_or ''json'' (ce_session_parse E plain)) (\<lambda>s. Ok (Some s))))" for sk'
    using laws by (simp add: load_session_encrypted_def io_bind_def p if_exists_def f r io_lift_def
        parse_encrypted_def) (simp add: enc_def)
  have "detect_session E d = (d, Encrypted)"
    using laws(1) by (simp add: detect_session_def p r f)
  moreover have "open_session_key E passphrase d = (d, Ok (Some sk))"
    by (simp add: open_session_key_def io_bind_def salt io_lift_def conjunct1 [OF k])
  moreover have "load_session_encrypted E sk d = (d, Ok (Some s))"
    using laws by (simp add: l)
  moreover have "\<forall>sk'. ce_unseal E (ky_session (sk_keys sk')) (ce_random E n 12) ct = None \<longrightarrow>
      \<not> is_ok (snd (load_session_encrypted E sk' d))"
    by (simp add: l)
  ultimately show ?thesis using ct by blast
qed

text \<open>A session file whose nonce is not twelve bytes long stops the program instead of being reported
  as corrupted.\<close>

lemma corrupt_nonce_panics:
  assumes "dk_enc d = Some (str_bytes data)" "is_str data" "dk_has_dir d" "dk_faults d = []"
    and "ce_enc_parse E data = Some enc" "ce_unb64 E (es_nonce enc) = Some nonce" "length nonce \<noteq> 12"
    and "ce_unb64 E (es_ciphertext enc) = Some ct"
  shows "load_session_encrypted E sk d = (d, Err PANIC)"
proof -
  have p: "session_path d = (d, Ok ())" using session_path_ready assms(1,3,4) by simp
  have r: "fs_read dk_enc d = (d, Ok data)" using fs_read_ready [OF assms(4), of dk_enc] assms(1,2) by simp
  show ?thesis
    using assms by (simp add: load_session_encrypted_def io_bind_def p r if_exists_def io_lift_def
        parse_encrypted_def)
qed

section \<open>A concrete environment\<close>

text \<open>Codecs that satisfy the laws: a record is written as a run of ones whose length numbers it, and
  sealing puts the key in front of the plaintext.\<close>

definition toy_text :: "'a :: countable \<Rightarrow> string" where
  "toy_text x = replicate (to_nat x) (CHR 0x31)"

definition toy_read :: "'x list \<Rightarrow> 'a :: countable option" where
  "toy_read s = Some (from_nat (length s))"

lemma toy_read_text [simp]: "toy_read (toy_text x) = Some x" "toy_read (str_bytes (toy_text x)) = Some x"
  by (simp_all add: toy_read_def toy_text_def)

lemma is_str_toy [simp]: "is_str (toy_text x)"
  by (rule is_str_ascii) (simp add: toy_text_def list_all_iff)

definition enc_tuple :: "encrypted_session \<Rightarrow> nat \<times> string \<times> string \<times> string" where
  "enc_tuple e = (unat (es_v e), es_salt e, es_nonce e, es_ciphertext e)"

definition enc_untuple :: "nat \<times> string \<times> string \<times> string \<Rightarrow> encrypted_session" where
  "enc_untuple = (\<lambda>(v, a, b, c). \<lparr>es_v = of_nat v, es_salt = a, es_nonce = b, es_ciphertext = c\<rparr>)"

definition session_tuple ::
  "session \<Rightarrow> string \<times> string \<times> string \<times> string \<times> string \<times> string \<times> int \<times> string \<times> string" where
  "session_tuple s = (ss_signing_key_hex s, ss_identity_key_hex s, ss_device_id s, ss_user_id s,
     ss_access_token s, ss_refresh_token s, ss_expires_at s, ss_spk_key_hex s, ss_spk_sig_hex s)"

definition session_untuple ::
  "string \<times> string \<times> string \<times> string \<times> string \<times> string \<times> int \<times> string \<times> string \<Rightarrow> session" where
  "session_untuple = (\<lambda>(a, b, c, d, e, f, g, h, i). \<lparr>ss_signing_key_hex = a, ss_identity_key_hex = b,
     ss_device_id = c, ss_user_id = d, ss_access_token = e, ss_refresh_token = f, ss_expires_at = g,
     ss_spk_key_hex = h, ss_spk_sig_hex = i\<rparr>)"

lemma tuple_inverse [simp]: "enc_untuple (enc_tuple e) = e" "session_untuple (session_tuple s) = s"
  by (simp_all add: enc_untuple_def enc_tuple_def session_untuple_def session_tuple_def)

definition toy_config :: config_env where
  "toy_config = \<lparr>ce_argon2 = (\<lambda>_ _ _ _ p salt. Ok (p @ salt)), ce_hkdf = (\<lambda>k i. Some (k @ str_bytes i)),
     ce_seal = (\<lambda>k n p. Some (k @ p)),
     ce_unseal = (\<lambda>k n c. if prefix k c then Some (drop (length k) c) else None),
     ce_b64 = bytes_str, ce_unb64 = (\<lambda>s. Some (str_bytes s)),
     ce_enc_json = (\<lambda>e. toy_text (enc_tuple e)), ce_enc_parse = (\<lambda>s. map_option enc_untuple (toy_read s)),
     ce_session_json = (\<lambda>s. str_bytes (toy_text (session_tuple s))),
     ce_session_pretty = (\<lambda>s. toy_text (session_tuple s)),
     ce_session_parse = (\<lambda>b. map_option session_untuple (toy_read b)),
     ce_config_pretty = (\<lambda>_. []), ce_config_parse = (\<lambda>_. None), ce_random = (\<lambda>i n. replicate n (of_nat i))\<rparr>"

lemma toy_config_laws: "config_laws toy_config"
  by (simp add: config_laws_def toy_config_def)

definition empty_disk :: disk where
  "empty_disk = \<lparr>dk_has_dir = True, dk_enc = None, dk_old = None, dk_config = None, dk_faults = [],
     dk_draws = 0\<rparr>"

definition sample_session :: session where
  "sample_session = \<lparr>ss_signing_key_hex = ''0a'', ss_identity_key_hex = ''0b'', ss_device_id = ''dev'',
     ss_user_id = ''user'', ss_access_token = ''tok'', ss_refresh_token = ''ref'', ss_expires_at = 1000,
     ss_spk_key_hex = ''0c'', ss_spk_sig_hex = ''0d''\<rparr>"

lemma save_succeeds:
  "ce_seal E (ky_session (sk_keys sk)) (ce_random E (dk_draws d) 12) (ce_session_json E s) \<noteq> None \<Longrightarrow>
     dk_has_dir d \<Longrightarrow> dk_faults d = [] \<Longrightarrow>
   \<exists>d'. save_session_encrypted E s sk d = (d', Ok ()) \<and> dk_has_dir d' \<and> dk_faults d' = []"
  by (auto simp: save_session_encrypted_def io_bind_def draw_def io_lift_def session_path_def
      config_dir_def fs_call_def write_private_def fs_write_def set_enc_def Let_def)

theorem session_survives_restart_witness:
  "\<exists>d sk. snd (open_session_key toy_config [7] d) = Ok (Some sk)
      \<and> snd (load_session_encrypted toy_config sk d) = Ok (Some sample_session)"
proof -
  obtain d1 sk where k: "create_session_key toy_config [7] empty_disk = (d1, Ok sk)"
    by (simp add: create_session_key_def io_bind_def draw_def io_lift_def session_key_of_def
        derive_master_key_def derive_keys_from_master_def toy_config_def)
  obtain d3 where w: "save_session_encrypted toy_config sample_session sk empty_disk = (d3, Ok ())"
    and d3: "dk_has_dir d3" "dk_faults d3 = []"
    using save_succeeds [of toy_config sk empty_disk sample_session]
    by (auto simp: toy_config_def empty_disk_def)
  from session_survives_restart [OF toy_config_laws k w refl d3]
  show ?thesis by (metis snd_conv)
qed

end
