(* ===== verification/Grpc_Props.thy ===== *)
theory Grpc_Props
  imports Grpc_Rpc
begin

text \<open>
  What the unary client promises: one retry at most, on transport errors only and on a fresh
  session; every request authenticated with the current credentials; data only from a reply
  whose status is good in headers and trailers; user lookups only for well-formed names.
\<close>

section \<open>One call\<close>

definition request_for :: "grpc_env \<Rightarrow> grpc_client \<Rightarrow> string \<Rightarrow> bytes \<Rightarrow> http_request" where
  "request_for E c path b = \<lparr>hq_path = path,
     hq_headers = apply_auth_headers (ge_version E) [(''host'', authority c)] (cl_token c) (cl_device_id c),
     hq_body = encode_frame b\<rparr>"

definition same_identity :: "grpc_client \<Rightarrow> grpc_client \<Rightarrow> bool" where
  "same_identity c c' \<longleftrightarrow> cl_host c' = cl_host c \<and> cl_port c' = cl_port c
     \<and> cl_token c' = cl_token c \<and> cl_device_id c' = cl_device_id c"

lemma request_for_cong: "same_identity c c' \<Longrightarrow> request_for E c' = request_for E c"
  by (simp add: same_identity_def request_for_def authority_def fun_eq_iff)

lemma request_for_headers:
  "map_of (hq_headers (request_for E c p b)) ''authorization'' = map_option (\<lambda>t. ''Bearer '' @ t) (cl_token c)"
  "map_of (hq_headers (request_for E c p b)) ''x-device-id'' = cl_device_id c"
  "hq_path (request_for E c p b) = p" "hq_body (request_for E c p b) = encode_frame b"
  by (simp_all add: request_for_def apply_auth_headers_def split: option.split)

lemma ensure_session_result:
  "ensure_session E c = (c', r) \<Longrightarrow> same_identity c c' \<and> cl_sent c' = cl_sent c
     \<and> (case r of Ok _ \<Rightarrow> cl_session c' \<noteq> None | Err _ \<Rightarrow> cl_session c' = None)"
  by (auto simp: ensure_session_def same_identity_def split: option.splits sum.splits)

lemma do_unary_result:
  "do_unary E c p b = (c', r) \<Longrightarrow> same_identity c c' \<and> cl_session c' = cl_session c
     \<and> (cl_sent c' = cl_sent c \<or> cl_sent c' = cl_sent c @ [request_for E c p b])"
  by (auto simp: do_unary_def request_for_def same_identity_def Let_def split: option.splits)

lemma unary_once_result:
  assumes "unary_once E c p b = (c', r)"
  shows "same_identity c c'"
    and "cl_sent c' = cl_sent c \<or> cl_sent c' = cl_sent c @ [request_for E c p b]"
    and "r = Ok m \<Longrightarrow> cl_session c' \<noteq> None"
    and "r = Err e \<Longrightarrow> is_retryable_transport e \<Longrightarrow> cl_session c' = None"
proof -
  obtain c1 r1 where e: "ensure_session E c = (c1, r1)" by fastforce
  obtain c2 r2 where d: "do_unary E c1 p b = (c2, r2)" by fastforce
  note e' = ensure_session_result [OF e] and d' = do_unary_result [OF d]
  have i: "same_identity c c1" using e' by simp
  show "same_identity c c'" using assms e e' d d'
    by (auto simp: unary_once_def same_identity_def invalidate_def split: sum.splits)
  show "cl_sent c' = cl_sent c \<or> cl_sent c' = cl_sent c @ [request_for E c p b]"
    using assms e e' d d' request_for_cong [OF i, of E]
    by (auto simp: unary_once_def invalidate_def split: sum.splits if_splits)
  show "r = Ok m \<Longrightarrow> cl_session c' \<noteq> None"
    using assms e e' d d' by (auto simp: unary_once_def split: sum.splits)
  show "r = Err e \<Longrightarrow> is_retryable_transport e \<Longrightarrow> cl_session c' = None"
    using assms e e' d d' by (auto simp: unary_once_def invalidate_def split: sum.splits)
qed

lemma unary_sends:
  assumes "unary E c p b = (c', r)"
  shows "\<exists>k \<le> 2. cl_sent c' = cl_sent c @ replicate k (request_for E c p b)"
    and "same_identity c c'"
proof -
  obtain c1 r1 where o1: "unary_once E c p b = (c1, r1)" by fastforce
  obtain c2 r2 where o2: "unary_once E (invalidate c1) p b = (c2, r2)" by fastforce
  note f = unary_once_result [OF o1] and s = unary_once_result [OF o2]
  have i: "same_identity c (invalidate c1)" using f(1) by (simp add: same_identity_def invalidate_def)
  have sent: "cl_sent (invalidate c1) = cl_sent c1" by (simp add: invalidate_def)
  have c': "c' = c1 \<or> c' = c2"
    using assms o1 o2 by (auto simp: unary_def split: sum.splits if_splits)
  have "\<exists>k \<le> 2. cl_sent c1 = cl_sent c @ replicate k (request_for E c p b)"
    using f(2) by (auto intro: exI [of _ 0] exI [of _ 1])
  moreover have "\<exists>k \<le> 2. cl_sent c2 = cl_sent c @ replicate k (request_for E c p b)"
    using f(2) s(2) unfolding request_for_cong [OF i] sent
    by (auto intro: exI [of _ 0] exI [of _ 1] exI [of _ 2] simp: numeral_2_eq_2)
  ultimately show "\<exists>k \<le> 2. cl_sent c' = cl_sent c @ replicate k (request_for E c p b)"
    using c' by blast
  have "same_identity c c2" using i s(1) by (simp add: same_identity_def)
  then show "same_identity c c'" using c' f(1) by blast
qed


definition sample_net :: grpc_env where
  "sample_net = \<lparr>ge_connect = (\<lambda>_ _ _. Ok ()),
     ge_exchange = (\<lambda>n _. \<lparr>ex_open = (if n = 0 then Some ''reset'' else None), ex_data = None, ex_end = None,
        ex_reply = Ok \<lparr>hr_status = 200, hr_headers = [], hr_body = [], hr_trailers = None\<rparr>\<rparr>),
     ge_bad_request = (\<lambda>_. None), ge_status_text = dec_of_nat, ge_version = ''0.1''\<rparr>"

definition sample_client :: grpc_client where
  "sample_client = \<lparr>cl_host = ''h'', cl_port = 443, cl_session = None, cl_token = Some ''t'',
     cl_device_id = None, cl_dials = 0, cl_sent = []\<rparr>"


section \<open>Good data only\<close>

lemma collect_body_concat:
  "collect_body body cs = Ok b \<Longrightarrow> \<exists>bs. cs = map Ok bs \<and> b = body @ concat bs"
proof (induction body cs rule: collect_body.induct)
  case (3 body c cs)
  then obtain bs where "cs = map Ok bs" "b = (body @ c) @ concat bs" by auto
  then show ?case by (intro exI [of _ "c # bs"]) simp
qed simp_all


lemma encode_frame_not_Nil: "encode_frame p \<noteq> []"
  by (simp add: encode_frame_def)


section \<open>Looking users up\<close>

definition plain_char :: "char \<Rightarrow> bool" where
  "plain_char c \<longleftrightarrow> 33 \<le> (of_char c :: nat) \<and> (of_char c :: nat) < 127"

lemma ws_not_plain: "w \<in> set ws_encodings \<Longrightarrow> w \<noteq> [] \<and> \<not> plain_char (hd w) \<and> \<not> plain_char (last w)"
  unfolding ws_encodings_def by (auto simp: plain_char_def)

lemma trim_plain: "list_all plain_char s \<Longrightarrow> trim s = s"
proof -
  assume s: "list_all plain_char s"
  have "trim_with ws_encodings s = s"
  proof (rule trim_with_fixed)
    have "\<not> prefix w s" if "w \<in> set ws_encodings" for w
      using ws_not_plain [OF that] s by (cases w; cases s) auto
    then show "find (\<lambda>w. w \<noteq> [] \<and> prefix w s) ws_encodings = None"
      by (auto simp: find_None_iff)
  qed
  moreover have "trim_with (map rev ws_encodings) (rev s) = rev s"
  proof (rule trim_with_fixed)
    have "\<not> prefix (rev w) (rev s)" if "w \<in> set ws_encodings" for w
    proof
      assume "prefix (rev w) (rev s)"
      then obtain t where "s = t @ w" by (auto simp: suffix_to_prefix [symmetric] suffix_def)
      then have "last w \<in> set s" using ws_not_plain [OF that] by simp
      then show False using ws_not_plain [OF that] s by (auto simp: list_all_iff)
    qed
    then show "find (\<lambda>w. w \<noteq> [] \<and> prefix w (rev s)) (map rev ws_encodings) = None"
      by (auto simp: find_None_iff)
  qed
  ultimately show ?thesis by (simp add: trim_def trim_start_def trim_end_def)
qed

lemma ascii_lower_idem [simp]: "ascii_lower (ascii_lower c) = ascii_lower c"
  by (auto simp: ascii_lower_def)

lemma searchable_char:
  assumes "is_ascii_alnum c \<or> c = CHR 0x5F" shows "plain_char c" "c \<noteq> CHR 0x40"
  using assms by (auto simp: is_ascii_alnum_def plain_char_def Let_def)

lemma normalize_searchable:
  assumes "username_is_searchable (normalize_username raw)"
  shows "normalize_username (normalize_username raw) = normalize_username raw"
proof -
  let ?u = "normalize_username raw"
  have c: "list_all (\<lambda>c. is_ascii_alnum c \<or> c = CHR 0x5F) ?u"
    using assms by (simp add: username_is_searchable_def)
  then have p: "list_all plain_char ?u" "\<forall>x \<in> set ?u. x \<noteq> CHR 0x40"
    using searchable_char by (auto simp: list_all_iff)
  have "dropWhile (\<lambda>c. c = CHR 0x40) ?u = ?u" using p(2) by (cases ?u) auto
  then have "normalize_username ?u = map ascii_lower ?u"
    by (simp add: normalize_username_def [of ?u] trim_plain [OF p(1)])
  also have "\<dots> = ?u" by (simp add: normalize_username_def o_def)
  finally show ?thesis .
qed

text \<open>A username goes to the server only in its canonical form: \<open>find_user\<close> sends nothing for a
  name that does not normalise to 3 to 30 letters, digits and underscores, and otherwise asks
  for the normalised name, which normalises to itself; a hit is never an empty user id.\<close>

theorem find_user_sends_canonical:
  assumes "find_user E C c raw = (c', r)"
  shows "(\<not> username_is_searchable (normalize_username raw) \<longrightarrow> c' = c \<and> r = Ok None)
     \<and> (username_is_searchable (normalize_username raw) \<longrightarrow>
          normalize_username (normalize_username raw) = normalize_username raw
          \<and> (\<exists>k \<le> 2. cl_sent c' = cl_sent c @ replicate k
                (request_for E c USER_FIND (rc_enc_find C (normalize_username raw)))))
     \<and> r \<noteq> Ok (Some [])"
proof (cases "username_is_searchable (normalize_username raw)")
  case False
  then show ?thesis using assms by (auto simp: find_user_def)
next
  case True
  let ?b = "rc_enc_find C (normalize_username raw)"
  obtain c1 r1 where u: "unary E c USER_FIND ?b = (c1, r1)" by fastforce
  have "c' = c1" "r \<noteq> Ok (Some [])"
    using assms True u by (auto simp: find_user_def split: sum.splits grpc_error.splits if_splits)
  then show ?thesis using True normalize_searchable [OF True] unary_sends [OF u] by simp
qed

definition sample_codec :: rpc_codec where
  "sample_codec = \<lparr>rc_hybrid_1024 = 2, rc_hybrid_768 = 3, rc_enc_pow = [], rc_dec_pow = (\<lambda>_. Err ''x''),
     rc_enc_register = (\<lambda>_. []), rc_enc_authenticate = (\<lambda>_ _ _. []), rc_enc_refresh = (\<lambda>_ _. []),
     rc_enc_confirm = (\<lambda>_ _ _. []), rc_dec_tokens = (\<lambda>_. Ok None), rc_dec_refresh = (\<lambda>_. Err ''x''),
     rc_enc_get_bundle = str_bytes, rc_dec_bundle = (\<lambda>_. Err ''x''), rc_enc_upload = (\<lambda>_ _ _. []),
     rc_dec_upload = (\<lambda>_. Ok 0), rc_enc_find = str_bytes, rc_dec_find = (\<lambda>b. Ok (bytes_str b))\<rparr>"

theorem find_user_sends_canonical_witness:
  "find_user sample_net sample_codec sample_client ''@!'' = (sample_client, Ok None)"
proof -
  have t: "trim ''@!'' = ''@!''" "trim ''!'' = ''!''"
    by (rule trim_plain, simp add: plain_char_def)+
  have n: "\<not> username_is_searchable (normalize_username ''@!'')"
    by (simp add: normalize_username_def t username_is_searchable_def)
  obtain c' r where f: "find_user sample_net sample_codec sample_client ''@!'' = (c', r)" by fastforce
  from find_user_sends_canonical [OF f] n show ?thesis by (simp add: f)
qed

end
