(* ===== verification/Auth.thy ===== *)
theory Auth
  imports Config Grpc_Props
begin

text \<open>
  \<open>auth.rs\<close>: restoring a saved session, registering a new device, linking a device to an account.
  Key pairs, signatures, hex, the device id of a key, the private-key container and the proof of work
  are functions of the record \<open>auth_env\<close>; the RPCs are those of \<open>Grpc_Rpc\<close>.
\<close>

datatype registration_step =
    GeneratingSigningKey | GeneratingIdentityKey | GeneratingPreKey | SigningPreKey
  | StepConnecting | SolvingPoW | Registering

definition step_index :: "registration_step \<Rightarrow> nat" where
  "step_index s = (case s of
       GeneratingSigningKey \<Rightarrow> 0 | GeneratingIdentityKey \<Rightarrow> 1 | GeneratingPreKey \<Rightarrow> 2
     | SigningPreKey \<Rightarrow> 3 | StepConnecting \<Rightarrow> 4 | SolvingPoW \<Rightarrow> 5 | Registering \<Rightarrow> 6)"

record auth_result =
  ar_user_id :: string
  ar_device_id :: string
  ar_access_token :: string
  ar_session :: "session option"

record key_pair =
  kp_private :: bytes
  kp_public :: bytes

text \<open>The key pairs one registration or link draws.\<close>

record device_pairs =
  dp_signing :: key_pair
  dp_identity :: key_pair
  dp_spk :: key_pair

record auth_env =
  ah_grpc :: grpc_env
  ah_codec :: rpc_codec
  ah_config :: config_env
  ah_unhex :: "string \<Rightarrow> bytes option"
  ah_hex :: "bytes \<Rightarrow> string"
  ah_sign :: "bytes \<Rightarrow> bytes \<Rightarrow> bytes"
  ah_now :: "string + i64"
  ah_device_id :: "bytes \<Rightarrow> string"
  ah_prologue :: bytes
  ah_encode_keys :: "device_pairs \<Rightarrow> bytes \<Rightarrow> string + bytes"
  ah_pow :: "string \<Rightarrow> u32 \<Rightarrow> (u64 \<times> bytes) option"   \<comment> \<open>\<open>None\<close>: the computation panicked\<close>

text \<open>\<open>anyhow\<close>'s \<open>context\<close> in the alternate form the application prints.\<close>

definition with_context :: "string \<Rightarrow> grpc_error + 'a \<Rightarrow> string + 'a" where
  "with_context ctx r = (case r of Ok x \<Rightarrow> Ok x | Err e \<Rightarrow> Err (ctx @ '': '' @ grpc_error_show e))"

lemma with_context_simps [simp]:
  "with_context ctx (Ok x) = Ok x" "with_context ctx (Err e) = Err (ctx @ '': '' @ grpc_error_show e)"
  by (simp_all add: with_context_def)

section \<open>A saved session\<close>

definition signing_key_of :: "auth_env \<Rightarrow> session \<Rightarrow> string + bytes" where
  "signing_key_of A s =
     rbind (ok_or ''invalid signing key hex'' (ah_unhex A (ss_signing_key_hex s))) (\<lambda>sk.
     rbind (ensure (length sk = 32) ''signing key must be 32 bytes'') (\<lambda>_. Ok sk))"

definition adopt_tokens :: "auth_tokens \<Rightarrow> session \<Rightarrow> session" where
  "adopt_tokens t s = s\<lparr>ss_access_token := at_access_token t, ss_refresh_token := at_refresh_token t,
     ss_expires_at := at_expires_at t\<rparr>"

definition authenticate_saved_session ::
  "auth_env \<Rightarrow> session \<Rightarrow> grpc_client \<Rightarrow> grpc_client \<times> (string + auth_result)" where
  "authenticate_saved_session A s c =
     (case rbind (signing_key_of A s) (\<lambda>sk. rbind (ah_now A) (\<lambda>now. Ok (sk, now))) of
        Err e \<Rightarrow> (c, Err e)
      | Ok (sk, timestamp) \<Rightarrow>
          (let signature = ah_sign A sk (str_bytes (ss_device_id s @ dec_of_int timestamp));
               c = set_device_id (Some (ss_device_id s)) c;
               (c, r) = authenticate_device (ah_grpc A) (ah_codec A) c (ss_device_id s) timestamp signature
           in (c, rbind (with_context ''authenticate'' r) (\<lambda>t.
                Ok \<lparr>ar_user_id = at_user_id t, ar_device_id = ss_device_id s,
                    ar_access_token = at_access_token t, ar_session = Some (adopt_tokens t s)\<rparr>))))"

definition try_restore_session ::
  "auth_env \<Rightarrow> grpc_client \<Rightarrow> disk \<Rightarrow> grpc_client \<times> disk \<times> (string + auth_result option)" where
  "try_restore_session A c d =
     (case load_session (ah_config A) d of
        (d, Err e) \<Rightarrow> (c, d, Err e)
      | (d, Ok None) \<Rightarrow> (c, d, Ok None)
      | (d, Ok (Some s)) \<Rightarrow>
          (case authenticate_saved_session A s c of
             (c, Err e) \<Rightarrow> (c, d, Err e)
           | (c, Ok result) \<Rightarrow>
               (let updated = s\<lparr>ss_access_token := ar_access_token result\<rparr>;
                    updated = (case ar_session result of
                       None \<Rightarrow> updated
                     | Some sess \<Rightarrow> updated\<lparr>ss_refresh_token := ss_refresh_token sess,
                                          ss_expires_at := ss_expires_at sess\<rparr>)
                in case save_session (ah_config A) updated d of
                     (d, Err e) \<Rightarrow> (c, d, Err e)
                   | (d, Ok _) \<Rightarrow>
                       (c, d, Ok (Some (result\<lparr>ar_session := Some updated\<rparr>))))))"

section \<open>New devices\<close>

definition spk_signature :: "auth_env \<Rightarrow> device_pairs \<Rightarrow> bytes" where
  "spk_signature A k = ah_sign A (kp_private (dp_signing k)) (ah_prologue A @ kp_public (dp_spk k))"

definition public_keys :: "auth_env \<Rightarrow> device_pairs \<Rightarrow> device_keys" where
  "public_keys A k = device_public_keys (kp_public (dp_signing k)) (kp_public (dp_identity k))
     (kp_public (dp_spk k)) (spk_signature A k)"

definition new_session :: "auth_env \<Rightarrow> device_pairs \<Rightarrow> string \<Rightarrow> auth_tokens \<Rightarrow> session" where
  "new_session A k device_id t =
     \<lparr>ss_signing_key_hex = ah_hex A (kp_private (dp_signing k)),
      ss_identity_key_hex = ah_hex A (kp_private (dp_identity k)),
      ss_device_id = device_id, ss_user_id = at_user_id t, ss_access_token = at_access_token t,
      ss_refresh_token = at_refresh_token t, ss_expires_at = at_expires_at t,
      ss_spk_key_hex = ah_hex A (kp_private (dp_spk k)), ss_spk_sig_hex = ah_hex A (spk_signature A k)\<rparr>"

definition new_device_result :: "auth_env \<Rightarrow> device_pairs \<Rightarrow> string \<Rightarrow> auth_tokens \<Rightarrow> auth_result" where
  "new_device_result A k device_id t =
     \<lparr>ar_user_id = at_user_id t, ar_device_id = device_id, ar_access_token = at_access_token t,
      ar_session = Some (new_session A k device_id t)\<rparr>"

text \<open>The steps reported on the way are the second component.\<close>

definition register_new_device ::
  "auth_env \<Rightarrow> device_pairs \<Rightarrow> string option \<Rightarrow> grpc_client
    \<Rightarrow> grpc_client \<times> registration_step list \<times> (string + auth_result)" where
  "register_new_device A k user c =
     (let steps = [GeneratingSigningKey, GeneratingIdentityKey, GeneratingPreKey, SigningPreKey];
          device_id = ah_device_id A (kp_public (dp_identity k))
      in case ah_encode_keys A k (spk_signature A k) of
           Err e \<Rightarrow> (c, steps, Err e)
         | Ok _ \<Rightarrow>
             (let steps = steps @ [StepConnecting, SolvingPoW]; c = set_device_id (Some device_id) c
              in case get_pow_challenge (ah_grpc A) (ah_codec A) c of
                   (c, Err e) \<Rightarrow> (c, steps, with_context ''pow challenge'' (Err e))
                 | (c, Ok (challenge, difficulty)) \<Rightarrow>
                     (case ah_pow A challenge difficulty of
                        None \<Rightarrow> (c, steps, Err ''PoW computation panicked'')
                      | Some solution \<Rightarrow>
                          (let (c, r) = register_device (ah_grpc A) (ah_codec A) c user device_id
                                          (public_keys A k) solution challenge
                           in (c, steps @ [Registering],
                               rbind (with_context ''register device'' r)
                                 (\<lambda>t. Ok (new_device_result A k device_id t)))))))"

definition link_existing_device ::
  "auth_env \<Rightarrow> device_pairs \<Rightarrow> string \<Rightarrow> grpc_client \<Rightarrow> grpc_client \<times> (string + auth_result)" where
  "link_existing_device A k link_token c =
     (let device_id = ah_device_id A (kp_public (dp_identity k))
      in case ah_encode_keys A k (spk_signature A k) of
           Err e \<Rightarrow> (c, Err e)
         | Ok _ \<Rightarrow>
             (let (c, r) = confirm_device_link (ah_grpc A) (ah_codec A) (set_device_id (Some device_id) c)
                             link_token device_id (public_keys A k)
              in (c, rbind (with_context ''confirm device link'' r)
                       (\<lambda>t. Ok (new_device_result A k device_id t)))))"

section \<open>Facts\<close>

lemma step_index_less: "step_index s < 7"
  by (cases s) (simp_all add: step_index_def)

lemma authenticate_keeps_identity:
  assumes "authenticate_saved_session A s c = (c', Ok r)"
  obtains t where "ar_session r = Some (adopt_tokens t s)" "ar_access_token r = at_access_token t"
    "ar_user_id r = at_user_id t" "ar_device_id r = ss_device_id s"
  using assms
  by (auto simp: authenticate_saved_session_def Let_def rbind_eq_Inr with_context_def
      split: sum.splits prod.splits)

lemma register_returns_session:
  "register_new_device A k u c = (c', steps, Ok r) \<Longrightarrow>
     \<exists>t. ar_session r = Some (new_session A k (ah_device_id A (kp_public (dp_identity k))) t)
       \<and> steps = [GeneratingSigningKey, GeneratingIdentityKey, GeneratingPreKey, SigningPreKey,
                  StepConnecting, SolvingPoW, Registering]"
  by (auto simp: register_new_device_def new_device_result_def Let_def rbind_eq_Inr with_context_def
      split: sum.splits prod.splits option.splits)

end
