(* ===== verification/App.thy ===== *)
theory App
  imports Orchestrator_Props Screens Auth
begin

text \<open>
  \<open>app.rs\<close>, first part: the state of the application, the start of the background tasks, and what the
  application does with the messages they send back. A background task is recorded in \<open>ap_jobs\<close> when
  it is spawned; the messages handed to the orchestrator and to the stream worker are logged with the
  number of the task they went to. The handlers of keys are in \<open>App_Keys\<close>, the tasks themselves in
  \<open>App_Jobs\<close>.
\<close>

section \<open>Messages\<close>

datatype screen =
    Startup | Unlock | SetPassphrase | Onboarding | DeviceLink | ScreenRegistering
  | Connecting string | AuthError string | MainScreen | Settings | IdentityQr | ContactSearch
  | SafetyNumber

datatype focus = ContactList | ChatView | Compose

record auth_success =
  as_user_id :: string
  as_device_id :: string
  as_access_token :: string
  as_full_session :: session
  as_pending_save :: "session option"

datatype auth_msg = AuthSuccess auth_success | AuthFailure string

datatype internal_event =
    IntAuth auth_msg
  | IntTokenRefresh token_refresh_msg
  | IntBridge bridge_event
  | ContactSearchResult "search_result list"
  | ContactSearchError string
  | InviteAccepted string string               \<comment> \<open>user id, username\<close>
  | IntRegistrationStep registration_step
  | Tick
  | StreamAuthRequired
  | P2PStatus string bool "u32 option" bool    \<comment> \<open>peer, connected, latency, relay\<close>

text \<open>What the application hands to an orchestrator task: an event or a command.\<close>

datatype orch_input = OrchEvent incoming_event | OrchCommand orch_command

section \<open>State\<close>

datatype app_job =
    RestoreFromDisk
  | Authenticate session
  | RegisterDevice "string option"
  | LinkDevice string
  | Reauthenticate session
  | RefreshNow string string                   \<comment> \<open>device, refresh token\<close>
  | RefreshAt string string i64
  | FindUserJob string
  | RedeemInvite invite string                 \<comment> \<open>invite, display name\<close>
  | UploadKeys string "(u32 \<times> bytes) list"
  | StreamWorkerJob nat "string list"
  | RelayStream nat bytes                      \<comment> \<open>task number, identity secret\<close>
  | InvalidateSession

record 'o app =
  ap_screen :: screen
  ap_onboarding :: onboarding
  ap_device_link :: device_link
  ap_unlock :: unlock_screen
  ap_registration :: registration
  ap_ticker :: bool
  ap_session_key :: "session_key option"
  ap_current_session :: "session option"
  ap_pending_session :: "session option"
  ap_no_encrypt :: bool
  ap_focus :: focus
  ap_chat_list :: chat_list
  ap_chat_view :: chat_view
  ap_status :: string
  ap_running :: bool
  ap_server_url :: string
  ap_grpc :: grpc_client
  ap_transport :: transport_config
  ap_user_id :: string
  ap_pq_active :: bool
  ap_connection :: connection_state
  ap_settings :: settings
  ap_search :: contact_search
  ap_safety :: "safety_number option"
  ap_orch :: "nat option"
  ap_stream :: "nat option"
  ap_read_storage :: bool
  ap_device_id :: string
  ap_access_token :: string
  ap_identity_key :: "bytes option"
  ap_delete_confirm :: "string option"
  \<comment> \<open>the world\<close>
  ap_panicked :: bool
  ap_disk :: disk
  ap_db :: db
  ap_tasks :: "'o task list"
  ap_orch_sent :: "(nat \<times> orch_input) list"
  ap_stream_sent :: "(nat \<times> stream_cmd) list"
  ap_stream_full :: "bool list"
  ap_jobs :: "app_job list"
  ap_used :: nat

record 'o app_env =
  ax_auth :: auth_env
  ax_invite :: invite_env
  ax_core :: "'o core"
  ax_new :: "bytes \<Rightarrow> bytes \<Rightarrow> bytes \<Rightarrow> bytes \<Rightarrow> string \<Rightarrow> string + 'o"
    \<comment> \<open>\<open>ClassicClient::from_keys\<close>, then \<open>Orchestrator::new\<close>\<close>
  ax_import :: "'o \<Rightarrow> bytes \<Rightarrow> 'o \<times> (string + unit)"
  ax_otpks :: "'o \<Rightarrow> 'o \<times> (string + (u32 \<times> bytes) list)"
  ax_identity_key :: "'o \<Rightarrow> bytes option"
  ax_open :: "bytes option \<Rightarrow> string + unit"            \<comment> \<open>\<open>Storage::open\<close> with a key, or unencrypted\<close>
  ax_contact_order :: "stored_contact list \<Rightarrow> stored_contact list"
  ax_message_order :: "stored_message list \<Rightarrow> stored_message list"
  ax_uuid :: "nat \<Rightarrow> string"
  ax_now_secs :: "nat \<Rightarrow> nat"
  ax_now_ms :: "nat \<Rightarrow> nat"
  ax_sha512 :: "bytes \<Rightarrow> bytes"
  ax_unb64 :: "string \<Rightarrow> bytes option"
  ax_home :: "string option"
  ax_write_file :: "string \<Rightarrow> string \<Rightarrow> string + unit"

definition spawn_job :: "app_job \<Rightarrow> 'o app \<Rightarrow> 'o app" where
  "spawn_job j a = a\<lparr>ap_jobs := ap_jobs a @ [j]\<rparr>"

definition orch_send :: "orch_input \<Rightarrow> 'o app \<Rightarrow> 'o app" where
  "orch_send m a =
     (case ap_orch a of None \<Rightarrow> a | Some n \<Rightarrow> a\<lparr>ap_orch_sent := ap_orch_sent a @ [(n, m)]\<rparr>)"

definition stream_send :: "stream_cmd \<Rightarrow> 'o app \<Rightarrow> 'o app" where
  "stream_send m a =
     (case ap_stream a of None \<Rightarrow> a
      | Some n \<Rightarrow> (let (fs, q) = try_send (ap_stream_full a) (ap_stream_sent a) (n, m)
                   in a\<lparr>ap_stream_full := fs, ap_stream_sent := q\<rparr>))"

definition generate_message_id :: "'o app_env \<Rightarrow> 'o app \<Rightarrow> string \<times> 'o app" where
  "generate_message_id X a = (ax_uuid X (ap_used a), a\<lparr>ap_used := ap_used a + 1\<rparr>)"

definition pad2 :: "int \<Rightarrow> string" where
  "pad2 n = (if 0 \<le> n \<and> n < 10 then CHR 0x30 # dec_of_int n else dec_of_int n)"

definition current_time_hhmm :: "'o app_env \<Rightarrow> 'o app \<Rightarrow> string \<times> 'o app" where
  "current_time_hhmm X a =
     (let secs = ax_now_secs X (ap_used a)
      in (pad2 (int (secs mod 86400 div 3600)) @ '':'' @ pad2 (int (secs mod 3600 div 60)),
          a\<lparr>ap_used := ap_used a + 1\<rparr>))"

definition transport_label :: "transport_config \<Rightarrow> string" where
  "transport_label t =
     (case t of Direct \<Rightarrow> ''direct'' | Obfs4 _ \<Rightarrow> ''obfs4'' | Obfs4Tls _ _ \<Rightarrow> ''obfs4+tls''
      | CdnFront _ _ _ \<Rightarrow> ''cdn-front'')"

definition vec_to_key32 :: "bytes \<Rightarrow> bytes" where
  "vec_to_key32 v = take 32 v @ replicate (32 - length v) 0"

definition set_screen :: "screen \<Rightarrow> 'o app \<Rightarrow> 'o app" where
  "set_screen s a = a\<lparr>ap_screen := s\<rparr>"

definition set_status :: "string \<Rightarrow> 'o app \<Rightarrow> 'o app" where
  "set_status s a = a\<lparr>ap_status := s\<rparr>"

definition fresh_settings :: "'o app \<Rightarrow> settings" where
  "fresh_settings a = settings_new (ap_server_url a) (transport_label (ap_transport a)) em_dash em_dash
     (ap_pq_active a) []"

section \<open>Creation and authentication tasks\<close>

definition app_new :: "app_config \<Rightarrow> disk \<Rightarrow> db \<Rightarrow> 'o app" where
  "app_new cfg disk d =
     \<lparr>ap_screen = Startup, ap_onboarding = onboarding_new, ap_device_link = device_link_new,
      ap_unlock = unlock_new Unlocking, ap_registration = registration_new, ap_ticker = False,
      ap_session_key = None, ap_current_session = None, ap_pending_session = None,
      ap_no_encrypt = ac_no_encrypt cfg, ap_focus = ContactList, ap_chat_list = chat_list_new,
      ap_chat_view = chat_view_new [], ap_status = ''Ready'', ap_running = True,
      ap_server_url = ac_server_url cfg, ap_grpc = client_new (ac_server_url cfg),
      ap_transport = ac_transport cfg, ap_user_id = [], ap_pq_active = ac_pq_active cfg,
      ap_connection = Disconnected,
      ap_settings = settings_new (ac_server_url cfg) (transport_label (ac_transport cfg)) em_dash em_dash
        (ac_pq_active cfg) [],
      ap_search = contact_search_new, ap_safety = None, ap_orch = None, ap_stream = None,
      ap_read_storage = False, ap_device_id = [], ap_access_token = [], ap_identity_key = None,
      ap_delete_confirm = None, ap_panicked = False, ap_disk = disk, ap_db = d, ap_tasks = [],
      ap_orch_sent = [], ap_stream_sent = [], ap_stream_full = [], ap_jobs = [], ap_used = 0\<rparr>"

definition start_auth_restore_from_disk :: "'o app \<Rightarrow> 'o app" where
  "start_auth_restore_from_disk a =
     set_screen (Connecting (''Restoring session'' @ ellipsis)) (spawn_job RestoreFromDisk a)"

definition start_auth_restore_preloaded :: "session \<Rightarrow> 'o app \<Rightarrow> 'o app" where
  "start_auth_restore_preloaded s a =
     set_screen (Connecting (''Authenticating'' @ ellipsis)) (spawn_job (Authenticate s) a)"

text \<open>The spinner: a task that sends a \<open>Tick\<close> every 80 milliseconds until its handle is dropped. The flag
  says whether there is one.\<close>

definition stop_ticker :: "'o app \<Rightarrow> 'o app" where
  [simp]: "stop_ticker a = a\<lparr>ap_ticker := False\<rparr>"

definition start_ticker :: "'o app \<Rightarrow> 'o app" where
  [simp]: "start_ticker a = (stop_ticker a)\<lparr>ap_ticker := True\<rparr>"

definition start_auth_register :: "string \<Rightarrow> 'o app \<Rightarrow> 'o app" where
  "start_auth_register user a =
     (let a = spawn_job (RegisterDevice (if user = [] then None else Some user)) a
      in set_screen ScreenRegistering (start_ticker (a\<lparr>ap_registration := registration_new\<rparr>)))"

definition start_auth_link :: "string \<Rightarrow> 'o app \<Rightarrow> 'o app" where
  "start_auth_link token a =
     set_screen (Connecting (''Confirming device link'' @ ellipsis)) (spawn_job (LinkDevice token) a)"

definition startup_check :: "'o app_env \<Rightarrow> 'o app \<Rightarrow> 'o app" where
  "startup_check X a =
     (let (d, state) = detect_session (ah_config (ax_auth X)) (ap_disk a); a = a\<lparr>ap_disk := d\<rparr>
      in case state of
           Encrypted \<Rightarrow> set_screen Unlock a
         | Plaintext \<Rightarrow> start_auth_restore_from_disk a
         | NoSession \<Rightarrow> set_screen Onboarding a)"

section \<open>Starting the orchestrator\<close>

text \<open>The four private keys, decoded in the order of the source.\<close>

definition session_secrets :: "auth_env \<Rightarrow> session \<Rightarrow> (bytes \<times> bytes \<times> bytes \<times> bytes) option" where
  "session_secrets A s =
     (case (ah_unhex A (ss_identity_key_hex s), ah_unhex A (ss_signing_key_hex s),
            ah_unhex A (ss_spk_key_hex s), ah_unhex A (ss_spk_sig_hex s)) of
        (Some i, Some g, Some p, Some q) \<Rightarrow> Some (i, g, p, q)
      | _ \<Rightarrow> None)"

definition contact_of_stored :: "stored_contact \<Rightarrow> contact" where
  "contact_of_stored c = \<lparr>cn_id = sc_user_id c, cn_display_name = sc_display_name c, cn_unread = 0,
     cn_last_message = None\<rparr>"

definition load_contacts :: "'o app_env \<Rightarrow> 'o app \<Rightarrow> string list \<times> 'o app" where
  "load_contacts X a =
     (case get_contacts (ax_contact_order X) (ap_db a) of
        (d, Ok stored) \<Rightarrow>
          (map sc_user_id stored,
           a\<lparr>ap_db := d, ap_chat_list := set_contacts (map contact_of_stored stored) (ap_chat_list a)\<rparr>)
      | (d, Err _) \<Rightarrow> ([], a\<lparr>ap_db := d\<rparr>))"

text \<open>The coordination state, then \<open>archive_\<close> and \<open>session_\<close> of every contact; the core's actions
  are dropped.\<close>

definition restore_state :: "'o app_env \<Rightarrow> 'o \<times> db \<Rightarrow> 'o \<times> db" where
  "restore_state X s =
     (let (orch, d) = s
      in case secure_load d ''construct.orchestrator_state'' of
           (d, Ok (Some state)) \<Rightarrow> (if state \<noteq> [] then fst (ax_import X orch state) else orch, d)
         | (d, _) \<Rightarrow> (orch, d))"

definition restore_key :: "'o app_env \<Rightarrow> 'o \<times> db \<Rightarrow> string \<Rightarrow> 'o \<times> db" where
  "restore_key X s key =
     (let (orch, d) = s; (d, r) = secure_load d key; data = (case r of Ok v \<Rightarrow> v | Err _ \<Rightarrow> None)
      in (fst (co_handle_event (ax_core X) orch (SessionLoaded key data)), d))"

definition restore_contacts :: "'o app_env \<Rightarrow> string list \<Rightarrow> 'o \<times> db \<Rightarrow> 'o \<times> db" where
  "restore_contacts X ids s =
     foldl (restore_key X) s (concat (map (\<lambda>i. [''archive_'' @ i, ''session_'' @ i]) ids))"

definition spawn_tasks ::
  "'o app_env \<Rightarrow> string \<Rightarrow> bytes \<Rightarrow> string list \<Rightarrow> 'o \<Rightarrow> 'o app \<Rightarrow> 'o app" where
  "spawn_tasks X device_id identity_secret contact_ids orch a =
     (let (orch, otpks) = ax_otpks X orch; otpks = (case otpks of Ok ks \<Rightarrow> ks | Err _ \<Rightarrow> []);
          a = a\<lparr>ap_read_storage := True, ap_identity_key := ax_identity_key X orch\<rparr>;
          n = length (ap_tasks a);
          t = task_init orch (ap_db a);
          a = spawn_job (StreamWorkerJob n contact_ids)
                (a\<lparr>ap_db := tk_db t, ap_tasks := ap_tasks a @ [t], ap_stream := Some n, ap_orch := Some n\<rparr>);
          a = orch_send (OrchEvent AppLaunched) a;
          a = (if otpks \<noteq> [] then spawn_job (UploadKeys device_id otpks) a else a)
      in spawn_job (RelayStream n identity_secret) a)"

definition start_orchestrator ::
  "'o app_env \<Rightarrow> session \<Rightarrow> string \<Rightarrow> string \<Rightarrow> 'o app \<Rightarrow> 'o app" where
  "start_orchestrator X s user_id device_id a =
     (case session_secrets (ax_auth X) s of
        None \<Rightarrow> set_status ''Orchestrator key decode error'' a
      | Some (identity_secret, signing_secret, spk_secret, spk_sig) \<Rightarrow>
          (case ax_new X identity_secret signing_secret spk_secret spk_sig user_id of
             Err e \<Rightarrow> set_status (''Orchestrator init error: '' @ e) a
           | Ok orch \<Rightarrow>
               (case ax_open X (map_option (\<lambda>sk. ky_database (sk_keys sk)) (ap_session_key a)) of
                  Err e \<Rightarrow> set_status (''Storage open error: '' @ e) a
                | Ok _ \<Rightarrow>
                    (let (contact_ids, a) = load_contacts X a;
                         (orch, d) = restore_contacts X contact_ids (restore_state X (orch, ap_db a))
                     in spawn_tasks X device_id identity_secret contact_ids orch (a\<lparr>ap_db := d\<rparr>)))))"

section \<open>Tokens\<close>

definition start_token_refresh :: "session \<Rightarrow> 'o app \<Rightarrow> 'o app" where
  "start_token_refresh s a =
     spawn_job (RefreshAt (ss_device_id s) (ss_refresh_token s) (ss_expires_at s)) a"

definition refresh_token_now :: "'o app \<Rightarrow> 'o app" where
  "refresh_token_now a =
     (case ap_current_session a of
        None \<Rightarrow> a
      | Some s \<Rightarrow> spawn_job (RefreshNow (ss_device_id s) (ss_refresh_token s)) a)"

definition start_device_reauth :: "'o app \<Rightarrow> 'o app" where
  "start_device_reauth a =
     (case ap_current_session a of
        None \<Rightarrow> set_status ''Device re-auth failed: no session in memory'' a
      | Some s \<Rightarrow> spawn_job (Reauthenticate s) a)"

definition build_updated_session :: "string \<Rightarrow> string \<Rightarrow> i64 \<Rightarrow> 'o app \<Rightarrow> session option" where
  "build_updated_session access refresh expires_at a =
     map_option (\<lambda>s. s\<lparr>ss_access_token := access, ss_refresh_token := refresh,
                       ss_expires_at := expires_at\<rparr>) (ap_current_session a)"

text \<open>Saving with the key of the session, or in plain text when encryption is off.\<close>

definition save_current ::
  "'o app_env \<Rightarrow> session \<Rightarrow> 'o app \<Rightarrow> 'o app \<times> (string + unit) option" where
  "save_current X s a =
     (case ap_session_key a of
        Some sk \<Rightarrow> (let (d, r) = save_session_encrypted (ah_config (ax_auth X)) s sk (ap_disk a)
                    in (a\<lparr>ap_disk := d\<rparr>, Some r))
      | None \<Rightarrow> if ap_no_encrypt a
                then (let (d, r) = save_session (ah_config (ax_auth X)) s (ap_disk a)
                      in (a\<lparr>ap_disk := d\<rparr>, Some r))
                else (a, None))"

definition persist_session_background :: "'o app_env \<Rightarrow> session \<Rightarrow> 'o app \<Rightarrow> 'o app" where
  "persist_session_background X s a =
     fst (save_current X s (start_token_refresh s (a\<lparr>ap_current_session := Some s\<rparr>)))"

definition handle_token_refresh_msg :: "'o app_env \<Rightarrow> token_refresh_msg \<Rightarrow> 'o app \<Rightarrow> 'o app" where
  "handle_token_refresh_msg X msg a =
     (case msg of
        Refreshed access refresh expires_at \<Rightarrow>
          (let a = a\<lparr>ap_access_token := access, ap_grpc := set_token (Some access) (ap_grpc a)\<rparr>
           in case build_updated_session access refresh expires_at a of
                None \<Rightarrow> a
              | Some s \<Rightarrow> persist_session_background X s a)
      | FailedTransport _ \<Rightarrow> a
      | FailedAuth _ \<Rightarrow> start_device_reauth a)"

section \<open>Authentication results\<close>

definition adopt_auth :: "auth_success \<Rightarrow> 'o app \<Rightarrow> 'o app" where
  "adopt_auth s a =
     a\<lparr>ap_status := ''Connected as '' @ as_user_id s,
       ap_user_id := as_user_id s, ap_device_id := as_device_id s, ap_access_token := as_access_token s,
       ap_grpc := set_device_id (Some (as_device_id s)) (set_token (Some (as_access_token s)) (ap_grpc a)),
       ap_connection := Connected (transport_label (ap_transport a)) None,
       ap_settings := settings_update (ap_server_url a) (transport_label (ap_transport a)) (as_device_id s)
         (as_user_id s) (ap_pq_active a) (ss_signing_key_hex (as_full_session s)) (ap_settings a),
       ap_current_session := Some (as_full_session s)\<rparr>"

definition enter_main :: "'o app_env \<Rightarrow> auth_success \<Rightarrow> 'o app \<Rightarrow> 'o app" where
  "enter_main X s a =
     set_screen MainScreen (start_orchestrator X (as_full_session s) (as_user_id s) (as_device_id s) a)"

definition auth_succeeded :: "'o app_env \<Rightarrow> auth_success \<Rightarrow> 'o app \<Rightarrow> 'o app" where
  "auth_succeeded X s a =
     (let a = adopt_auth s a
      in case as_pending_save s of
           None \<Rightarrow> enter_main X s a
         | Some session \<Rightarrow>
             (case save_current X session (start_token_refresh session a) of
                (a, Some (Ok _)) \<Rightarrow> enter_main X s a
              | (a, Some (Err e)) \<Rightarrow> set_screen (AuthError (''Save failed: '' @ e)) a
              | (a, None) \<Rightarrow>
                  set_screen SetPassphrase
                    (a\<lparr>ap_pending_session := Some session, ap_unlock := reset_for_mode SetNew (ap_unlock a)\<rparr>)))"

definition is_connecting :: "screen \<Rightarrow> bool" where
  "is_connecting s = (case s of Connecting _ \<Rightarrow> True | _ \<Rightarrow> False)"

definition auth_failed :: "string \<Rightarrow> 'o app \<Rightarrow> 'o app" where
  "auth_failed msg a =
     (let a = stop_ticker a
      in if msg = ''no_session'' then set_screen Onboarding a
         else if is_connecting (ap_screen a) \<and> ap_session_key a = None \<and> ob_username (ap_onboarding a) = []
         then set_screen Onboarding a
         else set_screen (AuthError msg) a)"

definition handle_auth_msg :: "'o app_env \<Rightarrow> auth_msg \<Rightarrow> 'o app \<Rightarrow> 'o app" where
  "handle_auth_msg X msg a =
     (case msg of AuthSuccess s \<Rightarrow> auth_succeeded X s a | AuthFailure e \<Rightarrow> auth_failed e a)"

section \<open>Events of the background tasks\<close>

definition handle_p2p_status :: "string \<Rightarrow> bool \<Rightarrow> u32 option \<Rightarrow> bool \<Rightarrow> 'o app \<Rightarrow> 'o app" where
  "handle_p2p_status peer_id is_conn latency_ms is_relay a =
     (if is_conn then
        a\<lparr>ap_status := ''P2P connected to '' @ peer_id @ '' ('' @
            (case latency_ms of Some l \<Rightarrow> dec_of_nat (unat l) @ ''ms'' | None \<Rightarrow> ''unknown'') @ '' latency)'',
          ap_connection := Connected ''P2P'' latency_ms\<rparr>
      else if is_relay then
        a\<lparr>ap_status := ''P2P failed for '' @ peer_id @ '', using relay'',
          ap_connection := Connected ''Relay'' None\<rparr>
      else set_status (''P2P disconnected from '' @ peer_id) a)"

definition show_message :: "'o app_env \<Rightarrow> string \<Rightarrow> 'o app \<Rightarrow> 'o app" where
  "show_message X s a =
     (let (i, a) = generate_message_id X a; (hhmm, a) = current_time_hhmm X a; v = ap_chat_view a;
          m = \<lparr>cm_id = i, cm_kind = Received, cm_text = s, cm_time = hhmm\<rparr>
      in a\<lparr>ap_chat_view := on_new_message (v\<lparr>cv_messages := cv_messages v @ [m]\<rparr>)\<rparr>)"

definition contact_label :: "string \<Rightarrow> 'o app \<Rightarrow> string" where
  "contact_label contact_id a =
     (case find (\<lambda>c. cn_id c = contact_id) (cl_contacts (ap_chat_list a)) of
        Some c \<Rightarrow> cn_display_name c | None \<Rightarrow> ''contact'')"

definition handle_bridge_event :: "'o app_env \<Rightarrow> bridge_event \<Rightarrow> 'o app \<Rightarrow> 'o app" where
  "handle_bridge_event X e a =
     (case e of
        NewMessage _ _ s _ \<Rightarrow> show_message X s a
      | MessageDelivered _ \<Rightarrow> a
      | StreamStatus True \<Rightarrow>
          a\<lparr>ap_connection := Connected (transport_label (ap_transport a)) None,
            ap_status := utf8_encode 0x25CF @ '' connected''\<rparr>
      | StreamStatus False \<Rightarrow>
          a\<lparr>ap_connection := Disconnected, ap_status := utf8_encode 0x25CB @ '' disconnected''\<rparr>
      | StreamReconnecting attempt delay_ms \<Rightarrow>
          (let now = ax_now_ms X (ap_used a)
           in a\<lparr>ap_used := ap_used a + 1,
                ap_connection := Reconnecting attempt (now + unat delay_ms) (unat delay_ms),
                ap_status := utf8_encode 0x21BA @ '' reconnecting (attempt '' @ dec_of_nat (unat attempt) @ '')''\<rparr>)
      | BridgeError e \<Rightarrow> set_status (''Bridge error: '' @ e) a
      | SessionReady contact_id \<Rightarrow> set_status (''Session ready with @'' @ contact_label contact_id a) a)"

text \<open>The path of decrypted messages before the orchestrator stored them, still in the source; unlike
  \<open>show_message\<close> it looks which conversation is open. Nothing calls it, and the status of a message is
  not shown yet.\<close>

definition callback_on_message_status :: "string \<Rightarrow> byte \<Rightarrow> 'o app \<Rightarrow> 'o app" where
  "callback_on_message_status local_id status a = a"

definition handle_decrypted_message ::
  "'o app_env \<Rightarrow> string \<Rightarrow> bytes \<Rightarrow> string \<Rightarrow> string \<Rightarrow> 'o app \<Rightarrow> 'o app" where
  "handle_decrypted_message X message_id plaintext sender_id conversation_id a =
     (let s = from_utf8_lossy plaintext; (hhmm, a) = current_time_hhmm X a; v = ap_chat_view a;
          m = \<lparr>cm_id = message_id, cm_kind = Received, cm_text = s, cm_time = hhmm\<rparr>
      in if cv_contact_name v = conversation_id \<or> cv_contact_name v = sender_id
         then a\<lparr>ap_chat_view := on_new_message (v\<lparr>cv_messages := cv_messages v @ [m]\<rparr>)\<rparr> else a)"

section \<open>Contacts\<close>

definition contact_ids_for_stream :: "contact list \<Rightarrow> string list" where
  "contact_ids_for_stream cs = map cn_id cs"

definition resubscribe_stream_to_contacts :: "'o app \<Rightarrow> 'o app" where
  "resubscribe_stream_to_contacts a =
     (if ap_stream a = None then a
      else let ids = contact_ids_for_stream (cl_contacts (ap_chat_list a));
               (d, cursor) = (if ap_read_storage a then load_stream_cursor (ap_db a) else (ap_db a, Ok None))
           in stream_send (CmdSubscribe ids (case cursor of Ok c \<Rightarrow> c | Err _ \<Rightarrow> None)) (a\<lparr>ap_db := d\<rparr>))"

definition finish_add_contact :: "string \<Rightarrow> string \<Rightarrow> 'o app \<Rightarrow> 'o app" where
  "finish_add_contact user_id user a =
     (let c = \<lparr>cn_id = user_id, cn_display_name = user, cn_unread = 0, cn_last_message = None\<rparr>;
          a = (if ap_read_storage a
               then a\<lparr>ap_db := fst (upsert_contact (ap_db a)
                      \<lparr>sc_user_id = user_id, sc_display_name = user, sc_identity_key_b64 = []\<rparr>)\<rparr>
               else a);
          a = a\<lparr>ap_chat_list := add_contact c (ap_chat_list a)\<rparr>;
          a = resubscribe_stream_to_contacts a;
          a = orch_send (OrchEvent (ActiveChatChanged user_id True)) a
      in a\<lparr>ap_status := ''Added @'' @ user @ '' '' @ em_dash @ '' opening session'',
           ap_search := contact_search_new, ap_screen := MainScreen\<rparr>)"

definition search_error_text :: "string \<Rightarrow> string" where
  "search_error_text msg =
     (if str_contains msg ''rate limit'' \<or> str_contains msg ''8:''
      then ''Search limit (5/hour). Wait, then Enter once.'' else msg)"

definition handle_internal :: "'o app_env \<Rightarrow> internal_event \<Rightarrow> 'o app \<Rightarrow> 'o app" where
  "handle_internal X e a =
     (case e of
        IntAuth msg \<Rightarrow>
          handle_auth_msg X msg
            (if ap_screen a = ScreenRegistering
             then (stop_ticker a)\<lparr>ap_registration := (ap_registration a)\<lparr>rn_active_step := length STEPS\<rparr>\<rparr>
             else a)
      | IntTokenRefresh msg \<Rightarrow> handle_token_refresh_msg X msg a
      | IntBridge evt \<Rightarrow> handle_bridge_event X evt a
      | ContactSearchResult rs \<Rightarrow> a\<lparr>ap_search := set_results rs (ap_search a)\<rparr>
      | ContactSearchError msg \<Rightarrow> a\<lparr>ap_search := search_error (search_error_text msg) (ap_search a)\<rparr>
      | InviteAccepted user_id user \<Rightarrow> finish_add_contact user_id user a
      | IntRegistrationStep s \<Rightarrow> a\<lparr>ap_registration := advance (step_index s) (ap_registration a)\<rparr>
      | Tick \<Rightarrow> if ap_screen a = ScreenRegistering
                then a\<lparr>ap_registration := registration_tick (ap_registration a)\<rparr> else a
      | StreamAuthRequired \<Rightarrow> refresh_token_now a
      | P2PStatus peer_id is_conn latency_ms is_relay \<Rightarrow>
          handle_p2p_status peer_id is_conn latency_ms is_relay a)"

end
