(* ===== verification/App_Keys.thy ===== *)
theory App_Keys
  imports App "HOL-Library.Signed_Division"
begin

text \<open>
  \<open>app.rs\<close>, second part: the handlers of keys, one per screen, and the turn of the event loop.
\<close>

section \<open>Keys\<close>

datatype key_code =
    KChar rchar | KEnter | KTab | KBackTab | KBackspace | KEsc | KUp | KDown | KPageUp | KPageDown
  | KHome | KEnd | KOther

text \<open>The modifier sets the source compares with, and all others.\<close>

datatype key_modifiers = NoModifier | Control | OtherModifiers

record key_event =
  kv_code :: key_code
  kv_mods :: key_modifiers
  kv_press :: bool

definition ch :: "char \<Rightarrow> rchar" where "ch c = of_char c"

definition is_char :: "char \<Rightarrow> key_event \<Rightarrow> bool" where
  "is_char c k \<longleftrightarrow> kv_code k = KChar (ch c)"

definition ctrl_c :: "key_event \<Rightarrow> bool" where
  "ctrl_c k \<longleftrightarrow> is_char (CHR ''c'') k \<and> kv_mods k = Control"

definition is_quit :: "key_event \<Rightarrow> bool" where
  "is_quit k \<longleftrightarrow> ctrl_c k \<or> is_char (CHR ''q'') k \<and> kv_mods k = NoModifier"

definition quit_app :: "'o app \<Rightarrow> 'o app" where
  "quit_app a = a\<lparr>ap_running := False\<rparr>"

section \<open>Entry screens\<close>

definition handle_onboarding :: "key_event \<Rightarrow> 'o app \<Rightarrow> 'o app" where
  "handle_onboarding k a =
     (if is_char (CHR ''q'') k \<and> kv_mods k = NoModifier \<and> ob_username (ap_onboarding a) = [] then quit_app a
      else if ctrl_c k then quit_app a
      else case kv_code k of
        KTab \<Rightarrow> set_screen DeviceLink (a\<lparr>ap_device_link := device_link_new\<rparr>)
      | KBackTab \<Rightarrow> set_screen DeviceLink (a\<lparr>ap_device_link := device_link_new\<rparr>)
      | KEnter \<Rightarrow>
          start_auth_register (trim (ob_username (ap_onboarding a)))
            (a\<lparr>ap_onboarding := (ap_onboarding a)\<lparr>ob_status := None\<rparr>\<rparr>)
      | KBackspace \<Rightarrow> a\<lparr>ap_onboarding := (onboarding_pop (ap_onboarding a))\<lparr>ob_status := None\<rparr>\<rparr>
      | KChar c \<Rightarrow> a\<lparr>ap_onboarding := (onboarding_push (ap_onboarding a) c)\<lparr>ob_status := None\<rparr>\<rparr>
      | _ \<Rightarrow> a)"

definition unlock_fail :: "string \<Rightarrow> 'o app \<Rightarrow> 'o app" where
  "unlock_fail msg a = a\<lparr>ap_unlock := unlock_error msg (ap_unlock a)\<rparr>"

definition try_unlock :: "'o app_env \<Rightarrow> bytes \<Rightarrow> 'o app \<Rightarrow> 'o app" where
  "try_unlock X passphrase a =
     (if passphrase = [] then unlock_fail ''Enter your passphrase'' a
      else case open_session_key (ah_config (ax_auth X)) passphrase (ap_disk a) of
        (d, Ok (Some sk)) \<Rightarrow>
          (case load_session_encrypted (ah_config (ax_auth X)) sk d of
             (d, Ok (Some s)) \<Rightarrow> start_auth_restore_preloaded s (a\<lparr>ap_disk := d, ap_session_key := Some sk\<rparr>)
           | (d, Ok None) \<Rightarrow> unlock_fail ''No session found'' (a\<lparr>ap_disk := d\<rparr>)
           | (d, Err e) \<Rightarrow>
               if e = PANIC then a\<lparr>ap_disk := d, ap_panicked := True\<rparr>
               else unlock_fail (''Session corrupted: '' @ e) (a\<lparr>ap_disk := d\<rparr>))
      | (d, Ok None) \<Rightarrow> unlock_fail ''No session found'' (a\<lparr>ap_disk := d\<rparr>)
      | (d, Err _) \<Rightarrow> unlock_fail ''Wrong passphrase or corrupted session'' (a\<lparr>ap_disk := d\<rparr>))"

definition handle_unlock :: "'o app_env \<Rightarrow> key_event \<Rightarrow> 'o app \<Rightarrow> 'o app" where
  "handle_unlock X k a =
     (case kv_code k of
        KBackspace \<Rightarrow> a\<lparr>ap_unlock := unlock_clear_error (unlock_pop (ap_unlock a))\<rparr>
      | KChar c \<Rightarrow> a\<lparr>ap_unlock := unlock_clear_error (unlock_push (ap_unlock a) c)\<rparr>
      | KEnter \<Rightarrow> (let (p, u) = take_passphrase (ap_unlock a) in try_unlock X p (a\<lparr>ap_unlock := u\<rparr>))
      | _ \<Rightarrow> a)"

definition protect_session :: "'o app_env \<Rightarrow> bytes \<Rightarrow> session \<Rightarrow> 'o app \<Rightarrow> 'o app" where
  "protect_session X passphrase s a =
     (case create_session_key (ah_config (ax_auth X)) passphrase (ap_disk a) of
        (d, Err e) \<Rightarrow>
          unlock_fail (''Key derivation failed: '' @ e) (a\<lparr>ap_disk := d, ap_pending_session := Some s\<rparr>)
      | (d, Ok sk) \<Rightarrow>
          (case save_session_encrypted (ah_config (ax_auth X)) s sk d of
             (d, Err e) \<Rightarrow>
               unlock_fail (''Save failed: '' @ e) (a\<lparr>ap_disk := d, ap_pending_session := Some s\<rparr>)
           | (d, Ok _) \<Rightarrow>
               (let a = a\<lparr>ap_disk := d, ap_session_key := Some sk\<rparr>;
                    a = (case ap_current_session a of
                           None \<Rightarrow> a
                         | Some full \<Rightarrow> start_orchestrator X full (ap_user_id a) (ap_device_id a) a)
                in set_screen MainScreen a)))"

definition handle_set_passphrase :: "'o app_env \<Rightarrow> key_event \<Rightarrow> 'o app \<Rightarrow> 'o app" where
  "handle_set_passphrase X k a =
     (case kv_code k of
        KBackspace \<Rightarrow> a\<lparr>ap_unlock := unlock_pop (ap_unlock a)\<rparr>
      | KChar c \<Rightarrow> a\<lparr>ap_unlock := unlock_push (ap_unlock a) c\<rparr>
      | KEnter \<Rightarrow>
          (let (p, u) = take_passphrase (ap_unlock a); a = a\<lparr>ap_unlock := u\<rparr>
           in if p = [] then unlock_fail ''Choose a passphrase to protect your session'' a
              else case ap_pending_session a of
                     None \<Rightarrow> a
                   | Some s \<Rightarrow> protect_session X p s (a\<lparr>ap_pending_session := None\<rparr>))
      | _ \<Rightarrow> a)"

definition handle_device_link :: "key_event \<Rightarrow> 'o app \<Rightarrow> 'o app" where
  "handle_device_link k a =
     (if (kv_code k = KEsc \<or> is_char (CHR ''q'') k) \<and> kv_mods k = NoModifier then set_screen Onboarding a
      else if ctrl_c k then quit_app a
      else case kv_code k of
        KEnter \<Rightarrow>
          (let token = trim (dl_token (ap_device_link a))
           in if token = [] then
                a\<lparr>ap_device_link := link_status ''Paste the link token first'' True (ap_device_link a)\<rparr>
              else start_auth_link token (a\<lparr>ap_device_link := link_clear_status (ap_device_link a)\<rparr>))
      | KBackspace \<Rightarrow> a\<lparr>ap_device_link := link_pop (ap_device_link a)\<rparr>
      | KChar c \<Rightarrow> a\<lparr>ap_device_link := link_push (ap_device_link a) c\<rparr>
      | _ \<Rightarrow> a)"

section \<open>The main screen\<close>

definition set_focus :: "focus \<Rightarrow> 'o app \<Rightarrow> 'o app" where
  "set_focus f a =
     a\<lparr>ap_chat_list := (ap_chat_list a)\<lparr>cl_focused := (f = ContactList)\<rparr>,
       ap_chat_view := (ap_chat_view a)\<lparr>cv_focused := (f = ChatView), cv_compose_focused := (f = Compose)\<rparr>,
       ap_focus := f\<rparr>"

definition first_index :: "('a \<Rightarrow> bool) \<Rightarrow> 'a list \<Rightarrow> nat option" where
  "first_index P xs = (if \<exists>x \<in> set xs. P x then Some (length (takeWhile (\<lambda>x. \<not> P x) xs)) else None)"

definition confirm_delete :: "'o app \<Rightarrow> 'o app" where
  "confirm_delete a =
     (case ap_delete_confirm a of
        None \<Rightarrow> a
      | Some peer_id \<Rightarrow>
          (let a = a\<lparr>ap_delete_confirm := None\<rparr>;
               idx = first_index (\<lambda>c. cn_id c = peer_id) (cl_contacts (ap_chat_list a));
               (d, r) = (if ap_read_storage a then delete_contact (ap_db a) peer_id else (ap_db a, Ok 0));
               a = a\<lparr>ap_db := d\<rparr>
           in case r of
                Err e \<Rightarrow> set_status (''Delete failed: '' @ e) a
              | Ok _ \<Rightarrow>
                  (let a = orch_send (OrchCommand (ForgetContact peer_id)) a;
                       a = (case idx of None \<Rightarrow> a
                            | Some i \<Rightarrow> a\<lparr>ap_chat_list := remove_at i (ap_chat_list a)\<rparr>);
                       a = resubscribe_stream_to_contacts a;
                       a = (if cv_contact_name (ap_chat_view a) = peer_id
                               \<or> list_all (\<lambda>c. cn_id c \<noteq> peer_id) (cl_contacts (ap_chat_list a))
                            then a\<lparr>ap_chat_view := (ap_chat_view a)\<lparr>cv_messages := [],
                                    cv_contact_name := (case selected_contact (ap_chat_list a) of
                                      Some c \<Rightarrow> cn_display_name c | None \<Rightarrow> [])\<rparr>\<rparr>
                            else a)
                   in set_status ''Node removed.'' a)))"

definition history_message :: "stored_message \<Rightarrow> chat_message" where
  "history_message m =
     (let secs = sm_timestamp_ms m sdiv 1000
      in \<lparr>cm_id = sm_id m, cm_kind = (if sm_direction m = ''sent'' then Sent else Received),
          cm_text = sm_text m,
          cm_time = pad2 ((secs sdiv 3600) smod 24) @ '':'' @ pad2 ((secs sdiv 60) smod 60)\<rparr>)"

definition open_chat :: "'o app_env \<Rightarrow> contact \<Rightarrow> 'o app \<Rightarrow> 'o app" where
  "open_chat X c a =
     (let a = orch_send (OrchEvent (ActiveChatChanged (cn_id c) True)) a;
          v = (ap_chat_view a)\<lparr>cv_contact_name := cn_display_name c, cv_messages := []\<rparr>;
          (d, history) = (if ap_read_storage a then get_messages (ax_message_order X) (ap_db a) (cn_id c) 50
                          else (ap_db a, Ok []))
      in a\<lparr>ap_db := d,
           ap_chat_view := v\<lparr>cv_messages := (case history of Ok ms \<Rightarrow> map history_message ms | Err _ \<Rightarrow> [])\<rparr>\<rparr>)"

definition keys_contact_list :: "'o app_env \<Rightarrow> key_event \<Rightarrow> 'o app \<Rightarrow> 'o app" where
  "keys_contact_list X k a =
     (if kv_code k = KDown \<or> is_char (CHR ''j'') k then a\<lparr>ap_chat_list := chat_list_next (ap_chat_list a)\<rparr>
      else if kv_code k = KUp \<or> is_char (CHR ''k'') k then a\<lparr>ap_chat_list := chat_list_prev (ap_chat_list a)\<rparr>
      else if is_char (CHR ''x'') k \<and> kv_mods k = NoModifier then
        (case selected_contact (ap_chat_list a) of
           Some c \<Rightarrow> a\<lparr>ap_delete_confirm := Some (cn_id c)\<rparr> | None \<Rightarrow> a)
      else if kv_code k = KEnter \<or> kv_code k = KTab then
        set_focus ChatView (case selected_contact (ap_chat_list a) of Some c \<Rightarrow> open_chat X c a | None \<Rightarrow> a)
      else if is_char (CHR ''s'') k \<and> kv_mods k = NoModifier then set_screen Settings a
      else if (is_char (CHR ''a'') k \<or> is_char (CHR ''n'') k) \<and> kv_mods k = NoModifier then
        set_screen ContactSearch (a\<lparr>ap_search := contact_search_new\<rparr>)
      else a)"

definition on_view :: "(chat_view \<Rightarrow> chat_view) \<Rightarrow> 'o app \<Rightarrow> 'o app" where
  "on_view f a = a\<lparr>ap_chat_view := f (ap_chat_view a)\<rparr>"

definition keys_chat_view :: "key_event \<Rightarrow> 'o app \<Rightarrow> 'o app" where
  "keys_chat_view k a =
     (if kv_code k = KTab \<or> is_char (CHR ''i'') k then set_focus Compose a
      else if kv_code k = KBackTab \<or> kv_code k = KEsc then set_focus ContactList a
      else if kv_code k = KPageUp \<or> is_char (CHR ''u'') k then on_view (scroll_up 10) a
      else if kv_code k = KPageDown \<or> is_char (CHR ''d'') k then on_view (scroll_down 10) a
      else if kv_code k = KUp \<or> is_char (CHR ''k'') k then on_view (scroll_up 1) a
      else if kv_code k = KDown \<or> is_char (CHR ''j'') k then on_view (scroll_down 1) a
      else if kv_code k = KHome then on_view scroll_to_top a
      else if kv_code k = KEnd then on_view scroll_to_bottom a
      else a)"

definition send_composed :: "'o app_env \<Rightarrow> 'o app \<Rightarrow> 'o app" where
  "send_composed X a =
     (let (s, v) = take_compose (ap_chat_view a); a = a\<lparr>ap_chat_view := v\<rparr>
      in if trim s = [] then a
         else
           let (i, a) = generate_message_id X a;
               a = (case selected_contact (ap_chat_list a) of
                      None \<Rightarrow> a
                    | Some c \<Rightarrow> orch_send (OrchEvent (OutgoingMessage (cn_id c) i (str_bytes s) 0)) a);
               (hhmm, a) = current_time_hhmm X a;
               m = \<lparr>cm_id = i, cm_kind = Sent, cm_text = s, cm_time = hhmm\<rparr>
           in set_status ''Message sent'' (on_view (\<lambda>v. v\<lparr>cv_messages := cv_messages v @ [m]\<rparr>) a))"

definition keys_compose :: "'o app_env \<Rightarrow> key_event \<Rightarrow> 'o app \<Rightarrow> 'o app" where
  "keys_compose X k a =
     (case kv_code k of
        KEsc \<Rightarrow> set_focus ChatView a
      | KEnter \<Rightarrow> send_composed X a
      | KBackspace \<Rightarrow> on_view compose_pop a
      | KChar c \<Rightarrow> on_view (compose_push c) a
      | _ \<Rightarrow> a)"

definition handle_main :: "'o app_env \<Rightarrow> key_event \<Rightarrow> 'o app \<Rightarrow> 'o app" where
  "handle_main X k a =
     (if ap_delete_confirm a \<noteq> None then
        (if is_char (CHR ''y'') k \<or> is_char (CHR ''Y'') k then confirm_delete a
         else a\<lparr>ap_delete_confirm := None\<rparr>)
      else if is_quit k \<and> ap_focus a \<noteq> Compose then quit_app a
      else case ap_focus a of
             ContactList \<Rightarrow> keys_contact_list X k a
           | ChatView \<Rightarrow> keys_chat_view k a
           | Compose \<Rightarrow> keys_compose X k a)"

section \<open>Settings\<close>

definition do_logout :: "'o app_env \<Rightarrow> 'o app \<Rightarrow> 'o app" where
  "do_logout X a =
     (case clear_session (ah_config (ax_auth X)) (ap_disk a) of
        (d, Err e) \<Rightarrow> set_status (''Logout error: '' @ e) (a\<lparr>ap_disk := d\<rparr>)
      | (d, Ok _) \<Rightarrow>
          (let a = stream_send CmdShutdown (a\<lparr>ap_disk := d, ap_orch := None\<rparr>);
               a = a\<lparr>ap_stream := None\<rparr>;
               a = (if ap_read_storage a then a\<lparr>ap_db := fst (clear_stream_cursor (ap_db a))\<rparr> else a);
               a = spawn_job InvalidateSession
                     (a\<lparr>ap_grpc := Grpc_Client.set_device_id None (set_token None (ap_grpc a))\<rparr>);
               a = a\<lparr>ap_read_storage := False, ap_session_key := None, ap_current_session := None,
                     ap_pending_session := None, ap_identity_key := None, ap_user_id := [],
                     ap_device_id := [], ap_access_token := [], ap_connection := Disconnected,
                     ap_search := contact_search_new, ap_chat_list := chat_list_new,
                     ap_chat_view := chat_view_new []\<rparr>
           in a\<lparr>ap_settings := fresh_settings a, ap_onboarding := onboarding_new, ap_screen := Onboarding\<rparr>))"

text \<open>The key of the peer: an empty or unreadable one counts as thirty-two zeros.\<close>

definition peer_key :: "'o app_env \<Rightarrow> string \<Rightarrow> 'o app \<Rightarrow> bytes \<times> 'o app" where
  "peer_key X contact_id a =
     (let (d, r) = (if ap_read_storage a then get_contact_by_id (ap_db a) contact_id else (ap_db a, Ok None));
          key = (case r of
                   Ok (Some c) \<Rightarrow>
                     (if sc_identity_key_b64 c = [] then None
                      else map_option vec_to_key32 (ax_unb64 X (sc_identity_key_b64 c)))
                 | _ \<Rightarrow> None)
      in (case key of Some b \<Rightarrow> b | None \<Rightarrow> replicate 32 0, a\<lparr>ap_db := d\<rparr>))"

definition open_safety_number_screen :: "'o app_env \<Rightarrow> 'o app \<Rightarrow> 'o app" where
  "open_safety_number_screen X a =
     (case selected_contact (ap_chat_list a) of
        None \<Rightarrow> set_status ''Select a contact first'' a
      | Some c \<Rightarrow>
          (case ap_identity_key a of
             None \<Rightarrow> set_status ''Identity key not available'' a
           | Some our \<Rightarrow>
               (let (their, a) = peer_key X (cn_id c) a
                in set_screen SafetyNumber
                     (a\<lparr>ap_safety := Some (safety_number_new (ax_sha512 X) (cn_display_name c)
                          (vec_to_key32 our) their)\<rparr>))))"

definition export_identity_key :: "'o app_env \<Rightarrow> 'o app \<Rightarrow> 'o app" where
  "export_identity_key X a =
     (case ap_identity_key a of
        None \<Rightarrow> set_status ''Identity key not available'' a
      | Some key \<Rightarrow>
          (let hex = concat (map (\<lambda>b. hex_fixed 2 (unat b)) key);
               path = (case ax_home X of Some h \<Rightarrow> h | None \<Rightarrow> ''.'') @ ''/construct_identity_''
                      @ ap_user_id a @ ''.txt''
           in case ax_write_file X path (''identity_public_key_hex='' @ hex @ [CHR 0x0A] @ ''user_id=''
                     @ ap_user_id a @ [CHR 0x0A]) of
                Ok _ \<Rightarrow> set_status (''Key exported '' @ utf8_encode 0x2192 @ '' '' @ path) a
              | Err e \<Rightarrow> set_status (''Export failed: '' @ e) a))"

definition handle_settings :: "'o app_env \<Rightarrow> key_event \<Rightarrow> 'o app \<Rightarrow> 'o app" where
  "handle_settings X k a =
     (if kv_code k = KEsc then set_screen MainScreen a
      else if kv_code k = KUp \<or> is_char (CHR ''k'') k then a\<lparr>ap_settings := settings_prev (ap_settings a)\<rparr>
      else if kv_code k = KDown \<or> is_char (CHR ''j'') k then a\<lparr>ap_settings := settings_next (ap_settings a)\<rparr>
      else if kv_code k = KEnter then
        (case settings_confirm (ap_settings a) of
           None \<Rightarrow> a
         | Some Back \<Rightarrow> set_screen MainScreen a
         | Some Logout \<Rightarrow> do_logout X a
         | Some ShowSafetyNumber \<Rightarrow> open_safety_number_screen X a
         | Some ExportKeys \<Rightarrow> export_identity_key X a
         | Some ShowMyQr \<Rightarrow> set_screen IdentityQr a)
      else if is_char (CHR ''l'') k \<or> is_char (CHR ''L'') k then do_logout X a
      else if is_char (CHR ''q'') k \<or> is_char (CHR ''Q'') k then set_screen IdentityQr a
      else if is_char (CHR ''s'') k \<or> is_char (CHR ''S'') k then open_safety_number_screen X a
      else a)"

section \<open>Contact search\<close>

definition redeem_pasted_invite :: "'o app_env \<Rightarrow> string \<Rightarrow> 'o app \<Rightarrow> 'o app" where
  "redeem_pasted_invite X raw a =
     (case parse_invite (ax_invite X) raw of
        Err e \<Rightarrow> a\<lparr>ap_search := search_error (''Bad invite: '' @ e) (ap_search a)\<rparr>
      | Ok i \<Rightarrow>
          if is_expired i (ie_now (ax_invite X)) then a\<lparr>ap_search := search_error ''Invite expired'' (ap_search a)\<rparr>
          else
            let a = a\<lparr>ap_search := (ap_search a)\<lparr>cs_searching := True,
                        cs_status := Some (''Redeeming invite'' @ ellipsis)\<rparr>\<rparr>;
                n = min 8 (length (iv_uuid i))
            in case iv_un i of
                 Some u \<Rightarrow>
                   if u \<noteq> [] then spawn_job (RedeemInvite i u) a
                   else if char_boundary (iv_uuid i) n then spawn_job (RedeemInvite i (take n (iv_uuid i))) a
                   else a\<lparr>ap_panicked := True\<rparr>
               | None \<Rightarrow>
                   if char_boundary (iv_uuid i) n then spawn_job (RedeemInvite i (take n (iv_uuid i))) a
                   else a\<lparr>ap_panicked := True\<rparr>)"

definition submit_contact_search :: "'o app_env \<Rightarrow> 'o app \<Rightarrow> 'o app" where
  "submit_contact_search X a =
     (let raw = trim (cs_query (ap_search a))
      in if looks_like_invite (ax_invite X) raw then redeem_pasted_invite X raw a
         else
           let query = normalize_username (cs_query (ap_search a))
           in if \<not> username_is_searchable query then
                a\<lparr>ap_search := search_error (''Username: 3'' @ utf8_encode 0x2013
                    @ ''30 chars, letters/digits/_  (no @)'') (ap_search a)\<rparr>
              else spawn_job (FindUserJob query) (a\<lparr>ap_search := (ap_search a)\<lparr>cs_searching := True\<rparr>\<rparr>))"

definition add_selected_search_result :: "'o app \<Rightarrow> 'o app" where
  "add_selected_search_result a =
     (case search_selected (ap_search a) of
        None \<Rightarrow> a
      | Some r \<Rightarrow> finish_add_contact (rs_user_id r) (rs_username r) a)"

definition on_search :: "(contact_search \<Rightarrow> contact_search) \<Rightarrow> 'o app \<Rightarrow> 'o app" where
  "on_search f a = a\<lparr>ap_search := f (ap_search a)\<rparr>"

definition handle_contact_search :: "'o app_env \<Rightarrow> key_event \<Rightarrow> 'o app \<Rightarrow> 'o app" where
  "handle_contact_search X k a =
     (if kv_code k = KEsc then set_screen MainScreen (a\<lparr>ap_search := contact_search_new\<rparr>)
      else if kv_code k = KDown \<or> kv_code k = KTab then on_search search_next a
      else if kv_code k = KUp \<or> kv_code k = KBackTab then on_search search_prev a
      else if kv_code k = KEnter then
        (if search_selected (ap_search a) \<noteq> None then add_selected_search_result a
         else submit_contact_search X a)
      else if is_char (CHR ''a'') k \<and> kv_mods k = Control then add_selected_search_result a
      else case kv_code k of
             KBackspace \<Rightarrow> on_search search_pop a
           | KChar c \<Rightarrow> on_search (search_push c) a
           | _ \<Rightarrow> a)"

section \<open>The event loop\<close>

definition leave_error :: "'o app \<Rightarrow> 'o app" where
  "leave_error a =
     (if ap_session_key a \<noteq> None
      then set_screen Unlock (a\<lparr>ap_unlock := reset_for_mode Unlocking (ap_unlock a)\<rparr>)
      else set_screen Onboarding a)"

definition handle_event :: "'o app_env \<Rightarrow> key_event \<Rightarrow> 'o app \<Rightarrow> 'o app" where
  "handle_event X k a =
     (if \<not> kv_press k then a
      else if ctrl_c k then quit_app a
      else case ap_screen a of
        Startup \<Rightarrow> a
      | Connecting _ \<Rightarrow> a
      | AuthError _ \<Rightarrow> leave_error a
      | Unlock \<Rightarrow> handle_unlock X k a
      | SetPassphrase \<Rightarrow> handle_set_passphrase X k a
      | Onboarding \<Rightarrow> handle_onboarding k a
      | DeviceLink \<Rightarrow> handle_device_link k a
      | MainScreen \<Rightarrow> handle_main X k a
      | Settings \<Rightarrow> handle_settings X k a
      | ContactSearch \<Rightarrow> handle_contact_search X k a
      | SafetyNumber \<Rightarrow> set_screen Settings a
      | IdentityQr \<Rightarrow> set_screen Settings a
      | ScreenRegistering \<Rightarrow> a)"

text \<open>One turn of the loop: a key, a message of a background task, or a change the other tasks make to
  the database and to the files. A program that quit or panicked takes no further turn.\<close>

datatype app_input = Key key_event | Internal internal_event | World db disk

definition app_step :: "'o app_env \<Rightarrow> 'o app \<Rightarrow> app_input \<Rightarrow> 'o app" where
  "app_step X a i =
     (if \<not> ap_running a \<or> ap_panicked a then a
      else case i of
        Key k \<Rightarrow> handle_event X k a
      | Internal e \<Rightarrow> handle_internal X e a
      | World d f \<Rightarrow> a\<lparr>ap_db := d, ap_disk := f\<rparr>)"

definition app_run :: "'o app_env \<Rightarrow> 'o app \<Rightarrow> app_input list \<Rightarrow> 'o app" where
  "app_run X = foldl (app_step X)"

end
