(* ===== verification/App_Jobs.thy ===== *)
theory App_Jobs
  imports App_Keys
begin

text \<open>
  \<open>app.rs\<close>, third part: what the spawned tasks do. Incoming envelopes are resolved, sealed ones through
  their certificate, and relayed to the orchestrator; the one-shot tasks end in a message to the
  application. Sealed-sender decryption, the protobuf decoders and the unpacking of the wire payload
  are the record \<open>relay_env\<close>.
\<close>

section \<open>Incoming envelopes\<close>

record sealed_inner =
  sl_cert_ciphertext :: bytes
  sl_encrypted_payload :: bytes
  sl_content_type :: int

record decoded_payload =
  dp_message_number :: u32
  dp_kem_ciphertext :: "bytes option"
  dp_one_time_prekey_id :: u32

record relay_env =
  re_types :: content_types
  re_dec_inner :: "bytes \<Rightarrow> string + sealed_inner"
  re_unseal :: "bytes \<Rightarrow> bytes \<Rightarrow> string + bytes"      \<comment> \<open>ciphertext, identity secret\<close>
  re_dec_cert :: "bytes \<Rightarrow> string + string"           \<comment> \<open>the \<open>sender_user_id\<close> of a certificate\<close>
  re_unpack :: "bytes \<Rightarrow> string + decoded_payload"

record inbound_envelope =
  in_message_id :: string
  in_from :: string
  in_wire_payload :: bytes
  in_content_type :: byte
  in_is_sealed :: bool

definition content_type_to_u8 :: "int \<Rightarrow> byte" where
  "content_type_to_u8 i = (if 0 \<le> i \<and> i \<le> 255 then of_int i else 0)"

definition is_session_reset_control_type :: "content_types \<Rightarrow> byte \<Rightarrow> bool" where
  "is_session_reset_control_type T c \<longleftrightarrow> c = ct_session_reset T \<or> c = ct_session_reset_init T"

definition direct_envelope_message_id :: "envelope \<Rightarrow> string" where
  "direct_envelope_message_id env =
     (case env_message_id_type env of Some (MessageId i) \<Rightarrow> i | _ \<Rightarrow> [])"

definition resolve_inbound_envelope ::
  "relay_env \<Rightarrow> envelope \<Rightarrow> bytes \<Rightarrow> string + inbound_envelope" where
  "resolve_inbound_envelope R env identity_secret =
     (let message_id = direct_envelope_message_id env
      in case env_sealed_inner env of
           None \<Rightarrow>
             Ok \<lparr>in_message_id = message_id,
                 in_from = (case env_sender env of Some s \<Rightarrow> ur_user_id s | None \<Rightarrow> []),
                 in_wire_payload = env_encrypted_payload env,
                 in_content_type = content_type_to_u8 (env_content_type env), in_is_sealed = False\<rparr>
         | Some sealed \<Rightarrow>
             rbind (re_dec_inner R sealed) (\<lambda>inner.
             rbind (re_unseal R (sl_cert_ciphertext inner) identity_secret) (\<lambda>cert_bytes.
             rbind (re_dec_cert R cert_bytes) (\<lambda>sender_user_id.
             rbind (ensure (sender_user_id \<noteq> []) ''sender certificate has empty sender_user_id'') (\<lambda>_.
             let wire_payload = (if env_encrypted_payload env = [] then sl_encrypted_payload inner
                                 else env_encrypted_payload env) in
             rbind (ensure (wire_payload \<noteq> []) ''sealed inner encrypted_payload is empty'') (\<lambda>_.
               Ok \<lparr>in_message_id = message_id, in_from = sender_user_id, in_wire_payload = wire_payload,
                   in_content_type = content_type_to_u8 (sl_content_type inner), in_is_sealed = True\<rparr>))))))"

section \<open>The relay\<close>

text \<open>\<open>OrchestratorHandle::stream_message\<close> with the event and context built from one envelope.\<close>

definition forward_message ::
  "inbound_envelope \<Rightarrow> string option \<Rightarrow> u32 \<Rightarrow> bytes \<Rightarrow> u32 \<Rightarrow> bool \<Rightarrow> orch_input" where
  "forward_message b cursor msg_num kem_ct otpk_id is_control =
     OrchCommand (StreamMessage
       (MessageReceived (in_message_id b) (in_from b) (in_wire_payload b) msg_num kem_ct otpk_id is_control
          (in_content_type b))
       \<lparr>sc_contact_id = in_from b, sc_message_id = in_message_id b, sc_stream_cursor = cursor,
        sc_content_type = in_content_type b, sc_msg_num = msg_num\<rparr>)"

definition relay_message ::
  "relay_env \<Rightarrow> bytes \<Rightarrow> envelope \<Rightarrow> string option \<Rightarrow> orch_input list" where
  "relay_message R identity_secret env cursor =
     (case resolve_inbound_envelope R env identity_secret of
        Err _ \<Rightarrow> []
      | Ok b \<Rightarrow>
          (let is_control = is_session_reset_control_type (re_types R) (in_content_type b)
           in case re_unpack R (in_wire_payload b) of
                Ok d \<Rightarrow>
                  [forward_message b cursor (dp_message_number d)
                     (case dp_kem_ciphertext d of Some k \<Rightarrow> k | None \<Rightarrow> []) (dp_one_time_prekey_id d) is_control]
              | Err _ \<Rightarrow> if is_control then [forward_message b cursor 0 [] 0 True] else []))"

text \<open>The inputs for the orchestrator, the messages for the application, and the tracker.\<close>

definition relay_event ::
  "relay_env \<Rightarrow> bytes \<Rightarrow> cursor_tracker \<Rightarrow> stream_event
    \<Rightarrow> cursor_tracker \<times> orch_input list \<times> internal_event list" where
  "relay_event R identity_secret t e =
     (case e of
        EvMessage env cursor \<Rightarrow> (t, relay_message R identity_secret env cursor, [])
      | EvAck message_id cursor \<Rightarrow>
          (tracker_note t message_id cursor, [OrchEvent (AckReceived message_id)], [])
      | EvHeartbeat _ _ _ \<Rightarrow> (t, [], [])
      | EvStreamError message_id error_code error_message _ _ _ \<Rightarrow>
          (t, [], [IntBridge (BridgeError
             (if message_id = [] then ''Stream error '' @ dec_of_int error_code @ '': '' @ error_message
              else ''Stream error for '' @ message_id @ '': '' @ error_message))])
      | EvConnected \<Rightarrow> (t, [OrchEvent NetworkReconnected], [IntBridge (StreamStatus True)])
      | EvDisconnected \<Rightarrow> (t, [], [IntBridge (StreamStatus False)])
      | EvReconnecting attempt delay \<Rightarrow>
          (t, [], [IntBridge (StreamReconnecting attempt (of_int \<lfloor>delay * 1000\<rfloor>))])
      | EvAuthRequired \<Rightarrow> (t, [], [StreamAuthRequired]))"

section \<open>One-shot tasks\<close>

record job_env =
  je_keys :: device_pairs
  je_now :: i64
  je_enc_accept :: "invite_token \<Rightarrow> bytes"
  je_dec_accept :: "bytes \<Rightarrow> string + string"

text \<open>The message a finished authentication sends; every branch of \<open>auth.rs\<close> returns a session.\<close>

definition success_of :: "bool \<Rightarrow> auth_result \<Rightarrow> session \<Rightarrow> internal_event" where
  "success_of save r full =
     IntAuth (AuthSuccess \<lparr>as_user_id = ar_user_id r, as_device_id = ar_device_id r,
       as_access_token = ar_access_token r, as_full_session = full,
       as_pending_save = (if save then Some full else None)\<rparr>)"

definition auth_done :: "bool \<Rightarrow> string \<Rightarrow> string + auth_result \<Rightarrow> internal_event list" where
  "auth_done save pre r =
     (case r of
        Err e \<Rightarrow> [IntAuth (AuthFailure (pre @ e))]
      | Ok r \<Rightarrow> (case ar_session r of None \<Rightarrow> [] | Some full \<Rightarrow> [success_of save r full]))"

definition find_done :: "string \<Rightarrow> grpc_error + string option \<Rightarrow> internal_event list" where
  "find_done query r =
     (case r of
        Ok (Some user_id) \<Rightarrow>
          [ContactSearchResult [\<lparr>rs_user_id = user_id, rs_username = query, rs_display_name = query\<rparr>]]
      | Ok None \<Rightarrow> [ContactSearchResult []]
      | Err e \<Rightarrow> [ContactSearchError (grpc_error_show e)])"

definition restore_job :: "auth_env \<Rightarrow> grpc_client \<times> disk \<Rightarrow> (grpc_client \<times> disk) \<times> internal_event list" where
  "restore_job A s =
     (let (c, d, r) = try_restore_session A (fst s) (snd s)
      in ((c, d), case r of
           Ok None \<Rightarrow> [IntAuth (AuthFailure ''no_session'')]
         | Ok (Some r) \<Rightarrow> auth_done False [] (Ok r)
         | Err e \<Rightarrow> auth_done False [] (Err e)))"

definition preloaded_job :: "auth_env \<Rightarrow> session \<Rightarrow> grpc_client \<Rightarrow> grpc_client \<times> internal_event list" where
  "preloaded_job A session c =
     (let (c, r) = authenticate_saved_session A session c in (c, auth_done True [] r))"

definition register_job ::
  "auth_env \<Rightarrow> device_pairs \<Rightarrow> string option \<Rightarrow> grpc_client \<Rightarrow> grpc_client \<times> internal_event list" where
  "register_job A keys name c =
     (let (c, steps, r) = register_new_device A keys name c
      in (c, map IntRegistrationStep steps @ auth_done True [] r))"

definition link_job ::
  "auth_env \<Rightarrow> device_pairs \<Rightarrow> string \<Rightarrow> grpc_client \<Rightarrow> grpc_client \<times> internal_event list" where
  "link_job A keys token c = (let (c, r) = link_existing_device A keys token c in (c, auth_done True [] r))"

definition reauth_job :: "auth_env \<Rightarrow> session \<Rightarrow> grpc_client \<Rightarrow> grpc_client \<times> internal_event list" where
  "reauth_job A session c =
     (let (c, r) = authenticate_saved_session A session c
      in (c, auth_done True ''Device re-auth failed: '' r))"

definition refresh_now_job ::
  "auth_env \<Rightarrow> string \<Rightarrow> string \<Rightarrow> grpc_client \<Rightarrow> grpc_client \<times> internal_event list" where
  "refresh_now_job A device_id token c =
     (let (c, msgs) = spawn_token_refresh_now (ah_grpc A) (ah_codec A) c device_id token
      in (c, map IntTokenRefresh (take 1 msgs)))"

definition refresh_at_job ::
  "auth_env \<Rightarrow> i64 \<Rightarrow> string \<Rightarrow> string \<Rightarrow> i64 \<Rightarrow> grpc_client \<Rightarrow> grpc_client \<times> internal_event list" where
  "refresh_at_job A now device_id token expires_at c =
     (let (c, msgs) = spawn_token_refresh (ah_grpc A) (ah_codec A) now c device_id token expires_at
      in (c, map IntTokenRefresh (take 1 msgs)))"

definition find_job :: "auth_env \<Rightarrow> string \<Rightarrow> grpc_client \<Rightarrow> grpc_client \<times> internal_event list" where
  "find_job A query c =
     (let (c, r) = find_user (ah_grpc A) (ah_codec A) c query in (c, find_done query r))"

definition redeem_job ::
  "auth_env \<Rightarrow> job_env \<Rightarrow> invite \<Rightarrow> string \<Rightarrow> grpc_client \<Rightarrow> grpc_client \<times> internal_event list" where
  "redeem_job A J i user c =
     (let (c, r) = accept_invite (ah_grpc A) (je_enc_accept J) (je_dec_accept J) c i
      in (c, case r of
           Ok user_id \<Rightarrow> [InviteAccepted user_id user]
         | Err e \<Rightarrow> [ContactSearchError (''Invite: '' @ grpc_error_show e)]))"

definition upload_job :: "auth_env \<Rightarrow> string \<Rightarrow> (u32 \<times> bytes) list \<Rightarrow> grpc_client \<Rightarrow> grpc_client" where
  "upload_job A device_id keys c =
     fst (upload_pre_keys (ah_grpc A) (ah_codec A) (Grpc_Client.set_device_id (Some device_id) c) device_id keys False)"

text \<open>A spawned task run to its end. The stream worker and the relay are machines of their own, above
  and in \<open>Stream_Worker\<close>.\<close>

definition on_client ::
  "(grpc_client \<Rightarrow> grpc_client \<times> 'e) \<Rightarrow> grpc_client \<times> disk \<Rightarrow> (grpc_client \<times> disk) \<times> 'e" where
  "on_client f s = (let (c, es) = f (fst s) in ((c, snd s), es))"

definition run_job ::
  "auth_env \<Rightarrow> job_env \<Rightarrow> app_job \<Rightarrow> grpc_client \<times> disk \<Rightarrow> (grpc_client \<times> disk) \<times> internal_event list" where
  "run_job A J job s =
     (case job of
        RestoreFromDisk \<Rightarrow> restore_job A s
      | Authenticate session \<Rightarrow> on_client (preloaded_job A session) s
      | RegisterDevice name \<Rightarrow> on_client (register_job A (je_keys J) name) s
      | LinkDevice token \<Rightarrow> on_client (link_job A (je_keys J) token) s
      | Reauthenticate session \<Rightarrow> on_client (reauth_job A session) s
      | RefreshNow device_id token \<Rightarrow> on_client (refresh_now_job A device_id token) s
      | RefreshAt device_id token expires_at \<Rightarrow> on_client (refresh_at_job A (je_now J) device_id token expires_at) s
      | FindUserJob query \<Rightarrow> on_client (find_job A query) s
      | RedeemInvite i user \<Rightarrow> on_client (redeem_job A J i user) s
      | UploadKeys device_id keys \<Rightarrow> ((upload_job A device_id keys (fst s), snd s), [])
      | InvalidateSession \<Rightarrow> ((invalidate (fst s), snd s), [])
      | StreamWorkerJob _ _ \<Rightarrow> (s, [])
      | RelayStream _ _ \<Rightarrow> (s, []))"

end
