(* ===== verification/Relay_Props.thy ===== *)
theory Relay_Props
  imports App_Jobs
begin

text \<open>
  The properties of the relay: who a sealed message comes from, what reaches the orchestrator for an
  envelope, and which bytes win when a sealed envelope also carries an outer payload.
\<close>

section \<open>Sealed senders\<close>

text \<open>The fields of an envelope a sealed delivery must not depend on.\<close>

definition mask_outer :: "envelope \<Rightarrow> envelope" where
  "mask_outer env = env\<lparr>env_sender := None, env_sender_device := None, env_content_type := 0\<rparr>"

lemma mask_outer_frame [simp]:
  "env_sealed_inner (mask_outer env) = env_sealed_inner env"
  "env_encrypted_payload (mask_outer env) = env_encrypted_payload env"
  "env_message_id_type (mask_outer env) = env_message_id_type env"
  by (simp_all add: mask_outer_def)

lemma sealed_ignores_outer:
  "env_sealed_inner env \<noteq> None \<Longrightarrow>
     resolve_inbound_envelope R (mask_outer env) key = resolve_inbound_envelope R env key"
  by (auto simp: resolve_inbound_envelope_def direct_envelope_message_id_def Let_def cong: if_cong)

lemma sealed_resolved:
  assumes "env_sealed_inner env = Some sealed" "resolve_inbound_envelope R env key = Ok b"
  shows "\<exists>inner cert_bytes.
     re_dec_inner R sealed = Ok inner \<and> re_unseal R (sl_cert_ciphertext inner) key = Ok cert_bytes
     \<and> re_dec_cert R cert_bytes = Ok (in_from b) \<and> in_from b \<noteq> [] \<and> in_wire_payload b \<noteq> []
     \<and> in_content_type b = content_type_to_u8 (sl_content_type inner) \<and> in_is_sealed b
     \<and> in_message_id b = direct_envelope_message_id env"
  using assms
  by (auto simp: resolve_inbound_envelope_def Let_def rbind_eq_Inr split: if_splits)

text \<open>The sender an orchestrator input claims.\<close>

fun claimed_sender :: "orch_input \<Rightarrow> string option" where
  "claimed_sender (OrchCommand (StreamMessage (MessageReceived _ from _ _ _ _ _ _) ctx)) =
     (if sc_contact_id ctx = from then Some from else None)"
| "claimed_sender _ = None"

lemma relay_message_inputs:
  "i \<in> set (relay_message R key env cursor) \<Longrightarrow>
     \<exists>b n k p c. resolve_inbound_envelope R env key = Ok b \<and> i = forward_message b cursor n k p c"
proof -
  assume i: "i \<in> set (relay_message R key env cursor)"
  then obtain b where b: "resolve_inbound_envelope R env key = Ok b"
    by (cases "resolve_inbound_envelope R env key") (simp_all add: relay_message_def)
  show ?thesis
    using i b by (cases "re_unpack R (in_wire_payload b)") (auto simp: relay_message_def Let_def split: if_splits)
qed

lemma forward_claims: "claimed_sender (forward_message b cursor n k p c) = Some (in_from b)"
  by (simp add: forward_message_def)

lemma relay_message_length: "length (relay_message R key env cursor) \<le> 1"
  by (simp add: relay_message_def Let_def split: sum.split)

text \<open>C6. The sender of a sealed envelope is the one its certificate names: what the outer envelope says
  about sender, device and content type changes nothing; whatever reaches the orchestrator, as event and
  as context, names the non-empty user id of the certificate that was unsealed with the identity key; and
  an envelope whose seal, certificate or payload is unusable reaches it not at all.\<close>

theorem sealed_sender_from_certificate:
  assumes "env_sealed_inner env = Some sealed"
  shows "relay_message R key (mask_outer env) cursor = relay_message R key env cursor
    \<and> length (relay_message R key env cursor) \<le> 1
    \<and> (\<forall>i \<in> set (relay_message R key env cursor). \<exists>inner cert_bytes sender.
          re_dec_inner R sealed = Ok inner
          \<and> re_unseal R (sl_cert_ciphertext inner) key = Ok cert_bytes
          \<and> re_dec_cert R cert_bytes = Ok sender \<and> sender \<noteq> []
          \<and> claimed_sender i = Some sender)"
proof (intro conjI ballI)
  show "relay_message R key (mask_outer env) cursor = relay_message R key env cursor"
    using assms by (simp add: relay_message_def sealed_ignores_outer)
  show "length (relay_message R key env cursor) \<le> 1" by (rule relay_message_length)
  fix i assume "i \<in> set (relay_message R key env cursor)"
  then obtain b n k p c where "resolve_inbound_envelope R env key = Ok b" "i = forward_message b cursor n k p c"
    using relay_message_inputs by blast
  then show "\<exists>inner cert_bytes sender.
      re_dec_inner R sealed = Ok inner \<and> re_unseal R (sl_cert_ciphertext inner) key = Ok cert_bytes
      \<and> re_dec_cert R cert_bytes = Ok sender \<and> sender \<noteq> [] \<and> claimed_sender i = Some sender"
    using sealed_resolved [OF assms] forward_claims by metis
qed

text \<open>A relay whose certificates name their sender in the clear, behind the identity key \<open>[7]\<close>.\<close>

definition sample_relay :: relay_env where
  "sample_relay = \<lparr>re_types = sample_types,
     re_dec_inner = (\<lambda>b. Ok \<lparr>sl_cert_ciphertext = b, sl_encrypted_payload = [1, 2], sl_content_type = 21\<rparr>),
     re_unseal = (\<lambda>b key. if key = [7] then Ok b else Err ''unseal''),
     re_dec_cert = (\<lambda>b. Ok (if b = [9] then ''ann'' else [])),
     re_unpack = (\<lambda>b. Err ''unpack'')\<rparr>"

definition sealed_envelope :: envelope where
  "sealed_envelope = envelope_default\<lparr>env_sender := Some \<lparr>ur_user_id = ''mallory'', ur_domain = None, ur_display_name = None\<rparr>,
     env_message_id_type := Some (MessageId ''m1''), env_sealed_inner := Some [9]\<rparr>"

theorem sealed_sender_from_certificate_witness:
  "map claimed_sender (relay_message sample_relay [7] sealed_envelope None) = [Some ''ann'']
   \<and> relay_message sample_relay [8] sealed_envelope None = []"
proof -
  have s: "env_sealed_inner sealed_envelope = Some [9]" by (simp add: sealed_envelope_def)
  let ?is = "relay_message sample_relay [7] sealed_envelope None"
  have ne: "?is \<noteq> []" "relay_message sample_relay [8] sealed_envelope None = []"
    by (simp_all add: relay_message_def resolve_inbound_envelope_def sealed_envelope_def sample_relay_def
        envelope_default_def is_session_reset_control_type_def sample_types_def content_type_to_u8_def)
  have "length ?is \<le> 1" "\<forall>i \<in> set ?is. claimed_sender i = Some ''ann''"
    using sealed_sender_from_certificate [OF s, of sample_relay "[7]" None]
    by (fastforce simp: sample_relay_def)+
  then show ?thesis using ne by (cases ?is) simp_all
qed

section \<open>Which payload is read\<close>

text \<open>The outer payload of a sealed envelope, when there is one, replaces the sealed one.\<close>

lemma outer_payload_overrides_sealed:
  assumes "env_sealed_inner env = Some sealed" "resolve_inbound_envelope R env key = Ok b"
    and "env_encrypted_payload env \<noteq> []"
  shows "in_wire_payload b = env_encrypted_payload env"
  using assms
  by (auto simp: resolve_inbound_envelope_def Let_def rbind_eq_Inr split: if_splits)

end
