(* ===== verification/App_Props.thy ===== *)
theory App_Props
  imports App_Jobs
begin

text \<open>
  The invariant \<open>app_ok\<close> of the application: the panes, the focus, the overlays and the background tasks
  stay consistent, under every handler of keys and of background messages. The properties that rest on
  it are in \<open>App_Safety\<close>.
\<close>

section \<open>Consistency\<close>

definition panes_ok :: "'o app \<Rightarrow> bool" where
  "panes_ok a \<longleftrightarrow> cl_focused (ap_chat_list a) = (ap_focus a = ContactList)
     \<and> cv_focused (ap_chat_view a) = (ap_focus a = ChatView)
     \<and> cv_compose_focused (ap_chat_view a) = (ap_focus a = Compose)
     \<and> chat_list_ok (ap_chat_list a)
     \<and> sel_ok 11 (se_selected (ap_settings a))
     \<and> length (se_items (ap_settings a)) = 11"

definition overlay :: "screen \<Rightarrow> bool" where
  "overlay s \<longleftrightarrow> s \<in> {Settings, SafetyNumber, IdentityQr, ContactSearch}"

definition overlays_ok :: "'o app \<Rightarrow> bool" where
  "overlays_ok a \<longleftrightarrow>
     (overlay (ap_screen a) \<or> ap_delete_confirm a \<noteq> None \<longrightarrow> ap_focus a = ContactList)"

definition tasks_ok :: "'o app \<Rightarrow> bool" where
  "tasks_ok a \<longleftrightarrow> ap_orch a = ap_stream a \<and> (ap_read_storage a \<longleftrightarrow> ap_orch a \<noteq> None)
     \<and> (\<forall>n. ap_orch a = Some n \<longrightarrow> n < length (ap_tasks a) \<and> ap_current_session a \<noteq> None)
     \<and> (\<forall>x \<in> set (ap_orch_sent a). fst x < length (ap_tasks a))
     \<and> (\<forall>x \<in> set (ap_stream_sent a). fst x < length (ap_tasks a))"

definition app_ok :: "'o app \<Rightarrow> bool" where
  "app_ok a \<longleftrightarrow> panes_ok a \<and> overlays_ok a \<and> tasks_ok a"

lemma settings_new_rows [simp]:
  "length (se_items (settings_new a b c d e f)) = 11" "se_selected (settings_new a b c d e f) = Some 6"
  by (simp_all add: settings_new_def)

lemma overlay_simps [simp]:
  "overlay Settings" "overlay SafetyNumber" "overlay IdentityQr" "overlay ContactSearch"
  "\<not> overlay MainScreen" "\<not> overlay Onboarding" "\<not> overlay Unlock" "\<not> overlay SetPassphrase"
  "\<not> overlay DeviceLink" "\<not> overlay ScreenRegistering" "\<not> overlay Startup"
  "\<not> overlay (Connecting s)" "\<not> overlay (AuthError s)"
  by (simp_all add: overlay_def)

text \<open>Handlers that leave alone everything the invariant reads, except that they may close an overlay.\<close>

definition same_core :: "'o app \<Rightarrow> 'o app \<Rightarrow> bool" where
  "same_core a b \<longleftrightarrow> ap_chat_list b = ap_chat_list a \<and> ap_focus b = ap_focus a
     \<and> cv_focused (ap_chat_view b) = cv_focused (ap_chat_view a)
     \<and> cv_compose_focused (ap_chat_view b) = cv_compose_focused (ap_chat_view a)
     \<and> ap_settings b = ap_settings a \<and> ap_delete_confirm b = ap_delete_confirm a
     \<and> ap_orch b = ap_orch a \<and> ap_stream b = ap_stream a \<and> ap_read_storage b = ap_read_storage a
     \<and> (ap_current_session a \<noteq> None \<longrightarrow> ap_current_session b \<noteq> None)
     \<and> ap_tasks b = ap_tasks a \<and> ap_orch_sent b = ap_orch_sent a \<and> ap_stream_sent b = ap_stream_sent a
     \<and> (overlay (ap_screen b) \<longrightarrow> overlay (ap_screen a))"

lemma same_core_refl [simp]: "same_core a a"
  by (simp add: same_core_def)

lemma same_core_ok: "same_core a b \<Longrightarrow> app_ok a \<Longrightarrow> app_ok b"
proof -
  assume c: "same_core a b" and ok: "app_ok a"
  have "panes_ok b" using c ok by (simp add: app_ok_def panes_ok_def same_core_def)
  moreover have "overlays_ok b" using c ok by (simp add: app_ok_def overlays_ok_def same_core_def)
  moreover have "tasks_ok b" using c ok by (simp add: app_ok_def tasks_ok_def same_core_def)
  ultimately show "app_ok b" by (simp add: app_ok_def)
qed

lemma same_core_if [simp]:
  "same_core a (if c then x else y) \<longleftrightarrow> (if c then same_core a x else same_core a y)"
  by simp

lemma same_core_updates [simp]:
  "same_core a (b\<lparr>ap_status := s1\<rparr>) = same_core a b"
  "same_core a (b\<lparr>ap_running := r\<rparr>) = same_core a b"
  "same_core a (b\<lparr>ap_onboarding := s2\<rparr>) = same_core a b"
  "same_core a (b\<lparr>ap_device_link := s3\<rparr>) = same_core a b"
  "same_core a (b\<lparr>ap_unlock := s4\<rparr>) = same_core a b"
  "same_core a (b\<lparr>ap_registration := s5\<rparr>) = same_core a b"
  "same_core a (b\<lparr>ap_ticker := r\<rparr>) = same_core a b"
  "same_core a (b\<lparr>ap_session_key := s6\<rparr>) = same_core a b"
  "same_core a (b\<lparr>ap_pending_session := s7\<rparr>) = same_core a b"
  "same_core a (b\<lparr>ap_grpc := s8\<rparr>) = same_core a b"
  "same_core a (b\<lparr>ap_connection := s9\<rparr>) = same_core a b"
  "same_core a (b\<lparr>ap_search := s10\<rparr>) = same_core a b"
  "same_core a (b\<lparr>ap_safety := s11\<rparr>) = same_core a b"
  "same_core a (b\<lparr>ap_access_token := s12\<rparr>) = same_core a b"
  "same_core a (b\<lparr>ap_device_id := s12\<rparr>) = same_core a b"
  "same_core a (b\<lparr>ap_user_id := s12\<rparr>) = same_core a b"
  "same_core a (b\<lparr>ap_panicked := r\<rparr>) = same_core a b"
  "same_core a (b\<lparr>ap_disk := s13\<rparr>) = same_core a b"
  "same_core a (b\<lparr>ap_db := s14\<rparr>) = same_core a b"
  "same_core a (b\<lparr>ap_jobs := s15\<rparr>) = same_core a b"
  "same_core a (b\<lparr>ap_used := s16\<rparr>) = same_core a b"
  "same_core a (b\<lparr>ap_identity_key := s17\<rparr>) = same_core a b"
  by (simp_all add: same_core_def)

lemma same_core_session [simp]: "same_core a b \<Longrightarrow> same_core a (b\<lparr>ap_current_session := Some s\<rparr>)"
  by (simp add: same_core_def)

lemma same_core_screen [simp]: "same_core a b \<Longrightarrow> \<not> overlay s \<Longrightarrow> same_core a (b\<lparr>ap_screen := s\<rparr>)"
  by (simp add: same_core_def)

lemma same_core_overlay [simp]:
  "same_core a b \<Longrightarrow> overlay (ap_screen a) \<Longrightarrow> same_core a (b\<lparr>ap_screen := s\<rparr>)"
  by (simp add: same_core_def)

lemma same_core_view [simp]:
  "same_core a b \<Longrightarrow> cv_focused v = cv_focused (ap_chat_view b) \<Longrightarrow>
   cv_compose_focused v = cv_compose_focused (ap_chat_view b) \<Longrightarrow> same_core a (b\<lparr>ap_chat_view := v\<rparr>)"
  by (simp add: same_core_def)

lemmas handler_defs = spawn_job_def set_status_def set_screen_def quit_app_def generate_message_id_def
  current_time_hhmm_def on_view_def on_search_def unlock_fail_def Let_def

section \<open>Entry screens\<close>

lemma onboarding_core: "same_core a (handle_onboarding k a)"
  by (cases "kv_code k") (simp_all add: handle_onboarding_def start_auth_register_def handler_defs)

lemma device_link_core: "same_core a (handle_device_link k a)"
  by (cases "kv_code k") (simp_all add: handle_device_link_def start_auth_link_def handler_defs)

lemma try_unlock_core: "same_core a b \<Longrightarrow> same_core a (try_unlock X p b)"
  by (simp add: try_unlock_def start_auth_restore_preloaded_def handler_defs
      split: prod.splits sum.splits option.splits)

lemma unlock_core: "same_core a (handle_unlock X k a)"
  by (cases "kv_code k") (simp_all add: handle_unlock_def take_passphrase_def try_unlock_core handler_defs)

lemma leave_error_core: "same_core a (leave_error a)"
  by (simp add: leave_error_def handler_defs)

section \<open>The main screen\<close>

lemma orch_send_frame [simp]:
  "ap_screen (orch_send m a) = ap_screen a" "ap_focus (orch_send m a) = ap_focus a"
  "ap_chat_list (orch_send m a) = ap_chat_list a" "ap_chat_view (orch_send m a) = ap_chat_view a"
  "ap_delete_confirm (orch_send m a) = ap_delete_confirm a" "ap_db (orch_send m a) = ap_db a"
  "ap_read_storage (orch_send m a) = ap_read_storage a" "ap_orch (orch_send m a) = ap_orch a"
  "ap_stream (orch_send m a) = ap_stream a" "ap_used (orch_send m a) = ap_used a"
  by (simp_all add: orch_send_def split: option.split)

lemma stream_send_frame [simp]:
  "ap_screen (stream_send m a) = ap_screen a" "ap_focus (stream_send m a) = ap_focus a"
  "ap_chat_list (stream_send m a) = ap_chat_list a" "ap_chat_view (stream_send m a) = ap_chat_view a"
  "ap_delete_confirm (stream_send m a) = ap_delete_confirm a" "ap_orch (stream_send m a) = ap_orch a"
  "ap_orch_sent (stream_send m a) = ap_orch_sent a" "ap_db (stream_send m a) = ap_db a"
  "ap_read_storage (stream_send m a) = ap_read_storage a"
  by (simp_all add: stream_send_def split: option.split prod.split)

lemma app_ok_sent:
  "app_ok a \<Longrightarrow> (\<forall>x \<in> set s. fst x < length (ap_tasks a)) \<Longrightarrow> app_ok (a\<lparr>ap_orch_sent := s\<rparr>)"
  "app_ok a \<Longrightarrow> (\<forall>x \<in> set t. fst x < length (ap_tasks a)) \<Longrightarrow>
     app_ok (a\<lparr>ap_stream_full := fs, ap_stream_sent := t\<rparr>)"
  by (simp_all add: app_ok_def panes_ok_def overlays_ok_def tasks_ok_def)

lemma app_ok_numbers:
  assumes "app_ok a"
  shows "ap_orch a = Some n \<Longrightarrow> n < length (ap_tasks a)" "ap_stream a = Some n \<Longrightarrow> n < length (ap_tasks a)"
    and "x \<in> set (ap_orch_sent a) \<Longrightarrow> fst x < length (ap_tasks a)"
    and "y \<in> set (ap_stream_sent a) \<Longrightarrow> fst y < length (ap_tasks a)"
  using assms by (simp_all add: app_ok_def tasks_ok_def)

lemma orch_send_ok [simp]:
  assumes "app_ok a"
  shows "app_ok (orch_send m a)"
proof (cases "ap_orch a")
  case (Some n)
  have "\<forall>x \<in> set (ap_orch_sent a @ [(n, m)]). fst x < length (ap_tasks a)"
    using app_ok_numbers(1,3) [OF assms] Some by auto
  with Some show ?thesis by (simp add: orch_send_def app_ok_sent(1) assms del: set_append)
qed (use assms in \<open>simp add: orch_send_def\<close>)

lemma stream_send_ok [simp]:
  assumes "app_ok a"
  shows "app_ok (stream_send m a)"
proof (cases "ap_stream a")
  case (Some n)
  obtain fs q where t: "try_send (ap_stream_full a) (ap_stream_sent a) (n, m) = (fs, q)" by fastforce
  from try_send_cases [OF t] have "set q \<subseteq> insert (n, m) (set (ap_stream_sent a))" by auto
  then have "\<forall>x \<in> set q. fst x < length (ap_tasks a)"
    using app_ok_numbers(2,4) [OF assms] Some by fastforce
  with Some show ?thesis by (simp add: stream_send_def t app_ok_sent(2) assms)
qed (use assms in \<open>simp add: stream_send_def\<close>)

lemma app_ok_updates [simp]:
  "app_ok (b\<lparr>ap_status := s1\<rparr>) = app_ok b" "app_ok (b\<lparr>ap_running := r\<rparr>) = app_ok b"
  "app_ok (b\<lparr>ap_search := s10\<rparr>) = app_ok b" "app_ok (b\<lparr>ap_safety := s11\<rparr>) = app_ok b"
  "app_ok (b\<lparr>ap_db := s14\<rparr>) = app_ok b" "app_ok (b\<lparr>ap_disk := s13\<rparr>) = app_ok b"
  "app_ok (b\<lparr>ap_jobs := s15\<rparr>) = app_ok b" "app_ok (b\<lparr>ap_used := s16\<rparr>) = app_ok b"
  "app_ok (b\<lparr>ap_identity_key := s17\<rparr>) = app_ok b" "app_ok (b\<lparr>ap_panicked := r\<rparr>) = app_ok b"
  "app_ok (b\<lparr>ap_session_key := s6\<rparr>) = app_ok b" "app_ok (b\<lparr>ap_pending_session := s7\<rparr>) = app_ok b"
  "app_ok (b\<lparr>ap_unlock := s4\<rparr>) = app_ok b" "app_ok (b\<lparr>ap_registration := s5\<rparr>) = app_ok b"
  "app_ok (b\<lparr>ap_ticker := r\<rparr>) = app_ok b" "app_ok (b\<lparr>ap_grpc := s8\<rparr>) = app_ok b"
  "app_ok (b\<lparr>ap_connection := s9\<rparr>) = app_ok b" "app_ok (b\<lparr>ap_onboarding := s2\<rparr>) = app_ok b"
  "app_ok (b\<lparr>ap_user_id := u\<rparr>) = app_ok b" "app_ok (b\<lparr>ap_device_id := u\<rparr>) = app_ok b"
  "app_ok (b\<lparr>ap_access_token := u\<rparr>) = app_ok b"
  by (simp_all add: app_ok_def panes_ok_def overlays_ok_def tasks_ok_def)

lemma app_ok_screen [simp]: "app_ok a \<Longrightarrow> \<not> overlay s \<Longrightarrow> app_ok (a\<lparr>ap_screen := s\<rparr>)"
  by (simp add: app_ok_def panes_ok_def overlays_ok_def tasks_ok_def)

lemma app_ok_overlay: "app_ok a \<Longrightarrow> ap_focus a = ContactList \<Longrightarrow> app_ok (a\<lparr>ap_screen := s\<rparr>)"
  by (simp add: app_ok_def panes_ok_def overlays_ok_def tasks_ok_def)

lemma app_ok_view [simp]:
  "app_ok a \<Longrightarrow> cv_focused v = cv_focused (ap_chat_view a) \<Longrightarrow>
   cv_compose_focused v = cv_compose_focused (ap_chat_view a) \<Longrightarrow> app_ok (a\<lparr>ap_chat_view := v\<rparr>)"
  by (simp add: app_ok_def panes_ok_def overlays_ok_def tasks_ok_def)

lemma app_ok_list [simp]:
  "app_ok a \<Longrightarrow> cl_focused l = cl_focused (ap_chat_list a) \<Longrightarrow> chat_list_ok l \<Longrightarrow> app_ok (a\<lparr>ap_chat_list := l\<rparr>)"
  by (simp add: app_ok_def panes_ok_def overlays_ok_def tasks_ok_def)

lemma app_ok_chat_list: "app_ok a \<Longrightarrow> chat_list_ok (ap_chat_list a)"
  by (simp add: app_ok_def panes_ok_def)

lemma list_focus [simp]:
  "cl_focused (chat_list_next l) = cl_focused l" "cl_focused (chat_list_prev l) = cl_focused l"
  "cl_focused (set_contacts cs l) = cl_focused l" "cl_focused (add_contact c l) = cl_focused l"
  "cl_focused (remove_at i l) = cl_focused l"
  by (simp_all add: chat_list_next_def chat_list_prev_def set_contacts_def add_contact_def remove_at_def Let_def)

lemma view_focus [simp]:
  "cv_focused (scroll_up n v) = cv_focused v" "cv_focused (scroll_down n v) = cv_focused v"
  "cv_focused (scroll_to_top v) = cv_focused v" "cv_focused (scroll_to_bottom v) = cv_focused v"
  "cv_focused (on_new_message v) = cv_focused v" "cv_focused (compose_push c v) = cv_focused v"
  "cv_focused (compose_pop v) = cv_focused v"
  "cv_compose_focused (scroll_up n v) = cv_compose_focused v"
  "cv_compose_focused (scroll_down n v) = cv_compose_focused v"
  "cv_compose_focused (scroll_to_top v) = cv_compose_focused v"
  "cv_compose_focused (scroll_to_bottom v) = cv_compose_focused v"
  "cv_compose_focused (on_new_message v) = cv_compose_focused v"
  "cv_compose_focused (compose_push c v) = cv_compose_focused v"
  "cv_compose_focused (compose_pop v) = cv_compose_focused v"
  by (simp_all add: scroll_up_def scroll_down_def scroll_to_top_def scroll_to_bottom_def
      on_new_message_def compose_push_def compose_pop_def)

lemma set_focus_ok:
  "app_ok a \<Longrightarrow> \<not> overlay (ap_screen a) \<Longrightarrow> ap_delete_confirm a = None \<Longrightarrow> app_ok (set_focus f a)"
  by (simp add: set_focus_def app_ok_def panes_ok_def overlays_ok_def tasks_ok_def chat_list_ok_def
      split: option.splits)

lemma resubscribe_ok [simp]: "app_ok a \<Longrightarrow> app_ok (resubscribe_stream_to_contacts a)"
  by (simp add: resubscribe_stream_to_contacts_def Let_def split: prod.split)

lemma resubscribe_frame [simp]:
  "ap_screen (resubscribe_stream_to_contacts a) = ap_screen a"
  "ap_focus (resubscribe_stream_to_contacts a) = ap_focus a"
  "ap_chat_list (resubscribe_stream_to_contacts a) = ap_chat_list a"
  "ap_chat_view (resubscribe_stream_to_contacts a) = ap_chat_view a"
  "ap_orch_sent (resubscribe_stream_to_contacts a) = ap_orch_sent a"
  by (simp_all add: resubscribe_stream_to_contacts_def Let_def split: prod.split)

lemma finish_add_contact_ok: "app_ok a \<Longrightarrow> app_ok (finish_add_contact u n a)"
  by (simp add: finish_add_contact_def Let_def chat_list_ok_ops(3) app_ok_chat_list)

lemma open_chat_ok: "app_ok a \<Longrightarrow> app_ok (open_chat X c a)"
  by (simp add: open_chat_def Let_def split: prod.split)

lemma open_chat_frame:
  "ap_screen (open_chat X c a) = ap_screen a" "ap_delete_confirm (open_chat X c a) = ap_delete_confirm a"
  by (simp_all add: open_chat_def Let_def split: prod.split)

lemma send_composed_ok: "app_ok a \<Longrightarrow> app_ok (send_composed X a)"
  by (simp add: send_composed_def take_compose_def handler_defs split: option.split)

lemma app_ok_confirm [simp]: "app_ok a \<Longrightarrow> app_ok (a\<lparr>ap_delete_confirm := None\<rparr>)"
  by (simp add: app_ok_def panes_ok_def overlays_ok_def tasks_ok_def)

lemma app_ok_ask: "app_ok a \<Longrightarrow> ap_focus a = ContactList \<Longrightarrow> app_ok (a\<lparr>ap_delete_confirm := c\<rparr>)"
  by (simp add: app_ok_def panes_ok_def overlays_ok_def tasks_ok_def)

lemma confirm_delete_ok: "app_ok a \<Longrightarrow> app_ok (confirm_delete a)"
  using app_ok_chat_list [of a]
  by (simp add: confirm_delete_def handler_defs chat_list_ok_ops(6) split: option.split prod.split sum.split)

lemma keys_contact_list_ok:
  assumes "app_ok a" "ap_focus a = ContactList" "\<not> overlay (ap_screen a)" "ap_delete_confirm a = None"
  shows "app_ok (keys_contact_list X k a)"
proof -
  have "app_ok (set_focus ChatView (case selected_contact (ap_chat_list a) of Some c \<Rightarrow> open_chat X c a | None \<Rightarrow> a))"
    using assms by (intro set_focus_ok) (simp_all add: open_chat_ok open_chat_frame split: option.split)
  with assms app_ok_chat_list [OF assms(1)] show ?thesis
    by (simp add: keys_contact_list_def chat_list_ok_ops(4,5) app_ok_ask app_ok_overlay set_screen_def
        split: option.split)
qed

lemma keys_chat_view_ok:
  "app_ok a \<Longrightarrow> \<not> overlay (ap_screen a) \<Longrightarrow> ap_delete_confirm a = None \<Longrightarrow> app_ok (keys_chat_view k a)"
  by (simp add: keys_chat_view_def set_focus_ok on_view_def)

lemma keys_compose_ok:
  "app_ok a \<Longrightarrow> \<not> overlay (ap_screen a) \<Longrightarrow> ap_delete_confirm a = None \<Longrightarrow> app_ok (keys_compose X k a)"
  by (cases "kv_code k") (simp_all add: keys_compose_def set_focus_ok on_view_def send_composed_ok)

lemma handle_main_ok: "app_ok a \<Longrightarrow> \<not> overlay (ap_screen a) \<Longrightarrow> app_ok (handle_main X k a)"
  by (cases "ap_focus a")
    (auto simp: handle_main_def confirm_delete_ok keys_contact_list_ok keys_chat_view_ok keys_compose_ok quit_app_def)

section \<open>Starting tasks and logging out\<close>

lemma load_contacts_ok: "load_contacts X a = (ids, b) \<Longrightarrow> app_ok a \<Longrightarrow> app_ok b"
  by (auto simp: load_contacts_def chat_list_ok_ops(2) split: prod.splits sum.splits)

lemma load_contacts_frame:
  "load_contacts X a = (ids, b) \<Longrightarrow> ap_current_session b = ap_current_session a \<and> ap_screen b = ap_screen a
     \<and> ap_tasks b = ap_tasks a \<and> ap_focus b = ap_focus a \<and> ap_chat_view b = ap_chat_view a"
  by (auto simp: load_contacts_def split: prod.splits sum.splits)

lemma app_ok_new_task:
  assumes "app_ok a" "ap_current_session a \<noteq> None"
  shows "app_ok (a\<lparr>ap_read_storage := True, ap_identity_key := k, ap_db := d, ap_tasks := ap_tasks a @ [t],
     ap_stream := Some (length (ap_tasks a)), ap_orch := Some (length (ap_tasks a))\<rparr>)"
  using assms by (auto simp: app_ok_def panes_ok_def overlays_ok_def tasks_ok_def less_Suc_eq)

lemma spawn_tasks_ok:
  "app_ok a \<Longrightarrow> ap_current_session a \<noteq> None \<Longrightarrow> app_ok (spawn_tasks X dev key ids orch a)"
  by (simp add: spawn_tasks_def spawn_job_def Let_def app_ok_new_task split: prod.split)

lemma start_orchestrator_ok:
  assumes "app_ok a" "ap_current_session a \<noteq> None"
  shows "app_ok (start_orchestrator X s u dev a)"
proof (cases "session_secrets (ax_auth X) s")
  case (Some ks)
  obtain ids b where l: "load_contacts X a = (ids, b)" by fastforce
  have "app_ok b" "ap_current_session b \<noteq> None"
    using load_contacts_ok [OF l assms(1)] load_contacts_frame [OF l] assms(2) by simp_all
  then have "app_ok (spawn_tasks X dev i ids orch (b\<lparr>ap_db := d\<rparr>))" for i orch d
    by (intro spawn_tasks_ok) simp_all
  with Some assms show ?thesis
    by (simp add: start_orchestrator_def l set_status_def Let_def split: prod.split sum.split)
qed (use assms in \<open>simp add: start_orchestrator_def set_status_def\<close>)

lemma save_current_frame:
  "save_current X s a = (b, r) \<Longrightarrow> (app_ok b \<longleftrightarrow> app_ok a) \<and> ap_current_session b = ap_current_session a
     \<and> ap_screen b = ap_screen a \<and> ap_focus b = ap_focus a \<and> ap_chat_view b = ap_chat_view a
     \<and> ap_chat_list b = ap_chat_list a \<and> ap_session_key b = ap_session_key a"
  by (auto simp: save_current_def Let_def split: option.splits prod.splits if_splits)

lemma adopt_auth_ok: "app_ok a \<Longrightarrow> app_ok (adopt_auth s a) \<and> ap_current_session (adopt_auth s a) \<noteq> None"
  by (simp add: adopt_auth_def app_ok_def panes_ok_def overlays_ok_def tasks_ok_def)

lemma enter_main_ok: "app_ok a \<Longrightarrow> ap_current_session a \<noteq> None \<Longrightarrow> app_ok (enter_main X s a)"
  by (simp add: enter_main_def set_screen_def start_orchestrator_ok)

lemma auth_succeeded_ok:
  assumes "app_ok a"
  shows "app_ok (auth_succeeded X s a)"
proof -
  note ad = adopt_auth_ok [OF assms, of s]
  show ?thesis
  proof (cases "as_pending_save s")
    case None
    then show ?thesis using ad by (simp add: auth_succeeded_def enter_main_ok Let_def)
  next
    case (Some p)
    obtain b r where sv: "save_current X p (start_token_refresh p (adopt_auth s a)) = (b, r)" by fastforce
    have "app_ok b" "ap_current_session b \<noteq> None"
      using save_current_frame [OF sv] ad by (simp_all add: start_token_refresh_def spawn_job_def)
    with Some sv show ?thesis
      by (simp add: auth_succeeded_def enter_main_ok set_screen_def Let_def split: option.split sum.split)
  qed
qed

lemma auth_failed_ok: "app_ok a \<Longrightarrow> app_ok (auth_failed e a)"
  by (simp add: auth_failed_def handler_defs)

lemma persist_ok: "app_ok a \<Longrightarrow> app_ok (persist_session_background X s a)"
proof -
  assume a: "app_ok a"
  have "app_ok (start_token_refresh s (a\<lparr>ap_current_session := Some s\<rparr>))"
    using a by (simp add: start_token_refresh_def spawn_job_def app_ok_def panes_ok_def overlays_ok_def tasks_ok_def)
  then show ?thesis
    using save_current_frame [of X s "start_token_refresh s (a\<lparr>ap_current_session := Some s\<rparr>)"]
    unfolding persist_session_background_def by (metis prod.collapse)
qed

lemma do_logout_ok:
  assumes "app_ok a" "ap_focus a = ContactList"
  shows "app_ok (do_logout X a)"
proof -
  obtain d r where c: "clear_session (ah_config (ax_auth X)) (ap_disk a) = (d, r)" by fastforce
  show ?thesis
  proof (cases r)
    case (Inl e)
    then show ?thesis using assms by (simp add: do_logout_def c set_status_def)
  next
    case (Inr u)
    define s where "s = stream_send CmdShutdown (a\<lparr>ap_disk := d\<rparr>)"
    have s: "app_ok s" "ap_focus s = ContactList" using assms by (simp_all add: s_def)
    have eq: "stream_send CmdShutdown (a\<lparr>ap_disk := d, ap_orch := None\<rparr>) = s\<lparr>ap_orch := None\<rparr>"
      by (simp add: s_def stream_send_def split: option.split prod.split)
    show ?thesis
      using s by (simp add: do_logout_def c Inr eq spawn_job_def Let_def app_ok_def panes_ok_def
          overlays_ok_def tasks_ok_def fresh_settings_def chat_list_new_def chat_view_new_def chat_list_ok_def)
  qed
qed

section \<open>Every turn of the loop\<close>

lemma app_ok_settings:
  "app_ok a \<Longrightarrow> app_ok (a\<lparr>ap_settings := settings_next (ap_settings a)\<rparr>)"
  "app_ok a \<Longrightarrow> app_ok (a\<lparr>ap_settings := settings_prev (ap_settings a)\<rparr>)"
  using settings_rows.ok_nxt [of "ap_settings a"] settings_rows.ok_prv [of "ap_settings a"]
    settings_rows.rows_nxt [of "ap_settings a"] settings_rows.rows_prv [of "ap_settings a"]
  by (simp_all add: app_ok_def panes_ok_def overlays_ok_def tasks_ok_def)

lemma safety_screen_ok: "app_ok a \<Longrightarrow> ap_focus a = ContactList \<Longrightarrow> app_ok (open_safety_number_screen X a)"
  by (simp add: open_safety_number_screen_def peer_key_def set_status_def set_screen_def Let_def app_ok_overlay
      split: option.split prod.split)

lemma export_ok: "app_ok a \<Longrightarrow> app_ok (export_identity_key X a)"
  by (simp add: export_identity_key_def set_status_def Let_def split: option.split sum.split)

lemma handle_settings_ok:
  assumes "app_ok a" "ap_focus a = ContactList"
  shows "app_ok (handle_settings X k a)"
proof -
  have "app_ok (case settings_confirm (ap_settings a) of
           None \<Rightarrow> a
         | Some Back \<Rightarrow> set_screen MainScreen a
         | Some Logout \<Rightarrow> do_logout X a
         | Some ShowSafetyNumber \<Rightarrow> open_safety_number_screen X a
         | Some ExportKeys \<Rightarrow> export_identity_key X a
         | Some ShowMyQr \<Rightarrow> set_screen IdentityQr a)"
    using assms by (simp add: set_screen_def do_logout_ok safety_screen_ok export_ok app_ok_overlay
        split: option.split settings_action.split)
  with assms show ?thesis
    by (simp add: handle_settings_def set_screen_def app_ok_settings do_logout_ok safety_screen_ok app_ok_overlay)
qed

lemma redeem_ok: "app_ok a \<Longrightarrow> app_ok (redeem_pasted_invite X raw a)"
  by (simp add: redeem_pasted_invite_def spawn_job_def Let_def split: option.split sum.split)

lemma handle_contact_search_ok: "app_ok a \<Longrightarrow> app_ok (handle_contact_search X k a)"
  by (cases "kv_code k")
    (simp_all add: handle_contact_search_def set_screen_def on_search_def add_selected_search_result_def
      finish_add_contact_ok submit_contact_search_def redeem_ok spawn_job_def Let_def split: option.split)

lemma protect_session_ok: "app_ok a \<Longrightarrow> app_ok (protect_session X p s a)"
  by (simp add: protect_session_def unlock_fail_def set_screen_def Let_def start_orchestrator_ok
      split: prod.split sum.split option.split)

lemma set_passphrase_ok: "app_ok a \<Longrightarrow> app_ok (handle_set_passphrase X k a)"
  by (cases "kv_code k")
    (simp_all add: handle_set_passphrase_def take_passphrase_def unlock_fail_def protect_session_ok Let_def
      split: option.split)

lemma overlay_focus: "app_ok a \<Longrightarrow> overlay (ap_screen a) \<Longrightarrow> ap_focus a = ContactList"
  by (simp add: app_ok_def overlays_ok_def)

lemma handle_event_ok:
  assumes "app_ok a"
  shows "app_ok (handle_event X k a)"
  using assms same_core_ok [OF onboarding_core assms] same_core_ok [OF device_link_core assms]
    same_core_ok [OF unlock_core assms] same_core_ok [OF leave_error_core assms] overlay_focus [OF assms]
  by (cases "ap_screen a")
    (simp_all add: handle_event_def quit_app_def set_screen_def handle_main_ok handle_settings_ok
      handle_contact_search_ok set_passphrase_ok app_ok_overlay)

lemma show_message_ok: "app_ok a \<Longrightarrow> app_ok (show_message X s a)"
  by (simp add: show_message_def handler_defs)

lemma handle_bridge_event_ok: "app_ok a \<Longrightarrow> app_ok (handle_bridge_event X e a)"
  by (simp add: handle_bridge_event_def show_message_ok set_status_def Let_def
      split: bridge_event.split bool.split)

lemma token_refresh_ok: "app_ok a \<Longrightarrow> app_ok (handle_token_refresh_msg X m a)"
  by (simp add: handle_token_refresh_msg_def start_device_reauth_def set_status_def spawn_job_def
      persist_ok Let_def split: token_refresh_msg.split option.split)

lemma handle_auth_msg_ok: "app_ok a \<Longrightarrow> app_ok (handle_auth_msg X m a)"
  by (simp add: handle_auth_msg_def auth_succeeded_ok auth_failed_ok split: auth_msg.split)

lemma handle_internal_ok: "app_ok a \<Longrightarrow> app_ok (handle_internal X e a)"
  by (cases e)
    (simp_all add: handle_internal_def handle_auth_msg_ok token_refresh_ok handle_bridge_event_ok
      finish_add_contact_ok refresh_token_now_def spawn_job_def handle_p2p_status_def set_status_def
      split: option.split)

lemma app_step_ok: "app_ok a \<Longrightarrow> app_ok (app_step X a i)"
  by (cases i) (simp_all add: app_step_def handle_event_ok handle_internal_ok)

lemma app_run_ok: "app_ok a \<Longrightarrow> app_ok (app_run X a is)"
  by (induction "is" arbitrary: a) (simp_all add: app_run_def app_step_ok)

lemma app_new_ok: "app_ok (app_new cfg disk d)"
  by (simp add: app_ok_def panes_ok_def overlays_ok_def tasks_ok_def app_new_def chat_list_ok_def
      chat_list_new_def chat_view_new_def)

lemma startup_check_ok: "app_ok a \<Longrightarrow> app_ok (startup_check X a)"
  by (simp add: startup_check_def start_auth_restore_from_disk_def set_screen_def spawn_job_def Let_def
      split: prod.split session_state.split)

end
