(* ===== verification/App_Safety.thy ===== *)
theory App_Safety
  imports App_Props
begin

text \<open>
  The properties of the application: consistency of every reachable state, which keys do what, logging
  out, and where composed text goes.
\<close>

section \<open>Reachable states\<close>

text \<open>In every state the program reaches from its start, whatever keys, background messages and
  changes of the database and the files come: exactly the focused pane is marked as focused; the
  selected row of the contact list and of the settings exists; the settings, search, safety-number and
  QR screens and the delete dialog only cover the contact list; the orchestrator, the stream worker and
  the database connection of the user interface exist together, belong to the same spawned task, and
  only with a session in memory; and nothing was ever sent to a task that does not exist.\<close>

theorem reachable_app_consistent:
  "app_ok (app_run X (startup_check X (app_new cfg disk d)) inputs)"
  by (rule app_run_ok) (rule startup_check_ok [OF app_new_ok])

section \<open>Keys\<close>

lemma app_run_stopped: "\<not> ap_running a \<or> ap_panicked a \<Longrightarrow> app_run X a is = a"
  by (induction "is") (simp_all add: app_run_def app_step_def)

text \<open>C16. Ctrl+C stops the program on every screen and changes nothing else, and a stopped program
  takes no further step; a released key does nothing; while the program starts, connects or registers
  every other key does nothing; and while the delete dialog is up, every key but y only closes the
  dialog, also those that would quit, send or move.\<close>

theorem keys_are_gated:
  assumes "ap_running a" "\<not> ap_panicked a"
  shows "(kv_press k \<and> ctrl_c k \<longrightarrow> app_run X a (Key k # is) = a\<lparr>ap_running := False\<rparr>)
    \<and> (\<not> kv_press k \<longrightarrow> app_step X a (Key k) = a)
    \<and> (\<not> ctrl_c k \<and> (ap_screen a = Startup \<or> ap_screen a = ScreenRegistering \<or> is_connecting (ap_screen a))
         \<longrightarrow> app_step X a (Key k) = a)
    \<and> (kv_press k \<and> \<not> ctrl_c k \<and> ap_screen a = MainScreen \<and> ap_delete_confirm a \<noteq> None
         \<and> \<not> is_char (CHR ''y'') k \<and> \<not> is_char (CHR ''Y'') k
         \<longrightarrow> app_step X a (Key k) = a\<lparr>ap_delete_confirm := None\<rparr>)"
proof (intro conjI impI)
  assume k: "kv_press k \<and> ctrl_c k"
  then have "app_step X a (Key k) = a\<lparr>ap_running := False\<rparr>"
    using assms by (simp add: app_step_def handle_event_def quit_app_def)
  then have "app_run X a (Key k # is) = app_run X (a\<lparr>ap_running := False\<rparr>) is" by (simp add: app_run_def)
  then show "app_run X a (Key k # is) = a\<lparr>ap_running := False\<rparr>" by (simp add: app_run_stopped)
next
  assume "\<not> kv_press k"
  then show "app_step X a (Key k) = a" using assms by (simp add: app_step_def handle_event_def)
next
  assume "\<not> ctrl_c k \<and> (ap_screen a = Startup \<or> ap_screen a = ScreenRegistering \<or> is_connecting (ap_screen a))"
  then show "app_step X a (Key k) = a"
    using assms by (cases "ap_screen a") (simp_all add: app_step_def handle_event_def is_connecting_def)
next
  assume "kv_press k \<and> \<not> ctrl_c k \<and> ap_screen a = MainScreen \<and> ap_delete_confirm a \<noteq> None
    \<and> \<not> is_char (CHR ''y'') k \<and> \<not> is_char (CHR ''Y'') k"
  then show "app_step X a (Key k) = a\<lparr>ap_delete_confirm := None\<rparr>"
    using assms by (simp add: app_step_def handle_event_def handle_main_def)
qed

text \<open>A fresh application and a key, for concrete runs.\<close>

definition sample_config :: app_config where
  "sample_config = \<lparr>ac_server_url = ''https://s'', ac_transport = Direct, ac_no_encrypt = True,
     ac_headless = False, ac_pq_active = False\<rparr>"

definition sample_app :: "unit app" where
  "sample_app = app_new sample_config empty_disk empty_db"

definition press :: "key_code \<Rightarrow> key_event" where
  "press c = \<lparr>kv_code = c, kv_mods = NoModifier, kv_press = True\<rparr>"

lemma sample_app_fields [simp]:
  "ap_running sample_app" "\<not> ap_panicked sample_app" "ap_disk sample_app = empty_disk"
  "ap_db sample_app = empty_db" "ap_chat_list sample_app = chat_list_new"
  "ap_focus sample_app = ContactList" "ap_stream sample_app = None" "ap_orch sample_app = None"
  "ap_orch_sent sample_app = []" "ap_screen sample_app = Startup"
  by (simp_all add: sample_app_def app_new_def)

theorem keys_are_gated_witness:
  "\<forall>X. app_step X (sample_app\<lparr>ap_screen := MainScreen, ap_delete_confirm := Some ''bob''\<rparr>) (Key (press KEnter))
     = sample_app\<lparr>ap_screen := MainScreen, ap_delete_confirm := None\<rparr>"
proof
  fix X
  let ?a = "sample_app\<lparr>ap_screen := MainScreen, ap_delete_confirm := Some ''bob''\<rparr>"
  have r: "ap_running ?a" "\<not> ap_panicked ?a" by simp_all
  show "app_step X ?a (Key (press KEnter)) = sample_app\<lparr>ap_screen := MainScreen, ap_delete_confirm := None\<rparr>"
    using keys_are_gated [OF r, of "press KEnter" X "[]"]
    by (simp add: press_def ctrl_c_def is_char_def)
qed

section \<open>Logging out\<close>

lemma fs_write_enc: "fs_write set_enc b d = (d', r) \<Longrightarrow> dk_old d' = dk_old d"
  by (auto simp: fs_write_def set_enc_def split: list.splits outcome.splits)

lemma fs_call_old:
  "(\<And>d. dk_old (fst (f d)) = dk_old d) \<Longrightarrow> fs_call f d = (d', r) \<Longrightarrow> dk_old d' = dk_old d"
  by (auto simp: fs_call_def Let_def split: list.splits outcome.splits prod.splits)
    (metis disk.select_convs(3) disk.surjective disk.update_convs(5) fst_conv)+

lemma fs_remove_gone:
  "fs_call (\<lambda>d. (d\<lparr>dk_enc := None\<rparr>, ())) d = (d', Ok u) \<Longrightarrow> dk_enc d' = None"
  by (auto simp: fs_call_def split: list.splits outcome.splits)

lemma clear_session_gone:
  "clear_session E d = (d', Ok u) \<Longrightarrow> dk_enc d' = None"
  unfolding clear_session_def
  by (auto elim!: io_bindE simp: if_exists_def fs_remove_gone split: if_splits)

lemma config_dir_same: "config_dir d = (d', r) \<Longrightarrow> \<exists>fs. d' = d\<lparr>dk_faults := fs\<rparr>"
  unfolding config_dir_def fs_call_def
  by (auto simp: Let_def split: if_splits list.splits outcome.splits)
    (metis disk.surjective disk.update_convs(5))+

lemma session_path_files:
  assumes "session_path d = (d', Ok u)"
  shows "dk_old d' = (if dk_enc d = None then None else dk_old d)
     \<and> dk_enc d' = (if dk_enc d = None then dk_old d else dk_enc d)"
proof -
  obtain d1 r where c: "config_dir d = (d1, r)" by fastforce
  from config_dir_same [OF c] have s: "dk_old d1 = dk_old d" "dk_enc d1 = dk_enc d" by auto
  show ?thesis using assms s
    by (auto simp: session_path_def io_bind_def c fs_call_def Let_def
        split: sum.splits if_splits list.splits outcome.splits)
qed

lemma draw_files: "draw E n d = (d', r) \<Longrightarrow> dk_old d' = dk_old d"
  by (auto simp: draw_def)

lemma clear_session_old:
  assumes "clear_session E d = (d', Ok u)"
  shows "dk_old d' = (if dk_enc d = None then None else dk_old d)"
proof -
  from assms obtain d1 where p: "session_path d = (d1, Ok ())" and
    r: "if_exists dk_enc () (io_bind (fs_call (\<lambda>d. (d, case dk_enc d of None \<Rightarrow> 0 | Some b \<Rightarrow> length b))) (\<lambda>n.
      io_bind (draw E n) (\<lambda>garbage. io_bind (fs_write set_enc garbage) (\<lambda>_.
      fs_call (\<lambda>d. (d\<lparr>dk_enc := None\<rparr>, ())))))) d1 = (d', Ok u)"
    unfolding clear_session_def by (auto elim!: io_bindE)
  have "dk_old d' = dk_old d1"
  proof (cases "dk_enc d1 = None")
    case True
    with r show ?thesis by (simp add: if_exists_def)
  next
    case False
    from r False obtain d2 n d3 g d4 where
      "fs_call (\<lambda>d. (d, case dk_enc d of None \<Rightarrow> 0 | Some b \<Rightarrow> length b)) d1 = (d2, Ok n)"
      "draw E n d2 = (d3, Ok g)" "fs_write set_enc g d3 = (d4, Ok ())"
      "fs_call (\<lambda>d. (d\<lparr>dk_enc := None\<rparr>, ())) d4 = (d', Ok u)"
      by (auto simp: if_exists_def elim!: io_bindE)
    then show ?thesis
      using fs_call_old [of "\<lambda>d. (d, case dk_enc d of None \<Rightarrow> 0 | Some b \<Rightarrow> length b)" d1 d2]
        fs_call_old [of "\<lambda>d. (d\<lparr>dk_enc := None\<rparr>, ())" d4 d'] draw_files fs_write_enc by fastforce
  qed
  with session_path_files [OF p] show ?thesis by simp
qed

lemma detect_nothing: "dk_enc d = None \<Longrightarrow> dk_old d = None \<Longrightarrow> snd (detect_session E d) = NoSession"
  using session_path_files [of d]
  by (cases "session_path d") (auto simp: detect_session_def split: sum.splits)


lemma clear_empty_disk: "clear_session E empty_disk = (empty_disk, Ok ())"
  by (simp add: clear_session_def io_bind_def session_path_def config_dir_def fs_call_def if_exists_def
      empty_disk_def)


text \<open>With both files present only \<open>session.enc\<close> is cleared: the next start takes over
  \<open>session.json\<close>, so the session comes back.\<close>

lemma legacy_file_survives_logout:
  assumes "clear_session E d = (d', Ok u)" "dk_enc d \<noteq> None" "dk_old d = Some b"
    and "dk_has_dir d'" "dk_faults d' = []"
  shows "dk_enc (fst (detect_session E d')) = Some b"
proof -
  have f: "dk_enc d' = None" "dk_old d' = Some b"
    using clear_session_gone [OF assms(1)] clear_session_old [OF assms(1)] assms(2,3) by simp_all
  have "session_path d' = (d'\<lparr>dk_enc := Some b, dk_old := None\<rparr>, Ok ())"
    using f assms(4,5) by (simp add: session_path_def config_dir_def io_bind_def fs_call_def)
  then show ?thesis using assms(5)
    by (auto simp: detect_session_def fs_read_def io_bind_def fs_call_def io_lift_def
        split: sum.split option.split)
qed

section \<open>Composed text\<close>

definition open_matches :: "'o app \<Rightarrow> bool" where
  "open_matches a \<longleftrightarrow> (ap_focus a \<noteq> ContactList \<longrightarrow>
     (case selected_contact (ap_chat_list a) of
        None \<Rightarrow> True | Some c \<Rightarrow> cn_display_name c = cv_contact_name (ap_chat_view a)))"

text \<open>The inputs that put a contact list in place while a conversation is open: a finished
  authentication, the confirmation of a passphrase, and a contact added when none is selected.\<close>

definition reloads :: "'o app \<Rightarrow> app_input \<Rightarrow> bool" where
  "reloads a i \<longleftrightarrow> ap_focus a \<noteq> ContactList \<and>
     (case i of
        Internal (IntAuth (AuthSuccess _)) \<Rightarrow> True
      | Internal (InviteAccepted _ _) \<Rightarrow> selected_contact (ap_chat_list a) = None
      | Key k \<Rightarrow> ap_screen a = SetPassphrase \<and> kv_code k = KEnter
      | _ \<Rightarrow> False)"

fun no_reload :: "'o app_env \<Rightarrow> 'o app \<Rightarrow> app_input list \<Rightarrow> bool" where
  "no_reload X a [] = True"
| "no_reload X a (i # is) = (\<not> reloads a i \<and> no_reload X (app_step X a i) is)"

text \<open>What a step may touch without breaking the match.\<close>

definition same_chat :: "'o app \<Rightarrow> 'o app \<Rightarrow> bool" where
  "same_chat a b \<longleftrightarrow> ap_focus b = ap_focus a \<and> ap_chat_list b = ap_chat_list a
     \<and> cv_contact_name (ap_chat_view b) = cv_contact_name (ap_chat_view a)"

lemma same_chat_matches: "same_chat a b \<Longrightarrow> open_matches a \<Longrightarrow> open_matches b"
  by (cases "selected_contact (ap_chat_list a)") (simp_all add: same_chat_def open_matches_def)

lemma list_matches: "ap_focus b = ContactList \<Longrightarrow> open_matches b"
  by (simp add: open_matches_def)

lemma same_chat_refl [simp]: "same_chat a a"
  by (simp add: same_chat_def)

lemma same_chat_updates [simp]:
  "same_chat a (b\<lparr>ap_status := s1\<rparr>) = same_chat a b" "same_chat a (b\<lparr>ap_running := r\<rparr>) = same_chat a b"
  "same_chat a (b\<lparr>ap_screen := s0\<rparr>) = same_chat a b" "same_chat a (b\<lparr>ap_onboarding := s2\<rparr>) = same_chat a b"
  "same_chat a (b\<lparr>ap_device_link := s3\<rparr>) = same_chat a b" "same_chat a (b\<lparr>ap_unlock := s4\<rparr>) = same_chat a b"
  "same_chat a (b\<lparr>ap_registration := s5\<rparr>) = same_chat a b" "same_chat a (b\<lparr>ap_ticker := r\<rparr>) = same_chat a b"
  "same_chat a (b\<lparr>ap_session_key := s6\<rparr>) = same_chat a b" "same_chat a (b\<lparr>ap_pending_session := s7\<rparr>) = same_chat a b"
  "same_chat a (b\<lparr>ap_current_session := s7\<rparr>) = same_chat a b" "same_chat a (b\<lparr>ap_grpc := s8\<rparr>) = same_chat a b"
  "same_chat a (b\<lparr>ap_connection := s9\<rparr>) = same_chat a b" "same_chat a (b\<lparr>ap_search := s10\<rparr>) = same_chat a b"
  "same_chat a (b\<lparr>ap_safety := s11\<rparr>) = same_chat a b" "same_chat a (b\<lparr>ap_access_token := s12\<rparr>) = same_chat a b"
  "same_chat a (b\<lparr>ap_panicked := r\<rparr>) = same_chat a b" "same_chat a (b\<lparr>ap_disk := s13\<rparr>) = same_chat a b"
  "same_chat a (b\<lparr>ap_db := s14\<rparr>) = same_chat a b" "same_chat a (b\<lparr>ap_jobs := s15\<rparr>) = same_chat a b"
  "same_chat a (b\<lparr>ap_used := s16\<rparr>) = same_chat a b" "same_chat a (b\<lparr>ap_delete_confirm := s17\<rparr>) = same_chat a b"
  "same_chat a (orch_send m b) = same_chat a b"
  by (simp_all add: same_chat_def)

lemma same_chat_view [simp]:
  "same_chat a b \<Longrightarrow> cv_contact_name v = cv_contact_name (ap_chat_view b) \<Longrightarrow>
     same_chat a (b\<lparr>ap_chat_view := v\<rparr>)"
  by (simp add: same_chat_def)

lemma same_core_chat:
  "same_core a b \<Longrightarrow> cv_contact_name (ap_chat_view b) = cv_contact_name (ap_chat_view a) \<Longrightarrow> same_chat a b"
  by (simp add: same_core_def same_chat_def)

lemma view_name [simp]:
  "cv_contact_name (scroll_up n v) = cv_contact_name v" "cv_contact_name (scroll_down n v) = cv_contact_name v"
  "cv_contact_name (scroll_to_top v) = cv_contact_name v"
  "cv_contact_name (scroll_to_bottom v) = cv_contact_name v"
  "cv_contact_name (on_new_message v) = cv_contact_name v" "cv_contact_name (compose_push c v) = cv_contact_name v"
  "cv_contact_name (compose_pop v) = cv_contact_name v"
  by (simp_all add: scroll_up_def scroll_down_def scroll_to_top_def scroll_to_bottom_def
      on_new_message_def compose_push_def compose_pop_def)

text \<open>Entry screens and background messages that are not results of an authentication.\<close>

lemma entry_chat:
  "same_chat a (handle_onboarding k a)" "same_chat a (handle_device_link k a)"
  "same_chat a (handle_unlock X k a)" "same_chat a (leave_error a)" "same_chat a (auth_failed e a)"
  by (cases "kv_code k"; simp add: handle_onboarding_def start_auth_register_def handle_device_link_def
      start_auth_link_def handle_unlock_def take_passphrase_def try_unlock_def
      start_auth_restore_preloaded_def leave_error_def auth_failed_def handler_defs
      split: prod.split sum.split option.split)+

lemma send_composed_chat: "same_chat a (send_composed X a)"
  by (simp add: send_composed_def take_compose_def handler_defs split: option.split)

lemma bridge_chat: "same_chat a (handle_bridge_event X e a)"
  by (simp add: handle_bridge_event_def show_message_def handler_defs split: bridge_event.split bool.split)

lemma refresh_chat: "same_chat a (handle_token_refresh_msg X m a)"
  by (simp add: handle_token_refresh_msg_def persist_session_background_def save_current_def
      start_token_refresh_def start_device_reauth_def handler_defs
      split: token_refresh_msg.split option.split prod.split)

section \<open>Focus\<close>

lemma start_orchestrator_focus [simp]: "ap_focus (start_orchestrator X s u dev a) = ap_focus a"
proof -
  obtain ids b where l: "load_contacts X a = (ids, b)" by fastforce
  have "ap_focus (spawn_tasks X dv i is orch c) = ap_focus c" for dv i "is" orch c
    by (simp add: spawn_tasks_def spawn_job_def Let_def split: prod.split)
  then show ?thesis
    using load_contacts_frame [OF l]
    by (simp add: start_orchestrator_def l set_status_def Let_def split: option.split sum.split prod.split)
qed

lemma auth_succeeded_focus: "ap_focus (auth_succeeded X s a) = ap_focus a"
proof (cases "as_pending_save s")
  case None
  then show ?thesis by (simp add: auth_succeeded_def enter_main_def set_screen_def adopt_auth_def)
next
  case (Some p)
  obtain b r where sv: "save_current X p (start_token_refresh p (adopt_auth s a)) = (b, r)" by fastforce
  from save_current_frame [OF sv] have "ap_focus b = ap_focus a"
    by (simp add: start_token_refresh_def spawn_job_def adopt_auth_def)
  with Some sv show ?thesis
    by (simp add: auth_succeeded_def enter_main_def set_screen_def Let_def split: option.split sum.split)
qed

lemma finish_add_focus: "ap_focus (finish_add_contact u n a) = ap_focus a"
  by (simp add: finish_add_contact_def Let_def)

lemma overlay_actions_focus [simp]:
  "ap_focus (do_logout X a) = ap_focus a" "ap_focus (open_safety_number_screen X a) = ap_focus a"
  "ap_focus (export_identity_key X a) = ap_focus a"
  by (simp_all add: do_logout_def open_safety_number_screen_def peer_key_def export_identity_key_def
      handler_defs split: option.split prod.split sum.split)

lemma settings_focus: "ap_focus (handle_settings X k a) = ap_focus a"
proof -
  have "ap_focus (case settings_confirm (ap_settings a) of None \<Rightarrow> a | Some Back \<Rightarrow> set_screen MainScreen a
      | Some Logout \<Rightarrow> do_logout X a | Some ShowSafetyNumber \<Rightarrow> open_safety_number_screen X a
      | Some ExportKeys \<Rightarrow> export_identity_key X a | Some ShowMyQr \<Rightarrow> set_screen IdentityQr a) = ap_focus a"
    by (simp add: set_screen_def split: option.split settings_action.split)
  then show ?thesis by (simp add: handle_settings_def set_screen_def)
qed

lemma contact_search_focus: "ap_focus (handle_contact_search X k a) = ap_focus a"
  by (cases "kv_code k") (simp_all add: handle_contact_search_def add_selected_search_result_def finish_add_focus
      submit_contact_search_def redeem_pasted_invite_def handler_defs
      split: option.split sum.split)

lemma confirm_delete_focus: "ap_focus (confirm_delete a) = ap_focus a"
  by (simp add: confirm_delete_def handler_defs split: option.split prod.split sum.split)

section \<open>Where composed text goes\<close>

lemma set_focus_matches:
  assumes "case selected_contact (ap_chat_list a) of None \<Rightarrow> True
     | Some c \<Rightarrow> cn_display_name c = cv_contact_name (ap_chat_view a)"
  shows "open_matches (set_focus f a)"
  using assms
  by (cases "selected_contact (ap_chat_list a)") (simp_all add: open_matches_def set_focus_def selected_contact_def)

lemma open_matches_open:
  "open_matches a \<Longrightarrow> ap_focus a \<noteq> ContactList \<Longrightarrow>
   (case selected_contact (ap_chat_list a) of None \<Rightarrow> True
     | Some c \<Rightarrow> cn_display_name c = cv_contact_name (ap_chat_view a))"
  by (simp add: open_matches_def)

lemma keys_contact_list_matches:
  assumes "ap_focus a = ContactList"
  shows "open_matches (keys_contact_list X k a)"
proof -
  have o: "cv_contact_name (ap_chat_view (open_chat X c a)) = cn_display_name c"
    "ap_chat_list (open_chat X c a) = ap_chat_list a" for c
    by (simp_all add: open_chat_def Let_def split: prod.split)
  have "open_matches (set_focus ChatView
      (case selected_contact (ap_chat_list a) of Some c \<Rightarrow> open_chat X c a | None \<Rightarrow> a))"
    by (rule set_focus_matches) (simp add: o split: option.split)
  with assms show ?thesis
    by (simp add: keys_contact_list_def list_matches set_screen_def split: option.split)
qed

lemma keys_view_matches:
  assumes "open_matches a" "ap_focus a \<noteq> ContactList"
  shows "open_matches (keys_chat_view k a)" "open_matches (keys_compose X k a)"
proof -
  note sf = set_focus_matches [OF open_matches_open [OF assms]]
  have v: "open_matches (on_view f a)" if "cv_contact_name (f (ap_chat_view a)) = cv_contact_name (ap_chat_view a)" for f
    using that by (intro same_chat_matches [OF _ assms(1)]) (simp add: on_view_def)
  show "open_matches (keys_chat_view k a)" by (simp add: keys_chat_view_def sf v assms(1))
  show "open_matches (keys_compose X k a)"
    using same_chat_matches [OF send_composed_chat assms(1)]
    by (cases "kv_code k") (simp_all add: keys_compose_def sf v assms(1))
qed

lemma handle_main_matches:
  assumes "app_ok a" "open_matches a"
  shows "open_matches (handle_main X k a)"
proof (cases "ap_delete_confirm a")
  case None
  have q: "open_matches (quit_app a)" by (rule same_chat_matches [OF _ assms(2)]) (simp add: quit_app_def)
  show ?thesis
    using None q keys_contact_list_matches [of a] keys_view_matches [OF assms(2)]
    by (cases "ap_focus a") (simp_all add: handle_main_def)
next
  case (Some p)
  then have "ap_focus a = ContactList" using assms(1) by (simp add: app_ok_def overlays_ok_def)
  with Some show ?thesis by (simp add: handle_main_def list_matches confirm_delete_focus)
qed

lemma set_passphrase_matches:
  assumes "open_matches a" "\<not> (ap_focus a \<noteq> ContactList \<and> kv_code k = KEnter)"
  shows "open_matches (handle_set_passphrase X k a)"
proof (cases "ap_focus a = ContactList")
  case True
  have "ap_focus (protect_session X p s b) = ap_focus b" for p s b
    by (simp add: protect_session_def unlock_fail_def set_screen_def Let_def
        split: prod.split sum.split option.split)
  then have "ap_focus (handle_set_passphrase X k a) = ap_focus a"
    by (cases "kv_code k") (simp_all add: handle_set_passphrase_def take_passphrase_def unlock_fail_def
        Let_def split: option.split)
  with True show ?thesis by (simp add: list_matches)
next
  case False
  with assms show ?thesis
    by (cases "kv_code k") (auto simp: handle_set_passphrase_def intro!: same_chat_matches [OF _ assms(1)])
qed

lemma handle_event_matches:
  assumes "app_ok a" "open_matches a"
    "\<not> (ap_focus a \<noteq> ContactList \<and> ap_screen a = SetPassphrase \<and> kv_code k = KEnter)"
  shows "open_matches (handle_event X k a)"
proof -
  note e = entry_chat [THEN same_chat_matches [OF _ assms(2)]]
  have o: "overlay (ap_screen a) \<Longrightarrow> ap_focus a = ContactList" by (rule overlay_focus [OF assms(1)])
  have q: "open_matches (quit_app a)" by (rule same_chat_matches [OF _ assms(2)]) (simp add: quit_app_def)
  show ?thesis
    using o assms(2,3) e q
    by (cases "ap_screen a")
      (simp_all add: handle_event_def handle_main_matches assms(1) set_passphrase_matches list_matches
        settings_focus contact_search_focus set_screen_def)
qed

lemma auth_msg_matches:
  assumes "open_matches a" "\<not> (ap_focus a \<noteq> ContactList \<and> (\<exists>s. m = AuthSuccess s))"
  shows "open_matches (handle_auth_msg X m a)"
  using assms entry_chat(5) [THEN same_chat_matches [OF _ assms(1)]]
  by (cases m) (simp_all add: handle_auth_msg_def list_matches auth_succeeded_focus)

lemma finish_add_matches:
  assumes "app_ok a" "open_matches a" "ap_focus a \<noteq> ContactList \<longrightarrow> selected_contact (ap_chat_list a) \<noteq> None"
  shows "open_matches (finish_add_contact u n a)"
proof (cases "ap_focus a = ContactList")
  case True
  then show ?thesis by (simp add: list_matches finish_add_focus)
next
  case False
  then obtain c where c: "selected_contact (ap_chat_list a) = Some c" using assms(3) by auto
  have "selected_contact (ap_chat_list (finish_add_contact u n a)) = Some c"
    using selected_after_add [OF app_ok_chat_list [OF assms(1)] c]
    by (simp add: finish_add_contact_def Let_def)
  moreover have "cv_contact_name (ap_chat_view (finish_add_contact u n a)) = cv_contact_name (ap_chat_view a)"
    by (simp add: finish_add_contact_def Let_def)
  ultimately show ?thesis using assms(2) False c by (simp add: open_matches_def finish_add_focus)
qed

lemma handle_internal_matches:
  assumes "app_ok a" "open_matches a" "\<not> reloads a (Internal e)"
  shows "open_matches (handle_internal X e a)"
proof (cases e)
  case (IntAuth m)
  define b where "b = (if ap_screen a = ScreenRegistering
     then (stop_ticker a)\<lparr>ap_registration := (ap_registration a)\<lparr>rn_active_step := length STEPS\<rparr>\<rparr> else a)"
  have b: "same_chat a b" by (simp add: b_def)
  have "open_matches b" "ap_focus b = ap_focus a"
    using same_chat_matches [OF b assms(2)] by (simp_all add: b_def)
  moreover have "\<not> (ap_focus a \<noteq> ContactList \<and> (\<exists>s. m = AuthSuccess s))"
    using assms(3) IntAuth by (auto simp: reloads_def)
  moreover have "handle_internal X e a = handle_auth_msg X m b"
    unfolding handle_internal_def IntAuth b_def by (rule internal_event.case)
  ultimately show ?thesis by (simp only: auth_msg_matches simp_thms)
next
  case (InviteAccepted u n)
  with assms(3) have "ap_focus a \<noteq> ContactList \<longrightarrow> selected_contact (ap_chat_list a) \<noteq> None"
    by (auto simp: reloads_def)
  with InviteAccepted show ?thesis by (simp add: handle_internal_def finish_add_matches assms(1,2))
next
  case (IntBridge b)
  then show ?thesis using same_chat_matches [OF bridge_chat assms(2)] by (simp add: handle_internal_def)
next
  case (IntTokenRefresh m)
  then show ?thesis using same_chat_matches [OF refresh_chat assms(2)] by (simp add: handle_internal_def)
qed (simp_all add: handle_internal_def refresh_token_now_def spawn_job_def handle_p2p_status_def
    set_status_def same_chat_matches [OF _ assms(2)] split: option.split)

lemma app_step_matches:
  assumes "app_ok a" "open_matches a" "\<not> reloads a i"
  shows "open_matches (app_step X a i)"
proof (cases i)
  case (Key k)
  with assms show ?thesis by (auto simp: app_step_def reloads_def intro: handle_event_matches)
next
  case (Internal e)
  with assms show ?thesis by (simp add: app_step_def handle_internal_matches)
next
  case (World d f)
  then show ?thesis using assms(2) by (simp add: app_step_def same_chat_matches [OF _ assms(2)])
qed

lemma app_run_matches:
  "app_ok a \<Longrightarrow> open_matches a \<Longrightarrow> no_reload X a is \<Longrightarrow>
     app_ok (app_run X a is) \<and> open_matches (app_run X a is)"
proof (induction "is" arbitrary: a)
  case (Cons i "is")
  then have "app_ok (app_step X a i)" "open_matches (app_step X a i)"
    using app_step_ok app_step_matches by auto
  with Cons.IH Cons.prems(3) show ?case by (simp add: app_run_def)
qed (simp add: app_run_def)


text \<open>A state in which the conversation with Bob is open for writing.\<close>

definition writing_app :: "unit app" where
  "writing_app = sample_app\<lparr>ap_screen := MainScreen, ap_focus := Compose,
     ap_chat_list := \<lparr>cl_contacts = [\<lparr>cn_id = ''u1'', cn_display_name = ''ann'', cn_unread = 0, cn_last_message = None\<rparr>,
         \<lparr>cn_id = ''u2'', cn_display_name = ''bob'', cn_unread = 0, cn_last_message = None\<rparr>],
       cl_selected = Some 1, cl_focused = False\<rparr>,
     ap_chat_view := (chat_view_new ''bob'')\<lparr>cv_compose_focused := True\<rparr>,
     ap_current_session := Some sample_session, ap_orch := Some 0, ap_stream := Some 0,
     ap_read_storage := True, ap_tasks := [task_init () empty_db]\<rparr>"

lemma writing_app_ok: "app_ok writing_app"
  by (simp add: writing_app_def sample_app_def app_new_def app_ok_def panes_ok_def overlays_ok_def
      tasks_ok_def chat_list_ok_def chat_view_new_def)

lemma writing_app_matches: "open_matches writing_app"
  by (simp add: writing_app_def open_matches_def selected_contact_def nth_opt_def chat_view_new_def)

lemma type_key: "app_step X writing_app (Key (press (KChar 104)))
    = writing_app\<lparr>ap_chat_view := compose_push 104 (ap_chat_view writing_app)\<rparr>"
  by (simp add: writing_app_def app_step_def handle_event_def handle_main_def keys_compose_def on_view_def
      press_def ctrl_c_def is_char_def is_quit_def ch_def sample_app_def app_new_def)


section \<open>Where it goes after a re-authentication\<close>

text \<open>A device re-authentication in the background ends in \<open>AuthSuccess\<close>, which loads the contacts again
  and selects the first: text composed in another conversation then goes to that first contact.\<close>

lemma spawn_tasks_frame:
  "ap_chat_list (spawn_tasks X dv i ids orch c) = ap_chat_list c"
  "ap_chat_view (spawn_tasks X dv i ids orch c) = ap_chat_view c"
  "ap_orch (spawn_tasks X dv i ids orch c) = Some (length (ap_tasks c))"
  by (simp_all add: spawn_tasks_def spawn_job_def Let_def split: prod.split)

lemma start_orchestrator_selects_first:
  assumes "session_secrets (ax_auth X) s = Some (i, g, p, q)" "ax_new X i g p q u = Ok orch"
    and "ax_open X (map_option (\<lambda>sk. ky_database (sk_keys sk)) (ap_session_key a)) = Ok ()"
    and "get_contacts (ax_contact_order X) (ap_db a) = (d, Ok (c # cs))"
  shows "selected_contact (ap_chat_list (start_orchestrator X s u dev a)) = Some (contact_of_stored c)
     \<and> ap_chat_view (start_orchestrator X s u dev a) = ap_chat_view a"
  using assms
  by (simp add: start_orchestrator_def load_contacts_def spawn_tasks_frame selected_contact_def
      set_contacts_def nth_opt_def split: prod.split)

theorem reauth_redirects_composed_text:
  assumes "session_secrets (ax_auth X) (as_full_session s) = Some (i, g, p, q)"
    and "ax_new X i g p q (as_user_id s) = Ok orch"
    and "ax_open X (map_option (\<lambda>sk. ky_database (sk_keys sk)) (ap_session_key a)) = Ok ()"
    and "get_contacts (ax_contact_order X) (ap_db a) = (d, Ok (c # cs))"
    and "as_pending_save s = None" "ap_running a" "\<not> ap_panicked a" "ap_screen a \<noteq> ScreenRegistering"
  shows "let b = app_step X a (Internal (IntAuth (AuthSuccess s))) in
     selected_contact (ap_chat_list b) = Some (contact_of_stored c)
     \<and> ap_chat_view b = ap_chat_view a \<and> ap_focus b = ap_focus a \<and> ap_screen b = MainScreen"
proof -
  let ?a = "adopt_auth s a"
  have o: "ax_open X (map_option (\<lambda>sk. ky_database (sk_keys sk)) (ap_session_key ?a)) = Ok ()"
    "get_contacts (ax_contact_order X) (ap_db ?a) = (d, Ok (c # cs))" "ap_chat_view ?a = ap_chat_view a"
    "ap_focus ?a = ap_focus a"
    using assms(3,4) by (simp_all add: adopt_auth_def)
  show ?thesis
    using start_orchestrator_selects_first [OF assms(1,2) o(1,2), of "as_device_id s"] assms(5-8) o(3,4)
    by (simp add: app_step_def handle_internal_def handle_auth_msg_def auth_succeeded_def enter_main_def
        set_screen_def Let_def)
qed

section \<open>Smaller observations\<close>

text \<open>A message is shown in the conversation that is open, whoever sent it.\<close>

lemma message_shown_in_open_chat:
  "handle_bridge_event X (NewMessage peer i s t) a = handle_bridge_event X (NewMessage peer' i' s t') a
   \<and> (let v = ap_chat_view (handle_bridge_event X (NewMessage peer i s t) a)
      in cv_contact_name v = cv_contact_name (ap_chat_view a)
         \<and> map cm_text (cv_messages v) = map cm_text (cv_messages (ap_chat_view a)) @ [s])"
  by (simp add: handle_bridge_event_def show_message_def on_new_message_def handler_defs)

text \<open>A pasted invite without a user name whose id has a multi-byte character over its eighth byte ends
  the program.\<close>

lemma pasted_invite_can_panic:
  assumes "parse_invite (ax_invite X) raw = Ok i" "\<not> is_expired i (ie_now (ax_invite X))"
    and "iv_un i = None \<or> iv_un i = Some []" "8 < length (iv_uuid i)" "is_cont_char (iv_uuid i ! 8)"
  shows "ap_panicked (redeem_pasted_invite X raw a)"
  using assms by (auto simp: redeem_pasted_invite_def char_boundary_def Let_def)

text \<open>Deleting a contact empties the open conversation, also when it is another contact's.\<close>

lemma first_index_removed:
  assumes "distinct (map f xs)" "first_index (\<lambda>x. f x = v) xs = Some i"
  shows "i < length xs \<and> (\<forall>x \<in> set (take i xs @ drop (Suc i) xs). f x \<noteq> v)"
proof -
  have "\<exists>x \<in> set xs. f x = v" using assms(2) by (simp add: first_index_def split: if_splits)
  then obtain ys y zs where xs: "xs = ys @ y # zs" "f y = v" "\<forall>x \<in> set ys. f x \<noteq> v"
    using split_list_first_prop [of xs "\<lambda>x. f x = v"] by blast
  then have "i = length ys" using assms(2) by (simp add: first_index_def split: if_splits)
  moreover have "\<forall>x \<in> set zs. f x \<noteq> v" using assms(1) xs(1,2) by (auto simp: image_iff)
  ultimately show ?thesis using xs by auto
qed

lemma delete_empties_open_chat:
  assumes "distinct (map cn_id (cl_contacts (ap_chat_list a)))" "ap_delete_confirm a = Some peer"
    and "ap_read_storage a" "delete_contact (ap_db a) peer = (d, Ok n)"
  shows "cv_messages (ap_chat_view (confirm_delete a)) = []"
proof -
  let ?cs = "cl_contacts (ap_chat_list a)"
  have "list_all (\<lambda>c. cn_id c \<noteq> peer) (cl_contacts
      (case first_index (\<lambda>c. cn_id c = peer) ?cs of None \<Rightarrow> ap_chat_list a | Some i \<Rightarrow> remove_at i (ap_chat_list a)))"
  proof (cases "first_index (\<lambda>c. cn_id c = peer) ?cs")
    case None
    then show ?thesis by (auto simp: first_index_def list_all_iff split: if_splits)
  next
    case (Some i)
    then show ?thesis
      using first_index_removed [OF assms(1) Some] by (simp add: remove_at_def list_all_iff Let_def)
  qed
  then show ?thesis
    using assms by (simp add: confirm_delete_def handler_defs split: option.splits)
qed

text \<open>Nothing ties the result of a background task to the session it was started for, and logging out
  stops none of them. The refresh timer of a session that was logged out puts its tokens into the session
  of whoever is signed in by then; without one, its token is put back into the client.\<close>

lemma stale_refresh_overwrites_tokens:
  assumes "ap_running a" "\<not> ap_panicked a" "ap_current_session a = Some s"
  shows "let b = app_step X a (Internal (IntTokenRefresh (Refreshed access refresh expires))) in
     ap_current_session b = Some (s\<lparr>ss_access_token := access, ss_refresh_token := refresh, ss_expires_at := expires\<rparr>)
     \<and> cl_token (ap_grpc b) = Some access"
  using assms by (simp add: app_step_def handle_internal_def handle_token_refresh_msg_def build_updated_session_def
      persist_session_background_def save_current_def start_token_refresh_def set_token_def handler_defs
      case_prod_beta split: option.split)

lemma refresh_after_logout_restores_token:
  assumes "ap_running a" "\<not> ap_panicked a" "clear_session (ah_config (ax_auth X)) (ap_disk a) = (d, Ok u)"
  shows "cl_token (ap_grpc (app_step X (do_logout X a) (Internal (IntTokenRefresh (Refreshed access refresh expires)))))
     = Some access"
proof -
  have "ap_running (do_logout X a)" "\<not> ap_panicked (do_logout X a)" "ap_current_session (do_logout X a) = None"
    using assms by (simp_all add: do_logout_def stream_send_def spawn_job_def Let_def case_prod_beta split: option.split)
  then show ?thesis
    by (simp add: app_step_def handle_internal_def handle_token_refresh_msg_def build_updated_session_def
        set_token_def Let_def)
qed

end
