(* ===== verification/Message_Path.thy ===== *)
theory Message_Path
  imports Delivery Relay_Props App_Safety
begin

text \<open>
  The way of a text through both clients: the sender's actor wraps and hands it to the stream, the
  recipient's relay resolves the envelope, the recipient's actor stores it, moves the watermark and tells
  the application, which shows it. The two crypto cores are parameters; that the one decrypts what the
  other encrypted is a hypothesis.
\<close>

section \<open>The sender\<close>

lemma text_leaves_wrapped:
  assumes "co_has_session K (tk_core t) v" "tk_stream_full t = []"
    and "co_handle_event K (tk_core t) (OutgoingMessage v m (wrap_plaintext (oe_knst E) p m) c)
       = (k, [SendEncryptedMessage v payload m ct])"
  shows "tk_stream (run_event K E (OutgoingMessage v m p c) t) = tk_stream t @
     [CmdSend (build_envelope (oe_user E) (oe_device E) v payload m (content_type_from_u8 (ke_types (oe_knst E)) ct))]"
  using assms
  by (simp add: run_event_def prepare_outgoing_def process_event_def core_event_def dispatch_all_def dispatch_def
      dispatch_network_def stream_try_send_def new_cycle_def Let_def)

section \<open>The relay\<close>

lemma content_type_to_u8_uint [simp]: "content_type_to_u8 (uint c) = c"
proof -
  have "uint c < 256" using uint_bounded [of c] by simp
  then show ?thesis by (simp add: content_type_to_u8_def)
qed

lemma relay_plain_envelope:
  assumes "re_unpack R payload = Ok d"
  shows "relay_message R key (build_envelope u dev v payload m c) cur =
    [OrchCommand (StreamMessage
       (MessageReceived m u payload (dp_message_number d) (case dp_kem_ciphertext d of Some k \<Rightarrow> k | None \<Rightarrow> [])
          (dp_one_time_prekey_id d) (is_session_reset_control_type (re_types R) c) c)
       \<lparr>sc_contact_id = u, sc_message_id = m, sc_stream_cursor = cur, sc_content_type = c,
        sc_msg_num = dp_message_number d\<rparr>)]"
  using assms
  by (simp add: relay_message_def resolve_inbound_envelope_def build_envelope_def envelope_default_def
      direct_envelope_message_id_def forward_message_def Let_def)

section \<open>The recipient\<close>

lemma store_fresh_inbound:
  assumes "faults d = []" "sm_id r \<notin> message_ids d" "direction_ok (sm_direction r)"
  shows "store_inbound_message d r = (d\<lparr>messages := messages d @ [r]\<rparr>, Ok ())"
  using assms by (simp add: store_inbound_message_def stmt_def message_ids_def)

lemma decrypted_is_stored_and_shown:
  assumes "co_handle_event K (tk_core t) e = (k, [MessageDecrypted u m p])"
    and "faults (tk_db t) = []" "m \<notin> message_ids (tk_db t)"
    and "ct_pending (tk_cursor t) m = Some c" "cursor_ok c"
    and "\<And>x. stored_cursor (tk_db t) = Some x \<Longrightarrow> cursor_after c x"
  shows "let t' = process_event K E e t; s = decode_text (oe_knst E) p; now = sint (oe_clock E (tk_used t)) in
     messages (tk_db t') = messages (tk_db t) @ [received_message m u s now]
     \<and> tk_ui t' = tk_ui t @ [NewMessage u m s now]
     \<and> stored_cursor (tk_db t') = Some c"
proof -
  let ?s = "decode_text (oe_knst E) p" let ?now = "sint (oe_clock E (tk_used t))"
  let ?r = "received_message m u ?s ?now"
  let ?d = "(tk_db t)\<lparr>messages := messages (tk_db t) @ [?r]\<rparr>"
  have r: "sm_id ?r = m" "direction_ok (sm_direction ?r)" by (simp_all add: received_message_def direction_ok_def)
  have st: "store_inbound_message (tk_db t) ?r = (?d, Ok ())"
    using store_fresh_inbound [OF assms(2) _ r(2)] assms(3) r(1) by simp
  obtain c' d' where k: "tracker_commit (tk_cursor t) ?d m = (c', d')" by fastforce
  have "d' = fst (save_stream_cursor ?d c)"
    using k by (auto simp: tracker_commit_def tracker_persist_def assms(4) split: prod.splits sum.splits bool.splits)
  moreover have "stored_cursor (fst (save_stream_cursor ?d c)) = Some c"
    using save_stream_cursor_takes(1) [of ?d c] assms(2,6) cursor_ok_str [OF assms(5)]
    by (simp add: stored_cursor_def)
  ultimately have d': "stored_cursor d' = Some c" "messages d' = messages ?d"
    using save_stream_cursor_messages [of ?d c] by simp_all
  have "process_event K E e t
      = ui (NewMessage u m ?s ?now) (persist_inbound m ?r (t\<lparr>tk_core := k, tk_used := tk_used t + 1\<rparr>))"
    by (simp add: process_event_def core_event_def assms(1) dispatch_all_def dispatch_def new_cycle_def
        message_decrypted_arm_def show_received_def now_ms_u64_def Let_def)
  then show ?thesis using st k d' by (simp add: persist_inbound_def ui_def Let_def)
qed

section \<open>From one compose line to the other screen\<close>


definition plain_relay :: relay_env where
  "plain_relay = sample_relay\<lparr>re_unpack := (\<lambda>b. Ok \<lparr>dp_message_number = 3, dp_kem_ciphertext = None, dp_one_time_prekey_id = 0\<rparr>)\<rparr>"

lemma sample_chat_text: "chat_text sample_knst ''hi''"
proof -
  have "is_str ''hi''" by (rule is_str_ascii) simp
  then show ?thesis by (simp add: chat_text_def is_frame_def HEADER_SIZE_def sample_knst_def)
qed

lemma empty_task: "tk_stream_full (task_init k empty_db) = []" "tk_established (task_init k empty_db) = Map.empty"
  "faults (tk_db (task_init k empty_db)) = []" "message_ids (tk_db (task_init k empty_db)) = {}"
  "stored_cursor (tk_db (task_init k empty_db)) = None" "tk_core (task_init k empty_db) = k"
  "messages (tk_db (task_init k empty_db)) = []"
  by (simp_all add: task_init_def tracker_load_def load_stream_cursor_def secure_load_def stmt_def empty_db_def
      message_ids_def stored_cursor_def cursor_of_blob_def)


end
