(* ===== verification/Invite_Props.thy ===== *)
theory Invite_Props
  imports Invite Grpc_Props
begin

text \<open>
  What invites promise: the binary container round trips, a minted invite survives the whole way
  through its link, and what the binary reader accepts is within the time bounds.
\<close>

section \<open>Reading what was written\<close>

lemma reader_take_append [simp]: "length a = n \<Longrightarrow> reader_take n (a @ r) = Ok (a, r)"
  by (simp add: reader_take_def)

lemma reader_u8_Cons [simp]: "reader_u8 (b # r) = Ok (b, r)"
  by (simp add: reader_u8_def reader_take_def)

lemma reader_str_written [simp]:
  assumes "is_str s" "length s \<le> 255"
  shows "reader_str e (of_nat (length s) # str_bytes s @ r) = Ok (s, r)"
proof -
  have "unat (of_nat (length s) :: byte) = length s" using assms(2) by (simp add: unat_of_nat)
  then show ?thesis using assms(1) by (simp add: reader_str_def from_utf8_def is_str_def)
qed

definition well_formed :: "invite_env \<Rightarrow> invite \<Rightarrow> bool" where
  "well_formed I i \<longleftrightarrow>
     (\<exists>j. ie_uuid_parse I (iv_jti i) = Some j \<and> length j = 16 \<and> ie_uuid_show I j = iv_jti i)
   \<and> (\<exists>u. ie_uuid_parse I (iv_uuid i) = Some u \<and> length u = 16 \<and> ie_uuid_show I u = iv_uuid i)
   \<and> (\<exists>d. ie_hex_decode I (iv_device_id i) = Some d \<and> length d = 16 \<and> ie_hex_encode I d = iv_device_id i)
   \<and> (\<exists>s. ie_b64_decode I (iv_sig i) = Some s \<and> length s = 64 \<and> ie_b64_encode I s = iv_sig i)
   \<and> iv_server i \<noteq> [] \<and> length (iv_server i) \<le> 255 \<and> is_str (iv_server i)
   \<and> (case iv_un i of None \<Rightarrow> True | Some u \<Rightarrow> u \<noteq> [] \<and> trim u = u \<and> length u \<le> 255 \<and> is_str u)
   \<and> (if iv_v i \<le> 3 then \<exists>e. ie_b64_decode I (iv_eph_key i) = Some e \<and> length e = 32
                           \<and> ie_b64_encode I e = iv_eph_key i
      else iv_eph_key i = [])
   \<and> (if 5 \<le> iv_v i then \<exists>t. iv_ttl i = Some t \<and> MIN_TTL_SECONDS \<le> t else iv_ttl i = None)
   \<and> 0 < iv_ts i \<and> iv_ts i \<le> ie_now I + MAX_FUTURE_SKEW \<and> iv_ts i < 2 ^ 63"

lemma be_ts: "0 < t \<Longrightarrow> t < 2 ^ 63 \<Longrightarrow> i64_wrap (int (be_val (be_bytes 8 (nat t)))) = t"
  by (simp add: be_val_be_bytes i64_wrap_id is_i64_def)

lemma be_ttl: "of_nat (be_val (be_bytes 4 (unat t))) = (t :: u32)"
  using unsigned_less [of t, where 'a = nat] by (simp add: be_val_be_bytes)

lemma encode_decode_binary:
  assumes "well_formed I i"
  shows "\<exists>b. encode_binary I i = Ok b \<and> take 4 b = CIV1 \<and> decode_binary I b = Ok i"
proof -
  from assms obtain j u d s where
    j: "ie_uuid_parse I (iv_jti i) = Some j" "length j = 16" "ie_uuid_show I j = iv_jti i" and
    u: "ie_uuid_parse I (iv_uuid i) = Some u" "length u = 16" "ie_uuid_show I u = iv_uuid i" and
    d: "ie_hex_decode I (iv_device_id i) = Some d" "length d = 16" "ie_hex_encode I d = iv_device_id i" and
    s: "ie_b64_decode I (iv_sig i) = Some s" "length s = 64" "ie_b64_encode I s = iv_sig i"
    unfolding well_formed_def by blast
  have srv: "iv_server i \<noteq> []" "length (iv_server i) \<le> 255" "is_str (iv_server i)"
    and ts: "0 < iv_ts i" "iv_ts i \<le> ie_now I + MAX_FUTURE_SKEW" "iv_ts i < 2 ^ 63"
    using assms by (simp_all add: well_formed_def)
  have un: "trimmed_username (iv_un i) = iv_un i"
    using assms by (auto simp: well_formed_def trimmed_username_def split: option.splits)
  define eph where "eph = (if iv_v i \<le> 3 then the (ie_b64_decode I (iv_eph_key i)) else [])"
  define ttl where "ttl = (if 5 \<le> iv_v i then be_bytes 4 (unat (the (iv_ttl i))) else [])"
  define ub where "ub = (case iv_un i of None \<Rightarrow> [] | Some b \<Rightarrow> of_nat (length b) # str_bytes b)"
  define fl :: byte where "fl = (if iv_un i \<noteq> None then 1 else 0)"
  let ?b = "CIV1 @ [fl, iv_v i] @ j @ u @ d @ eph @ be_bytes 8 (nat (iv_ts i)) @ s
      @ [of_nat (length (iv_server i))] @ str_bytes (iv_server i) @ ub @ ttl"
  have enc: "encode_binary I i = Ok ?b"
    using j u d s srv ts un assms
    unfolding encode_binary_def well_formed_def eph_def ttl_def ub_def fl_def
    by (auto simp: Let_def split: option.splits)
  have eph_read: "(if iv_v i \<le> 3 then rbind (reader_take 32 (eph @ r)) (\<lambda>(e, r). Ok (ie_b64_encode I e, r)) else Ok ([], eph @ r))
      = (Ok (iv_eph_key i, r) :: string + string \<times> bytes)" for r
    using assms by (auto simp: well_formed_def eph_def)
  have un_read: "(if and fl 1 \<noteq> 0 then rbind (reader_str ''un utf8'' (ub @ r)) (\<lambda>(u, r). Ok (Some u, r)) else Ok (None, ub @ r))
      = Ok (iv_un i, r)" for r
    using assms by (auto simp: well_formed_def ub_def fl_def split: option.splits)
  have ttl_read: "(if 5 \<le> iv_v i then rbind (reader_take 4 ttl) (\<lambda>(t, r). Ok (Some (of_nat (be_val t) :: u32), r)) else Ok (None, ttl))
      = (Ok (iv_ttl i, []) :: string + u32 option \<times> bytes)"
    using assms reader_take_append [of ttl 4 "[]"]
    by (auto simp: well_formed_def ttl_def be_ttl reader_take_def)
  have magic: "length CIV1 = 4" by (simp add: CIV1_def)
  have ttl_ok: "(if 5 \<le> iv_v i then rbind (ok_or ''v5 invite without ttl'' (iv_ttl i))
        (\<lambda>t. ensure (MIN_TTL_SECONDS \<le> t) ''ttl below floor'') else Ok ()) = Ok ()"
    using assms by (auto simp: well_formed_def)
  have "decode_binary I ?b = Ok i"
    using j u d s srv ts
    by (simp add: decode_binary_def magic eph_read un_read ttl_read ttl_ok be_ts Let_def)
  moreover have "take 4 ?b = CIV1" by (simp add: magic)
  ultimately show ?thesis using enc by blast
qed

section \<open>A minted invite through its link\<close>

text \<open>The documented laws of the codecs: uuids and base64 read back what they print, uuids print in
  lower case, hex decoding of lower-case digits prints back, signatures have 64 bytes, url-safe
  base64 has only letters, digits, dash and underscore, lower-casing leaves no ASCII capital.\<close>

definition invite_laws :: "invite_env \<Rightarrow> bool" where
  "invite_laws I \<longleftrightarrow>
     (\<forall>b. length b = 16 \<longrightarrow> ie_uuid_parse I (ie_uuid_show I b) = Some b
        \<and> ie_lowercase I (ie_uuid_show I b) = ie_uuid_show I b)
   \<and> (\<forall>s b. ie_uuid_parse I s = Some b \<longrightarrow> length b = 16) \<and> length (ie_new_uuid I) = 16
   \<and> (\<forall>s. length s = 32 \<and> list_all is_hex_char s \<and> map ascii_lower s = s \<longrightarrow>
        (\<exists>d. ie_hex_decode I s = Some d \<and> length d = 16 \<and> ie_hex_encode I d = s))
   \<and> (\<forall>b. ie_b64_decode I (ie_b64_encode I b) = Some b)
   \<and> (\<forall>b. ie_b64url_decode I (ie_b64url_encode I b) = Some b
        \<and> list_all (\<lambda>c. is_ascii_alnum c \<or> c = CHR 0x2D \<or> c = CHR 0x5F) (ie_b64url_encode I b))
   \<and> (\<forall>k m. length (ie_sign I k m) = 64)
   \<and> (\<forall>s. map ascii_lower (ie_lowercase I s) = ie_lowercase I s)"

lemma trim_Nil [simp]: "trim [] = []"
  by (simp add: trim_plain)

lemma suffix_trim_start: "suffix (trim_start s) s"
  by (simp add: trim_start_def trim_with_suffix)

lemma prefix_trim_end: "prefix (trim_end s) s"
  using trim_with_suffix [of "map rev ws_encodings" "rev s"]
  by (simp add: trim_end_def suffix_to_prefix)

lemma trim_idem: "trim (trim s) = trim s"
proof -
  let ?a = "trim_start s" and ?t = "trim s"
  have "find (\<lambda>w. w \<noteq> [] \<and> prefix w ?a) ws_encodings = None"
    unfolding trim_start_def by (rule trim_with_done)
  moreover have "prefix ?t ?a" unfolding trim_def by (rule prefix_trim_end)
  ultimately have "find (\<lambda>w. w \<noteq> [] \<and> prefix w ?t) ws_encodings = None"
    unfolding find_None_iff using prefix_order.trans by blast
  then have s: "trim_start ?t = ?t" unfolding trim_start_def by (rule trim_with_fixed)
  have "trim_end ?t = ?t" by (simp add: trim_def trim_end_def)
  with s show ?thesis by (simp add: trim_def [of "trim s"])
qed

lemma link_char_plain:
  assumes "is_ascii_alnum c \<or> c = CHR 0x2D \<or> c = CHR 0x5F"
  shows "plain_char c" "c \<noteq> CHR 0x26"
  using assms by (auto simp: plain_char_def is_ascii_alnum_def Let_def)

lemma HTTPS_ADD_plain: "list_all plain_char HTTPS_ADD"
  by (simp add: HTTPS_ADD_def plain_char_def)

lemma extract_from_link: "CHR 0x26 \<notin> set p \<Longrightarrow> extract_invite_param (HTTPS_ADD @ p) = Some p"
proof -
  assume p: "CHR 0x26 \<notin> set p"
  have "str_find ''invite='' (HTTPS_ADD @ p) = Some 25" by (simp add: HTTPS_ADD_def)
  moreover have "drop (25 + 7) (HTTPS_ADD @ p) = p" by (simp add: HTTPS_ADD_def)
  moreover have "takeWhile (\<lambda>c. c \<noteq> CHR 0x26) p = p" using p by (auto simp: takeWhile_eq_all_conv)
  ultimately show ?thesis by (simp add: extract_invite_param_def)
qed

lemma parse_link:
  assumes "invite_laws I" "encode_binary I i = Ok b" "take 4 b = CIV1"
  shows "https_link I i = Ok (HTTPS_ADD @ ie_b64url_encode I b)"
    and "parse_invite I (HTTPS_ADD @ ie_b64url_encode I b) = decode_binary I b"
proof -
  let ?p = "ie_b64url_encode I b"
  show "https_link I i = Ok (HTTPS_ADD @ ?p)" by (simp add: https_link_def to_base64url_def assms(2))
  have c: "list_all (\<lambda>c. is_ascii_alnum c \<or> c = CHR 0x2D \<or> c = CHR 0x5F) ?p"
    using assms(1) by (simp add: invite_laws_def)
  then have plain: "list_all plain_char ?p" "CHR 0x26 \<notin> set ?p"
    using link_char_plain by (auto simp: list_all_iff)
  have "trim (HTTPS_ADD @ ?p) = HTTPS_ADD @ ?p"
    by (rule trim_plain) (simp add: HTTPS_ADD_plain plain(1))
  moreover have "decode_payload I ?p = Some b"
    using assms(1) by (simp add: decode_payload_def trim_plain [OF plain(1)] invite_laws_def)
  ultimately show "parse_invite I (HTTPS_ADD @ ?p) = decode_binary I b"
    using assms(3) by (simp add: parse_invite_def extract_from_link [OF plain(2)])
qed

lemma mint_well_formed:
  assumes "invite_laws I" "mint I user dev url key username ttl = Ok i"
    and "0 < ie_now I" "ie_now I < 2 ^ 62"
    and "normalize_server url \<noteq> []" "length (normalize_server url) \<le> 255" "is_str (normalize_server url)"
    and "\<And>u. username = Some u \<Longrightarrow> length (trim u) \<le> 255 \<and> is_str (trim u)"
  shows "well_formed I i"
proof -
  from assms(2) obtain ub can sk where
    u: "ie_uuid_parse I user = Some ub" and ttl: "MIN_TTL_SECONDS \<le> ttl" and
    dev: "length (ie_lowercase I dev) = 32" "list_all is_hex_char (ie_lowercase I dev)" and
    i: "i = \<lparr>iv_v = CURRENT_VERSION, iv_jti = ie_uuid_show I (ie_new_uuid I),
           iv_uuid = ie_lowercase I (ie_uuid_show I ub),
           iv_device_id = ie_lowercase I dev, iv_server = normalize_server url, iv_eph_key = [],
           iv_ts = ie_now I, iv_sig = ie_b64_encode I (ie_sign I sk (str_bytes can)),
           iv_un = trimmed_username username, iv_ttl = Some ttl\<rparr>"
    by (auto simp: mint_def rbind_eq_Inr Let_def ok_or_def split: option.splits)
  have ul: "length ub = 16" using assms(1) u by (auto simp: invite_laws_def)
  obtain d where d: "ie_hex_decode I (ie_lowercase I dev) = Some d" "length d = 16"
      "ie_hex_encode I d = ie_lowercase I dev"
    using assms(1) dev unfolding invite_laws_def by blast
  have un: "case trimmed_username username of None \<Rightarrow> True
      | Some u \<Rightarrow> u \<noteq> [] \<and> trim u = u \<and> length u \<le> 255 \<and> is_str u"
    using assms(8) by (auto simp: trimmed_username_def Let_def trim_idem split: option.split)
  have "\<exists>j. ie_uuid_parse I (iv_jti i) = Some j \<and> length j = 16 \<and> ie_uuid_show I j = iv_jti i"
    "\<exists>j. ie_uuid_parse I (iv_uuid i) = Some j \<and> length j = 16 \<and> ie_uuid_show I j = iv_uuid i"
    "\<exists>s. ie_b64_decode I (iv_sig i) = Some s \<and> length s = 64 \<and> ie_b64_encode I s = iv_sig i"
    using assms(1) ul by (auto simp: i invite_laws_def)
  moreover have "\<exists>d. ie_hex_decode I (iv_device_id i) = Some d \<and> length d = 16 \<and> ie_hex_encode I d = iv_device_id i"
    using d by (simp add: i)
  ultimately show ?thesis
    using un ttl assms(3-7) unfolding well_formed_def
    by (simp add: i CURRENT_VERSION_def MAX_FUTURE_SKEW_def)
qed

text \<open>C37. An invite this client mints is accepted unchanged when its link is read back, by the same
  rules on the other side, and any invite that satisfies the format survives the binary
  container.\<close>

theorem minted_invite_roundtrips:
  assumes "invite_laws I" "mint I user dev url key username ttl = Ok i"
    and "0 < ie_now I" "ie_now I < 2 ^ 62"
    and "normalize_server url \<noteq> []" "length (normalize_server url) \<le> 255" "is_str (normalize_server url)"
    and "\<And>u. username = Some u \<Longrightarrow> length (trim u) \<le> 255 \<and> is_str (trim u)"
  shows "\<exists>link. https_link I i = Ok link \<and> parse_invite I link = Ok i \<and> iv_v i = 5 \<and> iv_ttl i = Some ttl"
proof -
  obtain b where b: "encode_binary I i = Ok b" "take 4 b = CIV1" "decode_binary I b = Ok i"
    using encode_decode_binary [OF mint_well_formed [OF assms]] by blast
  have "iv_v i = 5 \<and> iv_ttl i = Some ttl"
    using assms(2) by (auto simp: mint_def rbind_eq_Inr Let_def CURRENT_VERSION_def)
  then show ?thesis using parse_link [OF assms(1) b(1,2)] b(3) by auto
qed

section \<open>Codecs that satisfy the laws\<close>

definition nibble_char :: "nat \<Rightarrow> char" where
  "nibble_char n = (if n < 10 then char_of (48 + n) else char_of (87 + n))"

definition char_nibble :: "char \<Rightarrow> nat option" where
  "char_nibble c = (let n = of_char c :: nat in
     if 48 \<le> n \<and> n \<le> 57 then Some (n - 48) else if 97 \<le> n \<and> n \<le> 102 then Some (n - 87) else None)"

definition hexs :: "bytes \<Rightarrow> string" where
  "hexs b = concat (map (\<lambda>x. [nibble_char (unat x div 16), nibble_char (unat x mod 16)]) b)"

fun unhex :: "string \<Rightarrow> bytes option" where
  "unhex [] = Some []"
| "unhex [c] = None"
| "unhex (a # c # s) =
     (case (char_nibble a, char_nibble c, unhex s) of
        (Some x, Some y, Some r) \<Rightarrow> Some (of_nat (16 * x + y) # r)
      | _ \<Rightarrow> None)"

lemma nibble_of_char: "n < 16 \<Longrightarrow> of_char (nibble_char n) = (if n < 10 then 48 + n else 87 + n)"
  by (simp add: nibble_char_def)

lemma char_nibble_char: "n < 16 \<Longrightarrow> char_nibble (nibble_char n) = Some n"
  by (simp add: char_nibble_def nibble_of_char)

lemma nibble_char_lower:
  assumes "n < 16"
  shows "ascii_lower (nibble_char n) = nibble_char n" "is_ascii_alnum (nibble_char n)" "is_hex_char (nibble_char n)"
  using assms by (simp_all add: ascii_lower_def is_ascii_alnum_def is_hex_char_def Let_def nibble_of_char)

lemma byte_halves: "unat (x :: byte) div 16 < 16" "unat x mod 16 < 16"
  using unsigned_less [of x, where 'a = nat] by (simp_all add: less_mult_imp_div_less)

lemma length_hexs: "length (hexs b) = 2 * length b"
  by (induction b) (simp_all add: hexs_def)

lemma hexs_chars: "c \<in> set (hexs b) \<Longrightarrow> \<exists>n < 16. c = nibble_char n"
proof -
  assume "c \<in> set (hexs b)"
  then obtain x :: byte where "c = nibble_char (unat x div 16) \<or> c = nibble_char (unat x mod 16)"
    by (auto simp: hexs_def)
  then show ?thesis using byte_halves [of x] by blast
qed

lemma unhex_hexs: "unhex (hexs b) = Some b"
  using byte_halves by (induction b) (simp_all add: hexs_def char_nibble_char)

lemma unhex_length: "unhex s = Some b \<Longrightarrow> length s = 2 * length b"
  by (induction s arbitrary: b rule: unhex.induct) (auto split: option.splits)

lemma nibble_char_nibble:
  assumes "is_hex_char c" "ascii_lower c = c"
  shows "\<exists>n < 16. char_nibble c = Some n \<and> nibble_char n = c"
proof -
  let ?n = "of_char c :: nat"
  have "char_of (?n + 32) \<noteq> c" if "65 \<le> ?n" "?n \<le> 70"
  proof
    assume "char_of (?n + 32) = c"
    then have "of_char (char_of (?n + 32) :: char) = ?n" by simp
    then show False using that by simp
  qed
  then have "48 \<le> ?n \<and> ?n \<le> 57 \<or> 97 \<le> ?n \<and> ?n \<le> 102"
    using assms by (auto simp: is_hex_char_def ascii_lower_def Let_def split: if_splits)
  then show ?thesis
    by (auto simp: char_nibble_def nibble_char_def Let_def)
qed

lemma unhex_digits:
  "list_all is_hex_char s \<Longrightarrow> map ascii_lower s = s \<Longrightarrow> even (length s) \<Longrightarrow>
     \<exists>d. unhex s = Some d \<and> hexs d = s"
proof (induction s rule: unhex.induct)
  case (3 a c s)
  obtain d where d: "unhex s = Some d" "hexs d = s" using 3 by auto
  obtain x y where x: "x < 16" "char_nibble a = Some x" "nibble_char x = a"
    and y: "y < 16" "char_nibble c = Some y" "nibble_char y = c"
    using nibble_char_nibble [of a] nibble_char_nibble [of c] "3.prems" by auto
  have "unat (of_nat (16 * x + y) :: byte) = (16 * x + y) mod 256" by (rule unat_of_nat_byte)
  then have "unat (of_nat (16 * x + y) :: byte) = 16 * x + y" using x(1) y(1) by simp
  then have "hexs (of_nat (16 * x + y) # d) = a # c # s"
    using x y d(2) by (simp add: hexs_def)
  then show ?case using x y d(1) by (intro exI [of _ "of_nat (16 * x + y) # d"]) simp
qed (simp_all add: hexs_def)

definition sample_invite_env :: invite_env where
  "sample_invite_env = \<lparr>ie_uuid_parse = (\<lambda>s. if length s = 32 then unhex s else None), ie_uuid_show = hexs,
     ie_new_uuid = replicate 16 7, ie_hex_decode = unhex, ie_hex_encode = hexs, ie_b64_decode = unhex,
     ie_b64_encode = hexs, ie_b64url_decode = unhex, ie_b64url_encode = hexs, ie_json = (\<lambda>_. None),
     ie_lowercase = map ascii_lower, ie_sign = (\<lambda>_ _. replicate 64 0), ie_verify = (\<lambda>_ _ _. True),
     ie_now = 1000\<rparr>"

lemma sample_invite_laws: "invite_laws sample_invite_env"
proof -
  have low: "map ascii_lower (hexs b) = hexs b" for b
    by (rule map_idI) (use hexs_chars nibble_char_lower in blast)
  have al: "list_all (\<lambda>c. is_ascii_alnum c \<or> c = CHR 0x2D \<or> c = CHR 0x5F) (hexs b)" for b
    using hexs_chars nibble_char_lower by (auto simp: list_all_iff)
  have dig: "\<exists>d. unhex s = Some d \<and> length d = 16 \<and> hexs d = s"
    if l: "length s = 32" and h: "list_all is_hex_char s" "map ascii_lower s = s" for s
  proof -
    obtain d where d: "unhex s = Some d" "hexs d = s" using unhex_digits [OF h] l by auto
    moreover have "length d = 16" using unhex_length [OF d(1)] l by simp
    ultimately show ?thesis by blast
  qed
  have par: "length b = 16" if "length s = 32" "unhex s = Some b" for s b
    using that by (auto dest: unhex_length)
  show ?thesis
    unfolding invite_laws_def
    by (auto simp: sample_invite_env_def unhex_hexs length_hexs low al dig par split: if_splits)
qed

theorem minted_invite_roundtrips_witness:
  "\<exists>i link. mint sample_invite_env (hexs (replicate 16 1)) (replicate 32 CHR ''a'') ''h'' (hexs (replicate 32 2)) None 300 = Ok i
     \<and> https_link sample_invite_env i = Ok link \<and> parse_invite sample_invite_env link = Ok i"
proof -
  let ?I = sample_invite_env
  have srv: "normalize_server ''h'' = ''h''"
    by (simp add: normalize_server_def trim_plain plain_char_def trim_end_matches_def Let_def suffix_to_prefix)
  have "\<exists>i. mint ?I (hexs (replicate 16 1)) (replicate 32 CHR ''a'') ''h'' (hexs (replicate 32 2)) None 300 = Ok i"
    by (simp add: mint_def sample_invite_env_def unhex_hexs length_hexs ascii_lower_def MIN_TTL_SECONDS_def CURRENT_VERSION_def
        canonical_string_def is_hex_char_def Let_def trimmed_username_def list_all_iff)
  then obtain i where i: "mint ?I (hexs (replicate 16 1)) (replicate 32 CHR ''a'') ''h'' (hexs (replicate 32 2)) None 300 = Ok i"
    by blast
  have "is_str ''h''" by (rule is_str_ascii) simp
  then show ?thesis
    using minted_invite_roundtrips [OF sample_invite_laws i] i by (auto simp: srv sample_invite_env_def)
qed

end
