(* ===== verification/Grpc_Stream.thy ===== *)
theory Grpc_Stream
  imports Grpc_Props Stream_Props
begin

text \<open>
  \<open>grpc/stream.rs\<close>, \<open>open_message_stream\<close>, and its use by the worker of \<open>streaming.rs\<close>: the opening of
  the bidirectional stream over the client that all RPCs share, and when \<open>send_h2_data\<close> returns.
\<close>

section \<open>Opening the stream\<close>

definition MESSAGING_STREAM :: string where
  "MESSAGING_STREAM = ''/shared.proto.services.v1.MessagingService/MessageStream''"

text \<open>\<open>request_id\<close> is the drawn uuid, \<open>enc\<close> is \<open>MessageStreamRequest::encode_to_vec\<close>. The handle of the
  opened stream is the session of the client.\<close>

definition subscription :: "(stream_request \<Rightarrow> bytes) \<Rightarrow> string list \<Rightarrow> string option \<Rightarrow> string \<Rightarrow> bytes" where
  "subscription enc conversation_ids since_cursor request_id =
     encode_frame (enc \<lparr>sr_body = ReqSubscribe conversation_ids since_cursor False, sr_request_id = request_id\<rparr>)"

definition opening_outcome :: "grpc_env \<Rightarrow> exchange \<Rightarrow> grpc_error + unit" where
  "opening_outcome E x =
     (case ex_open x of
        Some e \<Rightarrow> Err (Transport (''open MessageStream: '' @ e))
      | None \<Rightarrow>
          (case ex_data x of
             Some e \<Rightarrow> Err e
           | None \<Rightarrow>
               (case ex_reply x of
                  Err e \<Rightarrow> Err (Transport (''MessageStream recv_response: '' @ e))
                | Ok r \<Rightarrow>
                    if hr_status r \<noteq> 200
                    then Err (Transport (''MessageStream HTTP '' @ ge_status_text E (hr_status r)))
                    else check_grpc_status (hr_headers r))))"

definition open_message_stream ::
  "grpc_env \<Rightarrow> (stream_request \<Rightarrow> bytes) \<Rightarrow> grpc_client \<Rightarrow> string list \<Rightarrow> string option \<Rightarrow> string
    \<Rightarrow> grpc_client \<times> (grpc_error + unit)" where
  "open_message_stream E enc c conversation_ids since_cursor request_id =
     (case send_request_handle E c of
        (c, Err e) \<Rightarrow> (c, Err e)
      | (c, Ok _) \<Rightarrow>
          (let (token, device_id) = auth_headers c;
               req = \<lparr>hq_path = MESSAGING_STREAM,
                 hq_headers = apply_auth_headers (ge_version E) [(''host'', authority c)] token device_id,
                 hq_body = subscription enc conversation_ids since_cursor request_id\<rparr>
           in case ge_bad_request E req of
                Some e \<Rightarrow> (c, Err (Transport (''build stream request: '' @ e)))
              | None \<Rightarrow> (c\<lparr>cl_sent := cl_sent c @ [req]\<rparr>,
                         opening_outcome E (ge_exchange E (length (cl_sent c)) req))))"

lemma open_message_stream_ensure:
  "open_message_stream E enc c conversation_ids since_cursor request_id =
     (case ensure_session E c of
        (c, Err e) \<Rightarrow> (c, Err e)
      | (c, Ok _) \<Rightarrow>
          (let req = \<lparr>hq_path = MESSAGING_STREAM,
                 hq_headers = apply_auth_headers (ge_version E) [(''host'', authority c)]
                                (cl_token c) (cl_device_id c),
                 hq_body = subscription enc conversation_ids since_cursor request_id\<rparr>
           in case ge_bad_request E req of
                Some e \<Rightarrow> (c, Err (Transport (''build stream request: '' @ e)))
              | None \<Rightarrow> (c\<lparr>cl_sent := cl_sent c @ [req]\<rparr>,
                         opening_outcome E (ge_exchange E (length (cl_sent c)) req))))"
proof (cases "ensure_session E c")
  case (Pair c' r)
  then show ?thesis
    using send_request_after_ensure [of E c c']
    by (cases r) (auto simp: open_message_stream_def send_request_handle_def auth_headers_def)
qed

text \<open>The worker drops the session first, so that the stream gets a connection of its own.\<close>

definition worker_open ::
  "grpc_env \<Rightarrow> (stream_request \<Rightarrow> bytes) \<Rightarrow> worker_env \<Rightarrow> cursor_tracker
    \<Rightarrow> worker \<times> grpc_client \<Rightarrow> worker \<times> grpc_client" where
  "worker_open E enc W t s =
     (let (w, c) = s; since = ct_committed t;
          (c, r) = open_message_stream E enc (invalidate c) (w_users w) since (we_uuid W (w_fresh w))
      in (worker_step W (w\<lparr>w_fresh := w_fresh w + 1\<rparr>) (Opened since r), c))"

section \<open>What an opening promises\<close>

definition opening_request ::
  "grpc_env \<Rightarrow> (stream_request \<Rightarrow> bytes) \<Rightarrow> grpc_client \<Rightarrow> string list \<Rightarrow> string option \<Rightarrow> string \<Rightarrow> http_request" where
  "opening_request E enc c ids since i = \<lparr>hq_path = MESSAGING_STREAM,
     hq_headers = apply_auth_headers (ge_version E) [(''host'', authority c)] (cl_token c) (cl_device_id c),
     hq_body = subscription enc ids since i\<rparr>"

lemma opening_request_cong:
  "same_identity c c' \<Longrightarrow> opening_request E enc c' = opening_request E enc c"
  by (simp add: same_identity_def opening_request_def authority_def fun_eq_iff)

lemma opening_request_headers:
  "map_of (hq_headers (opening_request E enc c ids since i)) ''authorization''
     = map_option (\<lambda>t. ''Bearer '' @ t) (cl_token c)"
  "map_of (hq_headers (opening_request E enc c ids since i)) ''x-device-id'' = cl_device_id c"
  "hq_path (opening_request E enc c ids since i) = MESSAGING_STREAM"
  "hq_body (opening_request E enc c ids since i) = subscription enc ids since i"
  by (simp_all add: opening_request_def apply_auth_headers_def split: option.split)

definition exchange_accepted :: "exchange \<Rightarrow> bool" where
  "exchange_accepted x \<longleftrightarrow> ex_open x = None \<and> ex_data x = None
     \<and> (case ex_reply x of Err _ \<Rightarrow> False
        | Ok r \<Rightarrow> hr_status r = 200 \<and> check_grpc_status (hr_headers r) = Ok ())"

lemma opening_outcome_Ok:
  "opening_outcome E x = Ok () \<longleftrightarrow> exchange_accepted x" "Ok () = opening_outcome E x \<longleftrightarrow> exchange_accepted x"
  by (auto simp: opening_outcome_def exchange_accepted_def split: option.split sum.split)

lemma open_message_stream_result:
  assumes "open_message_stream E enc c ids since i = (c', r)"
  shows "same_identity c c'"
    and "cl_sent c' = cl_sent c \<or> cl_sent c' = cl_sent c @ [opening_request E enc c ids since i]"
    and "cl_session c = None \<Longrightarrow> cl_dials c' = Suc (cl_dials c)"
    and "r = Ok () \<Longrightarrow> cl_sent c' = cl_sent c @ [opening_request E enc c ids since i]
       \<and> cl_session c' \<noteq> None
       \<and> exchange_accepted (ge_exchange E (length (cl_sent c)) (opening_request E enc c ids since i))"
    and "r \<noteq> Ok () \<Longrightarrow> cl_sent c' = cl_sent c
       \<or> \<not> exchange_accepted (ge_exchange E (length (cl_sent c)) (opening_request E enc c ids since i))"
proof -
  obtain c1 r1 where e: "ensure_session E c = (c1, r1)" by fastforce
  note e' = ensure_session_result [OF e]
  let ?q = "opening_request E enc c ids since i"
  have q: "opening_request E enc c1 ids since i = ?q" using e' opening_request_cong by metis
  have d: "cl_session c = None \<Longrightarrow> cl_dials c1 = Suc (cl_dials c)"
    using e by (auto simp: ensure_session_def split: sum.splits)
  have "open_message_stream E enc c ids since i = (case r1 of Err e \<Rightarrow> (c1, Err e) | Ok _ \<Rightarrow>
      (let q = opening_request E enc c1 ids since i in case ge_bad_request E q of
         Some e \<Rightarrow> (c1, Err (Transport (''build stream request: '' @ e)))
       | None \<Rightarrow> (c1\<lparr>cl_sent := cl_sent c1 @ [q]\<rparr>, opening_outcome E (ge_exchange E (length (cl_sent c1)) q))))"
    by (simp add: open_message_stream_ensure e opening_request_def split: sum.split)
  then have "open_message_stream E enc c ids since i = (case r1 of Err e \<Rightarrow> (c1, Err e) | Ok _ \<Rightarrow>
      (case ge_bad_request E ?q of
         Some e \<Rightarrow> (c1, Err (Transport (''build stream request: '' @ e)))
       | None \<Rightarrow> (c1\<lparr>cl_sent := cl_sent c1 @ [?q]\<rparr>, opening_outcome E (ge_exchange E (length (cl_sent c1)) ?q))))"
    unfolding q Let_def .
  note o = this [unfolded assms]
  show "same_identity c c'" using o e'
    by (auto simp: same_identity_def split: sum.splits option.splits)
  show "cl_sent c' = cl_sent c \<or> cl_sent c' = cl_sent c @ [?q]" using o e'
    by (auto split: sum.splits option.splits)
  show "cl_session c = None \<Longrightarrow> cl_dials c' = Suc (cl_dials c)" using o d
    by (auto split: sum.splits option.splits)
  show "r = Ok () \<Longrightarrow> cl_sent c' = cl_sent c @ [?q] \<and> cl_session c' \<noteq> None
       \<and> exchange_accepted (ge_exchange E (length (cl_sent c)) ?q)"
    using o e' by (auto simp: opening_outcome_Ok same_identity_def split: sum.splits option.splits)
  show "r \<noteq> Ok () \<Longrightarrow> cl_sent c' = cl_sent c \<or> \<not> exchange_accepted (ge_exchange E (length (cl_sent c)) ?q)"
    using o e' by (auto simp: opening_outcome_Ok split: sum.splits option.splits)
qed

lemma refused_opening:
  "w_events (start_backoff E (if b then emit EvAuthRequired w else w))
     = w_events w @ (if b then [EvAuthRequired] else [])
         @ [EvReconnecting (w_attempt w + 1) (backoff_delay (we_rand E (w_fresh w)) (w_attempt w))]"
  by (simp add: start_backoff_def emit_def Let_def)

lemma go_live_events:
  "EvConnected \<in> set (drop (length (w_events w)) (w_events (go_live E w)))
   \<and> EvAuthRequired \<notin> set (drop (length (w_events w)) (w_events (go_live E w)))"
proof -
  let ?w = "emit EvConnected ((flush E (w_queue w) w)\<lparr>w_attempt := 0\<rparr>)"
  obtain ok v where h: "send_heartbeat E ?w = (ok, v)" by fastforce
  then have "w_events v = w_events w @ [EvConnected]"
    using send_request_events by (fastforce simp: send_heartbeat_def emit_def flush_events)
  then show ?thesis
    using h by (cases ok) (simp_all add: go_live_def Let_def lose_stream_def start_backoff_def emit_def)
qed

text \<open>C22. The worker opens its stream on a connection of its own, dialled after the shared session was
  dropped, with at most one request, which carries the current token and device and, as its first
  frame, the subscription to its conversations from the committed cursor. It reports itself connected
  exactly when that request was sent and answered with HTTP 200 and a good gRPC status; otherwise it
  backs off with the buffer as it was and nothing sent, after asking for a new token when the server
  called it unauthenticated.\<close>

theorem stream_opening_sound:
  assumes "w_phase w = Opening" "worker_open E enc W t (w, c) = (w', c')"
    and "q = opening_request E enc c (w_users w) (ct_committed t) (we_uuid W (w_fresh w))"
    and "r = snd (open_message_stream E enc (invalidate c) (w_users w) (ct_committed t) (we_uuid W (w_fresh w)))"
  shows "let new = drop (length (w_events w)) (w_events w');
             accepted = (cl_sent c' = cl_sent c @ [q] \<and> exchange_accepted (ge_exchange E (length (cl_sent c)) q))
    in cl_dials c' = Suc (cl_dials c)
    \<and> (cl_sent c' = cl_sent c \<or> cl_sent c' = cl_sent c @ [q])
    \<and> map_of (hq_headers q) ''authorization'' = map_option (\<lambda>t. ''Bearer '' @ t) (cl_token c)
    \<and> map_of (hq_headers q) ''x-device-id'' = cl_device_id c
    \<and> (EvConnected \<in> set new \<longleftrightarrow> accepted)
    \<and> (\<not> accepted \<longrightarrow> w_phase w' = Backoff \<and> w_queue w' = w_queue w \<and> w_wire w' = w_wire w)
    \<and> (EvAuthRequired \<in> set new \<longleftrightarrow> (\<exists>e. r = Err e \<and> is_unauthenticated e))"
proof -
  let ?i = "we_uuid W (w_fresh w)" let ?w = "w\<lparr>w_fresh := w_fresh w + 1\<rparr>"
  let ?new = "drop (length (w_events w)) (w_events w')"
  let ?acc = "cl_sent c' = cl_sent c @ [q] \<and> exchange_accepted (ge_exchange E (length (cl_sent c)) q)"
  obtain c1 where o: "open_message_stream E enc (invalidate c) (w_users w) (ct_committed t) ?i = (c1, r)"
    using assms(4) by (metis prod.collapse)
  have w': "w' = step_opening W (ct_committed t) r ?w" "c' = c1"
    using assms(1,2) o by (simp_all add: worker_open_def worker_step_def)
  have "same_identity c (invalidate c)" by (simp add: same_identity_def invalidate_def)
  then have q: "opening_request E enc (invalidate c) (w_users w) (ct_committed t) ?i = q"
    using opening_request_cong assms(3) by metis
  note R = open_message_stream_result [OF o, unfolded q]
  have dials: "cl_dials c' = Suc (cl_dials c)" "cl_sent c' = cl_sent c \<or> cl_sent c' = cl_sent c @ [q]"
    using R(2,3) w'(2) by (simp_all add: invalidate_def)
  have heads: "map_of (hq_headers q) ''authorization'' = map_option (\<lambda>t. ''Bearer '' @ t) (cl_token c)"
    "map_of (hq_headers q) ''x-device-id'' = cl_device_id c"
    using opening_request_headers assms(3) by simp_all
  have acc: "?acc \<longleftrightarrow> r = Ok ()" using R(4,5) w'(2) by (cases "r = Ok ()") (auto simp: invalidate_def)
  have "(EvConnected \<in> set ?new \<longleftrightarrow> r = Ok ())
    \<and> (r \<noteq> Ok () \<longrightarrow> w_phase w' = Backoff \<and> w_queue w' = w_queue w \<and> w_wire w' = w_wire w)
    \<and> (EvAuthRequired \<in> set ?new \<longleftrightarrow> (\<exists>e. r = Err e \<and> is_unauthenticated e))"
  proof (cases r)
    case (Inr u)
    then show ?thesis
      using w'(1) go_live_events [of "?w\<lparr>w_opens := w_opens w @ [(w_users w, ct_committed t)]\<rparr>" W]
      by (simp add: step_opening_def Let_def)
  next
    case (Inl e)
    then show ?thesis using w'(1) by (simp add: step_opening_def Let_def refused_opening)
  qed
  then show ?thesis using dials heads acc by (simp add: Let_def)
qed

text \<open>A network that accepts the one stream, and one that calls every stream unauthenticated.\<close>

definition answering :: "string \<Rightarrow> grpc_env" where
  "answering status = \<lparr>ge_connect = (\<lambda>_ _ _. Ok ()),
     ge_exchange = (\<lambda>_ _. \<lparr>ex_open = None, ex_data = None, ex_end = None,
        ex_reply = Ok \<lparr>hr_status = 200, hr_headers = [(''grpc-status'', status)], hr_body = [], hr_trailers = None\<rparr>\<rparr>),
     ge_bad_request = (\<lambda>_. None), ge_status_text = dec_of_nat, ge_version = ''0''\<rparr>"

definition sample_client :: grpc_client where
  "sample_client = \<lparr>cl_host = ''h'', cl_port = 443, cl_session = Some 0, cl_token = Some ''t'',
     cl_device_id = Some ''d'', cl_dials = 1, cl_sent = []\<rparr>"

lemma unauthenticated_reply: "check_grpc_status [(''grpc-status'', ''16'')] = Err (Unauthenticated [])"
  by (simp add: check_grpc_status_def header_str_def parse_uint_def is_digit_def digits_val_def)

theorem stream_opening_sound_witness:
  "\<forall>W enc. let (w', c') = worker_open (answering ''16'') enc W \<lparr>ct_committed = None, ct_pending = Map.empty\<rparr>
      ((worker_init [''ann''])\<lparr>w_phase := Opening\<rparr>, sample_client)
    in EvAuthRequired \<in> set (w_events w') \<and> EvConnected \<notin> set (w_events w') \<and> w_phase w' = Backoff
       \<and> cl_dials c' = 2"
proof (intro allI)
  fix W enc
  let ?t = "\<lparr>ct_committed = None, ct_pending = Map.empty\<rparr>" let ?w = "(worker_init [''ann''])\<lparr>w_phase := Opening\<rparr>"
  obtain w' c' where run: "worker_open (answering ''16'') enc W ?t (?w, sample_client) = (w', c')" by fastforce
  let ?o = "open_message_stream (answering ''16'') enc (invalidate sample_client) (w_users ?w)
      (ct_committed ?t) (we_uuid W (w_fresh ?w))"
  have o: "snd ?o = Err (Unauthenticated [])"
    by (simp add: open_message_stream_ensure ensure_session_def invalidate_def sample_client_def answering_def
        opening_outcome_def unauthenticated_reply)
  have "w_phase ?w = Opening" by simp
  from stream_opening_sound [OF this run refl o [symmetric]]
  have "EvAuthRequired \<in> set (w_events w') \<and> EvConnected \<notin> set (w_events w') \<and> w_phase w' = Backoff \<and> cl_dials c' = 2"
    by (simp add: Let_def exchange_accepted_def answering_def unauthenticated_reply is_unauthenticated_def
        worker_init_def sample_client_def)
  then show "let (w', c') = worker_open (answering ''16'') enc W ?t (?w, sample_client)
    in EvAuthRequired \<in> set (w_events w') \<and> EvConnected \<notin> set (w_events w') \<and> w_phase w' = Backoff
       \<and> cl_dials c' = 2"
    by (simp add: run)
qed

section \<open>Sending a frame\<close>

text \<open>A poll of the flow control that ends the wait for \<open>needed\<close> bytes.\<close>

fun settles :: "nat \<Rightarrow> capacity_poll \<Rightarrow> bool" where
  "settles needed (Granted n held) \<longleftrightarrow> needed \<le> n \<or> needed \<le> held"
| "settles needed _ \<longleftrightarrow> True"

fun fits_window :: "nat \<Rightarrow> capacity_poll \<Rightarrow> bool" where
  "fits_window window (Granted n held) \<longleftrightarrow> n \<le> window \<and> held \<le> window"
| "fits_window window _ \<longleftrightarrow> False"

lemma wait_capacity_settles: "wait_capacity needed ps \<noteq> None \<longleftrightarrow> (\<exists>p \<in> set ps. settles needed p)"
proof (induction ps)
  case (Cons p ps)
  then show ?case by (cases p) simp_all
qed simp

lemma wait_capacity_first:
  assumes "\<forall>p \<in> set ps. \<not> settles needed p" "settles needed p"
  shows "wait_capacity needed (ps @ p # qs) = wait_capacity needed [p]"
  using assms
proof (induction ps)
  case Nil
  then show ?case by (cases p) simp_all
next
  case (Cons x ps)
  then show ?case by (cases x) simp_all
qed

lemma fits_never_settles: "fits_window window p \<Longrightarrow> window < needed \<Longrightarrow> \<not> settles needed p"
  by (cases p) simp_all

text \<open>C40. Sending a frame returns exactly when the capacity at hand already covers the whole frame or
  the flow control yields, at some poll, a grant that covers it, an error or the end; success means the
  first such poll was a grant. So it never returns for a frame longer than the largest window the peer
  ever grants, however many grants come.\<close>

theorem send_h2_data_returns:
  "(send_h2_data capacity polls send_error data \<noteq> None
      \<longleftrightarrow> length data \<le> capacity \<or> (\<exists>p \<in> set polls. settles (length data) p))
   \<and> (\<forall>ps p qs. polls = ps @ p # qs \<and> (\<forall>x \<in> set ps. \<not> settles (length data) x) \<and> settles (length data) p
        \<and> capacity < length data \<longrightarrow>
        (send_h2_data capacity polls send_error data = Some (Ok ())
          \<longleftrightarrow> (\<exists>n held. p = Granted n held) \<and> send_error = None))
   \<and> (\<forall>window. capacity \<le> window \<and> window < length data \<and> (\<forall>p \<in> set polls. fits_window window p) \<longrightarrow>
        send_h2_data capacity polls send_error data = None)"
proof (intro conjI allI impI)
  have none: "send_h2_data capacity polls send_error data = None
      \<longleftrightarrow> capacity < length data \<and> wait_capacity (length data) polls = None" for polls
    by (simp add: send_h2_data_def split: option.split sum.split)
  then show "send_h2_data capacity polls send_error data \<noteq> None
      \<longleftrightarrow> length data \<le> capacity \<or> (\<exists>p \<in> set polls. settles (length data) p)"
    using wait_capacity_settles [of "length data" polls] by auto
  fix ps p qs
  assume a: "polls = ps @ p # qs \<and> (\<forall>x \<in> set ps. \<not> settles (length data) x) \<and> settles (length data) p
        \<and> capacity < length data"
  then have "wait_capacity (length data) polls = wait_capacity (length data) [p]"
    using wait_capacity_first by blast
  then show "send_h2_data capacity polls send_error data = Some (Ok ())
          \<longleftrightarrow> (\<exists>n held. p = Granted n held) \<and> send_error = None"
    using a by (cases p) (simp_all add: send_h2_data_def split: option.split)
next
  fix window
  assume "capacity \<le> window \<and> window < length data \<and> (\<forall>p \<in> set polls. fits_window window p)"
  then show "send_h2_data capacity polls send_error data = None"
    using fits_never_settles wait_capacity_settles [of "length data" polls]
    by (auto simp: send_h2_data_def split: option.split)
qed

theorem send_h2_data_returns_witness:
  "send_h2_data 0 [Granted 1 1, Granted 2 3] None [7, 7, 7] = Some (Ok ())
   \<and> send_h2_data 0 [Granted 1 1, Granted 2 2] None [7, 7, 7] = None"
proof
  let ?d = "[7, 7, 7] :: bytes"
  have ps: "[Granted 1 1, Granted 2 3] = [Granted 1 1] @ Granted 2 3 # []"
    "\<forall>x \<in> set [Granted 1 1]. \<not> settles (length ?d) x" "settles (length ?d) (Granted 2 3)" "0 < length ?d"
    by simp_all
  show "send_h2_data 0 [Granted 1 1, Granted 2 3] None ?d = Some (Ok ())"
    using send_h2_data_returns [of 0 "[Granted 1 1, Granted 2 3]" None ?d] ps by blast
  have "0 \<le> (2::nat) \<and> 2 < length ?d \<and> (\<forall>p \<in> set [Granted 1 1, Granted 2 2]. fits_window 2 p)" by simp
  then show "send_h2_data 0 [Granted 1 1, Granted 2 2] None ?d = None"
    using send_h2_data_returns [of 0 "[Granted 1 1, Granted 2 2]" None ?d] by blast
qed

end
