(* ===== verification/Draw.thy ===== *)
theory Draw
  imports Screens
begin

text \<open>
  The vocabulary of the drawing code: rectangles of terminal cells, styled text, the widgets of ratatui
  as the data the client hands to it, and the QR widget (\<open>screens/qr_widget.rs\<close>).

  A frame is the list of widgets that are drawn, each with its rectangle, in the order of the calls.
  What ratatui does with a widget (wrapping, clipping, cells) is not code of the repository; what the
  client takes back from other crates is the parameter \<open>draw_env\<close>. Drawing code that can panic
  returns an option.
\<close>

section \<open>Rectangles\<close>

record rect =
  r_x :: u16
  r_y :: u16
  r_width :: u16
  r_height :: u16

definition sat_sub :: "u16 \<Rightarrow> u16 \<Rightarrow> u16" where
  "sat_sub a b = (if b \<le> a then a - b else 0)"

text \<open>\<open>u16::div_ceil(2)\<close> and the cast \<open>as u16\<close> of a length.\<close>

definition half_up :: "u16 \<Rightarrow> u16" where
  "half_up n = n div 2 + n mod 2"

definition len16 :: "'a list \<Rightarrow> u16" where
  "len16 xs = of_nat (length xs)"

text \<open>The column and the row at which something of a given size is centred.\<close>

definition centre_x :: "rect \<Rightarrow> u16 \<Rightarrow> u16" where
  "centre_x area w = r_x area + sat_sub (r_width area) w div 2"

definition centre_y :: "rect \<Rightarrow> u16 \<Rightarrow> u16" where
  "centre_y area h = r_y area + sat_sub (r_height area) h div 2"

section \<open>Characters of a string\<close>

text \<open>\<open>chars().count()\<close>, \<open>chars().take(n)\<close> and the left-aligned padding of \<open>format!\<close>.\<close>

definition char_count :: "string \<Rightarrow> nat" where
  "char_count s = length (filter (\<lambda>c. \<not> is_cont_char c) s)"

fun take_chars :: "nat \<Rightarrow> string \<Rightarrow> string" where
  "take_chars n [] = []"
| "take_chars n (c # s) =
     (if is_cont_char c then c # take_chars n s
      else if n = 0 then [] else c # take_chars (n - 1) s)"

definition pad_right :: "nat \<Rightarrow> string \<Rightarrow> string" where
  "pad_right n s = s @ replicate (n - char_count s) (CHR 0x20)"

definition glyph :: "rchar \<Rightarrow> string" where
  "glyph = utf8_encode"

lemma char_count_simps [simp]:
  "char_count [] = 0" "char_count (c # s) = (if is_cont_char c then 0 else 1) + char_count s"
  "char_count (s @ t) = char_count s + char_count t"
  by (simp_all add: char_count_def)

lemma char_count_le: "char_count s \<le> length s"
  by (simp add: char_count_def)

lemma char_count_take_chars: "char_count (take_chars n s) = min n (char_count s)"
  by (induction s arbitrary: n) (auto simp: min_def)

lemma take_chars_prefix: "prefix (take_chars n s) s"
  by (induction s arbitrary: n) auto

section \<open>Styled text and widgets\<close>

datatype color = Reset | Black | Red | Green | Yellow | Magenta | Cyan | White | DarkGray

record style =
  sy_fg :: "color option"
  sy_bg :: "color option"
  sy_bold :: bool
  sy_dim :: bool

definition style_default :: style where
  "style_default = \<lparr>sy_fg = None, sy_bg = None, sy_bold = False, sy_dim = False\<rparr>"

definition fg :: "color \<Rightarrow> style" where
  "fg c = style_default\<lparr>sy_fg := Some c\<rparr>"

definition bold :: "style \<Rightarrow> style" where
  "bold s = s\<lparr>sy_bold := True\<rparr>"

definition on_color :: "color \<Rightarrow> style \<Rightarrow> style" where
  "on_color c s = s\<lparr>sy_bg := Some c\<rparr>"

record span =
  sp_text :: string
  sp_style :: style

definition styled :: "string \<Rightarrow> style \<Rightarrow> span" where
  "styled s y = \<lparr>sp_text = s, sp_style = y\<rparr>"

definition raw_span :: "string \<Rightarrow> span" where
  "raw_span s = styled s style_default"

type_synonym text_line = "span list"

record block =
  bk_title :: "string option"
  bk_borders :: bool
  bk_border_style :: style
  bk_style :: style

definition bordered :: "string option \<Rightarrow> style \<Rightarrow> block" where
  "bordered t y = \<lparr>bk_title = t, bk_borders = True, bk_border_style = y, bk_style = style_default\<rparr>"

text \<open>The text of a paragraph, given as a string or as lines.\<close>

datatype content = Plain string | Lines "text_line list"

record par_widget =
  pg_content :: content
  pg_style :: style
  pg_block :: "block option"
  pg_wrap :: "bool option"        \<comment> \<open>the trim flag of \<open>Wrap\<close>\<close>
  pg_centred :: bool

definition par :: "content \<Rightarrow> style \<Rightarrow> par_widget" where
  "par c y = \<lparr>pg_content = c, pg_style = y, pg_block = None, pg_wrap = None, pg_centred = False\<rparr>"

record list_widget =
  lw_items :: "text_line list list"
  lw_block :: "block option"
  lw_highlight :: style
  lw_symbol :: string
  lw_selected :: "nat option"

datatype widget =
    Paragraph par_widget
  | Block block
  | RowList list_widget
  | Clear

type_synonym frame = "(rect \<times> widget) list"

text \<open>A text of one line, centred over the area and cut to its width.\<close>

definition centred_row :: "rect \<Rightarrow> u16 \<Rightarrow> u16 \<Rightarrow> content \<Rightarrow> style \<Rightarrow> rect \<times> widget" where
  "centred_row area y w c s =
     (\<lparr>r_x = centre_x area w, r_y = y, r_width = min w (r_width area), r_height = 1\<rparr>, Paragraph (par c s))"

section \<open>What other crates give back\<close>

datatype direction = Vertical | Horizontal

datatype size_constraint = MinSize u16 | ExactSize u16 | Percentage u16

text \<open>
  \<open>de_inner\<close> is \<open>Block::inner\<close>, \<open>de_split\<close> is \<open>Layout::split\<close>, \<open>de_list\<close> the selection a list of that many
  items leaves in its \<open>ListState\<close>, \<open>de_qr\<close> the width and the modules (dark is true, row by row) of
  \<open>QrCode::with_error_correction_level(data, EcLevel::M)\<close>.
\<close>

record draw_env =
  de_inner :: "block \<Rightarrow> rect \<Rightarrow> rect"
  de_split :: "direction \<Rightarrow> size_constraint list \<Rightarrow> rect \<Rightarrow> rect list"
  de_list :: "nat \<Rightarrow> rect \<Rightarrow> nat option \<Rightarrow> nat option"
  de_qr :: "string \<Rightarrow> (nat \<times> bool list) option"

text \<open>The documented behaviour the drawing relies on: one rectangle per constraint, a list
  keeps a selected row, and no selection, a QR code is a square of modules.\<close>

definition split_law :: "draw_env \<Rightarrow> bool" where
  "split_law E \<longleftrightarrow> (\<forall>d cs r. length (de_split E d cs r) = length cs)"

definition list_law :: "draw_env \<Rightarrow> bool" where
  "list_law E \<longleftrightarrow> (\<forall>n r. de_list E n r None = None)
     \<and> (\<forall>n r i. i < n \<longrightarrow> de_list E n r (Some i) = Some i)"

definition qr_law :: "draw_env \<Rightarrow> bool" where
  "qr_law E \<longleftrightarrow> (\<forall>d m raw. de_qr E d = Some (m, raw) \<longrightarrow> length raw = m * m)"

definition draw_laws :: "draw_env \<Rightarrow> bool" where
  "draw_laws E \<longleftrightarrow> split_law E \<and> list_law E \<and> qr_law E"

text \<open>An instance: every split gives the whole rectangle, a selection is cut to the list, and a QR code is one
  dark module.\<close>

definition plain_draw :: draw_env where
  "plain_draw =
     \<lparr>de_inner = (\<lambda>b r. if bk_borders b
        then \<lparr>r_x = r_x r + 1, r_y = r_y r + 1, r_width = sat_sub (r_width r) 2,
              r_height = sat_sub (r_height r) 2\<rparr> else r),
      de_split = (\<lambda>d cs r. map (\<lambda>_. r) cs),
      de_list = (\<lambda>n r s. case s of None \<Rightarrow> None | Some i \<Rightarrow> if n = 0 then None else Some (min i (n - 1))),
      de_qr = (\<lambda>d. if length d < 2000 then Some (1, [True]) else None)\<rparr>"

lemma plain_draw_laws: "draw_laws plain_draw" "split_law plain_draw" "qr_law plain_draw"
  by (auto simp: draw_laws_def split_law_def list_law_def qr_law_def plain_draw_def split: if_splits)

text \<open>Splitting in two and indexing the result, which panics when it is shorter.\<close>

definition split2 :: "draw_env \<Rightarrow> direction \<Rightarrow> size_constraint \<Rightarrow> size_constraint \<Rightarrow> rect \<Rightarrow> (rect \<times> rect) option" where
  "split2 E d c1 c2 r =
     (let cs = de_split E d [c1, c2] r
      in Option.bind (nth_opt cs 0) (\<lambda>a. Option.bind (nth_opt cs 1) (\<lambda>b. Some (a, b))))"

lemma split2_defined: "split_law E \<Longrightarrow> \<exists>a b. split2 E d c1 c2 r = Some (a, b)"
  unfolding split2_def split_law_def Let_def by (simp add: nth_opt_def del: length_greater_0_conv)

section \<open>The QR widget\<close>

definition QUIET :: nat where
  "QUIET = 2"

record qr_widget =
  qw_data :: string
  qw_caption :: "string option"
  qw_fg :: color
  qw_bg :: color

definition qr_widget_new :: "string \<Rightarrow> qr_widget" where
  "qr_widget_new data = \<lparr>qw_data = data, qw_caption = None, qw_fg = White, qw_bg = Reset\<rparr>"

definition qr_with_caption :: "string \<Rightarrow> qr_widget \<Rightarrow> qr_widget" where
  "qr_with_caption c w = w\<lparr>qw_caption := Some c\<rparr>"

definition size_hint :: "draw_env \<Rightarrow> string \<Rightarrow> (u16 \<times> u16) option" where
  "size_hint E data =
     map_option (\<lambda>(modules, _).
        (of_nat (modules + QUIET * 2), half_up (of_nat (modules + QUIET * 2)))) (de_qr E data)"

text \<open>One module copied into the padded grid; an index out of range is a panic.\<close>

definition qr_put :: "nat \<Rightarrow> bool list \<Rightarrow> bool list option \<Rightarrow> nat \<times> nat \<Rightarrow> bool list option" where
  "qr_put modules raw g rc =
     (let (row, col) = rc; padded = modules + QUIET * 2; i = (row + QUIET) * padded + (col + QUIET)
      in case g of
           None \<Rightarrow> None
         | Some g \<Rightarrow> (case nth_opt raw (row * modules + col) of
              None \<Rightarrow> None
            | Some b \<Rightarrow> if i < length g then Some (g[i := b]) else None))"

definition padded_grid :: "nat \<Rightarrow> bool list \<Rightarrow> bool list option" where
  "padded_grid modules raw =
     (let padded = modules + QUIET * 2
      in foldl (qr_put modules raw) (Some (replicate (padded * padded) False))
           (List.product [0..<modules] [0..<modules]))"

definition half_block :: "bool \<Rightarrow> bool \<Rightarrow> string" where
  "half_block upper lower =
     (case (upper, lower) of
        (True, True) \<Rightarrow> glyph 0x2588 | (True, False) \<Rightarrow> glyph 0x2580
      | (False, True) \<Rightarrow> glyph 0x2584 | (False, False) \<Rightarrow> '' '')"

definition qr_line :: "qr_widget \<Rightarrow> nat \<Rightarrow> bool list \<Rightarrow> nat \<Rightarrow> text_line" where
  "qr_line w padded grid half_row =
     (let top_row = half_row * 2; bot_row = half_row * 2 + 1
      in map (\<lambda>col.
           let upper = top_row < padded \<and> grid ! (top_row * padded + col);
               lower = bot_row < padded \<and> grid ! (bot_row * padded + col)
           in styled (half_block upper lower) (on_color (qw_bg w) (fg (qw_fg w)))) [0..<padded])"

definition qr_lines :: "qr_widget \<Rightarrow> nat \<Rightarrow> bool list \<Rightarrow> text_line list" where
  "qr_lines w padded grid =
     map (qr_line w padded grid) [0..<(padded + 1) div 2]
     @ (case qw_caption w of None \<Rightarrow> [] | Some cap \<Rightarrow> [[styled cap (fg DarkGray)]])"

definition qr_unavailable :: string where
  "qr_unavailable = ''[ QR unavailable ]''"

definition draw_qr :: "draw_env \<Rightarrow> qr_widget \<Rightarrow> rect \<Rightarrow> frame option" where
  "draw_qr E w area =
     (case de_qr E (qw_data w) of
        None \<Rightarrow> Some (if 0 < r_height area
          then [(\<lparr>r_x = centre_x area (len16 qr_unavailable), r_y = r_y area,
                  r_width = len16 qr_unavailable, r_height = 1\<rparr>,
                 Paragraph (par (Plain qr_unavailable) (fg DarkGray)))]
          else [])
      | Some (modules, raw) \<Rightarrow>
          (case padded_grid modules raw of
             None \<Rightarrow> None
           | Some grid \<Rightarrow>
               (let padded = modules + QUIET * 2; lines = qr_lines w padded grid;
                    qr_w = of_nat padded; qr_h = len16 lines
                in Some [(\<lparr>r_x = centre_x area qr_w, r_y = centre_y area qr_h,
                           r_width = min qr_w (r_width area), r_height = min qr_h (r_height area)\<rparr>,
                          Paragraph (par (Lines lines) style_default))])))"

end
