(* ===== verification/Screens_Draw.thy ===== *)
theory Screens_Draw
  imports Draw
begin

text \<open>
  The \<open>render\<close> functions of the screens (\<open>screens/*.rs\<close>): the frame each screen draws in a given area.
  Where drawing changes the screen (the list of search results and the settings hand their selection to
  ratatui, the settings renew their invite) the changed screen is returned with the frame; where it can
  panic the result is an option.
\<close>

section \<open>Connection state\<close>

text \<open>Times in milliseconds, \<open>now\<close> is the moment of drawing.\<close>

definition conn_label :: "nat \<Rightarrow> connection_state \<Rightarrow> string" where
  "conn_label now c =
     (case c of
        Disconnected \<Rightarrow> glyph 0x2717 @ '' disconnected''
      | ConnConnecting transport \<Rightarrow> glyph 0x280B @ '' connecting ('' @ transport @ '')'' @ ellipsis
      | Connected transport (Some ms) \<Rightarrow>
          glyph 0x25CF @ '' '' @ transport @ ''  '' @ dec_of_nat (unat ms) @ ''ms''
      | Connected transport None \<Rightarrow> glyph 0x25CF @ '' '' @ transport
      | Reconnecting attempt next_retry _ \<Rightarrow>
          glyph 0x21BA @ '' reconnecting (attempt '' @ dec_of_nat (unat attempt) @ '', retry in ''
          @ dec_of_nat ((next_retry - now) div 1000) @ ''s)'')"

definition conn_color :: "connection_state \<Rightarrow> color" where
  "conn_color c =
     (case c of
        Connected _ _ \<Rightarrow> Green | Reconnecting _ _ _ \<Rightarrow> Yellow
      | ConnConnecting _ \<Rightarrow> Cyan | Disconnected \<Rightarrow> Red)"

record status_bar =
  sb_connection :: connection_state
  sb_status_text :: string
  sb_unread_count :: nat
  sb_pq_active :: bool

definition draw_status_bar :: "nat \<Rightarrow> status_bar \<Rightarrow> rect \<Rightarrow> frame" where
  "draw_status_bar now b area =
     (let pq_badge = (if sb_pq_active b then styled '' [PQ] '' (fg Magenta) else raw_span []);
          unread = (if 0 < sb_unread_count b
                    then styled ('' '' @ dec_of_nat (sb_unread_count b) @ '' unread '') (fg Yellow)
                    else raw_span []);
          sep = styled ('' '' @ glyph 0x2502 @ '' '') (fg DarkGray);
          line = [styled '' '' style_default,
                  styled (conn_label now (sb_connection b)) (fg (conn_color (sb_connection b))),
                  pq_badge, sep, unread, sep, styled (sb_status_text b) (fg DarkGray)]
      in [(area, Paragraph (par (Lines [line]) style_default))])"

section \<open>Registration\<close>

definition SPINNER :: "string list" where
  "SPINNER = replicate 5 (glyph 0xB7) @ replicate 5 '' ''"

definition step_marks :: "registration \<Rightarrow> nat \<Rightarrow> string \<times> color \<times> color" where
  "step_marks r i =
     (let mark = SPINNER ! (unat (rn_spinner_tick r) mod length SPINNER)
      in if i < rn_active_step r then (''['' @ glyph 0x2713 @ '']'', Green, DarkGray)
         else if i = rn_active_step r then (''['' @ mark @ '']'', Cyan, White)
         else (''[ ]'', DarkGray, DarkGray))"

definition step_row :: "registration \<Rightarrow> rect \<Rightarrow> u16 \<Rightarrow> nat \<times> string \<Rightarrow> rect \<times> widget" where
  "step_row r area y il =
     (let (i, label) = il;
          label_max = of_nat (foldr (\<lambda>s. max (char_count s)) STEPS 0);
          row_w = 5 + label_max; row_x = centre_x area row_w;
          (mark, mark_color, label_color) = step_marks r i
      in (\<lparr>r_x = row_x, r_y = y + of_nat i,
           r_width = min row_w (sat_sub (r_width area) (sat_sub row_x (r_x area))), r_height = 1\<rparr>,
          Paragraph (par (Lines [[styled (mark @ '' '') (bold (fg mark_color)),
                                  styled label (fg label_color)]]) style_default)))"

definition draw_registration :: "registration \<Rightarrow> rect \<Rightarrow> frame" where
  "draw_registration r area =
     (let n = len16 STEPS; content_h = 1 + 1 + n + 1 + 1; y = centre_y area content_h;
          title = ''INITIALIZING IDENTITY''; hint = ''Ctrl+C to abort''
      in [centred_row area y (of_nat (char_count title)) (Plain title) (bold (fg Cyan))]
         @ map (step_row r area (y + 2)) (enumerate 0 STEPS)
         @ [centred_row area (y + 2 + n + 1) (len16 hint) (Plain hint) (fg DarkGray)])"

section \<open>Onboarding\<close>

text \<open>The banners, written with an ASCII sign for each character that is not ASCII or a quotation mark.\<close>

definition art :: "(char \<times> rchar) list \<Rightarrow> string \<Rightarrow> string" where
  "art signs s = concat (map (\<lambda>c. case map_of signs c of Some g \<Rightarrow> glyph g | None \<Rightarrow> [c]) s)"

definition box_signs :: "(char \<times> rchar) list" where
  "box_signs = [(CHR ''#'', 0x2588), (CHR '']'', 0x2557), (CHR ''['', 0x2554), (CHR '')'', 0x255D),
     (CHR ''('', 0x255A), (CHR ''='', 0x2550), (CHR ''!'', 0x2551)]"

definition narrow_signs :: "(char \<times> rchar) list" where
  "narrow_signs = [(CHR ''%'', 0x5C), (CHR ''^'', 0x27), (CHR ''~'', 0x60)]"

definition BANNER :: "string list" where
  "BANNER = map (art box_signs)
    [''##]  ##] ######] ###]   ##]#######]########]######] ##]   ##] ######]########]'',
     ''##! ##[)##[===##]####]  ##!##[====)(==##[==)##[==##]##!   ##!##[====)(==##[==)'',
     ''#####[) ##!   ##!##[##] ##!#######]   ##!   ######[)##!   ##!##!        ##!   '',
     ''##[=##] ##!   ##!##!(##]##!(====##!   ##!   ##[==##]##!   ##!##!        ##!   '',
     ''##!  ##](######[)##! (####!#######!   ##!   ##!  ##!(######[)(######]   ##!   '',
     ''(=)  (=) (=====) (=)  (===)(======)   (=)   (=)  (=) (=====)  (=====)   (=)  '']"

definition BANNER_NARROW :: "string list" where
  "BANNER_NARROW = map (art narrow_signs)
    ['' _  _____  _  _ ___ _____ ___ _   _  ___ _____'',
     ''| |/ / _ %| %| / __|_   _| _ % | | |/ __|_   _|'',
     ''| ^ < (_) | .~ %__ % | | |   / |_| | (__  | |'',
     ''|_|%_%___/|_|%_|___/ |_| |_|_%%___/ %___| |_|'']"

definition TAGLINE :: string where
  "TAGLINE = ''end-to-end encrypted  '' @ glyph 0xB7 @ ''  quantum-resistant  '' @ glyph 0xB7
     @ ''  open protocol''"

definition banner_row :: "rect \<Rightarrow> u16 \<Rightarrow> u16 \<Rightarrow> nat \<times> string \<Rightarrow> rect \<times> widget" where
  "banner_row area banner_x y ir =
     (let (i, row) = ir
      in (\<lparr>r_x = banner_x, r_y = y + of_nat i,
           r_width = min (of_nat (char_count row)) (sat_sub (r_width area) (sat_sub banner_x (r_x area))),
           r_height = 1\<rparr>,
          Paragraph (par (Plain row) (bold (fg White)))))"

text \<open>A text field with a border: three rows, as wide as \<open>field_w\<close>.\<close>

definition field_box :: "rect \<Rightarrow> u16 \<Rightarrow> u16 \<Rightarrow> string \<Rightarrow> string \<Rightarrow> rect \<times> widget" where
  "field_box area y field_w title s =
     (\<lparr>r_x = centre_x area field_w, r_y = y, r_width = field_w, r_height = 3\<rparr>,
      Paragraph ((par (Plain s) (fg White))\<lparr>pg_block := Some (bordered (Some title) (fg Cyan))\<rparr>))"

definition draw_onboarding :: "onboarding \<Rightarrow> rect \<Rightarrow> frame" where
  "draw_onboarding s area =
     (let banner = (if 80 \<le> r_width area then BANNER else BANNER_NARROW);
          banner_w = of_nat (char_count (banner ! 0)); banner_h = len16 banner;
          total_h = banner_h + 1 + 1 + 2 + 3 + 1 + 1;
          y = centre_y area total_h;
          banner_x = centre_x area banner_w;
          art_rows = map (banner_row area banner_x y) (enumerate 0 banner);
          y = y + (banner_h + 1);
          tagline = centred_row area y (of_nat (char_count TAGLINE)) (Plain TAGLINE) (fg DarkGray);
          y = y + 2;
          field_w = min 42 (sat_sub (r_width area) 4);
          field = field_box area y field_w '' Username / Display name '' (ob_username s @ ''_'');
          y = y + 4;
          (status, y) = (case ob_status s of
             None \<Rightarrow> ([], y)
           | Some msg \<Rightarrow>
               ([centred_row area y (of_nat (char_count msg)) (Plain msg)
                   (bold (fg (if ob_is_error s then Red else Green)))], y + 1));
          hint = ''Enter=register (username optional)   Tab=link existing device   q=quit''
      in art_rows @ [tagline, field] @ status
         @ [centred_row area y (len16 hint) (Plain hint) (fg DarkGray)])"

section \<open>Passphrase\<close>

definition draw_unlock :: "unlock_screen \<Rightarrow> rect \<Rightarrow> frame" where
  "draw_unlock s area =
     (let (title, hint, field_title) = (case un_mode s of
            Unlocking \<Rightarrow> ('' Unlock session '', ''Enter=unlock   Ctrl+C=quit'', '' Passphrase '')
          | SetNew \<Rightarrow> ('' Protect your session '', ''Enter=confirm   Ctrl+C=quit'', '' Choose a passphrase ''));
          subtitle = (case un_mode s of
            Unlocking \<Rightarrow> ''Enter your passphrase to decrypt your session keys.''
          | SetNew \<Rightarrow> ''Your keys will be encrypted at rest with this passphrase.'');
          total_h = 1 + 1 + 1 + 2 + 3 + 1 + 1;
          y = centre_y area total_h;
          title_row = centred_row area y (len16 title) (Plain title) (bold (fg Cyan));
          y = y + 2;
          subtitle_row = centred_row area y (len16 subtitle) (Plain subtitle) (fg DarkGray);
          y = y + 2;
          field_w = min 42 (sat_sub (r_width area) 4);
          masked = concat (replicate (length (un_passphrase s)) (glyph 0x2022)) @ ''_'';
          field = field_box area y field_w field_title masked;
          y = y + 4;
          (error, y) = (case un_error s of
             None \<Rightarrow> ([], y)
           | Some err \<Rightarrow> ([centred_row area y (len16 err) (Plain err) (bold (fg Red))], y + 2))
      in [title_row, subtitle_row, field] @ error
         @ [centred_row area y (len16 hint) (Plain hint) (fg DarkGray)])"

section \<open>Device link\<close>

definition draw_scan :: "device_link \<Rightarrow> rect \<Rightarrow> frame" where
  "draw_scan s area =
     (let title = '' Link existing account '' @ em_dash @ '' enter token '';
          hint = ''Enter=confirm   Esc=back   q=quit'';
          total_h = 1 + 2 + 3 + 1 + 1 + 1 + 1;
          y = centre_y area total_h;
          title_row = centred_row area y (len16 title) (Plain title) (bold (fg Cyan));
          y = y + 2;
          field_w = min 50 (sat_sub (r_width area) 4);
          field = field_box area y field_w '' Link Token '' (dl_token s @ ''_'');
          y = y + 4;
          (status, y) = (case dl_status s of
             None \<Rightarrow> ([], y)
           | Some msg \<Rightarrow>
               ([centred_row area y (len16 msg) (Plain msg)
                   (fg (if dl_is_error s then Red else DarkGray))], y + 2))
      in [title_row, field] @ status
         @ [centred_row area y (len16 hint) (Plain hint) (fg DarkGray)])"

definition draw_show :: "draw_env \<Rightarrow> device_link \<Rightarrow> rect \<Rightarrow> frame option" where
  "draw_show E s area =
     (case dl_own_token s of
        None \<Rightarrow>
          (let msg = ''Generating link token'' @ ellipsis
           in Some [(\<lparr>r_x = centre_x area (len16 msg), r_y = r_y area + r_height area div 2,
                      r_width = len16 msg, r_height = 1\<rparr>,
                     Paragraph (par (Plain msg) (fg DarkGray)))])
      | Some token \<Rightarrow>
          (let caption = ''Scan with Construct iOS app or another device'';
               token_display = ''Token: '' @ token
           in map_option (\<lambda>f. f @ [centred_row area (r_y area + sat_sub (r_height area) 1)
                  (len16 token_display) (Plain token_display) (fg DarkGray)])
                (draw_qr E (qr_with_caption caption (qr_widget_new token)) area)))"

definition draw_device_link :: "draw_env \<Rightarrow> device_link \<Rightarrow> rect \<Rightarrow> frame option" where
  "draw_device_link E s area =
     (let tab = (\<lambda>t label. styled label
             (if dl_tab s = t then on_color Cyan (fg Black) else fg DarkGray));
          bar = (\<lparr>r_x = r_x area, r_y = r_y area, r_width = r_width area, r_height = 1\<rparr>,
             Paragraph (par (Lines [[tab ScanTab '' [SCAN] '', tab ShowTab '' [SHOW QR] '',
               styled ''  Tab=switch tab'' (fg DarkGray)]]) style_default));
          content_area = \<lparr>r_x = r_x area, r_y = r_y area + 2, r_width = r_width area,
             r_height = sat_sub (r_height area) 2\<rparr>
      in map_option (\<lambda>f. bar # f)
           (case dl_tab s of
              ScanTab \<Rightarrow> Some (draw_scan s content_area)
            | ShowTab \<Rightarrow> draw_show E s content_area))"

section \<open>Safety number\<close>

text \<open>\<open>split_whitespace\<close>, \<open>chunks\<close> and \<open>join\<close> of the standard library.\<close>

function split_ws :: "string \<Rightarrow> string \<Rightarrow> string list" where
  "split_ws word s =
     (case s of
        [] \<Rightarrow> if word = [] then [] else [word]
      | c # t \<Rightarrow>
          (case find (\<lambda>w. prefix w s) ws_encodings of
             Some w \<Rightarrow> (if word = [] then [] else [word]) @ split_ws [] (drop (length w - 1) t)
           | None \<Rightarrow> split_ws (word @ [c]) t))"
  by pat_completeness auto
termination by (relation "measure (\<lambda>(word, s). length s)") auto

declare split_ws.simps [simp del]

function chunks :: "nat \<Rightarrow> 'a list \<Rightarrow> 'a list list" where
  "chunks n xs = (if xs = [] \<or> n = 0 then [] else take n xs # chunks n (drop n xs))"
  by pat_completeness auto
termination by (relation "measure (\<lambda>(n, xs). length xs)") auto

declare chunks.simps [simp del]

fun join_with :: "string \<Rightarrow> string list \<Rightarrow> string" where
  "join_with sep [] = []"
| "join_with sep [x] = x"
| "join_with sep (x # xs) = x @ sep @ join_with sep xs"

definition formatted_grid :: "safety_number \<Rightarrow> string list" where
  "formatted_grid s = map (join_with ''  '') (chunks 3 (split_ws [] (sf_number s)))"

definition draw_safety_number :: "draw_env \<Rightarrow> safety_number \<Rightarrow> rect \<Rightarrow> frame" where
  "draw_safety_number E s area =
     (let outer = bordered (Some ('' '' @ glyph 0x25C6 @ '' Safety Number '' @ em_dash @ '' ''
            @ sf_contact_name s @ '' '')) (fg Yellow);
          inner = de_inner E outer area
      in [(area, Block outer),
          (inner, Paragraph (par (Lines
             ([[styled ''  Compare this number with your contact out-of-band.'' (fg DarkGray)],
               [raw_span []]]
              @ map (\<lambda>row. [styled (''    '' @ row) (bold (fg Yellow))]) (formatted_grid s)
              @ [[raw_span []], [styled ''  [Esc] Back'' (fg DarkGray)]])) style_default))])"

section \<open>Contact list\<close>

definition preview_text :: "string \<Rightarrow> string" where
  "preview_text s = (if 18 < char_count s then take_chars 18 s @ ellipsis else s)"

definition contact_item :: "contact \<Rightarrow> text_line list" where
  "contact_item c =
     (let badge = (if 0 < cn_unread c
            then styled ('' ['' @ dec_of_nat (cn_unread c) @ '']'') (bold (fg Yellow)) else raw_span []);
          name = styled (cn_display_name c) (bold style_default);
          preview = (case cn_last_message c of
            Some s \<Rightarrow> styled ([CHR 0x0A] @ ''  '' @ preview_text s) (fg DarkGray)
          | None \<Rightarrow> raw_span [])
      in [[name, badge], [preview]])"

definition draw_chat_list :: "chat_list \<Rightarrow> rect \<Rightarrow> frame" where
  "draw_chat_list p area =
     [(area, RowList \<lparr>lw_items = map contact_item (cl_contacts p),
        lw_block = Some (bordered (Some '' Contacts '') (fg (if cl_focused p then Cyan else DarkGray))),
        lw_highlight = bold (on_color Cyan (fg Black)), lw_symbol = glyph 0x25B6 @ '' '',
        lw_selected = cl_selected p\<rparr>)]"

section \<open>Conversation\<close>

definition message_line :: "chat_message \<Rightarrow> text_line" where
  "message_line m =
     (let time = styled (''['' @ cm_time m @ ''] '') (fg DarkGray)
      in case cm_kind m of
           Sent \<Rightarrow> [raw_span ''  '', styled (cm_text m) (bold (fg White)), raw_span ''  '', time]
         | Received \<Rightarrow> [time, styled (cm_text m) (fg Cyan)])"

definition scroll_hint :: "chat_view \<Rightarrow> text_line list" where
  "scroll_hint v =
     (if 0 < cv_scroll_offset v
      then [[styled (''  '' @ glyph 0x2191 @ '' '' @ dec_of_nat (cv_scroll_offset v)
               @ '' older  PgUp/PgDn  End=latest'') (fg Yellow)]]
      else [])"

definition message_lines :: "nat \<Rightarrow> chat_view \<Rightarrow> text_line list" where
  "message_lines height v = map message_line (visible_messages height v) @ scroll_hint v"

definition draw_chat_view :: "draw_env \<Rightarrow> chat_view \<Rightarrow> rect \<Rightarrow> frame option" where
  "draw_chat_view E v area =
     (let outer = bordered (Some ('' '' @ cv_contact_name v @ '' ''))
            (fg (if cv_focused v \<or> cv_compose_focused v then Cyan else DarkGray))
      in case split2 E Vertical (MinSize 1) (ExactSize 3) (de_inner E outer area) of
           None \<Rightarrow> None
         | Some (messages_area, compose_area) \<Rightarrow>
             Some [(area, Block outer),
               (messages_area, Paragraph ((par (Lines (message_lines (unat (r_height messages_area)) v))
                  style_default)\<lparr>pg_wrap := Some False\<rparr>)),
               (compose_area, Paragraph ((par (Plain (cv_compose v @ ''_'')) (fg White))\<lparr>pg_block :=
                  Some (bordered (Some '' Message '') (fg (if cv_compose_focused v then Cyan else DarkGray)))\<rparr>))])"

section \<open>Contact search\<close>

text \<open>The first eight bytes of the user id; a slice inside a character panics.\<close>

definition result_item :: "search_result \<Rightarrow> text_line list option" where
  "result_item r =
     (let n = min 8 (length (rs_user_id r))
      in if char_boundary (rs_user_id r) n
         then Some [[styled (''  @'' @ rs_username r) (bold (fg White)),
                     styled (''  '' @ take n (rs_user_id r)) (fg DarkGray)]]
         else None)"

definition draw_contact_search ::
  "draw_env \<Rightarrow> contact_search \<Rightarrow> rect \<Rightarrow> (contact_search \<times> frame) option" where
  "draw_contact_search E s area =
     (let outer = bordered (Some ('' '' @ glyph 0x25C6 @ '' Add Node '')) (fg Cyan);
          cs = de_split E Vertical [ExactSize 1, ExactSize 3, ExactSize 1, MinSize 1] (de_inner E outer area)
      in case (nth_opt cs 0, nth_opt cs 1, nth_opt cs 2, nth_opt cs 3, those (map result_item (cs_results s))) of
           (Some c0, Some c1, Some c2, Some c3, Some items) \<Rightarrow>
             Some (s\<lparr>cs_selected := de_list E (length items) c3 (cs_selected s)\<rparr>,
               [(area, Block outer),
                (c0, Paragraph (par (Lines [[styled ''  name or paste invite link  Enter  Esc=back''
                   (fg DarkGray)]]) style_default)),
                (c1, Paragraph ((par (Plain (if cs_searching s then ''  '' @ cs_query s @ ''  '' @ glyph 0x280B
                     else ''  '' @ cs_query s @ ''_'')) (fg White))\<lparr>pg_block :=
                   Some (bordered (Some '' Search '') (fg Cyan))\<rparr>))]
               @ (case cs_status s of
                    None \<Rightarrow> []
                  | Some msg \<Rightarrow> [(c2, Paragraph (par (Lines [[styled (''  '' @ msg)
                       (fg (if cs_is_error s then Red else Green))]]) style_default))])
               @ [(c3, RowList \<lparr>lw_items = items, lw_block = None,
                     lw_highlight = bold (on_color DarkGray style_default), lw_symbol = glyph 0x25B6 @ '' '',
                     lw_selected = cs_selected s\<rparr>)])
         | _ \<Rightarrow> None)"

section \<open>Settings\<close>

definition settings_row :: "settings_item \<Rightarrow> text_line list" where
  "settings_row item =
     (if st_label item = []
      then [[styled (''  '' @ concat (replicate 41 (glyph 0x2500))) (fg DarkGray)]]
      else if st_action item \<noteq> None
      then [[styled (''  '' @ st_label item)
               (bold (fg (if str_contains (st_label item) ''Logout'' then Red else Cyan)))]]
      else [[styled (''  '' @ pad_right 16 (st_label item)) (fg DarkGray),
             styled (st_value item) (fg White)]])"

definition render_list :: "draw_env \<Rightarrow> settings \<Rightarrow> rect \<Rightarrow> (settings \<times> frame) option" where
  "render_list E s area =
     (case split2 E Vertical (ExactSize 1) (MinSize 1) area of
        None \<Rightarrow> None
      | Some (c0, c1) \<Rightarrow>
          Some (s\<lparr>se_selected := de_list E (length (se_items s)) c1 (se_selected s)\<rparr>,
            [(c0, Paragraph (par (Lines [[styled (''  '' @ glyph 0x2191 @ glyph 0x2193
                @ '' navigate  Enter=select  Esc=back'') (fg DarkGray)]]) style_default)),
             (c1, RowList \<lparr>lw_items = map settings_row (se_items s), lw_block = None,
                lw_highlight = bold (on_color DarkGray style_default), lw_symbol = glyph 0x25B6 @ '' '',
                lw_selected = se_selected s\<rparr>)]))"

definition render_identity_qr ::
  "draw_env \<Rightarrow> invite_env \<Rightarrow> nat \<Rightarrow> settings \<Rightarrow> rect \<Rightarrow> settings \<times> frame" where
  "render_identity_qr E I now s area =
     (let b = bordered (Some '' My Identity '') (fg DarkGray);
          inner = de_inner E b area;
          (s, _) = invite_payload I now s
      in (s, [(area, Block b),
              (inner, Paragraph (par (Lines
                 [[styled (se_user_id s) (fg White)], [],
                  [styled ''Press [Q] to show'' (fg DarkGray)],
                  [styled ''scannable QR code'' (fg DarkGray)]]) style_default))]))"

definition draw_settings ::
  "draw_env \<Rightarrow> invite_env \<Rightarrow> nat \<Rightarrow> settings \<Rightarrow> rect \<Rightarrow> (settings \<times> frame) option" where
  "draw_settings E I now s area =
     (let outer = bordered (Some ('' '' @ glyph 0x25C6 @ '' Settings '')) (fg Cyan);
          inner = de_inner E outer area
      in map_option (\<lambda>(s, f). (s, (area, Block outer) # f))
           (if 100 \<le> r_width area then
              (case split2 E Horizontal (MinSize 50) (ExactSize 36) inner of
                 None \<Rightarrow> None
               | Some (c0, c1) \<Rightarrow>
                   (case render_list E s c0 of
                      None \<Rightarrow> None
                    | Some (s, f) \<Rightarrow> (let (s, g) = render_identity_qr E I now s c1 in Some (s, f @ g))))
            else render_list E s inner))"

end
