(* ===== verification/App_Draw.thy ===== *)
theory App_Draw
  imports Screens_Draw App_Keys
begin

text \<open>
  Drawing the application (\<open>App::render\<close>) and the loop that draws before every event (\<open>App::run\<close>).
  Drawing is not a pure function of the state: the settings and the search hand their selection to
  ratatui, the settings and the full-screen QR renew the invite, and the safety number screen without a
  number falls back to the settings. The clock is read at the next position of the environment.
\<close>

section \<open>Overlays\<close>

definition identity_qr_fullscreen :: "draw_env \<Rightarrow> rect \<Rightarrow> string option \<Rightarrow> string \<Rightarrow> frame option" where
  "identity_qr_fullscreen E area payload user_id =
     (let back = [(area, Clear),
            (area, Block \<lparr>bk_title = None, bk_borders = False, bk_border_style = style_default,
               bk_style = on_color Black style_default\<rparr>)];
          centred = (\<lambda>s. Paragraph ((par (Plain s) (fg DarkGray))\<lparr>pg_centred := True\<rparr>))
      in case payload of
           None \<Rightarrow> Some (back @ [(area, centred (''Generating invite'' @ ellipsis))])
         | Some payload \<Rightarrow>
             (case split2 E Vertical (MinSize 1) (ExactSize 1) area of
                None \<Rightarrow> None
              | Some (qr_area, hint_area) \<Rightarrow>
                  (let hint = (hint_area, Paragraph ((par (Lines
                         [[styled ''  Scan with Konstruct iOS  (v5, 5 min)  '' (fg DarkGray),
                           styled ''[ any key to return ]'' ((fg DarkGray)\<lparr>sy_dim := True\<rparr>)]])
                         style_default)\<lparr>pg_centred := True\<rparr>))
                   in case size_hint E payload of
                        None \<Rightarrow> Some (back @ [hint,
                          (qr_area, centred (''[ QR unavailable '' @ em_dash @ '' payload too large ]''))])
                      | Some (qr_w, qr_h) \<Rightarrow>
                          map_option (\<lambda>f. back @ [hint] @ f)
                            (draw_qr E \<lparr>qw_data = payload, qw_caption = Some user_id, qw_fg = Black,
                                        qw_bg = White\<rparr>
                               \<lparr>r_x = centre_x qr_area qr_w, r_y = centre_y qr_area qr_h,
                                r_width = min qr_w (r_width qr_area),
                                r_height = min qr_h (r_height qr_area)\<rparr>))))"

definition bottom_row :: "rect \<Rightarrow> rect" where
  "bottom_row area = \<lparr>r_x = 0, r_y = sat_sub (r_height area) 2, r_width = r_width area, r_height = 1\<rparr>"

definition spinner_row :: "rect \<Rightarrow> string \<Rightarrow> rect \<times> widget" where
  "spinner_row area msg =
     (bottom_row area, Paragraph (par (Lines
        [[styled (''  '' @ glyph 0x280B @ '' '') (fg Cyan), styled msg (fg White)]]) style_default))"

definition error_row :: "rect \<Rightarrow> string \<Rightarrow> rect \<times> widget" where
  "error_row area msg =
     (bottom_row area, Paragraph (par (Lines
        [[styled (''  '' @ glyph 0x2717 @ '' '' @ msg @ ''  (any key to retry)'') (fg Red)]]) style_default))"

definition delete_confirm_row :: "chat_list \<Rightarrow> rect \<Rightarrow> string \<Rightarrow> rect \<times> widget" where
  "delete_confirm_row p area peer_id =
     (let name = (case find (\<lambda>c. cn_id c = peer_id) (cl_contacts p) of
            Some c \<Rightarrow> cn_display_name c | None \<Rightarrow> peer_id)
      in (bottom_row area, Paragraph (par (Lines
           [[styled (''  '' @ glyph 0x26A0 @ '' Remove node '') (fg Yellow), styled name (fg White),
             styled '' and all messages? [y] confirm  [any] cancel'' (fg Yellow)]])
           (on_color Black style_default))))"

section \<open>The main screen\<close>

definition title_line :: text_line where
  "title_line =
     [styled ('' '' @ glyph 0x25C6 @ '' Construct '') (fg Cyan), styled ''TUI'' (fg White), raw_span ''  '',
      styled (''Tab=switch  '' @ glyph 0x2191 @ glyph 0x2193
        @ ''/jk=nav  i=compose  s=settings  n=add node  x=remove node  q=quit'') (fg DarkGray)]"

definition status_bar_of :: "'o app \<Rightarrow> status_bar" where
  "status_bar_of a = \<lparr>sb_connection = ap_connection a, sb_status_text = ap_status a, sb_unread_count = 0,
     sb_pq_active = ap_pq_active a\<rparr>"

definition draw_main :: "draw_env \<Rightarrow> nat \<Rightarrow> rect \<Rightarrow> 'o app \<Rightarrow> frame option" where
  "draw_main E now area a =
     (let root = de_split E Vertical [ExactSize 1, MinSize 1, ExactSize 1] area
      in case (nth_opt root 0, nth_opt root 1, nth_opt root 2) of
           (Some r0, Some r1, Some r2) \<Rightarrow>
             (case split2 E Horizontal (Percentage 25) (Percentage 75) r1 of
                None \<Rightarrow> None
              | Some (b0, b1) \<Rightarrow>
                  (case draw_chat_view E (ap_chat_view a) b1 of
                     None \<Rightarrow> None
                   | Some view \<Rightarrow>
                       Some ((r0, Paragraph (par (Lines [title_line]) style_default))
                         # draw_chat_list (ap_chat_list a) b0 @ view
                         @ draw_status_bar now (status_bar_of a) r2)))
         | _ \<Rightarrow> None)"

section \<open>App::render\<close>

definition with_settings :: "'o app \<Rightarrow> (settings \<times> frame) option \<Rightarrow> ('o app \<times> frame) option" where
  "with_settings a r = map_option (\<lambda>(s, f). (a\<lparr>ap_settings := s\<rparr>, f)) r"

definition render_app :: "draw_env \<Rightarrow> 'o app_env \<Rightarrow> rect \<Rightarrow> 'o app \<Rightarrow> ('o app \<times> frame) option" where
  "render_app E X area a =
     (let now = ax_now_secs X (ap_used a); now_ms = ax_now_ms X (ap_used a);
          still = map_option (Pair a); I = ax_invite X
      in case ap_screen a of
        MainScreen \<Rightarrow>
          still (map_option (\<lambda>f. f @ (case ap_delete_confirm a of
                None \<Rightarrow> [] | Some peer_id \<Rightarrow> [delete_confirm_row (ap_chat_list a) area peer_id]))
              (draw_main E now_ms area a))
      | Settings \<Rightarrow> with_settings a (draw_settings E I now (ap_settings a) area)
      | ContactSearch \<Rightarrow>
          map_option (\<lambda>(s, f). (a\<lparr>ap_search := s\<rparr>, f)) (draw_contact_search E (ap_search a) area)
      | SafetyNumber \<Rightarrow>
          (case ap_safety a of
             Some sn \<Rightarrow> still (Some (draw_safety_number E sn area))
           | None \<Rightarrow> with_settings (set_screen Settings a) (draw_settings E I now (ap_settings a) area))
      | IdentityQr \<Rightarrow>
          (let (s, payload) = invite_payload I now (ap_settings a)
           in map_option (Pair (a\<lparr>ap_settings := s\<rparr>)) (identity_qr_fullscreen E area payload (ap_user_id a)))
      | DeviceLink \<Rightarrow> still (draw_device_link E (ap_device_link a) area)
      | ScreenRegistering \<Rightarrow> still (Some (draw_registration (ap_registration a) area))
      | Unlock \<Rightarrow> still (Some (draw_unlock (ap_unlock a) area))
      | SetPassphrase \<Rightarrow> still (Some (draw_unlock (ap_unlock a) area))
      | Startup \<Rightarrow> still (Some (draw_onboarding (ap_onboarding a) area
          @ [spinner_row area (''Restoring session'' @ ellipsis)]))
      | Connecting msg \<Rightarrow> still (Some (draw_onboarding (ap_onboarding a) area @ [spinner_row area msg]))
      | AuthError msg \<Rightarrow> still (Some (draw_onboarding (ap_onboarding a) area @ [error_row area msg]))
      | Onboarding \<Rightarrow> still (Some (draw_onboarding (ap_onboarding a) area)))"

text \<open>Reading the clock takes one position.\<close>

definition draw_app :: "draw_env \<Rightarrow> 'o app_env \<Rightarrow> rect \<Rightarrow> 'o app \<Rightarrow> ('o app \<times> frame) option" where
  "draw_app E X area a = map_option (\<lambda>(a, f). (a\<lparr>ap_used := ap_used a + 1\<rparr>, f)) (render_app E X area a)"

section \<open>App::run\<close>

text \<open>A turn: the size of the terminal, whether writing the frame to it failed, and the event that is
  handled then. A change the other tasks make to database and files is no event and draws nothing.\<close>

record app_turn =
  tn_area :: rect
  tn_fails :: "string option"
  tn_input :: app_input

definition is_event :: "app_input \<Rightarrow> bool" where
  "is_event i = (case i of World _ _ \<Rightarrow> False | _ \<Rightarrow> True)"

text \<open>The loop ends with the state, the frames it drew and its result: \<open>None\<close> while it waits for the
  next event, or when it panicked.\<close>

fun app_loop ::
  "draw_env \<Rightarrow> 'o app_env \<Rightarrow> 'o app \<Rightarrow> app_turn list \<Rightarrow> 'o app \<times> frame list \<times> (string + unit) option" where
  "app_loop E X a [] = (a, [], if ap_running a \<or> ap_panicked a then None else Some (Ok ()))"
| "app_loop E X a (t # ts) =
     (if ap_panicked a then (a, [], None)
      else if \<not> ap_running a then (a, [], Some (Ok ()))
      else if \<not> is_event (tn_input t) then app_loop E X (app_step X a (tn_input t)) ts
      else case draw_app E X (tn_area t) a of
             None \<Rightarrow> (a\<lparr>ap_panicked := True\<rparr>, [], None)
           | Some (a, f) \<Rightarrow>
               (case tn_fails t of
                  Some e \<Rightarrow> (a, [f], Some (Err e))
                | None \<Rightarrow> (let (b, fs, r) = app_loop E X (app_step X a (tn_input t)) ts
                          in (b, f # fs, r))))"

definition app_main ::
  "draw_env \<Rightarrow> 'o app_env \<Rightarrow> app_config \<Rightarrow> disk \<Rightarrow> db \<Rightarrow> app_turn list
     \<Rightarrow> 'o app \<times> frame list \<times> (string + unit) option" where
  "app_main E X cfg disk d ts = app_loop E X (startup_check X (app_new cfg disk d)) ts"

end
