(* ===== verification/System.thy ===== *)
theory System
  imports App_Draw App_Jobs
begin

text \<open>
  The whole program: the application, and for every sign-in an orchestrator task, a stream worker and
  the relay between them, as \<open>start_orchestrator\<close> wires them. They share one database and the cursor
  tracker, and talk through channels: events and commands to the orchestrator, commands to the worker,
  the worker's events to the relay, and one channel of internal messages to the application. A run is a
  list of inputs, each of which lets one task take one step, so every interleaving is a run.
\<close>

section \<open>State\<close>

text \<open>The worker and the channels of one sign-in; its actor is the task of the same number in the
  application. \<open>pt_handed\<close> is history: every envelope that was put on the worker's channel.\<close>

record port =
  pt_worker :: worker
  pt_channel :: "stream_cmd list"
  pt_commands :: "orch_command list"
  pt_relayed :: nat                    \<comment> \<open>how many of the worker's events the relay has taken\<close>
  pt_secret :: bytes
  pt_handed :: "envelope list"

record 'o system =
  sy_app :: "'o app"
  sy_ports :: "port list"
  sy_mail :: "internal_event list"

record 'o sys_env =
  sx_app :: "'o app_env"
  sx_draw :: draw_env
  sx_orch :: "nat \<Rightarrow> orch_env"
  sx_worker :: "nat \<Rightarrow> worker_env"
  sx_relay :: relay_env

section \<open>Channels\<close>

definition sent_envelopes :: "stream_cmd list \<Rightarrow> envelope list" where
  "sent_envelopes cs = concat (map (\<lambda>c. case c of CmdSend e \<Rightarrow> [e] | _ \<Rightarrow> []) cs)"

definition put_commands :: "stream_cmd list \<Rightarrow> port \<Rightarrow> port" where
  "put_commands cs p = p\<lparr>pt_channel := pt_channel p @ cs, pt_handed := pt_handed p @ sent_envelopes cs\<rparr>"

definition on_port :: "nat \<Rightarrow> (port \<Rightarrow> port) \<Rightarrow> 'o system \<Rightarrow> 'o system" where
  "on_port n f s = s\<lparr>sy_ports := (sy_ports s)[n := f (sy_ports s ! n)]\<rparr>"

definition on_task :: "nat \<Rightarrow> ('o task \<Rightarrow> 'o task) \<Rightarrow> 'o system \<Rightarrow> 'o system" where
  "on_task n f s = s\<lparr>sy_app := (sy_app s)\<lparr>ap_tasks := (ap_tasks (sy_app s))[n := f (ap_tasks (sy_app s) ! n)]\<rparr>\<rparr>"

text \<open>\<open>OrchestratorHandle\<close>: events and commands go through channels of their own.\<close>

definition to_orchestrator :: "nat \<times> orch_input \<Rightarrow> 'o system \<Rightarrow> 'o system" where
  "to_orchestrator m s =
     (case m of
        (n, OrchEvent e) \<Rightarrow> on_task n (self_send e) s
      | (n, OrchCommand c) \<Rightarrow> on_port n (\<lambda>p. p\<lparr>pt_commands := pt_commands p @ [c]\<rparr>) s)"

definition to_worker :: "nat \<times> stream_cmd \<Rightarrow> 'o system \<Rightarrow> 'o system" where
  "to_worker m s = on_port (fst m) (put_commands [snd m]) s"

definition to_app :: "internal_event list \<Rightarrow> 'o system \<Rightarrow> 'o system" where
  "to_app es s = s\<lparr>sy_mail := sy_mail s @ es\<rparr>"

section \<open>The application\<close>

text \<open>The port of a task that was just started: its worker subscribes to the contacts and its relay keeps
  the identity secret the jobs name.\<close>

definition new_port :: "app_job list \<Rightarrow> nat \<Rightarrow> port" where
  "new_port jobs n =
     (let users = concat (map (\<lambda>j. case j of StreamWorkerJob m ids \<Rightarrow> if m = n then ids else [] | _ \<Rightarrow> []) jobs);
          secret = concat (map (\<lambda>j. case j of RelayStream m k \<Rightarrow> if m = n then k else [] | _ \<Rightarrow> []) jobs)
      in \<lparr>pt_worker = worker_init users, pt_channel = [], pt_commands = [], pt_relayed = 0,
          pt_secret = secret, pt_handed = []\<rparr>)"

text \<open>The application takes a step; what it started and sent is wired up and delivered.\<close>

definition app_takes :: "('o app \<Rightarrow> 'o app) \<Rightarrow> 'o system \<Rightarrow> 'o system" where
  "app_takes f s =
     (let b = f (sy_app s); orch = ap_orch_sent b; cmds = ap_stream_sent b;
          s = s\<lparr>sy_app := b\<lparr>ap_orch_sent := [], ap_stream_sent := []\<rparr>,
                sy_ports := sy_ports s @ map (new_port (ap_jobs b)) [length (sy_ports s)..<length (ap_tasks b)]\<rparr>
      in fold to_worker cmds (fold to_orchestrator orch s))"

section \<open>The orchestrator\<close>

text \<open>One step of actor \<open>n\<close> on the shared database: commands for the worker go on its channel, messages
  for the screen into the application's mail.\<close>

definition actor_takes :: "'o sys_env \<Rightarrow> nat \<Rightarrow> task_input \<Rightarrow> 'o system \<Rightarrow> 'o system" where
  "actor_takes Y n i s =
     (let a = sy_app s;
          t = (ap_tasks a ! n)\<lparr>tk_db := ap_db a, tk_stream := [], tk_ui := []\<rparr>;
          t' = task_step (ax_core (sx_app Y)) (sx_orch Y n) t i;
          s = s\<lparr>sy_app := a\<lparr>ap_tasks := (ap_tasks a)[n := t'\<lparr>tk_stream := [], tk_ui := []\<rparr>], ap_db := tk_db t'\<rparr>\<rparr>
      in to_app (map IntBridge (tk_ui t')) (on_port n (put_commands (tk_stream t')) s))"

section \<open>The worker and the relay\<close>

text \<open>What can happen to a worker; a command is the head of its channel.\<close>

datatype stimulus =
    Polls
  | Opens "grpc_error + unit"
  | Ticks
  | TakesCommand
  | Receives "bytes option"
  | Wakes

text \<open>The input the stimulus is in the worker's phase, and what is left in the channel.\<close>

definition worker_sees ::
  "string option \<Rightarrow> port \<Rightarrow> stimulus \<Rightarrow> (worker_input \<times> stream_cmd list) option" where
  "worker_sees since p x =
     (let q = pt_channel p; ph = w_phase (pt_worker p)
      in case x of
           Polls \<Rightarrow> if ph = Stream_Worker.Connecting
             then Some (case q of [] \<Rightarrow> (Poll PollEmpty, []) | c # cs \<Rightarrow> (Poll (Polled c), cs)) else None
         | Opens r \<Rightarrow> if ph = Opening then Some (Opened since r, q) else None
         | Ticks \<Rightarrow> if ph = Live then Some (Stream_Worker.Tick, q) else None
         | TakesCommand \<Rightarrow> (case q of [] \<Rightarrow> None
             | c # cs \<Rightarrow> if ph = Live \<or> ph = Backoff then Some (Cmd (Some c), cs) else None)
         | Receives f \<Rightarrow> if ph = Live then Some (Frame f, q) else None
         | Wakes \<Rightarrow> if ph = Backoff then Some (Slept, q) else None)"

definition worker_takes :: "'o sys_env \<Rightarrow> nat \<Rightarrow> stimulus \<Rightarrow> 'o system \<Rightarrow> 'o system" where
  "worker_takes Y n x s =
     (case worker_sees (ct_committed (tk_cursor (ap_tasks (sy_app s) ! n))) (sy_ports s ! n) x of
        None \<Rightarrow> s
      | Some (i, q) \<Rightarrow>
          on_port n (\<lambda>p. p\<lparr>pt_worker := worker_step (sx_worker Y n) (pt_worker p) i, pt_channel := q\<rparr>) s)"

definition relay_takes :: "'o sys_env \<Rightarrow> nat \<Rightarrow> 'o system \<Rightarrow> 'o system" where
  "relay_takes Y n s =
     (let p = sy_ports s ! n; es = stream_events (pt_worker p)
      in if pt_relayed p < length es then
           let (c, ins, ints) = relay_event (sx_relay Y) (pt_secret p) (tk_cursor (ap_tasks (sy_app s) ! n))
                 (es ! pt_relayed p);
               s = on_port n (\<lambda>p. p\<lparr>pt_relayed := pt_relayed p + 1\<rparr>) (on_task n (\<lambda>t. t\<lparr>tk_cursor := c\<rparr>) s)
           in to_app ints (fold to_orchestrator (map (Pair n) ins) s)
         else s)"

section \<open>Runs\<close>

text \<open>One-shot tasks of the application end with messages, and may leave other files behind.\<close>

datatype sys_input =
    Keys key_event
  | TakesMail
  | Draws rect
  | JobEnds "internal_event list" disk
  | ActorCommand nat
  | ActorTurn nat
  | ActorJob nat nat "string + string"
  | WorkerDoes nat stimulus
  | SendsFail nat "bool list"                \<comment> \<open>the outcomes of the worker's next sends\<close>
  | RelayDoes nat

definition draws :: "'o sys_env \<Rightarrow> rect \<Rightarrow> 'o app \<Rightarrow> 'o app" where
  "draws Y area a =
     (case draw_app (sx_draw Y) (sx_app Y) area a of
        None \<Rightarrow> a\<lparr>ap_panicked := True\<rparr> | Some (b, _) \<Rightarrow> b)"

text \<open>The process ends with the application: after that nothing happens any more.\<close>

definition sys_step :: "'o sys_env \<Rightarrow> 'o system \<Rightarrow> sys_input \<Rightarrow> 'o system" where
  "sys_step Y s i =
     (if \<not> ap_running (sy_app s) \<or> ap_panicked (sy_app s) then s
      else case i of
        Keys k \<Rightarrow> app_takes (\<lambda>a. app_step (sx_app Y) a (Key k)) s
      | TakesMail \<Rightarrow>
          (case sy_mail s of
             [] \<Rightarrow> s
           | e # es \<Rightarrow> app_takes (\<lambda>a. app_step (sx_app Y) a (Internal e)) (s\<lparr>sy_mail := es\<rparr>))
      | Draws area \<Rightarrow> app_takes (draws Y area) s
      | JobEnds es f \<Rightarrow> to_app es (s\<lparr>sy_app := (sy_app s)\<lparr>ap_disk := f\<rparr>\<rparr>)
      | ActorCommand n \<Rightarrow>
          (if n < length (sy_ports s) then
             case pt_commands (sy_ports s ! n) of
               [] \<Rightarrow> s
             | c # cs \<Rightarrow> actor_takes Y n (Command c) (on_port n (\<lambda>p. p\<lparr>pt_commands := cs\<rparr>) s)
           else s)
      | ActorTurn n \<Rightarrow> if n < length (sy_ports s) then actor_takes Y n Turn s else s
      | ActorJob n h r \<Rightarrow> if n < length (sy_ports s) then actor_takes Y n (JobDone h r) s else s
      | WorkerDoes n x \<Rightarrow> if n < length (sy_ports s) then worker_takes Y n x s else s
      | SendsFail n fs \<Rightarrow>
          if n < length (sy_ports s)
          then on_port n (\<lambda>p. p\<lparr>pt_worker := (pt_worker p)\<lparr>w_sends := fs\<rparr>\<rparr>) s else s
      | RelayDoes n \<Rightarrow> if n < length (sy_ports s) then relay_takes Y n s else s)"

definition sys_run :: "'o sys_env \<Rightarrow> 'o system \<Rightarrow> sys_input list \<Rightarrow> 'o system" where
  "sys_run Y = foldl (sys_step Y)"

definition sys_start :: "'o sys_env \<Rightarrow> app_config \<Rightarrow> disk \<Rightarrow> db \<Rightarrow> 'o system" where
  "sys_start Y cfg disk d =
     \<lparr>sy_app = startup_check (sx_app Y) (app_new cfg disk d), sy_ports = [], sy_mail = []\<rparr>"

end
