(* ===== verification/Screens_Draw_Props.thy ===== *)
theory Screens_Draw_Props
  imports Screens_Draw
begin

text \<open>
  What the screens draw: the QR code on the screen is the code with its quiet zone, the entry screens fit
  the terminal, the safety number is shown group by group, and which lines a conversation hands to its
  paragraph.
\<close>

section \<open>The padded grid of a QR code\<close>

definition grid_pos :: "nat \<Rightarrow> nat \<times> nat \<Rightarrow> nat" where
  "grid_pos modules rc = (fst rc + QUIET) * (modules + QUIET * 2) + (snd rc + QUIET)"

text \<open>The module a padded grid shows at a row and a column: dark only inside the code.\<close>

definition padded_module :: "nat \<Rightarrow> bool list \<Rightarrow> nat \<Rightarrow> nat \<Rightarrow> bool" where
  "padded_module modules raw r c \<longleftrightarrow>
     2 \<le> r \<and> r < modules + 2 \<and> 2 \<le> c \<and> c < modules + 2 \<and> raw ! ((r - 2) * modules + (c - 2))"

lemma square_index: "r < n \<Longrightarrow> c < (n::nat) \<Longrightarrow> r * n + c < n * n"
proof -
  assume "r < n" "c < n"
  then have "Suc r * n \<le> n * n" by (intro mult_right_mono) simp_all
  with \<open>c < n\<close> show ?thesis by simp
qed

lemma square_index_inj: "c < n \<Longrightarrow> c' < (n::nat) \<Longrightarrow> r * n + c = r' * n + c' \<longleftrightarrow> r = r' \<and> c = c'"
proof
  assume c: "c < n" "c' < n" and e: "r * n + c = r' * n + c'"
  have "(r * n + c) div n = r" "(r' * n + c') div n = r'" using c by simp_all
  with e have "r = r'" by metis
  with e show "r = r' \<and> c = c'" by simp
qed simp

lemma qr_put_defined:
  assumes "length raw = m * m" "length g = (m + 4) * (m + 4)" "fst rc < m" "snd rc < m"
  shows "qr_put m raw (Some g) rc = Some (g[grid_pos m rc := raw ! (fst rc * m + snd rc)])"
proof -
  have "fst rc * m + snd rc < length raw" using assms square_index by simp
  moreover have "grid_pos m rc < length g"
    using square_index [of "fst rc + 2" "m + 4" "snd rc + 2"] assms
    by (simp add: grid_pos_def QUIET_def)
  ultimately show ?thesis
    by (cases rc) (simp add: qr_put_def nth_opt_def grid_pos_def Let_def)
qed

lemma qr_puts:
  assumes "length raw = m * m" "\<forall>rc \<in> set ps. fst rc < m \<and> snd rc < m"
  shows "\<exists>g. foldl (qr_put m raw) (Some (replicate ((m + 4) * (m + 4)) False)) ps = Some g
    \<and> length g = (m + 4) * (m + 4)
    \<and> (\<forall>r < m + 4. \<forall>c < m + 4. g ! (r * (m + 4) + c) =
         (2 \<le> r \<and> 2 \<le> c \<and> (r - 2, c - 2) \<in> set ps \<and> raw ! ((r - 2) * m + (c - 2))))"
  using assms(2)
proof (induction ps rule: rev_induct)
  case Nil
  then show ?case using square_index [of _ "m + 4"] by simp
next
  case (snoc rc ps)
  then obtain g where g: "foldl (qr_put m raw) (Some (replicate ((m + 4) * (m + 4)) False)) ps = Some g"
    and lg: "length g = (m + 4) * (m + 4)"
    and ng: "\<forall>r < m + 4. \<forall>c < m + 4. g ! (r * (m + 4) + c) =
         (2 \<le> r \<and> 2 \<le> c \<and> (r - 2, c - 2) \<in> set ps \<and> raw ! ((r - 2) * m + (c - 2)))" by auto
  have rc: "fst rc < m" "snd rc < m" using snoc.prems by simp_all
  let ?g = "g[grid_pos m rc := raw ! (fst rc * m + snd rc)]"
  have "?g ! (r * (m + 4) + c) =
         (2 \<le> r \<and> 2 \<le> c \<and> (r - 2, c - 2) \<in> set (ps @ [rc]) \<and> raw ! ((r - 2) * m + (c - 2)))"
    if "r < m + 4" "c < m + 4" for r c
  proof (cases "r = fst rc + 2 \<and> c = snd rc + 2")
    case True
    then have "r * (m + 4) + c = grid_pos m rc" by (simp add: grid_pos_def QUIET_def)
    moreover have "r * (m + 4) + c < length g" using that lg square_index by simp
    ultimately show ?thesis using True by simp
  next
    case False
    have "grid_pos m rc = (fst rc + 2) * (m + 4) + (snd rc + 2)" by (simp add: grid_pos_def QUIET_def)
    then have "grid_pos m rc \<noteq> r * (m + 4) + c"
      using False square_index_inj [of "snd rc + 2" "m + 4" c "fst rc + 2" r] rc that by auto
    then have "?g ! (r * (m + 4) + c) = g ! (r * (m + 4) + c)" by simp
    moreover have "(r - 2, c - 2) \<noteq> rc" if "2 \<le> r" "2 \<le> c" using False that by auto
    ultimately show ?thesis using ng that by auto
  qed
  then show ?case using g lg qr_put_defined [OF assms(1) lg rc] by simp
qed

lemma padded_grid_modules:
  assumes "length raw = m * m"
  shows "\<exists>g. padded_grid m raw = Some g \<and> length g = (m + 4) * (m + 4)
    \<and> (\<forall>r < m + 4. \<forall>c < m + 4. g ! (r * (m + 4) + c) = padded_module m raw r c)"
proof -
  let ?ps = "List.product [0..<m] [0..<m]"
  have "\<forall>rc \<in> set ?ps. fst rc < m \<and> snd rc < m" by auto
  from qr_puts [OF assms this] obtain g where
    g: "foldl (qr_put m raw) (Some (replicate ((m + 4) * (m + 4)) False)) ?ps = Some g"
    "length g = (m + 4) * (m + 4)"
    "\<forall>r < m + 4. \<forall>c < m + 4. g ! (r * (m + 4) + c) =
       (2 \<le> r \<and> 2 \<le> c \<and> (r - 2, c - 2) \<in> set ?ps \<and> raw ! ((r - 2) * m + (c - 2)))" by blast
  have "padded_grid m raw = Some g" using g(1) by (simp add: padded_grid_def QUIET_def Let_def)
  moreover have "g ! (r * (m + 4) + c) = padded_module m raw r c" if "r < m + 4" "c < m + 4" for r c
    using g(3) that by (auto simp: padded_module_def)
  ultimately show ?thesis using g(2) by blast
qed

section \<open>Reading a drawn QR code\<close>

text \<open>The module a reader sees in the lines of the paragraph: the upper or lower half of a cell.\<close>

definition read_module :: "text_line list \<Rightarrow> nat \<Rightarrow> nat \<Rightarrow> bool" where
  "read_module ls r c =
     (let s = sp_text (ls ! (r div 2) ! c)
      in s = glyph 0x2588 \<or> s = (if r mod 2 = 0 then glyph 0x2580 else glyph 0x2584))"

lemma block_glyphs:
  "glyph 0x2588 \<noteq> glyph 0x2580" "glyph 0x2588 \<noteq> glyph 0x2584" "glyph 0x2580 \<noteq> glyph 0x2584"
  "'' '' \<noteq> glyph 0x2588" "'' '' \<noteq> glyph 0x2580" "'' '' \<noteq> glyph 0x2584"
  by (simp_all add: glyph_def utf8_encode_def)

lemma read_half_block:
  "half_block u l = glyph 0x2588 \<or> half_block u l = glyph 0x2580 \<longleftrightarrow> u"
  "half_block u l = glyph 0x2588 \<or> half_block u l = glyph 0x2584 \<longleftrightarrow> l"
  using block_glyphs by (auto simp: half_block_def split: bool.split)

lemma read_qr_lines:
  assumes "r < n" "c < n"
  shows "read_module (qr_lines w n g) r c = g ! (r * n + c)"
proof -
  have h: "r div 2 < (n + 1) div 2" using assms(1) by simp
  then have "qr_lines w n g ! (r div 2) = qr_line w n g (r div 2)"
    by (simp add: qr_lines_def nth_append)
  then have t: "sp_text (qr_lines w n g ! (r div 2) ! c) =
    half_block (r div 2 * 2 < n \<and> g ! (r div 2 * 2 * n + c))
      (r div 2 * 2 + 1 < n \<and> g ! ((r div 2 * 2 + 1) * n + c))"
    using assms(2) by (simp add: qr_line_def styled_def Let_def)
  show ?thesis
  proof (cases "r mod 2 = 0")
    case True
    then have "r div 2 * 2 = r" by presburger
    with True assms(1) show ?thesis by (simp add: read_module_def t read_half_block del: mult_Suc)
  next
    case False
    then have "r div 2 * 2 + 1 = r" by presburger
    with False assms(1) show ?thesis
      unfolding read_module_def t Let_def by (simp only: read_half_block if_False simp_thms)
  qed
qed

text \<open>C25. What a reader sees of a drawn QR code is exactly the code's modules with a light quiet zone of two
  cells on every side, whatever the widget's caption and area: every row and column of the padded
  square can be read back from the half blocks of the paragraph that is drawn.\<close>

theorem qr_reads_back:
  assumes "qr_law E" "de_qr E (qw_data w) = Some (m, raw)"
  shows "\<exists>area' ls. draw_qr E w area = Some [(area', Paragraph (par (Lines ls) style_default))]
    \<and> length ls = (m + 5) div 2 + (if qw_caption w = None then 0 else 1)
    \<and> (\<forall>r < m + 4. length (ls ! (r div 2)) = m + 4)
    \<and> (\<forall>r < m + 4. \<forall>c < m + 4. read_module ls r c = padded_module m raw r c)"
proof -
  have "length raw = m * m" using assms by (simp add: qr_law_def)
  from padded_grid_modules [OF this] obtain g where g: "padded_grid m raw = Some g"
    "\<forall>r < m + 4. \<forall>c < m + 4. g ! (r * (m + 4) + c) = padded_module m raw r c" by blast
  let ?ls = "qr_lines w (m + 4) g"
  have "length ?ls = (m + 5) div 2 + (if qw_caption w = None then 0 else 1)"
    by (simp add: qr_lines_def add.commute split: option.split)
  moreover have "length (?ls ! (r div 2)) = m + 4" if "r < m + 4" for r
  proof -
    have "r div 2 < (m + 4 + 1) div 2" using that by simp
    then show ?thesis by (simp add: qr_lines_def nth_append qr_line_def Let_def)
  qed
  moreover have "read_module ?ls r c = padded_module m raw r c" if "r < m + 4" "c < m + 4" for r c
    using that g(2) by (simp add: read_qr_lines)
  moreover have "\<exists>area'. draw_qr E w area = Some [(area', Paragraph (par (Lines ?ls) style_default))]"
    using assms(2) g(1) by (simp add: draw_qr_def QUIET_def Let_def)
  ultimately show ?thesis by blast
qed

theorem qr_reads_back_witness:
  "\<exists>area' ls. draw_qr plain_draw (qr_widget_new ''invite'') \<lparr>r_x = 0, r_y = 0, r_width = 80, r_height = 24\<rparr>
       = Some [(area', Paragraph (par (Lines ls) style_default))]
     \<and> read_module ls 2 2 \<and> \<not> read_module ls 0 0 \<and> \<not> read_module ls 3 2"
proof -
  have "de_qr plain_draw (qw_data (qr_widget_new ''invite'')) = Some (1, [True])"
    by (simp add: plain_draw_def qr_widget_new_def)
  from qr_reads_back [OF plain_draw_laws(3) this,
      of "\<lparr>r_x = 0, r_y = 0, r_width = 80, r_height = 24\<rparr>"]
  show ?thesis by (fastforce simp: padded_module_def)
qed

section \<open>The entry screens fit the terminal\<close>

text \<open>A rectangle of the terminal, and a rectangle inside it.\<close>

definition area_ok :: "rect \<Rightarrow> bool" where
  "area_ok a \<longleftrightarrow> unat (r_x a) + unat (r_width a) < 65536 \<and> unat (r_y a) + unat (r_height a) < 65536"

definition rows_inside :: "rect \<Rightarrow> u16 \<Rightarrow> nat \<Rightarrow> bool" where
  "rows_inside a y n \<longleftrightarrow> unat (r_y a) \<le> unat y \<and> unat y + n \<le> unat (r_y a) + unat (r_height a)"

definition columns_inside :: "rect \<Rightarrow> u16 \<Rightarrow> u16 \<Rightarrow> bool" where
  "columns_inside a x w \<longleftrightarrow>
     unat (r_x a) \<le> unat x \<and> unat x + unat w \<le> unat (r_x a) + unat (r_width a)"

definition inside :: "rect \<Rightarrow> rect \<Rightarrow> bool" where
  "inside a r \<longleftrightarrow> columns_inside a (r_x r) (r_width r) \<and> rows_inside a (r_y r) (unat (r_height r))"

lemma unat_sat_sub: "unat (sat_sub a b) = unat a - unat b"
  by (simp add: sat_sub_def unat_sub word_le_nat_alt)

lemma unat_add_small: "unat a + unat b < 65536 \<Longrightarrow> unat (a + b) = unat a + unat (b :: u16)"
  by (simp add: unat_plus_simple [THEN iffD1] no_olen_add_nat)

lemma unat_centre:
  assumes "area_ok a"
  shows "unat (centre_x a w) = unat (r_x a) + (unat (r_width a) - unat w) div 2"
    "unat (centre_y a h) = unat (r_y a) + (unat (r_height a) - unat h) div 2"
proof -
  have h: "unat (sat_sub b c div 2) = (unat b - unat c) div 2" for b c :: u16
    by (simp add: unat_div unat_sat_sub)
  have l: "(n - k) div 2 \<le> n" for n k :: nat by simp
  show "unat (centre_x a w) = unat (r_x a) + (unat (r_width a) - unat w) div 2"
    using assms l [of "unat (r_width a)" "unat w"] unat_add_small [of "r_x a" "sat_sub (r_width a) w div 2"]
    by (simp add: centre_x_def area_ok_def h)
  show "unat (centre_y a h) = unat (r_y a) + (unat (r_height a) - unat h) div 2" for h
    using assms l [of "unat (r_height a)" "unat h"] unat_add_small [of "r_y a" "sat_sub (r_height a) h div 2"]
    by (simp add: centre_y_def area_ok_def h)
qed

lemma unat_min: "unat (min a b) = min (unat a) (unat b)"
  by (simp add: min_def word_le_nat_alt)

lemma centre_columns:
  assumes "area_ok a" "unat v \<le> unat w" "unat v \<le> unat (r_width a)"
  shows "columns_inside a (centre_x a w) v"
  using assms unat_centre(1) [OF assms(1), of w] by (simp add: columns_inside_def)

text \<open>A row at some distance below the one at which a block of \<open>h\<close> rows is centred.\<close>

lemma centre_rows:
  assumes "area_ok a" "(unat (r_height a) - unat h) div 2 + unat k + n \<le> unat (r_height a)"
  shows "rows_inside a (k + centre_y a h) n"
proof -
  have c: "unat (centre_y a h) = unat (r_y a) + (unat (r_height a) - unat h) div 2"
    by (rule unat_centre(2) [OF assms(1)])
  have "unat (k + centre_y a h) = unat k + unat (centre_y a h)"
    using assms c by (intro unat_add_small) (simp add: area_ok_def)
  with c assms(2) show ?thesis by (simp add: rows_inside_def)
qed

lemma centred_row_inside:
  "area_ok a \<Longrightarrow> rows_inside a y 1 \<Longrightarrow> inside a (fst (centred_row a y w c s))"
  by (simp add: centred_row_def inside_def centre_columns unat_min)

lemma field_box_inside:
  "area_ok a \<Longrightarrow> rows_inside a y 3 \<Longrightarrow> inside a (fst (field_box a y (min m (sat_sub (r_width a) 4)) t s))"
  by (simp add: field_box_def inside_def centre_columns unat_min unat_sat_sub)

lemma clipped_row_inside:
  assumes "area_ok a" "rows_inside a y 1"
  shows "inside a \<lparr>r_x = centre_x a w, r_y = y,
    r_width = min v (sat_sub (r_width a) (sat_sub (centre_x a w) (r_x a))), r_height = 1\<rparr>"
  using assms unat_centre(1) [OF assms(1), of w]
  by (simp add: inside_def columns_inside_def unat_min unat_sat_sub)

lemma len_STEPS [simp]: "length STEPS = 7" "len16 STEPS = 7"
  by (simp_all add: STEPS_def len16_def)

lemma registration_inside:
  assumes "area_ok a" "11 \<le> unat (r_height a)" "p \<in> set (draw_registration r a)"
  shows "inside a (fst p)"
proof -
  have rows: "rows_inside a (k + centre_y a 11) 1" if "unat k < 11" for k
    using centre_rows [OF assms(1), of 11 k 1] assms(2) that by simp
  have "inside a (fst (step_row r a (2 + centre_y a 11) (i, l)))" if "i < 7" for i l
  proof -
    have "unat (of_nat i + 2 :: u16) < 11"
      using that by (simp add: unat_add_small unat_of_nat)
    from rows [OF this] have r: "rows_inside a (of_nat i + 2 + centre_y a 11) 1" .
    have e: "2 + centre_y a 11 + of_nat i = of_nat i + 2 + centre_y a 11" by (simp add: ac_simps)
    show ?thesis using clipped_row_inside [OF assms(1) r]
      by (simp add: step_row_def Let_def e split: prod.split)
  qed
  moreover have "rows_inside a (centre_y a 11) 1" "rows_inside a (10 + centre_y a 11) 1"
    using rows [of 0] rows [of 10] by simp_all
  ultimately show ?thesis
    using assms(3) centred_row_inside [OF assms(1)]
    by (auto simp: draw_registration_def Let_def in_set_enumerate_eq add.commute)
qed

lemma unlock_inside:
  assumes "area_ok a" "(if un_error s = None then 10 else 11) \<le> unat (r_height a)" "p \<in> set (draw_unlock s a)"
  shows "inside a (fst p)"
proof -
  have rows: "rows_inside a (k + centre_y a 10) n"
    if "unat k + n \<le> (if un_error s = None then 10 else 11)" for k n
    using centre_rows [OF assms(1), of 10 k n] assms(2) that by (simp split: if_splits)
  have r: "rows_inside a (centre_y a 10) 1" "rows_inside a (2 + centre_y a 10) 1"
    "rows_inside a (4 + centre_y a 10) 3" "rows_inside a (8 + centre_y a 10) 1"
    "un_error s \<noteq> None \<Longrightarrow> rows_inside a (10 + centre_y a 10) 1"
    using rows [of 0 1] rows [of 2 1] rows [of 4 3] rows [of 8 1] rows [of 10 1] by simp_all
  show ?thesis
    using assms(3) r centred_row_inside [OF assms(1)] field_box_inside [OF assms(1)]
    by (cases "un_mode s"; cases "un_error s")
      (auto simp: draw_unlock_def Let_def add.commute [of "centre_y a 10"])
qed


lemma scan_inside:
  assumes "area_ok a" "10 \<le> unat (r_height a)" "p \<in> set (draw_scan s a)"
  shows "inside a (fst p)"
proof -
  have rows: "rows_inside a (k + centre_y a 10) n" if "unat k + n \<le> 10" for k n
    using centre_rows [OF assms(1), of 10 k n] assms(2) that by simp
  have r: "rows_inside a (centre_y a 10) 1" "rows_inside a (2 + centre_y a 10) 3"
    "rows_inside a (6 + centre_y a 10) 1" "rows_inside a (8 + centre_y a 10) 1"
    using rows [of 0 1] rows [of 2 3] rows [of 6 1] rows [of 8 1] by simp_all
  show ?thesis
    using assms(3) r centred_row_inside [OF assms(1)] field_box_inside [OF assms(1)]
    by (cases "dl_status s") (auto simp: draw_scan_def Let_def add.commute [of "centre_y a 10"])
qed

lemma onboarding_inside:
  assumes "area_ok a" "(if 80 \<le> r_width a then 15 else 13) \<le> unat (r_height a)"
    "p \<in> set (draw_onboarding s a)"
  shows "inside a (fst p)"
proof -
  define b :: u16 where "b = (if 80 \<le> r_width a then 6 else 4)"
  define banner where "banner = (if 80 \<le> r_width a then BANNER else BANNER_NARROW)"
  have b: "len16 banner = b" "unat b = length banner" "length banner \<le> 6"
    by (simp_all add: b_def banner_def len16_def BANNER_def BANNER_NARROW_def)
  define h where "h = b + 9"
  have h: "unat h = length banner + 9" using b by (simp add: h_def unat_add_small)
  have H: "length banner + 9 \<le> unat (r_height a)"
    using assms(2) by (simp add: banner_def BANNER_def BANNER_NARROW_def split: if_splits)
  have rows: "rows_inside a (k + centre_y a h) n" if "unat k + n \<le> length banner + 9" for k n
    using centre_rows [OF assms(1), of h k n] H h that by simp
  have off: "unat (b + k) = length banner + unat k" if "unat k < 100" for k
    using b that by (simp add: unat_add_small)
  have r: "rows_inside a (b + 1 + centre_y a h) 1" "rows_inside a (b + 3 + centre_y a h) 3"
    "rows_inside a (b + 7 + centre_y a h) 1" "rows_inside a (b + 8 + centre_y a h) 1"
    by (rule rows; simp add: off)+
  have art: "inside a (fst (banner_row a (centre_x a w) (centre_y a h) (i, row)))"
    if "i < length banner" for i row w
  proof -
    have "unat (of_nat i :: u16) = i" using that b(3) by (simp add: unat_of_nat)
    then have "rows_inside a (of_nat i + centre_y a h) 1" using that by (intro rows) simp
    from clipped_row_inside [OF assms(1) this] show ?thesis by (simp add: banner_row_def add.commute)
  qed
  have y: "centre_y a (b + 1 + 1 + 2 + 3 + 1 + 1) = centre_y a h" by (simp add: h_def add.assoc)
  have e: "centre_y a h + (b + 1) = b + 1 + centre_y a h"
    "b + 1 + centre_y a h + 2 = b + 3 + centre_y a h"
    "b + 3 + centre_y a h + 4 = b + 7 + centre_y a h"
    "b + 7 + centre_y a h + 1 = b + 8 + centre_y a h" by simp_all
  show ?thesis
    using assms(3) centred_row_inside [OF assms(1) r(1)] centred_row_inside [OF assms(1) r(3)]
      centred_row_inside [OF assms(1) r(4)] field_box_inside [OF assms(1) r(2)] art
    unfolding draw_onboarding_def banner_def [symmetric] Let_def b(1) y e
    by (cases "ob_status s") (auto simp: in_set_enumerate_eq)
qed

definition frame_inside :: "rect \<Rightarrow> frame \<Rightarrow> bool" where
  "frame_inside a f \<longleftrightarrow> list_all (\<lambda>p. inside a (fst p)) f"

lemma device_link_inside:
  assumes "area_ok a" "12 \<le> unat (r_height a)" "dl_tab s = ScanTab"
  shows "\<exists>f. draw_device_link E s a = Some f \<and> frame_inside a f"
proof -
  let ?c = "\<lparr>r_x = r_x a, r_y = r_y a + 2, r_width = r_width a, r_height = sat_sub (r_height a) 2\<rparr>"
  have y: "unat (r_y a + 2) = unat (r_y a) + 2" using assms by (simp add: area_ok_def unat_add_small)
  have c: "area_ok ?c" "10 \<le> unat (r_height ?c)"
    using assms y unfolding area_ok_def by (simp_all add: unat_sat_sub) linarith
  have "inside a r" if "inside ?c r" for r
    using that y assms(2)
    unfolding inside_def columns_inside_def rows_inside_def by (simp add: unat_sat_sub) linarith
  then have "list_all (\<lambda>p. inside a (fst p)) (draw_scan s ?c)"
    using scan_inside [OF c] by (simp add: list_all_iff)
  moreover have "inside a \<lparr>r_x = r_x a, r_y = r_y a, r_width = r_width a, r_height = 1\<rparr>"
    using assms(2) by (simp add: inside_def columns_inside_def rows_inside_def)
  ultimately show ?thesis
    using assms(3) by (simp add: draw_device_link_def frame_inside_def Let_def)
qed



text \<open>One row less, and the hint below an error is drawn outside.\<close>

lemma unlock_error_hint_outside:
  assumes "area_ok a" "unat (r_height a) = 10"
  shows "\<not> frame_inside a (draw_unlock (unlock_error e (unlock_new Unlocking)) a)"
proof -
  have "unat (centre_y a 10) = unat (r_y a)" using unat_centre(2) [OF assms(1), of 10] assms(2) by simp
  then have "unat (10 + centre_y a 10) = 10 + unat (r_y a)"
    using assms by (simp add: unat_add_small area_ok_def)
  then have "\<not> rows_inside a (10 + centre_y a 10) 1"
    using assms(2) by (simp add: rows_inside_def)
  then show ?thesis
    by (simp add: frame_inside_def draw_unlock_def unlock_error_def unlock_new_def Let_def centred_row_def
        inside_def add.commute [of "centre_y a 10"])
qed

section \<open>The caption of the full-screen code\<close>

text \<open>The full-screen code is drawn in a rectangle of the size \<open>size_hint\<close> gives, which does not count the
  caption: the paragraph has one line more than its rectangle has rows.\<close>

lemma caption_has_no_row:
  assumes "qr_law E" "de_qr E d = Some (m, raw)" "m + 4 < 65536" "size_hint E d = Some (qr_w, qr_h)"
    "r_height area = min qr_h h" "draw_qr E \<lparr>qw_data = d, qw_caption = Some cap, qw_fg = f, qw_bg = b\<rparr> area
       = Some [(area', Paragraph (par (Lines ls) style_default))]"
  shows "unat (r_height area') < length ls"
proof -
  have raw: "length raw = m * m" using assms(1,2) by (simp add: qr_law_def)
  from padded_grid_modules [OF raw] obtain g where g: "padded_grid m raw = Some g" by blast
  have ls: "ls = qr_lines \<lparr>qw_data = d, qw_caption = Some cap, qw_fg = f, qw_bg = b\<rparr> (m + 4) g"
    and a': "r_height area' = min (len16 ls) (r_height area)"
    using assms(2,6) g by (auto simp: draw_qr_def QUIET_def Let_def par_def)
  have l: "length ls = (m + 5) div 2 + 1" by (simp add: ls qr_lines_def)
  have q: "qr_h = half_up (of_nat (m + 4))" using assms(2,4) by (auto simp: size_hint_def QUIET_def)
  have "unat qr_h = (m + 5) div 2"
  proof -
    have n: "unat (of_nat (m + 4) :: u16) = m + 4" using assms(3) by (simp only: unat_of_nat) simp
    have "unat (of_nat (m + 4) div 2 + of_nat (m + 4) mod 2 :: u16) = (m + 4) div 2 + (m + 4) mod 2"
      using assms(3) n by (subst unat_add_small) (simp_all only: unat_div unat_mod n, simp_all)
    then show ?thesis unfolding q half_up_def by presburger
  qed
  moreover have "unat (r_height area') \<le> unat qr_h"
    using a' assms(5) by (simp add: unat_min)
  ultimately show ?thesis using l by simp
qed

section \<open>The safety number\<close>

lemma no_ws_digit: "is_digit c \<Longrightarrow> find (\<lambda>w. prefix w (c # t)) ws_encodings = None"
proof -
  assume c: "is_digit c"
  have "list_all (\<lambda>w. w \<noteq> [] \<and> \<not> is_digit (hd w)) ws_encodings"
    by (simp add: ws_encodings_def list_all_iff is_digit_def)
  then have "\<not> prefix w (c # t)" if "w \<in> set ws_encodings" for w
    using that c by (cases w) (auto simp: list_all_iff)
  then show ?thesis by (auto simp: find_None_iff)
qed

lemma split_ws_digits: "list_all is_digit d \<Longrightarrow> split_ws w (d @ s) = split_ws (w @ d) s"
proof (induction d arbitrary: w)
  case (Cons c d)
  have "split_ws w (c # d @ s) = split_ws (w @ [c]) (d @ s)"
    using Cons.prems no_ws_digit [of c "d @ s"] by (subst split_ws.simps) simp
  with Cons show ?case by simp
qed simp

lemma split_ws_blank: "split_ws w (CHR 0x20 # t) = (if w = [] then [] else [w]) @ split_ws [] t"
  by (subst split_ws.simps) (simp add: ws_encodings_def)

lemma split_ws_end: "split_ws w [] = (if w = [] then [] else [w])"
  by (subst split_ws.simps) simp

lemma split_join_space:
  "\<forall>g \<in> set gs. g \<noteq> [] \<and> list_all is_digit g \<Longrightarrow> split_ws [] (join_space gs) = gs"
proof (induction gs rule: join_space.induct)
  case (2 x)
  then show ?case using split_ws_digits [of x "[]" "[]"] by (simp add: split_ws_end)
next
  case (3 x y xs)
  then show ?case using split_ws_digits [of x "[]" "CHR 0x20 # join_space (y # xs)"]
    by (simp add: split_ws_blank)
qed (simp add: split_ws_end)

lemma safety_groups_digits: "g \<in> set (safety_groups h a b) \<Longrightarrow> length g = 5 \<and> list_all is_digit g"
proof -
  have "unat (digest_group d i mod 100000) < 100000" for d i by (simp add: unat_mod)
  then show "g \<in> set (safety_groups h a b) \<Longrightarrow> length g = 5 \<and> list_all is_digit g"
    using pad5_five by (auto simp: safety_groups_def Let_def)
qed

lemma chunks_three: "chunks 3 (x # y # z # xs) = [x, y, z] # chunks 3 xs" "chunks 3 [] = []"
  by (simp_all add: chunks.simps [of 3 "x # y # z # xs"] chunks.simps [of 3 "[]"])

lemma take_three: "i + 2 < length g \<Longrightarrow> take 3 (drop i g) = [g ! i, g ! (i + 1), g ! (i + 2)]"
  by (simp add: numeral_3_eq_3 Cons_nth_drop_Suc [symmetric])

lemma grid_rows:
  assumes "length g = 12"
  shows "map (join_with sep) (chunks 3 g) =
    map (\<lambda>k. g ! (3 * k) @ sep @ g ! (3 * k + 1) @ sep @ g ! (3 * k + 2)) [0..<4]"
proof -
  have c: "chunks 3 (drop i g) = take 3 (drop i g) # chunks 3 (drop (i + 3) g)" if "i < 12" for i
    using assms that by (subst chunks.simps) (simp add: add.commute)
  have e: "chunks 3 (drop 12 g) = []" using assms by (subst chunks.simps) simp
  have "chunks 3 g = [take 3 (drop 0 g), take 3 (drop 3 g), take 3 (drop 6 g), take 3 (drop 9 g)]"
    using c [of 0] c [of 3] c [of 6] c [of 9] e by simp
  also have "\<dots> = map (\<lambda>k. take 3 (drop (3 * k) g)) [0..<4]" by (simp add: upt_rec)
  also have "\<dots> = map (\<lambda>k. [g ! (3 * k), g ! (3 * k + 1), g ! (3 * k + 2)]) [0..<4]"
    using assms by (intro map_cong take_three) auto
  finally show ?thesis by simp
qed

text \<open>The safety number screen shows the number that was computed: four rows of three groups, in the
  order of the groups, five digits each and two blanks between them; and the two people comparing it see
  the same rows, each drawn from their own side with their own name for the other.\<close>

theorem safety_number_shown:
  "formatted_grid (safety_number_new h n a b) =
     map (\<lambda>k. let g = safety_groups h a b in g ! (3 * k) @ ''  '' @ g ! (3 * k + 1) @ ''  '' @ g ! (3 * k + 2)) [0..<4]
   \<and> list_all (\<lambda>row. length row = 19) (formatted_grid (safety_number_new h n a b))
   \<and> formatted_grid (safety_number_new h n' b a) = formatted_grid (safety_number_new h n a b)"
proof -
  let ?g = "safety_groups h a b"
  have ne: "g \<noteq> []" if "length g = 5" for g :: string using that by auto
  have w: "split_ws [] (join_space ?g) = ?g"
    using safety_groups_digits [of _ h a b] ne by (intro split_join_space) blast
  have "length ?g = 12" by (simp add: safety_groups_def Let_def)
  have grid: "formatted_grid (safety_number_new h n a b) = map (join_with ''  '') (chunks 3 ?g)" for n
    by (simp add: formatted_grid_def safety_number_new_def compute_safety_number_def w)
  note rows = grid_rows [OF \<open>length ?g = 12\<close>, of "''  ''"]
  have "length (?g ! k) = 5" if "k < 12" for k
    using safety_groups_digits [of "?g ! k" h a b] \<open>length ?g = 12\<close> that by simp
  then have "list_all (\<lambda>row. length row = 19) (map (join_with ''  '') (chunks 3 ?g))"
    unfolding rows by (simp add: list_all_iff)
  moreover have "formatted_grid (safety_number_new h n' b a) = formatted_grid (safety_number_new h n' a b)"
    by (simp add: formatted_grid_def safety_number_new_def compute_safety_number_def safety_groups_def
        safety_message_sym [of b a])
  ultimately show ?thesis using grid rows by (simp add: Let_def)
qed

section \<open>The lines of a conversation\<close>

lemma visible_window:
  "visible_messages h v =
     drop (length (cv_messages v) - cv_scroll_offset v - h)
       (take (length (cv_messages v) - cv_scroll_offset v) (cv_messages v))"
  by (simp add: visible_messages_def Let_def take_drop)

text \<open>When the window is full of messages the hint about the scroll position has no row left.\<close>

lemma scroll_hint_cut:
  assumes "0 < cv_scroll_offset v" "h + cv_scroll_offset v \<le> length (cv_messages v)"
  shows "length (message_lines h v) = h + 1"
    and "take h (message_lines h v) = map message_line (visible_messages h v)"
proof -
  have "length (visible_messages h v) = h" using assms by (simp add: visible_window)
  then show "length (message_lines h v) = h + 1"
    "take h (message_lines h v) = map message_line (visible_messages h v)"
    using assms(1) by (simp_all add: message_lines_def scroll_hint_def)
qed

text \<open>The view scrolled so that message \<open>i\<close> is the last one of the window.\<close>

definition scrolled_to :: "nat \<Rightarrow> chat_view \<Rightarrow> chat_view" where
  "scrolled_to i v = scroll_up (length (cv_messages v) - 1 - i) (scroll_to_bottom v)"


definition sample_view :: chat_view where
  "sample_view = (chat_view_new ''bob'')\<lparr>cv_messages :=
     [\<lparr>cm_id = ''1'', cm_kind = Sent, cm_text = ''hello'', cm_time = ''10:00''\<rparr>,
      \<lparr>cm_id = ''2'', cm_kind = Received, cm_text = ''hi'', cm_time = ''10:01''\<rparr>]\<rparr>"


end
