(* ===== verification/Draw_Props.thy ===== *)
theory Draw_Props
  imports App_Draw App_Props Screens_Draw_Props
begin

text \<open>
  The application with its drawing: when drawing panics, what it changes, what it shows, and the
  consistency of every state of the loop that draws before each event.
\<close>

section \<open>When drawing panics\<close>

lemma split_nth: "split_law E \<Longrightarrow> i < length cs \<Longrightarrow> \<exists>r. nth_opt (de_split E d cs a) i = Some r"
  by (simp add: split_law_def nth_opt_def)

lemma those_None: "those xs = None \<longleftrightarrow> None \<in> set xs"
  by (induction xs) (auto split: option.split)

definition sliceable :: "search_result \<Rightarrow> bool" where
  "sliceable r \<longleftrightarrow> char_boundary (rs_user_id r) (min 8 (length (rs_user_id r)))"

lemma draw_qr_defined: "qr_law E \<Longrightarrow> draw_qr E w area \<noteq> None"
proof (cases "de_qr E (qw_data w)")
  case (Some mr)
  assume q: "qr_law E"
  obtain m raw where mr: "de_qr E (qw_data w) = Some (m, raw)" using Some by (cases mr) simp
  with q have "length raw = m * m" by (simp add: qr_law_def)
  from padded_grid_modules [OF this] obtain g where "padded_grid m raw = Some g" by blast
  with mr show ?thesis by (simp add: draw_qr_def Let_def)
qed (simp add: draw_qr_def)

lemma draw_chat_view_defined: "split_law E \<Longrightarrow> draw_chat_view E v area \<noteq> None"
proof -
  assume s: "split_law E"
  have "\<exists>p q. split2 E Vertical (MinSize 1) (ExactSize 3) r = Some (p, q)" for r
    by (rule split2_defined [OF s])
  then obtain p q where "split2 E Vertical (MinSize 1) (ExactSize 3)
      (de_inner E (bordered (Some ('' '' @ cv_contact_name v @ '' ''))
        (fg (if cv_focused v \<or> cv_compose_focused v then Cyan else DarkGray))) area) = Some (p, q)" by blast
  then show ?thesis by (simp add: draw_chat_view_def Let_def)
qed

lemma draw_main_defined: "split_law E \<Longrightarrow> draw_main E now area a \<noteq> None"
proof -
  assume s: "split_law E"
  let ?r = "de_split E Vertical [ExactSize 1, MinSize 1, ExactSize 1] area"
  obtain r0 r1 r2 where "nth_opt ?r 0 = Some r0" "nth_opt ?r 1 = Some r1" "nth_opt ?r 2 = Some r2"
    using split_nth [OF s, of _ "[ExactSize 1, MinSize 1, ExactSize 1]"] by fastforce
  moreover obtain b0 b1 where "split2 E Horizontal (Percentage 25) (Percentage 75) r1 = Some (b0, b1)"
    using split2_defined [OF s] by blast
  moreover obtain f where "draw_chat_view E (ap_chat_view a) b1 = Some f"
    using draw_chat_view_defined [OF s] by blast
  ultimately show ?thesis by (simp add: draw_main_def Let_def)
qed

lemma render_list_defined: "split_law E \<Longrightarrow> render_list E s area \<noteq> None"
  using split2_defined [of E Vertical "ExactSize 1" "MinSize 1" area] by (auto simp: render_list_def)

lemma draw_settings_defined: "split_law E \<Longrightarrow> draw_settings E I now s area \<noteq> None"
proof -
  assume s: "split_law E"
  obtain c0 c1 where "split2 E Horizontal (MinSize 50) (ExactSize 36)
      (de_inner E (bordered (Some ('' '' @ glyph 0x25C6 @ '' Settings '')) (fg Cyan)) area) = Some (c0, c1)"
    using split2_defined [OF s] by blast
  moreover have "\<exists>s' f. render_list E s r = Some (s', f)" for r
    using render_list_defined [OF s, of _ r] by fast
  then obtain s' f s'' f' where "render_list E s c0 = Some (s', f)"
    "render_list E s (de_inner E (bordered (Some ('' '' @ glyph 0x25C6 @ '' Settings '')) (fg Cyan)) area)
       = Some (s'', f')" by metis
  ultimately show ?thesis by (simp add: draw_settings_def Let_def split: prod.split)
qed

lemma identity_qr_defined: "draw_laws E \<Longrightarrow> identity_qr_fullscreen E area p u \<noteq> None"
  using split2_defined [of E Vertical "MinSize 1" "ExactSize 1" area] draw_qr_defined [of E]
  by (auto simp: identity_qr_fullscreen_def Let_def draw_laws_def split: option.split)

lemma draw_device_link_defined: "qr_law E \<Longrightarrow> draw_device_link E s area \<noteq> None"
  using draw_qr_defined [of E]
  by (auto simp: draw_device_link_def draw_show_def Let_def split: device_link_tab.split option.split)

lemma draw_contact_search_None:
  assumes "split_law E"
  shows "draw_contact_search E s area = None \<longleftrightarrow> \<not> list_all sliceable (cs_results s)"
proof -
  let ?cs = "[ExactSize 1, ExactSize 3, ExactSize 1, MinSize 1]"
    and ?a = "de_inner E (bordered (Some ('' '' @ glyph 0x25C6 @ '' Add Node '')) (fg Cyan)) area"
  have n: "\<exists>r. nth_opt (de_split E Vertical ?cs ?a) i = Some r" if "i < 4" for i
    using split_nth [OF assms, of i ?cs] that by simp
  obtain c0 c1 c2 c3 where
    "nth_opt (de_split E Vertical ?cs ?a) 0 = Some c0" "nth_opt (de_split E Vertical ?cs ?a) 1 = Some c1"
    "nth_opt (de_split E Vertical ?cs ?a) 2 = Some c2" "nth_opt (de_split E Vertical ?cs ?a) 3 = Some c3"
    using n [of 0] n [of 1] n [of 2] n [of 3] by auto
  then have "draw_contact_search E s area = None \<longleftrightarrow> those (map result_item (cs_results s)) = None"
    by (cases "those (map result_item (cs_results s))") (simp_all add: draw_contact_search_def Let_def)
  also have "\<dots> \<longleftrightarrow> \<not> list_all sliceable (cs_results s)"
    unfolding those_None by (force simp: list_all_iff result_item_def sliceable_def Let_def image_iff)
  finally show ?thesis .
qed

lemma draw_app_None:
  assumes "draw_laws E"
  shows "draw_app E X area a = None \<longleftrightarrow>
    ap_screen a = ContactSearch \<and> \<not> list_all sliceable (cs_results (ap_search a))"
proof -
  have s: "split_law E" and q: "qr_law E" using assms by (simp_all add: draw_laws_def)
  have "render_app E X area a = None \<longleftrightarrow>
    ap_screen a = ContactSearch \<and> \<not> list_all sliceable (cs_results (ap_search a))"
    using draw_main_defined [OF s] draw_settings_defined [OF s] identity_qr_defined [OF assms]
      draw_device_link_defined [OF q] draw_contact_search_None [OF s]
    by (cases "ap_screen a"; cases "ap_safety a")
      (simp_all add: render_app_def with_settings_def Let_def set_screen_def split: prod.split)
  then show ?thesis by (simp add: draw_app_def)
qed

text \<open>C29. Drawing panics on no screen but one, and there exactly when a search result's user id, which the
  server chose, has a multi-byte character across its eighth byte: the eight-byte preview of the id is
  cut without regard to characters. Everything else the code indexes, the parts of a layout and the
  modules of a QR code, is there.\<close>

theorem drawing_panics_only_on_cut_id:
  assumes "draw_laws E"
  shows "draw_app E X area a = None \<longleftrightarrow>
    ap_screen a = ContactSearch \<and> (\<exists>r \<in> set (cs_results (ap_search a)).
      \<not> char_boundary (rs_user_id r) (min 8 (length (rs_user_id r))))"
  using draw_app_None [OF assms, of X area a] by (simp add: list_all_iff sliceable_def)

text \<open>A running application that has not signed in, for the witnesses.\<close>

definition quiet_app :: "'o app" where
  "quiet_app = app_new \<lparr>ac_server_url = ''https://ams.konstruct.cc:443'', ac_transport = Direct,
     ac_no_encrypt = False, ac_headless = False, ac_pq_active = False\<rparr>
     \<lparr>dk_has_dir = True, dk_enc = None, dk_old = None, dk_config = None, dk_faults = [], dk_draws = 0\<rparr> empty_db"

theorem drawing_panics_only_on_cut_id_witness:
  "\<forall>X. draw_app plain_draw X \<lparr>r_x = 0, r_y = 0, r_width = 80, r_height = 24\<rparr>
     (quiet_app\<lparr>ap_screen := ContactSearch, ap_search := contact_search_new\<lparr>cs_results :=
        [\<lparr>rs_user_id = ''aaaaaaa'' @ utf8_encode 0xE9, rs_username = ''eve'', rs_display_name = ''Eve''\<rparr>]\<rparr>\<rparr>) = None"
  by (simp add: drawing_panics_only_on_cut_id [OF plain_draw_laws(1)] utf8_encode_def char_boundary_def
      is_cont_char_def)

section \<open>What drawing changes\<close>

text \<open>The settings with another selection and another cached invite.\<close>

definition same_settings :: "settings \<Rightarrow> settings \<Rightarrow> bool" where
  "same_settings s t \<longleftrightarrow>
     t = s\<lparr>se_selected := se_selected t, se_invite_cache := se_invite_cache t\<rparr>"

lemma same_settings_refl [simp]: "same_settings s s"
  by (simp add: same_settings_def)

lemma same_settings_updates [simp]:
  "same_settings s (t\<lparr>se_selected := x\<rparr>) = same_settings s t"
  "same_settings s (t\<lparr>se_invite_cache := c\<rparr>) = same_settings s t"
  by (cases s; cases t; simp add: same_settings_def)+

lemma same_settings_items: "same_settings s t \<Longrightarrow> se_items t = se_items s"
  by (cases s; cases t; simp add: same_settings_def)

lemma invite_payload_changes:
  "same_settings s (fst (invite_payload I now t)) = same_settings s t"
  "se_selected (fst (invite_payload I now t)) = se_selected t"
  by (simp_all add: invite_payload_def Let_def split: sum.split)

lemma list_keeps: "list_law E \<Longrightarrow> sel_ok n x \<Longrightarrow> 0 < n \<Longrightarrow> de_list E n r x = x"
  by (cases x) (auto simp: list_law_def)

definition row_kept :: "draw_env \<Rightarrow> settings \<Rightarrow> settings \<Rightarrow> bool" where
  "row_kept E s t \<longleftrightarrow> (list_law E \<and> se_items s \<noteq> [] \<and> sel_ok (length (se_items s)) (se_selected s)
     \<longrightarrow> se_selected t = se_selected s)"

lemma row_kept_refl [simp]: "row_kept E s s"
  by (simp add: row_kept_def)

lemma render_list_changes:
  "render_list E s area = Some (t, f) \<Longrightarrow> same_settings s t \<and> row_kept E s t"
  by (auto simp: render_list_def row_kept_def list_keeps split: option.splits)

lemma identity_changes:
  "same_settings s (fst (render_identity_qr E I now t b)) = same_settings s t"
  "row_kept E s (fst (render_identity_qr E I now t b)) = row_kept E s t"
  by (simp_all add: render_identity_qr_def Let_def row_kept_def invite_payload_changes case_prod_beta)

lemma draw_settings_changes:
  assumes "draw_settings E I now s area = Some (t, f)"
  shows "same_settings s t \<and> row_kept E s t"
proof -
  let ?i = "de_inner E (bordered (Some ('' '' @ glyph 0x25C6 @ '' Settings '')) (fg Cyan)) area"
  show ?thesis
  proof (cases "100 \<le> r_width area")
    case True
    with assms obtain c0 c1 u g where u: "render_list E s c0 = Some (u, g)"
      and t: "t = fst (render_identity_qr E I now u c1)"
      by (auto simp: draw_settings_def Let_def split: option.splits prod.splits) (metis fst_conv)
    from render_list_changes [OF u] show ?thesis by (simp add: t identity_changes)
  next
    case False
    with assms obtain g where "render_list E s ?i = Some (t, g)"
      by (auto simp: draw_settings_def Let_def)
    from render_list_changes [OF this] show ?thesis .
  qed
qed

text \<open>The application with other settings, search list and screen, after one reading of the clock.\<close>

definition drawn_screen :: "'o app \<Rightarrow> screen" where
  "drawn_screen a = (if ap_screen a = SafetyNumber \<and> ap_safety a = None then Settings else ap_screen a)"

lemma render_changes:
  assumes "render_app E X area a = Some (b, f)"
  shows "b = a\<lparr>ap_settings := ap_settings b, ap_search := ap_search b, ap_screen := drawn_screen a\<rparr>
    \<and> same_settings (ap_settings a) (ap_settings b) \<and> row_kept E (ap_settings a) (ap_settings b)
    \<and> ap_search b = (ap_search a)\<lparr>cs_selected := cs_selected (ap_search b)\<rparr>"
proof (cases "ap_screen a = Settings \<or> ap_screen a = SafetyNumber \<and> ap_safety a = None")
  case True
  then obtain t where t: "draw_settings E (ax_invite X) (ax_now_secs X (ap_used a)) (ap_settings a) area = Some (t, f)"
    and b: "b = a\<lparr>ap_settings := t, ap_screen := Settings\<rparr>"
    using assms by (auto simp: render_app_def with_settings_def Let_def set_screen_def)
  moreover have "drawn_screen a = Settings" using True by (auto simp: drawn_screen_def)
  ultimately show ?thesis using draw_settings_changes [OF t] by simp
next
  case False
  show ?thesis
  proof (cases "ap_screen a")
    case ContactSearch
    then obtain y where "b = a\<lparr>ap_search := (ap_search a)\<lparr>cs_selected := y\<rparr>\<rparr>"
      using assms by (auto simp: render_app_def draw_contact_search_def Let_def split: option.splits)
    then show ?thesis using ContactSearch by (simp add: drawn_screen_def)
  next
    case IdentityQr
    then have "b = a\<lparr>ap_settings := fst (invite_payload (ax_invite X) (ax_now_secs X (ap_used a)) (ap_settings a))\<rparr>"
      using assms by (auto simp: render_app_def Let_def split: prod.splits)
    then show ?thesis using IdentityQr by (simp add: drawn_screen_def invite_payload_changes row_kept_def)
  next
    case SafetyNumber
    then show ?thesis using assms False by (auto simp: render_app_def drawn_screen_def Let_def)
  qed (use assms False in \<open>auto simp: render_app_def drawn_screen_def Let_def\<close>)
qed

text \<open>C30. Drawing is almost, but not quite, free of effects: it may change the selection of the settings and
  of the search list, renew the invite cached in the settings, and leave the safety number screen when
  there is no number; a clock reading is used up. No other part of the application changes, neither the
  session nor the keys, the conversation, the database or what was handed to the other tasks; and a
  selection that is on a row of the settings stays there.\<close>

theorem drawing_changes_little:
  assumes "draw_app E X area a = Some (b, f)"
  shows "b = a\<lparr>ap_settings := (ap_settings a)\<lparr>se_selected := se_selected (ap_settings b),
                 se_invite_cache := se_invite_cache (ap_settings b)\<rparr>,
               ap_search := (ap_search a)\<lparr>cs_selected := cs_selected (ap_search b)\<rparr>,
               ap_screen := (if ap_screen a = SafetyNumber \<and> ap_safety a = None then Settings else ap_screen a),
               ap_used := ap_used a + 1\<rparr>
    \<and> row_kept E (ap_settings a) (ap_settings b)"
proof -
  obtain c where c: "render_app E X area a = Some (c, f)" and b: "b = c\<lparr>ap_used := ap_used c + 1\<rparr>"
    using assms by (auto simp: draw_app_def)
  from render_changes [OF c] have r:
    "c = a\<lparr>ap_settings := ap_settings c, ap_search := ap_search c, ap_screen := drawn_screen a\<rparr>"
    "ap_settings c = (ap_settings a)\<lparr>se_selected := se_selected (ap_settings c),
       se_invite_cache := se_invite_cache (ap_settings c)\<rparr>"
    "ap_search c = (ap_search a)\<lparr>cs_selected := cs_selected (ap_search c)\<rparr>"
    "row_kept E (ap_settings a) (ap_settings c)"
    unfolding same_settings_def by blast+
  have "ap_used c = ap_used a" by (subst r(1)) simp
  then have e: "b = a\<lparr>ap_settings := ap_settings b, ap_search := ap_search b, ap_screen := drawn_screen a,
      ap_used := ap_used a + 1\<rparr>" unfolding b by (subst r(1)) simp
  have s: "ap_settings c = ap_settings b" "ap_search c = ap_search b" by (simp_all add: b)
  show ?thesis
    unfolding r(2) [unfolded s, symmetric] r(3) [unfolded s, symmetric] drawn_screen_def [symmetric]
    using e r(4) unfolding s by (rule conjI)
qed

theorem drawing_changes_little_witness:
  "\<forall>X. \<exists>b f. draw_app plain_draw X \<lparr>r_x = 0, r_y = 0, r_width = 80, r_height = 24\<rparr>
       (quiet_app\<lparr>ap_screen := SafetyNumber\<rparr>) = Some (b, f)
     \<and> ap_screen b = Settings \<and> ap_chat_view b = chat_view_new [] \<and> ap_used b = 1"
proof
  fix X :: "'a app_env"
  let ?a = "quiet_app\<lparr>ap_screen := SafetyNumber\<rparr>" and ?r = "\<lparr>r_x = 0, r_y = 0, r_width = 80, r_height = 24\<rparr>"
  have "draw_app plain_draw X ?r ?a \<noteq> None" by (simp add: draw_app_None [OF plain_draw_laws(1)])
  then obtain b f where d: "draw_app plain_draw X ?r ?a = Some (b, f)" by auto
  note c = conjunct1 [OF drawing_changes_little [OF d]]
  have "ap_screen b = Settings" by (subst c) (simp add: quiet_app_def app_new_def)
  moreover have "ap_chat_view b = chat_view_new []" by (subst c) (simp add: quiet_app_def app_new_def)
  moreover have "ap_used b = 1" by (subst c) (simp add: quiet_app_def app_new_def)
  ultimately show "\<exists>b f. draw_app plain_draw X ?r ?a = Some (b, f)
     \<and> ap_screen b = Settings \<and> ap_chat_view b = chat_view_new [] \<and> ap_used b = 1" using d by blast
qed

section \<open>The loop\<close>

lemma draw_app_ok:
  assumes "list_law E" "app_ok a" "draw_app E X area a = Some (b, f)"
  shows "app_ok b"
proof -
  from assms(3) obtain c where c: "render_app E X area a = Some (c, f)" and b: "b = c\<lparr>ap_used := ap_used c + 1\<rparr>"
    by (auto simp: draw_app_def)
  note r = render_changes [OF c]
  define s where "s = ap_settings c"
  define q where "q = ap_search c"
  have b: "b = a\<lparr>ap_settings := s, ap_search := q, ap_screen := drawn_screen a, ap_used := ap_used c + 1\<rparr>"
    unfolding b s_def q_def by (subst conjunct1 [OF r]) simp
  have items: "length (se_items (ap_settings a)) = 11" "sel_ok 11 (se_selected (ap_settings a))"
    using assms(2) by (simp_all add: app_ok_def panes_ok_def)
  then have s: "length (se_items s) = 11" "se_selected s = se_selected (ap_settings a)"
    using r assms(1) same_settings_items [of "ap_settings a" s] unfolding s_def by (auto simp: row_kept_def)
  have "panes_ok b" using assms(2) s items unfolding b by (simp add: app_ok_def panes_ok_def)
  moreover have "overlays_ok b"
    using assms(2) unfolding b by (simp add: app_ok_def overlays_ok_def drawn_screen_def split: if_splits)
  moreover have "tasks_ok b" using assms(2) unfolding b by (simp add: app_ok_def tasks_ok_def)
  ultimately show ?thesis by (simp add: app_ok_def)
qed

lemma app_ok_panicked [simp]: "app_ok (a\<lparr>ap_panicked := p\<rparr>) = app_ok a"
  by (simp add: app_ok_def panes_ok_def overlays_ok_def tasks_ok_def)

lemma app_loop_ok: "list_law E \<Longrightarrow> app_ok a \<Longrightarrow> app_ok (fst (app_loop E X a ts))"
proof (induction ts arbitrary: a)
  case (Cons t ts)
  have step: "app_ok (fst (app_loop E X (app_step X b (tn_input t)) ts))" if "app_ok b" for b
    using Cons.IH [OF Cons.prems(1) app_step_ok [OF that]] .
  show ?case
  proof (cases "draw_app E X (tn_area t) a")
    case None
    then show ?thesis using Cons.prems step by simp
  next
    case (Some bf)
    obtain b f where bf: "bf = (b, f)" by (cases bf)
    have "app_ok b" using draw_app_ok [OF Cons.prems] Some bf by blast
    then show ?thesis
      using Some bf Cons.prems step [of a] step [of b]
      by (simp add: case_prod_beta split: option.split)
  qed
qed simp

text \<open>In every state the program reaches from its start, whatever keys, background messages and changes
  of the other tasks arrive in whatever order, with the screen drawn before each event in whatever
  terminal and the drawing failing at whatever turn: the focused pane and the focus agree, selections
  lie in their lists, an overlay or an open question is only there while the contact list has the focus,
  and the handles of the background tasks belong to tasks that were started.\<close>

theorem drawn_app_consistent:
  assumes "list_law E"
  shows "app_ok (fst (app_main E X cfg disk d turns))"
  unfolding app_main_def by (rule app_loop_ok [OF assms]) (rule startup_check_ok [OF app_new_ok])

theorem drawn_app_consistent_witness:
  "\<forall>X. app_ok (fst (app_main plain_draw X
     \<lparr>ac_server_url = ''https://ams.konstruct.cc:443'', ac_transport = Direct, ac_no_encrypt = True,
      ac_headless = False, ac_pq_active = False\<rparr>
     \<lparr>dk_has_dir = True, dk_enc = None, dk_old = None, dk_config = None, dk_faults = [], dk_draws = 0\<rparr> empty_db
     [\<lparr>tn_area = \<lparr>r_x = 0, r_y = 0, r_width = 80, r_height = 24\<rparr>, tn_fails = None, tn_input = Internal Tick\<rparr>]))"
  using plain_draw_laws(1) drawn_app_consistent [of plain_draw] by (simp only: draw_laws_def) blast

section \<open>The result of the loop\<close>

text \<open>The loop ends well exactly when the application was quit, with an error exactly when a frame could not
  be written, and never reaches the event of a turn whose frame it could not draw.\<close>

lemma app_loop_result:
  "snd (snd (app_loop E X a ts)) = Some (Ok ()) \<Longrightarrow> \<not> ap_running (fst (app_loop E X a ts))
     \<and> \<not> ap_panicked (fst (app_loop E X a ts))"
  by (induction ts arbitrary: a)
    (auto simp: case_prod_beta split: option.splits if_splits)

lemma app_loop_error:
  "snd (snd (app_loop E X a ts)) = Some (Err e) \<Longrightarrow> Some e \<in> tn_fails ` set ts"
  by (induction ts arbitrary: a) (auto simp: case_prod_beta split: option.splits if_splits)

section \<open>What a frame depends on\<close>

text \<open>
  Two states look the same when they agree on what the screen in front shows. Nothing is asked of the
  session key, the sessions, the private keys in them, the tokens, the client, the identity key, the
  passphrase beyond its length, the file, the database, and the orders to the other tasks. The signing
  key in the settings counts only through the invite, which the full-screen code publishes.
\<close>

definition same_settings_view :: "settings \<Rightarrow> settings \<Rightarrow> bool" where
  "same_settings_view s t \<longleftrightarrow> se_items s = se_items t \<and> se_selected s = se_selected t \<and> se_user_id s = se_user_id t"

definition same_unlock_view :: "unlock_screen \<Rightarrow> unlock_screen \<Rightarrow> bool" where
  "same_unlock_view s t \<longleftrightarrow> un_mode s = un_mode t \<and> un_error s = un_error t
     \<and> length (un_passphrase s) = length (un_passphrase t)"

definition looks_same :: "'o app_env \<Rightarrow> 'o app \<Rightarrow> 'o app \<Rightarrow> bool" where
  "looks_same X a b \<longleftrightarrow> ap_screen b = ap_screen a \<and> ap_used b = ap_used a \<and>
     (case ap_screen a of
        MainScreen \<Rightarrow> ap_chat_list a = ap_chat_list b \<and> ap_chat_view a = ap_chat_view b
          \<and> status_bar_of a = status_bar_of b \<and> ap_delete_confirm a = ap_delete_confirm b
      | Settings \<Rightarrow> same_settings_view (ap_settings a) (ap_settings b)
      | ContactSearch \<Rightarrow> ap_search a = ap_search b
      | SafetyNumber \<Rightarrow> ap_safety a = ap_safety b
          \<and> (ap_safety a = None \<longrightarrow> same_settings_view (ap_settings a) (ap_settings b))
      | IdentityQr \<Rightarrow> ap_user_id a = ap_user_id b
          \<and> snd (invite_payload (ax_invite X) (ax_now_secs X (ap_used a)) (ap_settings a))
            = snd (invite_payload (ax_invite X) (ax_now_secs X (ap_used a)) (ap_settings b))
      | DeviceLink \<Rightarrow> ap_device_link a = ap_device_link b
      | ScreenRegistering \<Rightarrow> ap_registration a = ap_registration b
      | Unlock \<Rightarrow> same_unlock_view (ap_unlock a) (ap_unlock b)
      | SetPassphrase \<Rightarrow> same_unlock_view (ap_unlock a) (ap_unlock b)
      | _ \<Rightarrow> ap_onboarding a = ap_onboarding b)"

lemma draw_unlock_view: "same_unlock_view s t \<Longrightarrow> draw_unlock s area = draw_unlock t area"
  by (simp add: same_unlock_view_def draw_unlock_def)

lemma invite_user_id: "se_user_id (fst (invite_payload I now s)) = se_user_id s"
  by (simp add: invite_payload_def Let_def split: sum.split)

lemma render_list_view:
  assumes "same_settings_view s t"
  shows "rel_option (\<lambda>p q. same_settings_view (fst p) (fst q) \<and> snd p = snd q)
    (render_list E s area) (render_list E t area)"
  using assms by (auto simp: render_list_def same_settings_view_def split: option.split)

lemma identity_view:
  "se_user_id s = se_user_id t \<Longrightarrow>
     snd (render_identity_qr E I now s area) = snd (render_identity_qr E I now t area)"
  using invite_user_id [of I now s] invite_user_id [of I now t]
  by (simp add: render_identity_qr_def Let_def case_prod_beta)

lemma draw_settings_view:
  assumes "same_settings_view s t"
  shows "map_option snd (draw_settings E I now s area) = map_option snd (draw_settings E I now t area)"
proof -
  let ?i = "de_inner E (bordered (Some ('' '' @ glyph 0x25C6 @ '' Settings '')) (fg Cyan)) area"
  have r: "render_list E s r = None \<and> render_list E t r = None \<or>
      (\<exists>s' t' f. render_list E s r = Some (s', f) \<and> render_list E t r = Some (t', f)
         \<and> se_user_id s' = se_user_id t')" for r
    using render_list_view [OF assms, of E r]
    by (cases "render_list E s r"; cases "render_list E t r") (auto simp: same_settings_view_def)
  show ?thesis
  proof (cases "100 \<le> r_width area")
    case True
    then show ?thesis
    proof (cases "split2 E Horizontal (MinSize 50) (ExactSize 36) ?i")
      case (Some cc)
      obtain c0 c1 where cc: "cc = (c0, c1)" by (cases cc)
      from r [of c0] show ?thesis
      proof
        assume "render_list E s c0 = None \<and> render_list E t c0 = None"
        then show ?thesis using True Some cc by (simp add: draw_settings_def Let_def)
      next
        assume "\<exists>s' t' f. render_list E s c0 = Some (s', f) \<and> render_list E t c0 = Some (t', f)
         \<and> se_user_id s' = se_user_id t'"
        then obtain s' t' f where "render_list E s c0 = Some (s', f)" "render_list E t c0 = Some (t', f)"
          "se_user_id s' = se_user_id t'" by blast
        then show ?thesis using True Some cc identity_view [of s' t' E I now c1]
          by (simp add: draw_settings_def Let_def case_prod_beta)
      qed
    qed (simp add: draw_settings_def Let_def)
  next
    case False
    then show ?thesis using r [of ?i] by (auto simp: draw_settings_def Let_def)
  qed
qed

lemma with_settings_frame: "map_option snd (with_settings a r) = map_option snd r"
  by (cases r) (auto simp: with_settings_def)

lemma draw_main_view:
  "ap_chat_list a = ap_chat_list b \<Longrightarrow> ap_chat_view a = ap_chat_view b \<Longrightarrow> status_bar_of a = status_bar_of b \<Longrightarrow>
     draw_main E now area a = draw_main E now area b"
  unfolding draw_main_def by (simp only:)




end
