(* ===== verification/App_Links.thy ===== *)
theory App_Links
  imports Draw_Props Delivery
begin

text \<open>
  What a step of the application does to the things it shares with the other tasks: the database, the
  list of tasks with their trackers, and the inputs it sends to the orchestrators. The relation
  \<open>app_link\<close> is kept by every handler of keys and messages and by drawing.
\<close>

section \<open>The database\<close>

definition db_link :: "bool \<Rightarrow> db \<Rightarrow> db \<Rightarrow> bool" where
  "db_link D d d' \<longleftrightarrow> (keys_ok d \<longrightarrow> keys_ok d')
     \<and> (stored_cursor d' = stored_cursor d \<or> D \<and> stored_cursor d' = None)"

lemma db_link_refl [simp]: "db_link D d d"
  by (simp add: db_link_def)

lemma db_link_trans: "db_link D d d' \<Longrightarrow> db_link D d' d'' \<Longrightarrow> db_link D d d''"
  by (auto simp: db_link_def)

lemma db_link_faults [simp]: "db_link D d (d'\<lparr>faults := fs\<rparr>) = db_link D d d'"
  by (simp add: db_link_def)

lemma stmt_link:
  assumes "\<And>d0. db_link D d0 (fst (f d0))"
  shows "db_link D d (fst (stmt d f))"
  using assms [of "d\<lparr>faults := tl (faults d)\<rparr>"] assms [of d]
  by (auto simp: stmt_def db_link_def split: list.split)

lemma reads_link [simp]:
  "db_link D d (fst (get_contacts o1 d))" "db_link D d (fst (get_contact_by_id d i))"
  "db_link D d (fst (get_messages o2 d i n))" "db_link D d (fst (secure_load d k))"
  "db_link D d (fst (load_stream_cursor d))" "db_link D d (fst (upsert_contact d c))"
proof -
  show l: "db_link D d (fst (secure_load d k))" for k
    unfolding secure_load_def by (rule stmt_link) simp
  show "db_link D d (fst (load_stream_cursor d))"
    using l [of STREAM_CURSOR_KEY] by (auto simp: load_stream_cursor_def split: prod.split sum.split)
  have "db_link D d0 (fst (d0\<lparr>contacts := filter P (contacts d0) @ [c]\<rparr>, Ok () :: string + unit))"
    if "P = (\<lambda>x. sc_user_id x \<noteq> sc_user_id c)" for d0 P
    using that by (auto simp: db_link_def keys_ok_def stored_cursor_def distinct_map_filter)
  then show "db_link D d (fst (upsert_contact d c))" unfolding upsert_contact_def by (intro stmt_link) blast
qed (unfold get_contacts_def get_contact_by_id_def get_messages_def, (rule stmt_link, simp)+)

lemma stored_cursor_tables [simp]:
  "stored_cursor (d\<lparr>contacts := cs\<rparr>) = stored_cursor d" "stored_cursor (d\<lparr>messages := ms\<rparr>) = stored_cursor d"
  by (simp_all add: stored_cursor_def)

lemma filtered_store_link:
  "db_link True d (d\<lparr>secure_store := filter (\<lambda>kv. P (fst kv)) (secure_store d)\<rparr>)"
  by (simp add: db_link_def keys_ok_def stored_cursor_def cursor_of_blob_def map_of_filter_key distinct_map_filter)

lemma filtered_tables_link:
  "db_link D d (d\<lparr>contacts := filter P (contacts d)\<rparr>)" "db_link D d (d\<lparr>messages := filter Q (messages d)\<rparr>)"
  by (auto simp: db_link_def keys_ok_def stored_cursor_def distinct_map_filter list_all_iff)

lemma delete_contact_link [simp]: "db_link True d (fst (delete_contact d u))"
proof -
  obtain d1 r1 where s1: "stmt d (\<lambda>d. (d\<lparr>contacts := filter (\<lambda>c. sc_user_id c \<noteq> u) (contacts d)\<rparr>,
      Ok () :: string + unit)) = (d1, r1)" by fastforce
  obtain d2 r2 where s2: "stmt d1 (\<lambda>d. (d\<lparr>messages := filter (\<lambda>m. sm_peer_id m \<noteq> u) (messages d)\<rparr>,
      Ok (length (filter (\<lambda>m. sm_peer_id m = u) (messages d))) :: string + nat)) = (d2, r2)" by fastforce
  obtain d3 r3 where s3: "stmt d2 (\<lambda>d. (d\<lparr>secure_store :=
      filter (\<lambda>kv. \<not> sql_like (CHR 0x25 # u @ [CHR 0x25]) (fst kv)) (secure_store d)\<rparr>,
      Ok () :: string + unit)) = (d3, r3)" by fastforce
  have 1: "db_link True d d1" using stmt_link [of True "\<lambda>d. (d\<lparr>contacts := filter (\<lambda>c. sc_user_id c \<noteq> u) (contacts d)\<rparr>,
      Ok () :: string + unit)" d] s1 by (simp add: filtered_tables_link)
  have 2: "db_link True d1 d2" using stmt_link [of True "\<lambda>d. (d\<lparr>messages := filter (\<lambda>m. sm_peer_id m \<noteq> u) (messages d)\<rparr>,
      Ok (length (filter (\<lambda>m. sm_peer_id m = u) (messages d))) :: string + nat)" d1] s2
    by (simp add: filtered_tables_link)
  have 3: "db_link True d2 d3" using stmt_link [of True "\<lambda>d. (d\<lparr>secure_store :=
      filter (\<lambda>kv. \<not> sql_like (CHR 0x25 # u @ [CHR 0x25]) (fst kv)) (secure_store d)\<rparr>,
      Ok () :: string + unit)" d2] s3 by (simp add: filtered_store_link [of _ "\<lambda>k. \<not> sql_like (CHR 0x25 # u @ [CHR 0x25]) k"])
  show ?thesis
    using 1 db_link_trans [OF 1 2] db_link_trans [OF db_link_trans [OF 1 2] 3]
    by (cases r1; cases r2; cases r3) (simp_all add: delete_contact_def s1 s2 s3 del: filter.simps)
qed

lemma clear_cursor_link [simp]: "db_link True d (fst (clear_stream_cursor d))"
  unfolding clear_stream_cursor_def secure_delete_def
  by (rule stmt_link) (simp add: filtered_store_link [of _ "\<lambda>k. k \<noteq> STREAM_CURSOR_KEY"])

section \<open>The link\<close>

definition plain_input :: "orch_input \<Rightarrow> bool" where
  "plain_input m \<longleftrightarrow> (\<forall>e x. m \<noteq> OrchCommand (StreamMessage e x))"

definition new_tasks :: "'o task list \<Rightarrow> 'o task list \<Rightarrow> bool" where
  "new_tasks ts us \<longleftrightarrow> (\<exists>vs. us = ts @ vs \<and> (\<forall>t \<in> set vs. ct_pending (tk_cursor t) = Map.empty))"

text \<open>From one state of the application to a later one; the flag says whether the stored cursor may be dropped.\<close>

definition app_link :: "bool \<Rightarrow> 'o app \<Rightarrow> 'o app \<Rightarrow> bool" where
  "app_link D a b \<longleftrightarrow> db_link D (ap_db a) (ap_db b) \<and> new_tasks (ap_tasks a) (ap_tasks b)
     \<and> (\<forall>x \<in> set (ap_orch_sent b). x \<in> set (ap_orch_sent a) \<or> plain_input (snd x))"

lemma new_tasks_refl [simp]: "new_tasks ts ts"
  by (simp add: new_tasks_def)

lemma app_link_refl [simp]: "app_link D a a"
  by (simp add: app_link_def)

lemma app_link_db [simp]: "app_link D a b \<Longrightarrow> db_link D (ap_db b) d \<Longrightarrow> app_link D a (b\<lparr>ap_db := d\<rparr>)"
  using db_link_trans by (auto simp: app_link_def)

lemma app_link_updates [simp]:
  "app_link D a (b\<lparr>ap_screen := v0\<rparr>) = app_link D a b" "app_link D a (b\<lparr>ap_status := v1\<rparr>) = app_link D a b"
  "app_link D a (b\<lparr>ap_running := v2\<rparr>) = app_link D a b" "app_link D a (b\<lparr>ap_onboarding := v3\<rparr>) = app_link D a b"
  "app_link D a (b\<lparr>ap_device_link := v4\<rparr>) = app_link D a b" "app_link D a (b\<lparr>ap_unlock := v5\<rparr>) = app_link D a b"
  "app_link D a (b\<lparr>ap_registration := v6\<rparr>) = app_link D a b" "app_link D a (b\<lparr>ap_ticker := v7\<rparr>) = app_link D a b"
  "app_link D a (b\<lparr>ap_session_key := v8\<rparr>) = app_link D a b" "app_link D a (b\<lparr>ap_current_session := v9\<rparr>) = app_link D a b"
  "app_link D a (b\<lparr>ap_pending_session := v10\<rparr>) = app_link D a b" "app_link D a (b\<lparr>ap_focus := v11\<rparr>) = app_link D a b"
  "app_link D a (b\<lparr>ap_chat_list := v12\<rparr>) = app_link D a b" "app_link D a (b\<lparr>ap_chat_view := v13\<rparr>) = app_link D a b"
  "app_link D a (b\<lparr>ap_grpc := v14\<rparr>) = app_link D a b" "app_link D a (b\<lparr>ap_user_id := v15\<rparr>) = app_link D a b"
  "app_link D a (b\<lparr>ap_connection := v16\<rparr>) = app_link D a b" "app_link D a (b\<lparr>ap_settings := v17\<rparr>) = app_link D a b"
  "app_link D a (b\<lparr>ap_search := v18\<rparr>) = app_link D a b" "app_link D a (b\<lparr>ap_safety := v19\<rparr>) = app_link D a b"
  "app_link D a (b\<lparr>ap_orch := v20\<rparr>) = app_link D a b" "app_link D a (b\<lparr>ap_stream := v21\<rparr>) = app_link D a b"
  "app_link D a (b\<lparr>ap_read_storage := v22\<rparr>) = app_link D a b" "app_link D a (b\<lparr>ap_device_id := v23\<rparr>) = app_link D a b"
  "app_link D a (b\<lparr>ap_access_token := v24\<rparr>) = app_link D a b" "app_link D a (b\<lparr>ap_identity_key := v25\<rparr>) = app_link D a b"
  "app_link D a (b\<lparr>ap_delete_confirm := v26\<rparr>) = app_link D a b" "app_link D a (b\<lparr>ap_panicked := v27\<rparr>) = app_link D a b"
  "app_link D a (b\<lparr>ap_disk := v28\<rparr>) = app_link D a b" "app_link D a (b\<lparr>ap_stream_sent := v29\<rparr>) = app_link D a b"
  "app_link D a (b\<lparr>ap_stream_full := v30\<rparr>) = app_link D a b" "app_link D a (b\<lparr>ap_jobs := v31\<rparr>) = app_link D a b"
  "app_link D a (b\<lparr>ap_used := v32\<rparr>) = app_link D a b"
  by (simp_all add: app_link_def)

lemma app_link_sends [simp]:
  "app_link D a b \<Longrightarrow> plain_input m \<Longrightarrow> app_link D a (orch_send m b)"
  "app_link D a (stream_send c b) = app_link D a b"
  by (auto simp: orch_send_def stream_send_def app_link_def split: option.split prod.split)

lemma plain_inputs [simp]:
  "plain_input (OrchEvent e)" "plain_input (OrchCommand (ForgetContact u))"
  by (simp_all add: plain_input_def)

lemma app_link_task:
  "app_link D a b \<Longrightarrow> ct_pending (tk_cursor t) = Map.empty \<Longrightarrow> app_link D a (b\<lparr>ap_tasks := ap_tasks b @ [t]\<rparr>)"
  by (auto simp: app_link_def new_tasks_def)

section \<open>The handlers\<close>

lemma resubscribe_link [simp]: "app_link D a b \<Longrightarrow> app_link D a (resubscribe_stream_to_contacts b)"
  by (simp add: resubscribe_stream_to_contacts_def Let_def case_prod_beta)

lemma finish_add_contact_link [simp]: "app_link D a b \<Longrightarrow> app_link D a (finish_add_contact u n b)"
  by (simp add: finish_add_contact_def Let_def)

lemma confirm_delete_link [simp]: "app_link True a b \<Longrightarrow> app_link True a (confirm_delete b)"
  by (simp add: confirm_delete_def Let_def case_prod_beta handler_defs split: option.split sum.split)

lemma open_chat_link [simp]: "app_link D a b \<Longrightarrow> app_link D a (open_chat X c b)"
  by (simp add: open_chat_def Let_def case_prod_beta)

lemma peer_key_link [simp]: "app_link D a b \<Longrightarrow> app_link D a (snd (peer_key X u b))"
  by (simp add: peer_key_def Let_def case_prod_beta)

lemma safety_link [simp]: "app_link D a b \<Longrightarrow> app_link D a (open_safety_number_screen X b)"
  by (simp add: open_safety_number_screen_def handler_defs case_prod_beta split: option.split)

lemma do_logout_link [simp]: "app_link True a b \<Longrightarrow> app_link True a (do_logout X b)"
  by (simp add: do_logout_def Let_def handler_defs split: prod.split sum.split)

lemma load_contacts_link [simp]: "app_link D a b \<Longrightarrow> app_link D a (snd (load_contacts X b))"
  by (simp add: load_contacts_def case_prod_beta split: sum.split)

lemma restore_state_link: "db_link D (snd s) (snd (restore_state X s))"
  by (auto simp: restore_state_def case_prod_beta split: sum.split option.split)

lemma restore_key_link: "db_link D d (snd s) \<Longrightarrow> db_link D d (snd (restore_key X s k))"
  by (rule db_link_trans) (auto simp: restore_key_def Let_def case_prod_beta)

lemma restore_contacts_link: "db_link D (snd s) (snd (restore_contacts X ids s))"
proof -
  have "db_link D (snd s) (snd (foldl (restore_key X) s ks))" for ks
    by (induction ks rule: rev_induct) (auto simp: restore_key_link)
  then show ?thesis by (simp add: restore_contacts_def)
qed

lemma restored_link [simp]: "db_link D d (snd (restore_contacts X ids (restore_state X (o', d))))"
  by (rule db_link_trans [OF _ restore_contacts_link]) (use restore_state_link [of D "(o', d)"] in simp)

lemma task_init_link [simp]:
  "ct_pending (tk_cursor (task_init o' d)) = Map.empty" "db_link D d (tk_db (task_init o' d))"
  by (auto simp: task_init_def tracker_load_def Let_def case_prod_beta split: sum.split)

lemma app_link_if [simp]: "app_link D a (if c then x else y) = (if c then app_link D a x else app_link D a y)"
  by simp

lemma spawn_tasks_link [simp]: "app_link D a b \<Longrightarrow> app_link D a (spawn_tasks X dev key ids o' b)"
proof -
  assume l: "app_link D a b"
  define t where "t = task_init (fst (ax_otpks X o')) (ap_db b)"
  have t: "ct_pending (tk_cursor t) = Map.empty" "db_link D (ap_db b) (tk_db t)" by (simp_all add: t_def)
  then have "app_link D a (b\<lparr>ap_db := tk_db t, ap_tasks := ap_tasks b @ [t]\<rparr>)"
    using app_link_task [OF app_link_db [OF l t(2)] t(1)] by simp
  then have "app_link D a (b\<lparr>ap_read_storage := True, ap_identity_key := ax_identity_key X (fst (ax_otpks X o')),
      ap_db := tk_db t, ap_tasks := ap_tasks b @ [t]\<rparr>)"
    by (simp add: app_link_def)
  then show ?thesis
    by (simp add: spawn_tasks_def Let_def case_prod_beta handler_defs t_def)
qed

lemma start_orchestrator_link [simp]: "app_link D a b \<Longrightarrow> app_link D a (start_orchestrator X s u dev b)"
  by (auto simp: start_orchestrator_def Let_def case_prod_beta handler_defs split: option.split sum.split)

section \<open>Keys, messages and drawing\<close>

lemma save_current_link [simp]: "app_link D a b \<Longrightarrow> app_link D a (fst (save_current X s b))"
  by (simp add: save_current_def Let_def case_prod_beta split: option.split)

lemma auth_succeeded_link [simp]: "app_link D a b \<Longrightarrow> app_link D a (auth_succeeded X s b)"
proof -
  assume l: "app_link D a b"
  then have "app_link D a (fst (save_current X p (start_token_refresh p (adopt_auth s b))))" for p
    by (simp add: adopt_auth_def start_token_refresh_def spawn_job_def)
  then show ?thesis using l
    by (simp add: auth_succeeded_def enter_main_def adopt_auth_def handler_defs case_prod_beta
        split: option.split sum.split)
qed

lemma handle_internal_link: "app_link D a (handle_internal X e a)"
  by (cases e)
    (simp_all add: handle_internal_def handle_auth_msg_def auth_failed_def handle_token_refresh_msg_def
      persist_session_background_def start_token_refresh_def start_device_reauth_def handle_bridge_event_def
      show_message_def refresh_token_now_def handle_p2p_status_def handler_defs
      split: auth_msg.split token_refresh_msg.split option.split bridge_event.split bool.split)

lemma entry_links [simp]:
  "app_link D a b \<Longrightarrow> app_link D a (handle_onboarding k b)"
  "app_link D a b \<Longrightarrow> app_link D a (handle_device_link k b)"
  "app_link D a b \<Longrightarrow> app_link D a (try_unlock X p b)"
  "app_link D a b \<Longrightarrow> app_link D a (protect_session X p s b)"
  "app_link D a b \<Longrightarrow> app_link D a (leave_error b)"
  subgoal by (cases "kv_code k") (simp_all add: handle_onboarding_def start_auth_register_def handler_defs)
  subgoal by (cases "kv_code k") (simp_all add: handle_device_link_def start_auth_link_def handler_defs)
  subgoal by (simp add: try_unlock_def start_auth_restore_preloaded_def handler_defs case_prod_beta
      split: sum.split option.split)
  subgoal by (simp add: protect_session_def handler_defs case_prod_beta split: sum.split option.split)
  subgoal by (simp add: leave_error_def handler_defs)
  done

lemma unlock_links [simp]:
  "app_link D a b \<Longrightarrow> app_link D a (handle_unlock X k b)"
  "app_link D a b \<Longrightarrow> app_link D a (handle_set_passphrase X k b)"
  by (cases "kv_code k"; simp add: handle_unlock_def handle_set_passphrase_def take_passphrase_def handler_defs
      split: option.split)+

lemma main_links [simp]:
  "app_link D a b \<Longrightarrow> app_link D a (set_focus f b)"
  "app_link D a b \<Longrightarrow> app_link D a (keys_contact_list X k b)"
  "app_link D a b \<Longrightarrow> app_link D a (keys_chat_view k b)"
  "app_link D a b \<Longrightarrow> app_link D a (send_composed X b)"
  subgoal by (simp add: set_focus_def)
  subgoal by (simp add: keys_contact_list_def set_focus_def handler_defs split: option.split)
  subgoal by (simp add: keys_chat_view_def set_focus_def handler_defs)
  subgoal by (simp add: send_composed_def take_compose_def handler_defs split: option.split)
  done

lemma handle_main_link [simp]: "app_link True a b \<Longrightarrow> app_link True a (handle_main X k b)"
proof -
  assume l: "app_link True a b"
  then have "app_link True a (keys_compose X k b)"
    by (cases "kv_code k") (simp_all add: keys_compose_def handler_defs)
  then show ?thesis using l
    by (cases "ap_focus b") (simp_all add: handle_main_def quit_app_def)
qed

lemma handle_settings_link [simp]: "app_link True a b \<Longrightarrow> app_link True a (handle_settings X k b)"
  by (simp add: handle_settings_def export_identity_key_def handler_defs
      split: option.split settings_action.split sum.split)

lemma contact_search_link [simp]: "app_link D a b \<Longrightarrow> app_link D a (handle_contact_search X k b)"
  by (cases "kv_code k")
    (simp_all add: handle_contact_search_def add_selected_search_result_def submit_contact_search_def
      redeem_pasted_invite_def handler_defs split: option.split sum.split)

lemma handle_event_link: "app_link True a (handle_event X k a)"
  by (cases "ap_screen a") (simp_all add: handle_event_def quit_app_def set_screen_def)

lemma draws_link:
  assumes "draw_app E X area a = Some (b, f)"
  shows "app_link D a b"
  by (subst conjunct1 [OF drawing_changes_little [OF assms]]) simp

lemma startup_link: "app_link D a (startup_check X a)"
  by (simp add: startup_check_def start_auth_restore_from_disk_def handler_defs case_prod_beta
      split: session_state.split)

end
