(* ===== verification/System_Props.thy ===== *)
theory System_Props
  imports System App_Links Stream_Props
begin

text \<open>
  The properties of the composed program, over every interleaving of its tasks: the invariants of
  application, database and channels, and the order in which envelopes reach the wire, from the hand that
  puts them on a channel to the stream.
\<close>

section \<open>Frames\<close>

lemma on_port_frame [simp]:
  "sy_app (on_port n f s) = sy_app s" "sy_mail (on_port n f s) = sy_mail s"
  "length (sy_ports (on_port n f s)) = length (sy_ports s)"
  by (simp_all add: on_port_def)

lemma on_port_all: "list_all P (sy_ports s) \<Longrightarrow> (\<And>p. P p \<Longrightarrow> P (f p)) \<Longrightarrow> list_all P (sy_ports (on_port n f s))"
  by (cases "n < length (sy_ports s)") (auto simp: on_port_def list_all_length nth_list_update)

lemma on_task_frame [simp]:
  "sy_ports (on_task n f s) = sy_ports s" "sy_mail (on_task n f s) = sy_mail s"
  "ap_db (sy_app (on_task n f s)) = ap_db (sy_app s)"
  "length (ap_tasks (sy_app (on_task n f s))) = length (ap_tasks (sy_app s))"
  "ap_orch_sent (sy_app (on_task n f s)) = ap_orch_sent (sy_app s)"
  "ap_stream_sent (sy_app (on_task n f s)) = ap_stream_sent (sy_app s)"
  by (simp_all add: on_task_def)

lemma on_task_all:
  "list_all P (ap_tasks (sy_app s)) \<Longrightarrow> (\<And>t. P t \<Longrightarrow> P (f t)) \<Longrightarrow> list_all P (ap_tasks (sy_app (on_task n f s)))"
  by (cases "n < length (ap_tasks (sy_app s))") (auto simp: on_task_def list_all_length nth_list_update)

lemma to_app_frame [simp]: "sy_app (to_app es s) = sy_app s" "sy_ports (to_app es s) = sy_ports s"
  by (simp_all add: to_app_def)

lemma self_send_tables [simp]: "tk_cursor (self_send e t) = tk_cursor t" "tk_db (self_send e t) = tk_db t"
  by (simp_all add: self_send_def)

lemma app_ok_tasks: "length ts = length (ap_tasks a) \<Longrightarrow> app_ok (a\<lparr>ap_tasks := ts\<rparr>) = app_ok a"
  by (simp add: app_ok_def panes_ok_def overlays_ok_def tasks_ok_def)

lemma app_ok_on_task [simp]: "app_ok (sy_app (on_task n f s)) = app_ok (sy_app s)"
  by (simp add: on_task_def app_ok_tasks)

section \<open>Application, database and ports\<close>

definition sys_ok :: "'o system \<Rightarrow> bool" where
  "sys_ok s \<longleftrightarrow> app_ok (sy_app s) \<and> keys_ok (ap_db (sy_app s))
     \<and> length (sy_ports s) = length (ap_tasks (sy_app s))
     \<and> ap_orch_sent (sy_app s) = [] \<and> ap_stream_sent (sy_app s) = []"

lemma sys_ok_on_port [simp]: "sys_ok (on_port n f s) = sys_ok s"
  by (simp add: sys_ok_def)

lemma sys_ok_on_task [simp]: "sys_ok (on_task n f s) = sys_ok s"
  by (simp add: sys_ok_def)

lemma sys_ok_to_app [simp]: "sys_ok (to_app es s) = sys_ok s" "sys_ok (s\<lparr>sy_mail := m\<rparr>) = sys_ok s"
  by (simp_all add: sys_ok_def)

lemma sys_ok_to_orchestrator [simp]: "sys_ok (to_orchestrator m s) = sys_ok s"
  by (cases m; cases "snd m") (auto simp: to_orchestrator_def)

lemma sys_ok_to_worker [simp]: "sys_ok (to_worker m s) = sys_ok s"
  by (simp add: to_worker_def)

lemma sys_ok_folds [simp]:
  "sys_ok (fold to_worker ms s) = sys_ok s" "sys_ok (fold to_orchestrator os s) = sys_ok s"
  by (induction ms arbitrary: s; induction os arbitrary: s; simp)+

lemma app_ok_handed: "app_ok b \<Longrightarrow> app_ok (b\<lparr>ap_orch_sent := [], ap_stream_sent := []\<rparr>)"
  by (simp add: app_ok_def panes_ok_def overlays_ok_def tasks_ok_def)

lemma new_tasks_length: "new_tasks ts us \<Longrightarrow> length ts \<le> length us"
  by (auto simp: new_tasks_def)

lemma app_takes_ok:
  assumes "sys_ok s" "app_ok (f (sy_app s))" "app_link D (sy_app s) (f (sy_app s))"
  shows "sys_ok (app_takes f s)"
proof -
  have "length (ap_tasks (sy_app s)) \<le> length (ap_tasks (f (sy_app s)))" "keys_ok (ap_db (f (sy_app s)))"
    using assms(1,3) new_tasks_length by (auto simp: app_link_def db_link_def sys_ok_def)
  then have "sys_ok (s\<lparr>sy_app := (f (sy_app s))\<lparr>ap_orch_sent := [], ap_stream_sent := []\<rparr>,
      sy_ports := sy_ports s @ map (new_port (ap_jobs (f (sy_app s)))) [length (sy_ports s)..<length (ap_tasks (f (sy_app s)))]\<rparr>)"
    using assms(1,2) by (simp add: sys_ok_def app_ok_handed)
  then show ?thesis by (simp add: app_takes_def Let_def)
qed

lemma actor_takes_ok:
  assumes "sys_ok s" shows "sys_ok (actor_takes Y n i s)"
proof -
  let ?t = "(ap_tasks (sy_app s) ! n)\<lparr>tk_db := ap_db (sy_app s), tk_stream := [], tk_ui := []\<rparr>"
  have "keys_ok (tk_db (task_step (ax_core (sx_app Y)) (sx_orch Y n) ?t i))"
    using task_step_keys [of ?t "ax_core (sx_app Y)" "sx_orch Y n" i] assms
    by (simp add: keeps_keys_def tables_def sys_ok_def)
  then show ?thesis using assms
    by (simp add: actor_takes_def Let_def sys_ok_def app_ok_tasks)
qed

lemma draws_ok: "list_law (sx_draw Y) \<Longrightarrow> app_ok a \<Longrightarrow> app_ok (draws Y area a)"
  by (cases "draw_app (sx_draw Y) (sx_app Y) area a") (auto simp: draws_def draw_app_ok)

lemma draws_linked: "app_link D a (draws Y area a)"
  by (cases "draw_app (sx_draw Y) (sx_app Y) area a") (auto simp: draws_def draws_link)

lemma app_step_link: "app_link True a (app_step X a (Key k))" "app_link D a (app_step X a (Internal e))"
  by (simp_all add: app_step_def handle_event_link handle_internal_link)

lemma sys_step_ok:
  assumes "list_law (sx_draw Y)" "sys_ok s"
  shows "sys_ok (sys_step Y s i)"
proof -
  have a: "app_ok (sy_app s)" using assms(2) by (simp add: sys_ok_def)
  have p: "sys_ok (s\<lparr>sy_app := (sy_app s)\<lparr>ap_disk := f\<rparr>\<rparr>)" for f using assms(2) by (simp add: sys_ok_def)
  have "sys_ok (app_takes (\<lambda>a. app_step (sx_app Y) a (Key k)) s)" for k
    by (rule app_takes_ok [where D = True]) (simp_all add: assms(2) a app_step_ok app_step_link(1))
  moreover have "sys_ok (app_takes (\<lambda>a. app_step (sx_app Y) a (Internal e)) (s\<lparr>sy_mail := m\<rparr>))" for e m
    by (rule app_takes_ok [where D = False]) (simp_all add: assms(2) a app_step_ok app_step_link(2))
  moreover have "sys_ok (app_takes (draws Y area) s)" for area
    by (rule app_takes_ok [where D = False]) (simp_all add: assms a draws_ok draws_linked)
  ultimately show ?thesis
    using assms(2) p
    by (cases i)
      (auto simp: sys_step_def actor_takes_ok worker_takes_def relay_takes_def Let_def
        split: list.split option.split prod.split)
qed

lemma sys_run_ok: "list_law (sx_draw Y) \<Longrightarrow> sys_ok s \<Longrightarrow> sys_ok (sys_run Y s is)"
  by (induction "is" arbitrary: s) (simp_all add: sys_run_def sys_step_ok)

lemma sys_start_ok: "keys_ok d \<Longrightarrow> sys_ok (sys_start Y cfg disk d)"
proof -
  assume "keys_ok d"
  moreover have "app_link False (app_new cfg disk d) (startup_check (sx_app Y) (app_new cfg disk d))"
    by (rule startup_link)
  moreover have "ap_tasks (startup_check (sx_app Y) a) = ap_tasks a"
    "ap_orch_sent (startup_check (sx_app Y) a) = ap_orch_sent a"
    "ap_stream_sent (startup_check (sx_app Y) a) = ap_stream_sent a" for a
    by (simp_all add: startup_check_def start_auth_restore_from_disk_def handler_defs case_prod_beta
        split: session_state.split)
  ultimately show ?thesis
    by (simp add: sys_ok_def sys_start_def startup_check_ok app_new_ok app_link_def db_link_def)
      (simp add: app_new_def)
qed

section \<open>A run\<close>

definition login_env :: "string list app_env" where
  "login_env = undefined\<lparr>ax_auth := undefined\<lparr>ah_unhex := (\<lambda>_. Some [])\<rparr>, ax_core := sample_core,
     ax_new := (\<lambda>_ _ _ _ _. Ok []), ax_otpks := (\<lambda>k. (k, Ok [])), ax_open := (\<lambda>_. Ok ()),
     ax_contact_order := (\<lambda>cs. cs)\<rparr>"

definition login :: auth_success where
  "login = \<lparr>as_user_id = ''ann'', as_device_id = ''d1'', as_access_token = ''t'',
     as_full_session = sample_session, as_pending_save = None\<rparr>"

definition login_with :: "string list core \<Rightarrow> string list sys_env" where
  "login_with K = \<lparr>sx_app = login_env\<lparr>ax_core := K\<rparr>, sx_draw = plain_draw, sx_orch = (\<lambda>_. sample_orch),
     sx_worker = (\<lambda>_. sample_env), sx_relay = undefined\<rparr>"

definition login_system :: "string list sys_env" where
  "login_system = login_with sample_core"

definition signed_in_with :: "string list core \<Rightarrow> app_config \<Rightarrow> disk \<Rightarrow> string list system" where
  "signed_in_with K cfg disk = sys_run (login_with K) (sys_start (login_with K) cfg disk empty_db)
     [JobEnds [IntAuth (AuthSuccess login)] disk, TakesMail]"

definition signed_in :: "app_config \<Rightarrow> disk \<Rightarrow> string list system" where
  "signed_in = signed_in_with sample_core"

lemma startup_fields:
  "ap_running (startup_check X a) = ap_running a" "ap_panicked (startup_check X a) = ap_panicked a"
  "ap_tasks (startup_check X a) = ap_tasks a" "ap_db (startup_check X a) = ap_db a"
  "ap_orch_sent (startup_check X a) = ap_orch_sent a" "ap_stream_sent (startup_check X a) = ap_stream_sent a"
  "ap_screen (startup_check X a) \<noteq> ScreenRegistering"
  by (simp_all add: startup_check_def start_auth_restore_from_disk_def handler_defs case_prod_beta
      split: session_state.split)

lemma login_starts:
  assumes "ap_db a = empty_db" "ap_tasks a = []" "ap_orch_sent a = []" "ap_screen a \<noteq> ScreenRegistering"
    and "ap_running a" "\<not> ap_panicked a" "X = login_env\<lparr>ax_core := K\<rparr>"
  shows "ap_tasks (app_step X a (Internal (IntAuth (AuthSuccess login)))) = [task_init [] empty_db]
     \<and> ap_orch_sent (app_step X a (Internal (IntAuth (AuthSuccess login)))) = [(0, OrchEvent AppLaunched)]
     \<and> ap_stream_sent (app_step X a (Internal (IntAuth (AuthSuccess login)))) = ap_stream_sent a
     \<and> ap_db (app_step X a (Internal (IntAuth (AuthSuccess login)))) = empty_db
     \<and> ap_running (app_step X a (Internal (IntAuth (AuthSuccess login))))
     \<and> \<not> ap_panicked (app_step X a (Internal (IntAuth (AuthSuccess login))))"
  using assms
  by (simp add: app_step_def handle_internal_def handle_auth_msg_def auth_succeeded_def login_def enter_main_def
      adopt_auth_def start_orchestrator_def login_env_def session_secrets_def load_contacts_def get_contacts_def
      stmt_def empty_db_def restore_contacts_def restore_state_def secure_load_def spawn_tasks_def orch_send_def
      set_contacts_def handler_defs task_init_def tracker_load_def load_stream_cursor_def)

text \<open>After the first sign-in there is one task, its first event waiting, and one fresh port.\<close>

lemma signed_in_state:
  "\<exists>jobs. let s = signed_in_with K cfg disk in
     ap_tasks (sy_app s) = [self_send AppLaunched (task_init [] empty_db)] \<and> sy_ports s = [new_port jobs 0]
     \<and> ap_running (sy_app s) \<and> \<not> ap_panicked (sy_app s) \<and> ap_db (sy_app s) = empty_db"
proof -
  let ?X = "login_env\<lparr>ax_core := K\<rparr>"
  define a where "a = (startup_check ?X (app_new cfg disk empty_db))\<lparr>ap_disk := disk\<rparr>"
  have f: "ap_db a = empty_db" "ap_tasks a = []" "ap_orch_sent a = []" "ap_screen a \<noteq> ScreenRegistering"
    "ap_running a" "\<not> ap_panicked a" "ap_stream_sent a = []"
    by (simp_all add: a_def startup_fields) (simp_all add: app_new_def)
  note t = login_starts [OF f(1-6) refl, of K, unfolded f(7)]
  have "sys_step (login_with K) (sys_start (login_with K) cfg disk empty_db) (JobEnds [IntAuth (AuthSuccess login)] disk)
      = \<lparr>sy_app = a, sy_ports = [], sy_mail = [IntAuth (AuthSuccess login)]\<rparr>"
    using f(5,6) by (simp add: sys_step_def sys_start_def to_app_def login_with_def a_def)
  then show ?thesis
    using t f(5,6)
    by (simp add: signed_in_with_def sys_run_def)
      (auto simp: sys_step_def app_takes_def login_with_def Let_def to_orchestrator_def on_task_def)
qed

lemma signed_in_ports: "\<exists>t jobs. ap_tasks (sy_app (signed_in cfg disk)) = [t] \<and> sy_ports (signed_in cfg disk) = [new_port jobs 0]"
  using signed_in_state [of sample_core cfg disk] by (auto simp: signed_in_def Let_def)

lemma signed_in_run: "signed_in cfg disk = sys_run login_system (sys_start login_system cfg disk empty_db)
     [JobEnds [IntAuth (AuthSuccess login)] disk, TakesMail]"
  by (simp add: signed_in_def signed_in_with_def login_system_def)

text \<open>A core with one message waiting when the program starts, and the state after its actor handed it over.\<close>

definition talk_core :: "string list core" where
  "talk_core = sample_core\<lparr>co_handle_event := (\<lambda>s e. (s, case e of
     AppLaunched \<Rightarrow> [SendEncryptedMessage ''bob'' [7] ''m1'' 0] | _ \<Rightarrow> []))\<rparr>"

definition talk_envelope :: envelope where
  "talk_envelope = build_envelope ''me'' ''dev'' ''bob'' [7] ''m1'' (content_type_from_u8 (ke_types sample_knst) 0)"

definition talking :: "app_config \<Rightarrow> disk \<Rightarrow> string list system" where
  "talking cfg disk = sys_run (login_with talk_core) (sys_start (login_with talk_core) cfg disk empty_db)
     [JobEnds [IntAuth (AuthSuccess login)] disk, TakesMail, ActorTurn 0]"

lemma talk_turn:
  "tk_stream (task_step talk_core sample_orch ((self_send AppLaunched (task_init [] empty_db))\<lparr>tk_db := d, tk_stream := [], tk_ui := []\<rparr>) Turn)
     = [CmdSend talk_envelope]"
  by (simp add: task_step_def self_send_def run_event_def prepare_outgoing_def process_event_def core_event_def talk_core_def
      dispatch_all_def dispatch_def dispatch_network_def stream_try_send_def new_cycle_def task_init_def tracker_load_def
      load_stream_cursor_def secure_load_def stmt_def empty_db_def talk_envelope_def sample_orch_def try_send_def Let_def)

lemma talking_state:
  "\<exists>jobs. sy_ports (talking cfg disk) = [put_commands [CmdSend talk_envelope] (new_port jobs 0)]
     \<and> ap_running (sy_app (talking cfg disk)) \<and> \<not> ap_panicked (sy_app (talking cfg disk))"
proof -
  let ?s = "signed_in_with talk_core cfg disk"
  obtain jobs where s: "ap_tasks (sy_app ?s) = [self_send AppLaunched (task_init [] empty_db)]"
    "sy_ports ?s = [new_port jobs 0]" "ap_running (sy_app ?s)" "\<not> ap_panicked (sy_app ?s)"
    using signed_in_state [of talk_core cfg disk] by (auto simp: Let_def)
  have "talking cfg disk = sys_step (login_with talk_core) ?s (ActorTurn 0)"
    by (simp add: talking_def signed_in_with_def sys_run_def)
  then show ?thesis
    using s talk_turn
    by (intro exI [of _ jobs]) (simp add: sys_step_def actor_takes_def login_with_def Let_def on_port_def)
qed



section \<open>Order from the channel to the wire\<close>

definition orders :: "port \<Rightarrow> bool" where
  "orders p \<longleftrightarrow> (\<exists>es. in_order (pt_worker p) es \<and> es @ sent_envelopes (pt_channel p) = pt_handed p)"

lemma sent_envelopes_simps [simp]:
  "sent_envelopes [] = []" "sent_envelopes (CmdSend e # cs) = e # sent_envelopes cs"
  "sent_envelopes (CmdSubscribe u c # cs) = sent_envelopes cs" "sent_envelopes (CmdShutdown # cs) = sent_envelopes cs"
  "sent_envelopes (CmdClose # cs) = sent_envelopes cs" "sent_envelopes (xs @ ys) = sent_envelopes xs @ sent_envelopes ys"
  by (simp_all add: sent_envelopes_def)

lemma orders_commands [simp]: "orders (p\<lparr>pt_commands := c\<rparr>) = orders p" "orders (p\<lparr>pt_relayed := r\<rparr>) = orders p"
  by (simp_all add: orders_def)

lemma orders_put [simp]: "orders p \<Longrightarrow> orders (put_commands cs p)"
  by (auto simp: orders_def put_commands_def)

lemma orders_new [simp]: "orders (new_port jobs n)"
  by (simp add: orders_def new_port_def in_order_def worker_init_def wire_envelopes_def)

text \<open>What a stimulus takes from the channel is what the step of the worker takes over.\<close>

lemma worker_sees_takes:
  assumes "worker_sees since p x = Some (i, q)"
  shows "taken_by (pt_worker p) i @ sent_envelopes q = sent_envelopes (pt_channel p)"
proof (cases x)
  case TakesCommand
  then obtain c cs where c: "pt_channel p = c # cs" "i = Cmd (Some c)" "q = cs"
    "w_phase (pt_worker p) = Live \<or> w_phase (pt_worker p) = Backoff"
    using assms by (auto simp: worker_sees_def Let_def split: list.splits if_splits)
  then show ?thesis by (cases c) (auto simp: taken_by_def)
next
  case Polls
  show ?thesis
  proof (cases "pt_channel p")
    case (Cons c cs)
    then have "i = Poll (Polled c)" "q = cs" "w_phase (pt_worker p) = Stream_Worker.Connecting"
      using assms Polls by (auto simp: worker_sees_def Let_def split: if_splits)
    then show ?thesis using Cons by (cases c) (simp_all add: taken_by_def)
  qed (use assms Polls in \<open>auto simp: worker_sees_def Let_def taken_by_def split: if_splits\<close>)
qed (use assms in \<open>auto simp: worker_sees_def Let_def taken_by_def split: if_splits\<close>)

lemma orders_sees:
  assumes "orders p" "worker_sees since p x = Some (i, q)"
  shows "orders (p\<lparr>pt_worker := worker_step E (pt_worker p) i, pt_channel := q\<rparr>)"
proof -
  obtain es where es: "in_order (pt_worker p) es" "es @ sent_envelopes (pt_channel p) = pt_handed p"
    using assms(1) by (auto simp: orders_def)
  have "in_order (worker_step E (pt_worker p) i) (es @ taken_by (pt_worker p) i)" by (rule in_order_step [OF es(1)])
  moreover have "(es @ taken_by (pt_worker p) i) @ sent_envelopes q = pt_handed p"
    using es(2) worker_sees_takes [OF assms(2)] by simp
  ultimately show ?thesis by (auto simp: orders_def)
qed

definition all_orders :: "'o system \<Rightarrow> bool" where
  "all_orders s \<longleftrightarrow> list_all orders (sy_ports s)"

lemma all_orders_on_port: "all_orders s \<Longrightarrow> (\<And>p. orders p \<Longrightarrow> orders (f p)) \<Longrightarrow> all_orders (on_port n f s)"
  unfolding all_orders_def by (rule on_port_all)

lemma all_orders_frame [simp]:
  "all_orders (on_task n g s) = all_orders s" "all_orders (to_app es s) = all_orders s"
  "all_orders (s\<lparr>sy_mail := m\<rparr>) = all_orders s" "all_orders (s\<lparr>sy_app := a\<rparr>) = all_orders s"
  by (simp_all add: all_orders_def)

lemma all_orders_to_orchestrator: "all_orders s \<Longrightarrow> all_orders (to_orchestrator m s)"
  by (cases m; cases "snd m") (auto simp: to_orchestrator_def intro: all_orders_on_port)

lemma all_orders_fold: "all_orders s \<Longrightarrow> all_orders (fold to_orchestrator ms s)"
  by (rule fold_invariant [where Q = "\<lambda>_. True"]) (simp_all add: all_orders_to_orchestrator)

lemma all_orders_app: "all_orders s \<Longrightarrow> all_orders (app_takes f s)"
proof -
  assume o: "all_orders s"
  let ?b = "f (sy_app s)"
  have "all_orders (s\<lparr>sy_app := ?b\<lparr>ap_orch_sent := [], ap_stream_sent := []\<rparr>,
      sy_ports := sy_ports s @ map (new_port (ap_jobs ?b)) [length (sy_ports s)..<length (ap_tasks ?b)]\<rparr>)"
    using o by (auto simp: all_orders_def list_all_iff)
  from all_orders_fold [OF this] show ?thesis
    unfolding app_takes_def Let_def
    by (rule fold_invariant [where Q = "\<lambda>_. True", rotated])
      (simp_all add: to_worker_def all_orders_on_port)
qed

lemma on_port_beyond: "\<not> n < length (sy_ports s) \<Longrightarrow> on_port n f s = s"
  by (cases s) (simp add: on_port_def list_update_beyond not_less)

lemma all_orders_worker: "all_orders s \<Longrightarrow> all_orders (worker_takes Y n x s)"
proof (cases "worker_sees (ct_committed (tk_cursor (ap_tasks (sy_app s) ! n))) (sy_ports s ! n) x")
  case (Some iq)
  assume o: "all_orders s"
  obtain i q where iq: "iq = (i, q)" by (cases iq)
  let ?p = "(sy_ports s ! n)\<lparr>pt_worker := worker_step (sx_worker Y n) (pt_worker (sy_ports s ! n)) i, pt_channel := q\<rparr>"
  show ?thesis
  proof (cases "n < length (sy_ports s)")
    case True
    then have "orders (sy_ports s ! n)" using o by (simp add: all_orders_def list_all_length)
    then have "orders ?p" using Some iq by (simp add: orders_sees)
    then show ?thesis using o Some iq True
      by (auto simp: worker_takes_def on_port_def all_orders_def list_all_length nth_list_update)
  qed (use o Some iq in \<open>simp add: worker_takes_def on_port_beyond\<close>)
qed (simp add: worker_takes_def)

lemma sys_step_orders:
  assumes "all_orders s" "\<And>n fs. i \<noteq> SendsFail n fs"
  shows "all_orders (sys_step Y s i)"
  using assms(2)
  by (cases i)
    (auto simp: sys_step_def actor_takes_def relay_takes_def Let_def assms(1) all_orders_app all_orders_worker
      split: list.split prod.split intro!: all_orders_on_port all_orders_fold)

lemma sys_run_orders:
  "all_orders s \<Longrightarrow> (\<And>n fs. SendsFail n fs \<notin> set is) \<Longrightarrow> all_orders (sys_run Y s is)"
proof (induction "is" arbitrary: s)
  case (Cons i "is")
  then have "all_orders (sys_step Y s i)" by (intro sys_step_orders) auto
  with Cons show ?case by (simp add: sys_run_def)
qed (simp add: sys_run_def)



end
