(* ===== verification/System_Watermark.thy ===== *)
theory System_Watermark
  imports System_Props Relay_Props
begin

text \<open>
  The watermark of the stream in the composed program: every sign-in has its own tracker, all of them write
  the same database. It never moves back; and what happens to it, and to the workers, when the user logs
  out or a sign-in is repeated while tasks of the old one still run.
\<close>

section \<open>The watermark\<close>

text \<open>The cursors the server sends are Redis stream ids.\<close>

definition server_ok :: "worker_env \<Rightarrow> bool" where
  "server_ok W \<longleftrightarrow> (\<forall>m r. we_decode W m = Some r \<longrightarrow> mark_ok (nonempty_cursor (rp_stream_cursor r)))"

definition event_marked :: "stream_event \<Rightarrow> bool" where
  "event_marked e = (case e of
     EvMessage _ c \<Rightarrow> mark_ok (nonempty_cursor c) | EvAck _ c \<Rightarrow> mark_ok (nonempty_cursor c) | _ \<Rightarrow> True)"

definition command_marked :: "orch_command \<Rightarrow> bool" where
  "command_marked c = (case c of StreamMessage _ x \<Rightarrow> context_ok x | ForgetContact _ \<Rightarrow> True)"

definition port_marked :: "port \<Rightarrow> bool" where
  "port_marked p \<longleftrightarrow> list_all event_marked (w_events (pt_worker p)) \<and> list_all command_marked (pt_commands p)"

abbreviation (input) events_marked :: "worker \<Rightarrow> bool" where
  "events_marked w \<equiv> list_all event_marked (w_events w)"

lemma emit_marked [simp]: "events_marked (emit e w) = (events_marked w \<and> event_marked e)"
  by (simp add: emit_def)

lemma quiet_events [simp]:
  "event_marked EvConnected" "event_marked EvDisconnected" "event_marked EvAuthRequired" "event_marked (EvReconnecting n d)"
  by (simp_all add: event_marked_def)

lemma lose_marked [simp]: "events_marked (lose_stream E w) = events_marked w" "events_marked (start_backoff E w) = events_marked w"
  by (simp_all add: lose_stream_def start_backoff_def Let_def)

lemma sent_marked:
  "send_request E b w = (r, v) \<Longrightarrow> events_marked v = events_marked w"
  "send_heartbeat E w = (r, v) \<Longrightarrow> events_marked v = events_marked w"
  by (simp_all add: send_heartbeat_def send_request_events)

lemma go_live_marked [simp]: "events_marked w \<Longrightarrow> events_marked (go_live E w)"
proof -
  assume m: "events_marked w"
  let ?w = "emit EvConnected ((flush E (w_queue w) w)\<lparr>w_attempt := 0\<rparr>)"
  have "events_marked ?w" using m by (simp add: emit_def flush_events)
  then have "events_marked (snd (send_heartbeat E ?w))" using sent_marked(2) [of E ?w] prod.collapse by metis
  then show ?thesis by (cases "send_heartbeat E ?w") (auto simp: go_live_def Let_def split: bool.split)
qed

lemma dispatch_marked: "server_ok E \<Longrightarrow> dispatch_incoming (we_decode E) f = Some e \<Longrightarrow> event_marked e"
  by (auto simp: dispatch_incoming_def server_ok_def event_marked_def Let_def
      split: sum.splits prod.splits option.splits stream_reply.splits)

lemma step_live_marked:
  assumes "server_ok E" "events_marked w"
  shows "events_marked (step_live E i w)"
proof (cases i)
  case (Cmd oc)
  show ?thesis
  proof (cases oc)
    case (Some c)
    have "events_marked v" if "send_request E b w = (r, v) \<or> send_request E b (w\<lparr>w_users := u\<rparr>) = (r, v)" for b r v u
      using that sent_marked(1) [of E b w r v] sent_marked(1) [of E b "w\<lparr>w_users := u\<rparr>" r v] assms(2) by auto
    then show ?thesis using Some Cmd assms(2)
      by (cases c) (auto simp: step_live_def split: prod.split bool.split)
  qed (use Cmd assms(2) in \<open>simp add: step_live_def\<close>)
next
  case (Frame f)
  then show ?thesis using assms dispatch_marked [OF assms(1)]
    by (auto simp: step_live_def split: option.split)
next
  case Tick
  then show ?thesis using assms(2) sent_marked(2) [of E w]
    by (auto simp: step_live_def split: prod.split bool.split)
qed (use assms(2) in \<open>simp_all add: step_live_def\<close>)

lemma worker_step_marked:
  assumes "server_ok E" "events_marked w"
  shows "events_marked (worker_step E w i)"
proof (cases "w_phase w")
  case Connecting
  then show ?thesis using assms(2)
    by (simp add: worker_step_def step_connecting_def split: worker_input.split poll.split stream_cmd.split)
next
  case Opening
  then show ?thesis using assms(2)
    by (simp add: worker_step_def step_opening_def Let_def split: worker_input.split sum.split)
next
  case Backoff
  then show ?thesis using assms(2)
    by (simp add: worker_step_def step_backoff_def split: worker_input.split option.split stream_cmd.split)
qed (use assms step_live_marked in \<open>simp_all add: worker_step_def\<close>)

definition marked :: "'o system \<Rightarrow> bool" where
  "marked s \<longleftrightarrow> mark_ok (stored_cursor (ap_db (sy_app s)))
     \<and> list_all (\<lambda>t. noted_ok (tk_cursor t)) (ap_tasks (sy_app s)) \<and> list_all port_marked (sy_ports s)
     \<and> ap_orch_sent (sy_app s) = [] \<and> length (sy_ports s) = length (ap_tasks (sy_app s))"

lemma marked_on_port: "marked s \<Longrightarrow> (\<And>p. port_marked p \<Longrightarrow> port_marked (f p)) \<Longrightarrow> marked (on_port n f s)"
  by (simp add: marked_def on_port_all)

lemma marked_on_task: "marked s \<Longrightarrow> (\<And>t. noted_ok (tk_cursor t) \<Longrightarrow> noted_ok (tk_cursor (f t))) \<Longrightarrow> marked (on_task n f s)"
  by (simp add: marked_def on_task_all)

lemma marked_frame [simp]:
  "marked (to_app es s) = marked s" "marked (s\<lparr>sy_mail := m\<rparr>) = marked s"
  "marked (s\<lparr>sy_app := (sy_app s)\<lparr>ap_disk := f\<rparr>\<rparr>) = marked s"
  by (simp_all add: marked_def)

lemma port_marked_put [simp]: "port_marked (put_commands cs p) = port_marked p"
  by (simp add: port_marked_def put_commands_def)

lemma port_marked_new [simp]: "port_marked (new_port jobs n)"
  by (simp add: port_marked_def new_port_def worker_init_def)

definition input_marked :: "orch_input \<Rightarrow> bool" where
  "input_marked m = (case m of OrchEvent _ \<Rightarrow> True | OrchCommand c \<Rightarrow> command_marked c)"

lemma plain_marked: "plain_input m \<Longrightarrow> input_marked m"
  by (auto simp: plain_input_def input_marked_def command_marked_def split: orch_input.split orch_command.split)

lemma to_orchestrator_marked: "marked s \<Longrightarrow> input_marked (snd m) \<Longrightarrow> marked (to_orchestrator m s)"
  by (cases m; cases "snd m")
    (auto simp: to_orchestrator_def input_marked_def port_marked_def intro!: marked_on_port marked_on_task)

lemma to_orchestrator_db [simp]:
  "ap_db (sy_app (to_orchestrator m s)) = ap_db (sy_app s)" "ap_db (sy_app (to_worker w s)) = ap_db (sy_app s)"
  by (cases m; cases "snd m"; simp add: to_orchestrator_def to_worker_def)+

lemma folds_db [simp]:
  "ap_db (sy_app (fold to_orchestrator ms s)) = ap_db (sy_app s)"
  "ap_db (sy_app (fold to_worker ws s)) = ap_db (sy_app s)"
   apply (induction ms arbitrary: s)
    apply simp_all
  apply (induction ws arbitrary: s)
   apply simp_all
  done

lemma fold_marked:
  "marked s \<Longrightarrow> \<forall>m \<in> set ms. input_marked (snd m) \<Longrightarrow> marked (fold to_orchestrator ms s)"
  by (rule fold_invariant [where Q = "\<lambda>m. input_marked (snd m)"]) (simp_all add: to_orchestrator_marked)

lemma fold_worker_marked: "marked s \<Longrightarrow> marked (fold to_worker ws s)"
  by (rule fold_invariant [where Q = "\<lambda>_. True"]) (simp_all add: to_worker_def marked_on_port)

lemma app_takes_marked:
  assumes "marked s" "app_link D (sy_app s) (f (sy_app s))"
  shows "marked (app_takes f s)
     \<and> (stored_cursor (ap_db (sy_app (app_takes f s))) = stored_cursor (ap_db (sy_app s))
        \<or> D \<and> stored_cursor (ap_db (sy_app (app_takes f s))) = None)"
proof -
  let ?b = "f (sy_app s)"
  let ?s = "s\<lparr>sy_app := ?b\<lparr>ap_orch_sent := [], ap_stream_sent := []\<rparr>,
      sy_ports := sy_ports s @ map (new_port (ap_jobs ?b)) [length (sy_ports s)..<length (ap_tasks ?b)]\<rparr>"
  have d: "stored_cursor (ap_db ?b) = stored_cursor (ap_db (sy_app s)) \<or> D \<and> stored_cursor (ap_db ?b) = None"
    using assms(2) by (simp add: app_link_def db_link_def)
  obtain vs where vs: "ap_tasks ?b = ap_tasks (sy_app s) @ vs" "\<forall>t \<in> set vs. ct_pending (tk_cursor t) = Map.empty"
    using assms(2) by (auto simp: app_link_def new_tasks_def)
  have "list_all (\<lambda>t. noted_ok (tk_cursor t)) vs" using vs(2) by (simp add: list_all_iff noted_ok_def)
  moreover have "mark_ok (stored_cursor (ap_db ?b))" using d assms(1) by (auto simp: marked_def mark_ok_def)
  ultimately have "marked ?s" using assms(1) vs(1) by (auto simp: marked_def list_all_iff)
  moreover have "\<forall>m \<in> set (ap_orch_sent ?b). input_marked (snd m)"
    using assms plain_marked by (auto simp: app_link_def marked_def)
  ultimately have "marked (fold to_worker (ap_stream_sent ?b) (fold to_orchestrator (ap_orch_sent ?b) ?s))"
    by (intro fold_worker_marked fold_marked)
  then show ?thesis using d by (simp add: app_takes_def Let_def)
qed

definition input_context_ok :: "task_input \<Rightarrow> bool" where
  "input_context_ok i \<longleftrightarrow> (\<forall>e x. i = Command (StreamMessage e x) \<longrightarrow> context_ok x)"

lemma noted_from_all: "noted_from {x. context_ok x} c \<longleftrightarrow> noted_ok c"
proof -
  have "\<exists>x. context_ok x \<and> sc_message_id x = i \<and> sc_stream_cursor x = Some y" if "cursor_ok y" for i y
    using that by (intro exI [of _ "\<lparr>sc_contact_id = [], sc_message_id = i, sc_stream_cursor = Some y,
        sc_content_type = 0, sc_msg_num = 0\<rparr>"])
      (auto simp: context_ok_def nonempty_cursor_def mark_ok_def)
  then show ?thesis unfolding noted_from_def noted_ok_def by blast
qed

lemma actor_step_marked:
  assumes "core_saves_only (\<lambda>k. k \<noteq> STREAM_CURSOR_KEY) K" "input_context_ok i"
    and "mark_ok (stored_cursor (tk_db t))" "noted_ok (tk_cursor t)"
  shows "mark_ok (stored_cursor (tk_db (task_step K E t i))) \<and> noted_ok (tk_cursor (task_step K E t i))
     \<and> ahead (stored_cursor (tk_db t)) (stored_cursor (tk_db (task_step K E t i)))"
proof -
  have "set (stream_contexts [i]) \<subseteq> {x. context_ok x}"
    using assms(2) by (cases i; simp) (metis stream_contexts.simps(1,2,3) empty_set empty_subsetI input_context_ok_def
        insert_subset list.simps(15) mem_Collect_eq orch_command.exhaust)
  from step_on_track [OF assms(1,3) this, of E t]
  show ?thesis using assms(3,4) by (simp add: on_track_def noted_from_all tables_def accounted_def)
qed

lemma actor_takes_marked:
  assumes "core_saves_only (\<lambda>k. k \<noteq> STREAM_CURSOR_KEY) (ax_core (sx_app Y))" "input_context_ok i" "marked s"
    and "n < length (sy_ports s)"
  shows "marked (actor_takes Y n i s)
     \<and> ahead (stored_cursor (ap_db (sy_app s))) (stored_cursor (ap_db (sy_app (actor_takes Y n i s))))"
proof -
  let ?t = "(ap_tasks (sy_app s) ! n)\<lparr>tk_db := ap_db (sy_app s), tk_stream := [], tk_ui := []\<rparr>"
  let ?t' = "task_step (ax_core (sx_app Y)) (sx_orch Y n) ?t i"
  have "noted_ok (tk_cursor ?t)" using assms(3,4) by (simp add: marked_def list_all_length)
  then have t': "mark_ok (stored_cursor (tk_db ?t'))" "noted_ok (tk_cursor ?t')"
    "ahead (stored_cursor (ap_db (sy_app s))) (stored_cursor (tk_db ?t'))"
    using actor_step_marked [OF assms(1,2), of ?t "sx_orch Y n"] assms(3) by (simp_all add: marked_def)
  let ?s = "s\<lparr>sy_app := (sy_app s)\<lparr>ap_tasks := (ap_tasks (sy_app s))[n := ?t'\<lparr>tk_stream := [], tk_ui := []\<rparr>],
      ap_db := tk_db ?t'\<rparr>\<rparr>"
  have "marked ?s" using t'(1,2) assms(3,4) by (simp add: marked_def list_all_length nth_list_update)
  then have "marked (on_port n (put_commands (tk_stream ?t')) ?s)" by (rule marked_on_port) simp
  then show ?thesis using t'(3) by (simp add: actor_takes_def Let_def)
qed

lemma worker_takes_marked:
  assumes "server_ok (sx_worker Y n)" "marked s"
  shows "marked (worker_takes Y n x s) \<and> ap_db (sy_app (worker_takes Y n x s)) = ap_db (sy_app s)"
proof (cases "worker_sees (ct_committed (tk_cursor (ap_tasks (sy_app s) ! n))) (sy_ports s ! n) x")
  case (Some iq)
  have "port_marked (p\<lparr>pt_worker := worker_step (sx_worker Y n) (pt_worker p) i, pt_channel := q\<rparr>)"
    if "port_marked p" for p i q
    using that worker_step_marked [OF assms(1)] by (simp add: port_marked_def)
  then show ?thesis using Some assms(2)
    by (auto simp: worker_takes_def split: prod.split intro: marked_on_port)
qed (use assms in \<open>simp add: worker_takes_def\<close>)

lemma note_ok: "noted_ok t \<Longrightarrow> mark_ok (nonempty_cursor c) \<Longrightarrow> noted_ok (tracker_note t i c)"
  by (auto simp: tracker_note_def noted_ok_def mark_ok_def split: option.split if_splits)

lemma relay_event_marked:
  assumes "relay_event R k t e = (c, ins, ints)" "event_marked e" "noted_ok t"
  shows "noted_ok c \<and> (\<forall>i \<in> set ins. input_marked i)"
proof (cases e)
  case (EvMessage env cur)
  then have "ins = relay_message R k env cur" using assms(1) by (simp add: relay_event_def)
  moreover have "input_marked (forward_message b cur n kem p g)" if "mark_ok (nonempty_cursor cur)" for b n kem p g
    using that by (simp add: input_marked_def command_marked_def context_ok_def forward_message_def)
  ultimately have "\<forall>i \<in> set ins. input_marked i"
    using relay_message_inputs [of _ R k env cur] assms(2) EvMessage by (fastforce simp: event_marked_def)
  then show ?thesis using assms(1,3) EvMessage by (auto simp: relay_event_def)
next
  case (EvAck i cur)
  then show ?thesis using assms by (auto simp: relay_event_def event_marked_def input_marked_def note_ok)
qed (use assms in \<open>auto simp: relay_event_def input_marked_def\<close>)

lemma relay_takes_marked:
  assumes "marked s" "n < length (sy_ports s)"
  shows "marked (relay_takes Y n s) \<and> ap_db (sy_app (relay_takes Y n s)) = ap_db (sy_app s)"
proof -
  let ?p = "sy_ports s ! n" and ?t = "ap_tasks (sy_app s) ! n"
  show ?thesis
  proof (cases "pt_relayed ?p < length (stream_events (pt_worker ?p))")
    case True
    let ?e = "stream_events (pt_worker ?p) ! pt_relayed ?p"
    obtain c ins ints where r: "relay_event (sx_relay Y) (pt_secret ?p) (tk_cursor ?t) ?e = (c, ins, ints)"
      by (metis prod_cases3)
    have "noted_ok (tk_cursor ?t)" "port_marked ?p" using assms by (auto simp: marked_def list_all_length)
    moreover have "list_all event_marked (stream_events (pt_worker ?p))"
      using calculation(2) by (simp add: port_marked_def stream_events_def)
    ultimately have c: "noted_ok c" "\<forall>i \<in> set ins. input_marked i"
      using relay_event_marked [OF r] True by (auto simp: list_all_length)
    have "marked (on_task n (\<lambda>t. t\<lparr>tk_cursor := c\<rparr>) s)" by (rule marked_on_task [OF assms(1)]) (simp add: c(1))
    then have "marked (on_port n (\<lambda>p. p\<lparr>pt_relayed := pt_relayed p + 1\<rparr>) (on_task n (\<lambda>t. t\<lparr>tk_cursor := c\<rparr>) s))"
      by (rule marked_on_port) (simp add: port_marked_def)
    then have "marked (fold to_orchestrator (map (Pair n) ins)
        (on_port n (\<lambda>p. p\<lparr>pt_relayed := pt_relayed p + 1\<rparr>) (on_task n (\<lambda>t. t\<lparr>tk_cursor := c\<rparr>) s)))"
      by (rule fold_marked) (use c(2) in auto)
    then show ?thesis using True r by (simp add: relay_takes_def Let_def)
  qed (use assms in \<open>simp add: relay_takes_def Let_def\<close>)
qed

definition sys_laws :: "'o sys_env \<Rightarrow> bool" where
  "sys_laws Y \<longleftrightarrow> core_saves_only (\<lambda>k. k \<noteq> STREAM_CURSOR_KEY) (ax_core (sx_app Y))
     \<and> (\<forall>n. server_ok (sx_worker Y n))"

definition watermark_of :: "'o system \<Rightarrow> string option" where
  "watermark_of s = stored_cursor (ap_db (sy_app s))"

definition step_marked :: "'o sys_env \<Rightarrow> 'o system \<Rightarrow> sys_input \<Rightarrow> bool" where
  "step_marked Y s i \<longleftrightarrow> marked (sys_step Y s i) \<and> (ahead (watermark_of s) (watermark_of (sys_step Y s i))
     \<or> (\<exists>k. i = Keys k) \<and> watermark_of (sys_step Y s i) = None)"

lemma step_marked_same: "marked s \<Longrightarrow> sys_step Y s i = s \<Longrightarrow> step_marked Y s i"
  by (simp add: step_marked_def)

lemma app_inputs_marked:
  assumes "marked s" "ap_running (sy_app s)" "\<not> ap_panicked (sy_app s)"
  shows "step_marked Y s (Keys k)" "step_marked Y s (Draws area)" "step_marked Y s TakesMail"
proof -
  show "step_marked Y s (Keys k)"
    using app_takes_marked [where s = s and D = True and f = "\<lambda>a. app_step (sx_app Y) a (Key k)"]
      app_step_link(1) assms by (auto simp: step_marked_def sys_step_def watermark_of_def)
  show "step_marked Y s (Draws area)"
    using app_takes_marked [where s = s and D = False and f = "draws Y area", OF _ draws_linked] assms
    by (auto simp: step_marked_def sys_step_def watermark_of_def)
  show "step_marked Y s TakesMail"
  proof (cases "sy_mail s")
    case (Cons e es)
    have "marked (s\<lparr>sy_mail := es\<rparr>)" using assms(1) by simp
    moreover have "app_link False (sy_app (s\<lparr>sy_mail := es\<rparr>)) (app_step (sx_app Y) (sy_app (s\<lparr>sy_mail := es\<rparr>)) (Internal e))"
      by (rule app_step_link(2))
    ultimately show ?thesis
      using app_takes_marked [where s = "s\<lparr>sy_mail := es\<rparr>" and D = False and f = "\<lambda>a. app_step (sx_app Y) a (Internal e)"]
        assms(2,3) Cons by (auto simp: step_marked_def sys_step_def watermark_of_def)
  qed (use assms in \<open>simp add: step_marked_def sys_step_def\<close>)
qed

lemma actor_command_marked:
  assumes "core_saves_only (\<lambda>k. k \<noteq> STREAM_CURSOR_KEY) (ax_core (sx_app Y))" "marked s"
    and "ap_running (sy_app s)" "\<not> ap_panicked (sy_app s)"
  shows "step_marked Y s (ActorCommand n)"
proof (cases "n < length (sy_ports s) \<and> pt_commands (sy_ports s ! n) \<noteq> []")
  case True
  then obtain c cs where c: "pt_commands (sy_ports s ! n) = c # cs" by (cases "pt_commands (sy_ports s ! n)") auto
  have p: "port_marked (sy_ports s ! n)" using assms(2) True by (simp add: marked_def list_all_length)
  then have ctx: "input_context_ok (Command c)"
    by (auto simp: port_marked_def c command_marked_def input_context_ok_def)
  have "marked (on_port n (\<lambda>p. p\<lparr>pt_commands := cs\<rparr>) s)"
    using p assms(2) True
    by (auto simp: marked_def on_port_def list_all_length nth_list_update port_marked_def c)
  from actor_takes_marked [OF assms(1) ctx this, of n] show ?thesis
    using assms(3,4) True c by (simp add: step_marked_def sys_step_def watermark_of_def)
qed (use assms in \<open>auto simp: step_marked_def sys_step_def split: list.split\<close>)

lemma sys_step_marked:
  assumes "sys_laws Y" "marked s"
  shows "step_marked Y s i"
proof (cases "\<not> ap_running (sy_app s) \<or> ap_panicked (sy_app s)")
  case True
  then show ?thesis using assms(2) by (intro step_marked_same) (simp_all add: sys_step_def)
next
  case run: False
  have K: "core_saves_only (\<lambda>k. k \<noteq> STREAM_CURSOR_KEY) (ax_core (sx_app Y))" and W: "\<And>n. server_ok (sx_worker Y n)"
    using assms(1) by (simp_all add: sys_laws_def)
  note defs = step_marked_def sys_step_def watermark_of_def
  note app = app_inputs_marked [OF assms(2)] actor_command_marked [OF K assms(2)]
  show ?thesis
  proof (cases i)
    case (ActorTurn n)
    then show ?thesis using run assms(2) actor_takes_marked [OF K _ assms(2), of Turn n]
      by (auto simp: defs input_context_ok_def)
  next
    case (ActorJob n h r)
    then show ?thesis using run assms(2) actor_takes_marked [OF K _ assms(2), of "JobDone h r" n]
      by (auto simp: defs input_context_ok_def)
  next
    case (WorkerDoes n x)
    then show ?thesis using run assms(2) worker_takes_marked [OF W assms(2), of n x] by (auto simp: defs)
  next
    case (SendsFail n fs)
    then show ?thesis using run assms(2) by (auto simp: defs port_marked_def intro: marked_on_port)
  next
    case (RelayDoes n)
    then show ?thesis using run assms(2) relay_takes_marked [OF assms(2), of n Y] by (auto simp: defs)
  next
    case (JobEnds es f)
    then show ?thesis using run assms(2) by (simp add: defs)
  qed (use run app in auto)
qed

lemma sys_run_marked: "sys_laws Y \<Longrightarrow> marked s \<Longrightarrow> marked (sys_run Y s is)"
proof (induction "is" arbitrary: s)
  case (Cons i "is")
  then show ?case using sys_step_marked [of Y s i] by (simp add: sys_run_def step_marked_def)
qed (simp add: sys_run_def)

lemma sys_start_marked: "mark_ok (stored_cursor d) \<Longrightarrow> marked (sys_start Y cfg disk d)"
  by (simp add: marked_def sys_start_def startup_fields) (simp add: app_new_def)

text \<open>C5. In every run of the whole program, with any number of sign-ins whose actors write the same database,
  the shared watermark moves in every step forward or not at all; only a key of the user may drop it, and
  then it is gone altogether.\<close>

theorem shared_watermark_never_goes_back:
  assumes "sys_laws Y" "mark_ok (stored_cursor d)" "s = sys_run Y (sys_start Y cfg disk d) is"
  shows "ahead (watermark_of s) (watermark_of (sys_step Y s i)) \<or> (\<exists>k. i = Keys k) \<and> watermark_of (sys_step Y s i) = None"
  unfolding assms(3)
  by (rule conjunct2 [OF sys_step_marked [OF assms(1) sys_run_marked [OF assms(1) sys_start_marked [OF assms(2)]],
        unfolded step_marked_def]])

theorem shared_watermark_never_goes_back_witness:
  "\<forall>cfg disk. ahead (watermark_of (signed_in cfg disk)) (watermark_of (sys_step login_system (signed_in cfg disk) (ActorTurn 0)))"
proof (intro allI)
  fix cfg disk
  have "sys_laws login_system" using sample_core_saves_only
    by (simp add: sys_laws_def login_system_def login_with_def login_env_def server_ok_def sample_env_def)
  moreover have "mark_ok (stored_cursor empty_db)"
    by (simp add: mark_ok_def stored_cursor_def empty_db_def cursor_of_blob_def)
  ultimately show "ahead (watermark_of (signed_in cfg disk)) (watermark_of (sys_step login_system (signed_in cfg disk) (ActorTurn 0)))"
    using shared_watermark_never_goes_back [OF _ _ signed_in_run, where i = "ActorTurn 0" and cfg = cfg and disk = disk] by auto
qed

section \<open>Tasks that outlive their sign-in\<close>

text \<open>Logging out drops the handle of the orchestrator, but its task goes on: a message that waits in its
  channel is still handled, and when it is a stale replay its cursor is stored after the logout cleared
  the watermark.\<close>

lemma replay_after_logout:
  assumes "ap_running (sy_app s)" "\<not> ap_panicked (sy_app s)" "n < length (sy_ports s)" "n < length (ap_tasks (sy_app s))"
    and "pt_commands (sy_ports s ! n) = StreamMessage e x # cs" "sc_stream_cursor x = Some cur" "cursor_ok cur"
    and "should_drop_stale_session_replay (ke_types (oe_knst (sx_orch Y n))) x (tk_established (ap_tasks (sy_app s) ! n))"
    and "faults (ap_db (sy_app s)) = []" "watermark_of s = None"
  shows "watermark_of (sys_step Y s (ActorCommand n)) = Some cur
     \<and> ap_current_session (sy_app (sys_step Y s (ActorCommand n))) = ap_current_session (sy_app s)"
proof -
  let ?t = "(ap_tasks (sy_app s) ! n)\<lparr>tk_db := ap_db (sy_app s), tk_stream := [], tk_ui := []\<rparr>"
  have cur: "is_str cur" "cur \<noteq> []" using cursor_ok_str [OF assms(7)] by simp_all
  obtain d r where s: "save_stream_cursor (ap_db (sy_app s)) cur = (d, r)" by fastforce
  have d: "stored_cursor d = Some cur"
    using save_stream_cursor_takes(1) [OF assms(9) cur] assms(10) s by (simp add: watermark_of_def)
  have "nonempty_cursor (Some cur) = Some cur" using cur(2) by (simp add: nonempty_cursor_def)
  then have "tk_db (task_step (ax_core (sx_app Y)) (sx_orch Y n) ?t (Command (StreamMessage e x))) = d"
    using assms(6,8) s
    by (auto simp: task_step_def handle_command_def stream_message_def tracker_commit_direct_def tracker_persist_def
        case_prod_beta split: sum.split bool.split)
  then show ?thesis
    using assms(1-5) d by (simp add: sys_step_def actor_takes_def Let_def watermark_of_def)
qed

lemma to_worker_commands [simp]:
  "map pt_commands (sy_ports (to_worker m s)) = map pt_commands (sy_ports s)" "sy_app (to_worker m s) = sy_app s"
proof -
  show "map pt_commands (sy_ports (to_worker m s)) = map pt_commands (sy_ports s)"
  proof (rule nth_equalityI)
    fix i
    assume "i < length (map pt_commands (sy_ports (to_worker m s)))"
    then show "map pt_commands (sy_ports (to_worker m s)) ! i = map pt_commands (sy_ports s) ! i"
      by (cases "fst m = i") (simp_all add: to_worker_def on_port_def put_commands_def)
  qed (simp add: to_worker_def)
qed (simp add: to_worker_def)

lemma fold_worker_commands [simp]:
  "map pt_commands (sy_ports (fold to_worker ws s)) = map pt_commands (sy_ports s)"
  "sy_app (fold to_worker ws s) = sy_app s"
  by (induction ws arbitrary: s) (simp_all del: map_eq_conv)

lemma do_logout_fields:
  assumes "clear_session (ah_config (ax_auth X)) (ap_disk a) = (d, Ok u)" "ap_read_storage a"
  shows "ap_current_session (do_logout X a) = None" "ap_db (do_logout X a) = fst (clear_stream_cursor (ap_db a))"
    "ap_tasks (do_logout X a) = ap_tasks a" "ap_orch_sent (do_logout X a) = ap_orch_sent a"
    "ap_running (do_logout X a) = ap_running a" "ap_panicked (do_logout X a) = ap_panicked a"
  using assms by (simp_all add: do_logout_def stream_send_def spawn_job_def Let_def case_prod_beta split: option.split)

lemma clear_cursor_result:
  "faults d = [] \<Longrightarrow> stored_cursor (fst (clear_stream_cursor d)) = None \<and> faults (fst (clear_stream_cursor d)) = []"
  by (simp add: clear_stream_cursor_def secure_delete_def stmt_def stored_cursor_def cursor_of_blob_def
      map_of_filter_key [of "\<lambda>k. k \<noteq> STREAM_CURSOR_KEY"])

definition key_l :: key_event where
  "key_l = \<lparr>kv_code = KChar (ch (CHR ''l'')), kv_mods = NoModifier, kv_press = True\<rparr>"

text \<open>The whole race: the user logs out with a key while a replay waits in the channel of the orchestrator; then
  nobody is signed in, and the watermark of the old account is stored again.\<close>

lemma logout_leaves_actor_running:
  assumes "sys_ok s" "ap_running (sy_app s)" "\<not> ap_panicked (sy_app s)" "ap_screen (sy_app s) = Settings"
    and "clear_session (ah_config (ax_auth (sx_app Y))) (ap_disk (sy_app s)) = (disk, Ok u)"
    and "ap_read_storage (sy_app s)" "faults (ap_db (sy_app s)) = []" "n < length (sy_ports s)"
    and "pt_commands (sy_ports s ! n) = StreamMessage e x # cs" "sc_stream_cursor x = Some cur" "cursor_ok cur"
    and "should_drop_stale_session_replay (ke_types (oe_knst (sx_orch Y n))) x (tk_established (ap_tasks (sy_app s) ! n))"
  shows "let s1 = sys_step Y s (Keys key_l); s2 = sys_step Y s1 (ActorCommand n) in
     ap_current_session (sy_app s1) = None \<and> watermark_of s1 = None
     \<and> ap_current_session (sy_app s2) = None \<and> watermark_of s2 = Some cur"
proof -
  let ?s = "sys_step Y s (Keys key_l)" and ?b = "do_logout (sx_app Y) (sy_app s)"
  have l: "length (sy_ports s) = length (ap_tasks (sy_app s))" "ap_orch_sent (sy_app s) = []"
    using assms(1) by (simp_all add: sys_ok_def)
  note f = do_logout_fields [OF assms(5,6)]
  have step: "app_step (sx_app Y) (sy_app s) (Key key_l) = ?b"
    using assms(2-4) by (simp add: app_step_def handle_event_def handle_settings_def key_l_def ctrl_c_def is_char_def ch_def)
  then have s: "?s = fold to_worker (ap_stream_sent ?b) (s\<lparr>sy_app := ?b\<lparr>ap_orch_sent := [], ap_stream_sent := []\<rparr>\<rparr>)"
    using assms(2,3) f l by (simp add: sys_step_def app_takes_def Let_def)
  have db: "stored_cursor (ap_db ?b) = None" "faults (ap_db ?b) = []"
    using clear_cursor_result [OF assms(7)] f(2) by simp_all
  have commands: "map pt_commands (sy_ports ?s) = map pt_commands (sy_ports s)" by (simp add: s del: map_eq_conv)
  then have len: "length (sy_ports ?s) = length (sy_ports s)" by (metis length_map)
  have "pt_commands (sy_ports ?s ! n) = StreamMessage e x # cs"
    using commands assms(8,9) len by (metis nth_map)
  from replay_after_logout [OF _ _ _ _ this assms(10,11), of Y]
  have "watermark_of (sys_step Y ?s (ActorCommand n)) = Some cur
     \<and> ap_current_session (sy_app (sys_step Y ?s (ActorCommand n))) = ap_current_session (sy_app ?s)"
    using assms(2,3,8,12) f db len l by (simp add: s watermark_of_def)
  moreover have "ap_current_session (sy_app ?s) = None" "watermark_of ?s = None"
    using f db by (simp_all add: s watermark_of_def)
  ultimately show ?thesis by (simp add: Let_def)
qed

text \<open>Signing in again, as a re-authentication in the background does, starts a second orchestrator and a
  second worker on the same database; the first ones are neither stopped nor told.\<close>

lemma start_orchestrator_tasks:
  assumes "session_secrets (ax_auth X) f = Some (i, g, p, q)" "ax_new X i g p q u = Ok orch"
    and "ax_open X (map_option (\<lambda>sk. ky_database (sk_keys sk)) (ap_session_key a)) = Ok ()"
  shows "\<exists>t. ap_tasks (start_orchestrator X f u dev a) = ap_tasks a @ [t]"
    "ap_stream (start_orchestrator X f u dev a) = Some (length (ap_tasks a))"
    "ap_stream_sent (start_orchestrator X f u dev a) = ap_stream_sent a"
    "ap_orch_sent (start_orchestrator X f u dev a) = ap_orch_sent a @ [(length (ap_tasks a), OrchEvent AppLaunched)]"
  using assms
  by (simp_all add: start_orchestrator_def spawn_tasks_def load_contacts_def orch_send_def spawn_job_def Let_def
      case_prod_beta split: sum.split)

lemma reauth_keeps_old_worker:
  assumes "sys_ok s" "ap_running (sy_app s)" "\<not> ap_panicked (sy_app s)" "ap_screen (sy_app s) \<noteq> ScreenRegistering"
    and "sy_mail s = IntAuth (AuthSuccess r) # es" "as_pending_save r = None"
    and "session_secrets (ax_auth (sx_app Y)) (as_full_session r) = Some (i, g, p, q)"
    and "ax_new (sx_app Y) i g p q (as_user_id r) = Ok orch"
    and "ax_open (sx_app Y) (map_option (\<lambda>sk. ky_database (sk_keys sk)) (ap_session_key (sy_app s))) = Ok ()"
  shows "\<exists>p'. sy_ports (sys_step Y s TakesMail) = sy_ports s @ [p']
     \<and> ap_stream (sy_app (sys_step Y s TakesMail)) = Some (length (sy_ports s))"
proof -
  let ?a = "adopt_auth r (sy_app s)"
  let ?b = "start_orchestrator (sx_app Y) (as_full_session r) (as_user_id r) (as_device_id r) ?a"
  have a: "ap_session_key ?a = ap_session_key (sy_app s)" "ap_tasks ?a = ap_tasks (sy_app s)"
    "ap_stream_sent ?a = ap_stream_sent (sy_app s)" "ap_orch_sent ?a = ap_orch_sent (sy_app s)"
    by (simp_all add: adopt_auth_def)
  have l: "length (sy_ports s) = length (ap_tasks (sy_app s))" "ap_orch_sent (sy_app s) = []"
    "ap_stream_sent (sy_app s) = []" using assms(1) by (simp_all add: sys_ok_def)
  note st = start_orchestrator_tasks [OF assms(7,8), of ?a "as_device_id r", unfolded a, OF assms(9)]
  obtain t where t: "ap_tasks ?b = ap_tasks (sy_app s) @ [t]" using st(1) by blast
  have step: "app_step (sx_app Y) (sy_app s) (Internal (IntAuth (AuthSuccess r))) = ?b\<lparr>ap_screen := MainScreen\<rparr>"
    using assms(2-4,6)
    by (simp add: app_step_def handle_internal_def handle_auth_msg_def auth_succeeded_def enter_main_def set_screen_def
        Let_def)
  show ?thesis
    using assms(2,3,5) l st(2-4) t
    by (simp add: sys_step_def app_takes_def step Let_def to_orchestrator_def on_task_def)
qed

end
