(* ===== verification/System_Progress.thy ===== *)
theory System_Progress
  imports System_Props
begin

text \<open>
  Progress of the composed program: an envelope that was handed to a stream worker is not stuck. Each
  stimulus the worker needs next brings it nearer to a live stream with an empty channel, no other one
  takes it back while the network works, and so every schedule of enough fair rounds, interleaved with
  whatever the other tasks do, puts everything that was handed over on the wire.
\<close>

section \<open>A port\<close>

definition port_takes :: "worker_env \<Rightarrow> string option \<Rightarrow> port \<Rightarrow> stimulus \<Rightarrow> port" where
  "port_takes E since p x =
     (case worker_sees since p x of
        None \<Rightarrow> p
      | Some (i, q) \<Rightarrow> p\<lparr>pt_worker := worker_step E (pt_worker p) i, pt_channel := q\<rparr>)"

text \<open>While the network works an opening succeeds and no stream ends.\<close>

definition smooth :: "stimulus \<Rightarrow> bool" where
  "smooth x = (case x of Opens r \<Rightarrow> r = Ok () | Receives f \<Rightarrow> f \<noteq> None | _ \<Rightarrow> True)"

definition needed :: "phase \<Rightarrow> stimulus" where
  "needed ph = (case ph of
       Stream_Worker.Connecting \<Rightarrow> Polls | Opening \<Rightarrow> Opens (Ok ()) | Backoff \<Rightarrow> Wakes | _ \<Rightarrow> TakesCommand)"

definition stops :: "stream_cmd \<Rightarrow> bool" where
  "stops c \<longleftrightarrow> c = CmdShutdown \<or> c = CmdClose"

text \<open>The worker goes on: it has not returned, is not told to, and its sends succeed.\<close>

definition steady :: "port \<Rightarrow> bool" where
  "steady p \<longleftrightarrow> w_sends (pt_worker p) = [] \<and> w_phase (pt_worker p) \<noteq> Exited
     \<and> \<not> list_ex stops (pt_channel p)"

definition phase_rank :: "phase \<Rightarrow> nat" where
  "phase_rank ph = (case ph of Opening \<Rightarrow> 1 | Stream_Worker.Connecting \<Rightarrow> 2 | Backoff \<Rightarrow> 3 | _ \<Rightarrow> 0)"

definition rank :: "port \<Rightarrow> nat" where
  "rank p = phase_rank (w_phase (pt_worker p)) + length (pt_channel p)"

lemma phase_rank_simps [simp]:
  "phase_rank Live = 0" "phase_rank Opening = 1" "phase_rank Stream_Worker.Connecting = 2" "phase_rank Backoff = 3"
  by (simp_all add: phase_rank_def)

definition same_place :: "port \<Rightarrow> port \<Rightarrow> bool" where
  "same_place p p' \<longleftrightarrow> w_phase (pt_worker p') = w_phase (pt_worker p) \<and> pt_channel p' = pt_channel p"

text \<open>What a step of a steady worker on a working network is: the worker goes on, and either it comes
  nearer or it stays in its phase with its channel.\<close>

definition nears :: "port \<Rightarrow> port \<Rightarrow> bool" where
  "nears p p' \<longleftrightarrow> steady p' \<and> (rank p' < rank p \<or> same_place p p')"

lemma nears_refl [simp]: "steady p \<Longrightarrow> nears p p"
  by (simp add: nears_def same_place_def)

lemma same_place_rank: "same_place p p' \<Longrightarrow> rank p' = rank p"
  by (simp add: same_place_def rank_def)

lemma same_place_trans: "same_place p q \<Longrightarrow> same_place q r \<Longrightarrow> same_place p r"
  by (simp add: same_place_def)

lemma nears_trans: "nears p q \<Longrightarrow> nears q r \<Longrightarrow> nears p r"
  using same_place_rank [of p q] same_place_rank [of q r] same_place_trans [of p q r]
  unfolding nears_def by linarith

lemma nears_rank: "nears p q \<Longrightarrow> rank q \<le> rank p"
  using same_place_rank [of p q] by (auto simp: nears_def)

lemma nears_worker:
  "w_sends w = [] \<Longrightarrow> w_phase w \<noteq> Exited \<Longrightarrow> \<not> list_ex stops q \<Longrightarrow>
   phase_rank (w_phase w) + length q < rank p \<or> w_phase w = w_phase (pt_worker p) \<and> q = pt_channel p \<Longrightarrow>
   nears p (p\<lparr>pt_worker := w, pt_channel := q\<rparr>)"
  by (auto simp: nears_def steady_def rank_def same_place_def)

lemma nears_live:
  "w_sends w = [] \<Longrightarrow> w_phase w = Live \<Longrightarrow> \<not> list_ex stops (pt_channel p) \<Longrightarrow>
   w_phase (pt_worker p) = Live \<or> w_phase (pt_worker p) = Opening \<Longrightarrow> nears p (p\<lparr>pt_worker := w\<rparr>)"
  by (auto simp: nears_def steady_def rank_def same_place_def)

lemma live_clean:
  assumes "w_phase w = Live" "w_sends w = []"
  shows "w_sends (step_live E Stream_Worker.Tick w) = []" "w_phase (step_live E Stream_Worker.Tick w) = Live"
    and "\<not> stops c \<Longrightarrow> w_sends (step_live E (Cmd (Some c)) w) = []"
    and "\<not> stops c \<Longrightarrow> w_phase (step_live E (Cmd (Some c)) w) = Live"
    and "w_sends (step_live E (Frame (Some f)) w) = []" "w_phase (step_live E (Frame (Some f)) w) = Live"
proof -
  show "w_sends (step_live E Stream_Worker.Tick w) = []" "w_phase (step_live E Stream_Worker.Tick w) = Live"
    using send_heartbeat_clean [OF assms(2), of E] assms(1) by (auto simp: step_live_def)
  show "\<not> stops c \<Longrightarrow> w_sends (step_live E (Cmd (Some c)) w) = []"
    "\<not> stops c \<Longrightarrow> w_phase (step_live E (Cmd (Some c)) w) = Live"
    using assms by (cases c; simp add: step_live_def send_request_clean stops_def)+
  show "w_sends (step_live E (Frame (Some f)) w) = []" "w_phase (step_live E (Frame (Some f)) w) = Live"
    using assms by (simp_all add: step_live_def split: option.split)
qed


lemma command_backoff:
  assumes "w_phase w = Backoff" "\<not> stops c"
  shows "w_phase (step_backoff (Cmd (Some c)) w) = Stream_Worker.Connecting"
    "w_sends (step_backoff (Cmd (Some c)) w) = w_sends w"
  using assms by (cases c; simp add: step_backoff_def stops_def)+

lemma command_connecting:
  assumes "\<not> stops c"
  shows "w_phase (step_connecting (Polled c) w) = Opening" "w_sends (step_connecting (Polled c) w) = w_sends w"
  using assms by (cases c; simp add: step_connecting_def stops_def)+

lemma smooth_nears:
  assumes st: "w_sends (pt_worker p) = []" "w_phase (pt_worker p) \<noteq> Exited" "\<not> list_ex stops (pt_channel p)"
    and "smooth x" "worker_sees since p x = Some (i, q)"
  shows "nears p (p\<lparr>pt_worker := worker_step E (pt_worker p) i, pt_channel := q\<rparr>)"
proof (cases x)
  case Polls
  then have ph: "w_phase (pt_worker p) = Stream_Worker.Connecting"
    using assms(5) by (simp add: worker_sees_def Let_def split: if_splits)
  show ?thesis
    using assms(3,5) ph st(1) Polls command_connecting
    by (cases "pt_channel p")
      (auto intro!: nears_worker simp: worker_sees_def rank_def worker_step_def step_connecting_def)
next
  case (Opens r)
  then have "w_phase (pt_worker p) = Opening" "r = Ok ()" "i = Opened since r" "q = pt_channel p"
    using assms(4,5) by (auto simp: worker_sees_def smooth_def Let_def split: if_splits)
  then show ?thesis
    using go_live_clean [of "(pt_worker p)\<lparr>w_opens := w_opens (pt_worker p) @ [(w_users (pt_worker p), since)]\<rparr>" E] st
    by (auto intro!: nears_live simp: worker_step_def step_opening_def)
next
  case TakesCommand
  then obtain c where c: "pt_channel p = c # q" "i = Cmd (Some c)" "w_phase (pt_worker p) = Live \<or> w_phase (pt_worker p) = Backoff"
    using assms(5) by (auto simp: worker_sees_def Let_def split: list.splits if_splits)
  then have "\<not> stops c" "\<not> list_ex stops q" using st(3) by simp_all
  with c(3) show ?thesis
    using live_clean(3,4) [OF _ st(1), of c E] command_backoff [of "pt_worker p" c] st(1) c(1,2)
    by (elim disjE) (auto intro!: nears_worker simp: rank_def worker_step_def)
next
  case Ticks
  then have "w_phase (pt_worker p) = Live" "i = Stream_Worker.Tick" "q = pt_channel p"
    using assms(5) by (auto simp: worker_sees_def Let_def split: if_splits)
  then show ?thesis
    using live_clean(1,2) [OF _ st(1), of E] st by (auto intro!: nears_live simp: worker_step_def)
next
  case (Receives f)
  then obtain b where "w_phase (pt_worker p) = Live" "i = Frame (Some b)" "q = pt_channel p"
    using assms(4,5) by (auto simp: worker_sees_def smooth_def Let_def split: if_splits)
  then show ?thesis
    using live_clean(5,6) [OF _ st(1), of E b] st by (auto intro!: nears_live simp: worker_step_def)
next
  case Wakes
  then have "w_phase (pt_worker p) = Backoff" "i = Slept" "q = pt_channel p"
    using assms(5) by (auto simp: worker_sees_def Let_def split: if_splits)
  then show ?thesis
    using st by (simp add: nears_def steady_def rank_def worker_step_def step_backoff_def)
qed

lemma port_takes_nears: "steady p \<Longrightarrow> smooth x \<Longrightarrow> nears p (port_takes E since p x)"
  using smooth_nears [of p x since] by (auto simp: port_takes_def steady_def split: option.split)

text \<open>What the phase needs next is possible, and brings the worker nearer.\<close>

lemma needed_moves:
  assumes "steady p" "0 < rank p"
  shows "\<not> same_place p (port_takes E since p (needed (w_phase (pt_worker p))))"
proof (cases "w_phase (pt_worker p)")
  case Live
  then obtain c cs where "pt_channel p = c # cs" using assms(2) by (cases "pt_channel p") (auto simp: rank_def)
  with Live show ?thesis by (simp add: port_takes_def worker_sees_def needed_def same_place_def)
next
  case Connecting
  then show ?thesis using assms(1) command_connecting(1)
    by (cases "pt_channel p")
      (auto simp: port_takes_def worker_sees_def needed_def same_place_def worker_step_def step_connecting_def steady_def)
next
  case Opening
  then show ?thesis using assms(1)
      go_live_clean [of "(pt_worker p)\<lparr>w_opens := w_opens (pt_worker p) @ [(w_users (pt_worker p), since)]\<rparr>" E]
    by (auto simp: port_takes_def worker_sees_def needed_def same_place_def worker_step_def step_opening_def steady_def)
next
  case Backoff
  then show ?thesis
    by (simp add: port_takes_def worker_sees_def needed_def same_place_def worker_step_def step_backoff_def)
qed (use assms(1) in \<open>simp add: steady_def\<close>)

lemma smooth_needed [simp]: "smooth (needed ph)"
  by (cases ph) (simp_all add: needed_def smooth_def)

lemma needed_nears:
  assumes "steady p" "0 < rank p"
  shows "rank (port_takes E since p (needed (w_phase (pt_worker p)))) < rank p"
  using port_takes_nears [OF assms(1) smooth_needed, of E since "w_phase (pt_worker p)"]
    needed_moves [OF assms, of E since] by (simp add: nears_def)

lemma needed_cases: "needed ph \<in> {Wakes, Polls, Opens (Ok ()), TakesCommand}"
  by (cases ph) (simp_all add: needed_def)

section \<open>The system\<close>

text \<open>The other tasks may do what they like, as long as they neither hand this worker more nor end the program;
  its own stimuli are those of a working network.\<close>

definition quiet :: "nat \<Rightarrow> sys_input \<Rightarrow> bool" where
  "quiet n i =
     (case i of
        WorkerDoes m x \<Rightarrow> m = n \<longrightarrow> smooth x
      | RelayDoes _ \<Rightarrow> True
      | JobEnds _ _ \<Rightarrow> True
      | ActorCommand m \<Rightarrow> m \<noteq> n
      | ActorTurn m \<Rightarrow> m \<noteq> n
      | ActorJob m _ _ \<Rightarrow> m \<noteq> n
      | _ \<Rightarrow> False)"

definition up :: "nat \<Rightarrow> 'o system \<Rightarrow> bool" where
  "up n s \<longleftrightarrow> ap_running (sy_app s) \<and> \<not> ap_panicked (sy_app s) \<and> n < length (sy_ports s)"

definition same_outbox :: "port \<Rightarrow> port \<Rightarrow> bool" where
  "same_outbox p p' \<longleftrightarrow> pt_worker p' = pt_worker p \<and> pt_channel p' = pt_channel p \<and> pt_handed p' = pt_handed p"

lemma on_port_nth: "sy_ports (on_port m f s) ! n = (if m = n \<and> n < length (sy_ports s) then f (sy_ports s ! n) else sy_ports s ! n)"
  by (cases "m < length (sy_ports s)") (auto simp: on_port_def nth_list_update list_update_beyond)

lemma outbox_on_port: "(\<And>p. same_outbox p (f p)) \<Longrightarrow> same_outbox p (sy_ports s ! n) \<Longrightarrow> same_outbox p (sy_ports (on_port m f s) ! n)"
  by (auto simp: on_port_nth same_outbox_def)

lemma up_updates [simp]:
  "up n (on_port m f s) = up n s" "up n (on_task m g s) = up n s" "up n (to_app es s) = up n s"
  by (simp_all add: up_def on_task_def)

lemma to_orchestrator_quiet:
  "up n (to_orchestrator x s) = up n s"
  "same_outbox p (sy_ports s ! n) \<Longrightarrow> same_outbox p (sy_ports (to_orchestrator x s) ! n)"
  by (cases x; cases "snd x"; auto simp: to_orchestrator_def intro!: outbox_on_port; simp add: same_outbox_def)+

lemma fold_orchestrator_quiet:
  "up n (fold to_orchestrator xs s) = up n s"
  "same_outbox p (sy_ports s ! n) \<Longrightarrow> same_outbox p (sy_ports (fold to_orchestrator xs s) ! n)"
  by (induction xs arbitrary: s) (simp_all add: to_orchestrator_quiet)

lemma actor_takes_quiet:
  "up n (actor_takes Y m i s) = up n s"
  "m \<noteq> n \<Longrightarrow> same_outbox p (sy_ports s ! n) \<Longrightarrow> same_outbox p (sy_ports (actor_takes Y m i s) ! n)"
  by (simp_all add: actor_takes_def Let_def on_port_nth) (simp add: up_def)

lemma relay_takes_quiet:
  "up n (relay_takes Y m s) = up n s"
  "same_outbox p (sy_ports s ! n) \<Longrightarrow> same_outbox p (sy_ports (relay_takes Y m s) ! n)"
proof -
  have keep: "same_outbox p (q\<lparr>pt_relayed := k\<rparr>)" if "same_outbox p q" for p q k
    using that by (simp add: same_outbox_def)
  show "up n (relay_takes Y m s) = up n s"
    by (simp add: relay_takes_def Let_def fold_orchestrator_quiet case_prod_beta)
  show "same_outbox p (sy_ports s ! n) \<Longrightarrow> same_outbox p (sy_ports (relay_takes Y m s) ! n)"
    by (simp add: relay_takes_def Let_def fold_orchestrator_quiet on_port_nth keep case_prod_beta)
qed

text \<open>A quiet input is a step of the worker of the port, or leaves worker and channel as they are.\<close>

definition moves :: "'o sys_env \<Rightarrow> nat \<Rightarrow> 'o system \<Rightarrow> sys_input \<Rightarrow> port" where
  "moves Y n s i =
     (case i of
        WorkerDoes m x \<Rightarrow>
          if m = n then port_takes (sx_worker Y n) (ct_committed (tk_cursor (ap_tasks (sy_app s) ! n))) (sy_ports s ! n) x
          else sy_ports s ! n
      | _ \<Rightarrow> sy_ports s ! n)"

lemma same_outbox_refl [simp]: "same_outbox p p"
  by (simp add: same_outbox_def)

lemma quiet_input_step:
  assumes "up n s" "quiet n i"
  shows "up n (sys_step Y s i) \<and> same_outbox (moves Y n s i) (sy_ports (sys_step Y s i) ! n)"
proof -
  have r: "ap_running (sy_app s)" "\<not> ap_panicked (sy_app s)" using assms(1) by (simp_all add: up_def)
  have cmd: "same_outbox (sy_ports s ! n) (sy_ports (on_port m (\<lambda>p. p\<lparr>pt_commands := cs\<rparr>) s) ! n)" for m cs
    by (rule outbox_on_port) (simp_all add: same_outbox_def)
  show ?thesis
  proof (cases i)
    case (WorkerDoes m x)
    then show ?thesis
      using assms(1) r
      by (auto simp: sys_step_def moves_def worker_takes_def port_takes_def on_port_nth up_def split: option.split)
  next
    case (JobEnds es f)
    then show ?thesis using assms(1) r by (simp add: sys_step_def moves_def up_def)
  next
    case (RelayDoes m)
    then show ?thesis using assms(1) r by (simp add: sys_step_def moves_def relay_takes_quiet)
  qed (use assms r cmd in \<open>simp_all add: sys_step_def moves_def quiet_def actor_takes_quiet split: list.split\<close>)
qed

lemma nears_same_outbox: "nears p q \<Longrightarrow> same_outbox q q' \<Longrightarrow> nears p q'"
  by (simp add: nears_def steady_def rank_def same_place_def same_outbox_def)

lemma moves_nears:
  assumes "steady (sy_ports s ! n)" "quiet n i"
  shows "nears (sy_ports s ! n) (moves Y n s i) \<and> pt_handed (moves Y n s i) = pt_handed (sy_ports s ! n)"
proof (cases i)
  case (WorkerDoes m x)
  then show ?thesis using assms port_takes_nears [OF assms(1)]
    by (auto simp: moves_def quiet_def port_takes_def split: option.split)
qed (use assms in \<open>simp_all add: moves_def\<close>)

lemma quiet_run:
  assumes "up n s" "steady (sy_ports s ! n)" "list_all (quiet n) is"
  shows "up n (sys_run Y s is) \<and> nears (sy_ports s ! n) (sy_ports (sys_run Y s is) ! n)
     \<and> pt_handed (sy_ports (sys_run Y s is) ! n) = pt_handed (sy_ports s ! n)"
  using assms
proof (induction "is" arbitrary: s)
  case (Cons i "is")
  then have q: "quiet n i" "list_all (quiet n) is" by simp_all
  let ?s = "sys_step Y s i"
  have m: "nears (sy_ports s ! n) (sy_ports ?s ! n)" "pt_handed (sy_ports ?s ! n) = pt_handed (sy_ports s ! n)" "up n ?s"
    using quiet_input_step [OF Cons.prems(1) q(1), of Y] moves_nears [OF Cons.prems(2) q(1), of Y]
      nears_same_outbox by (auto simp: same_outbox_def)
  then have "steady (sy_ports ?s ! n)" by (simp add: nears_def)
  from Cons.IH [OF m(3) this q(2)] m(1,2) show ?case
    using nears_trans by (auto simp: sys_run_def)
qed (simp add: sys_run_def)

section \<open>Rounds\<close>

text \<open>In a round everything the worker may wait for happens at least once.\<close>

definition fair_round :: "nat \<Rightarrow> sys_input list \<Rightarrow> bool" where
  "fair_round n r \<longleftrightarrow> list_all (quiet n) r
     \<and> WorkerDoes n Wakes \<in> set r \<and> WorkerDoes n Polls \<in> set r
     \<and> WorkerDoes n (Opens (Ok ())) \<in> set r \<and> WorkerDoes n TakesCommand \<in> set r"

lemma sys_run_append: "sys_run Y s (xs @ ys) = sys_run Y (sys_run Y s xs) ys"
  by (simp add: sys_run_def)

lemma round_nears:
  assumes "up n s" "steady (sy_ports s ! n)" "fair_round n r" "0 < rank (sy_ports s ! n)"
  shows "rank (sy_ports (sys_run Y s r) ! n) < rank (sy_ports s ! n)"
proof -
  let ?p = "sy_ports s ! n"
  let ?i = "WorkerDoes n (needed (w_phase (pt_worker ?p)))"
  have "?i \<in> set r" using assms(3) needed_cases [of "w_phase (pt_worker ?p)"] by (auto simp: fair_round_def)
  then obtain xs ys where r: "r = xs @ ?i # ys" by (auto simp: in_set_conv_decomp)
  have quiet: "list_all (quiet n) xs" "quiet n ?i" "list_all (quiet n) ys" using assms(3) by (simp_all add: fair_round_def r)
  define s1 where "s1 = sys_run Y s xs"
  have s1: "up n s1" "nears ?p (sy_ports s1 ! n)" using quiet_run [OF assms(1,2) quiet(1), of Y] by (simp_all add: s1_def)
  then have st1: "steady (sy_ports s1 ! n)" by (simp add: nears_def)
  define s2 where "s2 = sys_step Y s1 ?i"
  have s2: "up n s2" "same_outbox (moves Y n s1 ?i) (sy_ports s2 ! n)"
    using quiet_input_step [OF s1(1) quiet(2), of Y] by (simp_all add: s2_def)
  have "nears (sy_ports s1 ! n) (sy_ports s2 ! n)"
    using moves_nears [OF st1 quiet(2), of Y] nears_same_outbox s2(2) by blast
  moreover have "rank (sy_ports s2 ! n) < rank ?p"
  proof (cases "rank (sy_ports s1 ! n) < rank ?p")
    case True
    then show ?thesis using nears_rank [OF \<open>nears _ (sy_ports s2 ! n)\<close>] by simp
  next
    case False
    then have "same_place ?p (sy_ports s1 ! n)" using s1(2) by (simp add: nears_def)
    then have "rank (moves Y n s1 ?i) < rank (sy_ports s1 ! n)"
      using needed_nears [OF st1] assms(4) same_place_rank [of ?p "sy_ports s1 ! n"]
      by (simp add: moves_def same_place_def)
    then show ?thesis using s2(2) same_place_rank [OF \<open>same_place _ _\<close>] by (simp add: rank_def same_outbox_def)
  qed
  moreover have "nears (sy_ports s2 ! n) (sy_ports (sys_run Y s2 ys) ! n)"
    using quiet_run [OF s2(1) _ quiet(3), of Y] calculation(1) by (simp add: nears_def)
  moreover have "sys_run Y s r = sys_run Y s2 ys" by (simp add: r sys_run_append s2_def s1_def) (simp add: sys_run_def)
  ultimately show ?thesis using nears_rank [of "sy_ports s2 ! n" "sy_ports (sys_run Y s2 ys) ! n"] by simp
qed

lemma rounds_rank:
  assumes "up n s" "steady (sy_ports s ! n)" "list_all (fair_round n) rounds"
  shows "rank (sy_ports (sys_run Y s (concat rounds)) ! n) \<le> rank (sy_ports s ! n) - length rounds"
  using assms
proof (induction rounds arbitrary: s)
  case (Cons r rounds)
  then have r: "fair_round n r" "list_all (quiet n) r" by (simp_all add: fair_round_def)
  let ?s = "sys_run Y s r"
  note q = quiet_run [OF Cons.prems(1,2) r(2), of Y]
  then have "steady (sy_ports ?s ! n)" by (simp add: nears_def)
  then have ih: "rank (sy_ports (sys_run Y ?s (concat rounds)) ! n) \<le> rank (sy_ports ?s ! n) - length rounds"
    using Cons q by simp
  have "rank (sy_ports ?s ! n) \<le> rank (sy_ports s ! n)"
    using q nears_rank by blast
  then show ?case
    using ih round_nears [OF Cons.prems(1,2) r(1), of Y] by (cases "rank (sy_ports s ! n) = 0") (simp_all add: sys_run_append)
qed (simp add: sys_run_def)

lemma rounds_quiet: "list_all (fair_round n) rounds \<Longrightarrow> list_all (quiet n) (concat rounds)"
  by (induction rounds) (simp_all add: fair_round_def)

lemma quiet_sends: "list_all (quiet n) is \<Longrightarrow> SendsFail m fs \<notin> set is"
  by (auto simp: list_all_iff quiet_def)

lemma phase_rank_le: "phase_rank ph \<le> 3"
  by (cases ph) (simp_all add: phase_rank_def)


definition talk_round :: "sys_input list" where
  "talk_round = map (WorkerDoes 0) [TakesCommand, Ticks, Opens (Ok ()), Polls, Wakes]"


end
