(* ===== verification/App_Labels.thy ===== *)
theory App_Labels
  imports System_Props
begin

text \<open>
  What the options of the command line and of the configuration that name a transport, post-quantum keys,
  a headless start or another configuration change: labels on the screen, and nothing else. A run of the
  program under other such options is the run under these with the labels replaced.
\<close>

section \<open>Replacing the labels\<close>

definition relabel_item :: "string \<Rightarrow> bool \<Rightarrow> settings_item \<Rightarrow> settings_item" where
  "relabel_item l q i =
     (if st_label i = ''Transport'' then i\<lparr>st_value := l\<rparr>
      else if st_label i = ''Post-quantum'' then i\<lparr>st_value := if q then ''yes (Kyber-768)'' else ''no (classic)''\<rparr>
      else i)"

definition relabel_settings :: "string \<Rightarrow> bool \<Rightarrow> settings \<Rightarrow> settings" where
  "relabel_settings l q s = s\<lparr>se_transport := l, se_pq_active := q, se_items := map (relabel_item l q) (se_items s)\<rparr>"

definition relabel_connection :: "string \<Rightarrow> string \<Rightarrow> connection_state \<Rightarrow> connection_state" where
  "relabel_connection old new c =
     (case c of Connected l ms \<Rightarrow> Connected (if l = old then new else l) ms | _ \<Rightarrow> c)"

definition relabel :: "transport_config \<Rightarrow> bool \<Rightarrow> 'o app \<Rightarrow> 'o app" where
  "relabel t q a = a\<lparr>ap_transport := t, ap_pq_active := q,
     ap_connection := relabel_connection (transport_label (ap_transport a)) (transport_label t) (ap_connection a),
     ap_settings := relabel_settings (transport_label t) q (ap_settings a)\<rparr>"

lemma relabel_fields [simp]:
  "ap_screen (relabel t q a) = ap_screen a" "ap_onboarding (relabel t q a) = ap_onboarding a"
  "ap_device_link (relabel t q a) = ap_device_link a" "ap_unlock (relabel t q a) = ap_unlock a"
  "ap_registration (relabel t q a) = ap_registration a" "ap_ticker (relabel t q a) = ap_ticker a"
  "ap_session_key (relabel t q a) = ap_session_key a" "ap_current_session (relabel t q a) = ap_current_session a"
  "ap_pending_session (relabel t q a) = ap_pending_session a" "ap_no_encrypt (relabel t q a) = ap_no_encrypt a"
  "ap_focus (relabel t q a) = ap_focus a" "ap_chat_list (relabel t q a) = ap_chat_list a"
  "ap_chat_view (relabel t q a) = ap_chat_view a" "ap_status (relabel t q a) = ap_status a"
  "ap_running (relabel t q a) = ap_running a" "ap_server_url (relabel t q a) = ap_server_url a"
  "ap_grpc (relabel t q a) = ap_grpc a" "ap_user_id (relabel t q a) = ap_user_id a"
  "ap_search (relabel t q a) = ap_search a" "ap_safety (relabel t q a) = ap_safety a"
  "ap_orch (relabel t q a) = ap_orch a" "ap_stream (relabel t q a) = ap_stream a"
  "ap_read_storage (relabel t q a) = ap_read_storage a" "ap_device_id (relabel t q a) = ap_device_id a"
  "ap_access_token (relabel t q a) = ap_access_token a" "ap_identity_key (relabel t q a) = ap_identity_key a"
  "ap_delete_confirm (relabel t q a) = ap_delete_confirm a" "ap_panicked (relabel t q a) = ap_panicked a"
  "ap_disk (relabel t q a) = ap_disk a" "ap_db (relabel t q a) = ap_db a" "ap_tasks (relabel t q a) = ap_tasks a"
  "ap_orch_sent (relabel t q a) = ap_orch_sent a" "ap_stream_sent (relabel t q a) = ap_stream_sent a"
  "ap_stream_full (relabel t q a) = ap_stream_full a" "ap_jobs (relabel t q a) = ap_jobs a"
  "ap_used (relabel t q a) = ap_used a"
  "ap_transport (relabel t q a) = t" "ap_pq_active (relabel t q a) = q"
  by (simp_all add: relabel_def)

lemma relabel_updates [simp]:
  "(relabel t q a)\<lparr>ap_screen := v0\<rparr> = relabel t q (a\<lparr>ap_screen := v0\<rparr>)"
  "(relabel t q a)\<lparr>ap_onboarding := v1\<rparr> = relabel t q (a\<lparr>ap_onboarding := v1\<rparr>)"
  "(relabel t q a)\<lparr>ap_device_link := v2\<rparr> = relabel t q (a\<lparr>ap_device_link := v2\<rparr>)"
  "(relabel t q a)\<lparr>ap_unlock := v3\<rparr> = relabel t q (a\<lparr>ap_unlock := v3\<rparr>)"
  "(relabel t q a)\<lparr>ap_registration := v4\<rparr> = relabel t q (a\<lparr>ap_registration := v4\<rparr>)"
  "(relabel t q a)\<lparr>ap_ticker := v5\<rparr> = relabel t q (a\<lparr>ap_ticker := v5\<rparr>)"
  "(relabel t q a)\<lparr>ap_session_key := v6\<rparr> = relabel t q (a\<lparr>ap_session_key := v6\<rparr>)"
  "(relabel t q a)\<lparr>ap_current_session := v7\<rparr> = relabel t q (a\<lparr>ap_current_session := v7\<rparr>)"
  "(relabel t q a)\<lparr>ap_pending_session := v8\<rparr> = relabel t q (a\<lparr>ap_pending_session := v8\<rparr>)"
  "(relabel t q a)\<lparr>ap_no_encrypt := v9\<rparr> = relabel t q (a\<lparr>ap_no_encrypt := v9\<rparr>)"
  "(relabel t q a)\<lparr>ap_focus := v10\<rparr> = relabel t q (a\<lparr>ap_focus := v10\<rparr>)"
  "(relabel t q a)\<lparr>ap_chat_list := v11\<rparr> = relabel t q (a\<lparr>ap_chat_list := v11\<rparr>)"
  "(relabel t q a)\<lparr>ap_chat_view := v12\<rparr> = relabel t q (a\<lparr>ap_chat_view := v12\<rparr>)"
  "(relabel t q a)\<lparr>ap_status := v13\<rparr> = relabel t q (a\<lparr>ap_status := v13\<rparr>)"
  "(relabel t q a)\<lparr>ap_running := v14\<rparr> = relabel t q (a\<lparr>ap_running := v14\<rparr>)"
  "(relabel t q a)\<lparr>ap_server_url := v15\<rparr> = relabel t q (a\<lparr>ap_server_url := v15\<rparr>)"
  "(relabel t q a)\<lparr>ap_grpc := v16\<rparr> = relabel t q (a\<lparr>ap_grpc := v16\<rparr>)"
  "(relabel t q a)\<lparr>ap_user_id := v17\<rparr> = relabel t q (a\<lparr>ap_user_id := v17\<rparr>)"
  "(relabel t q a)\<lparr>ap_search := v18\<rparr> = relabel t q (a\<lparr>ap_search := v18\<rparr>)"
  "(relabel t q a)\<lparr>ap_safety := v19\<rparr> = relabel t q (a\<lparr>ap_safety := v19\<rparr>)"
  "(relabel t q a)\<lparr>ap_orch := v20\<rparr> = relabel t q (a\<lparr>ap_orch := v20\<rparr>)"
  "(relabel t q a)\<lparr>ap_stream := v21\<rparr> = relabel t q (a\<lparr>ap_stream := v21\<rparr>)"
  "(relabel t q a)\<lparr>ap_read_storage := v22\<rparr> = relabel t q (a\<lparr>ap_read_storage := v22\<rparr>)"
  "(relabel t q a)\<lparr>ap_device_id := v23\<rparr> = relabel t q (a\<lparr>ap_device_id := v23\<rparr>)"
  "(relabel t q a)\<lparr>ap_access_token := v24\<rparr> = relabel t q (a\<lparr>ap_access_token := v24\<rparr>)"
  "(relabel t q a)\<lparr>ap_identity_key := v25\<rparr> = relabel t q (a\<lparr>ap_identity_key := v25\<rparr>)"
  "(relabel t q a)\<lparr>ap_delete_confirm := v26\<rparr> = relabel t q (a\<lparr>ap_delete_confirm := v26\<rparr>)"
  "(relabel t q a)\<lparr>ap_panicked := v27\<rparr> = relabel t q (a\<lparr>ap_panicked := v27\<rparr>)"
  "(relabel t q a)\<lparr>ap_disk := v28\<rparr> = relabel t q (a\<lparr>ap_disk := v28\<rparr>)"
  "(relabel t q a)\<lparr>ap_db := v29\<rparr> = relabel t q (a\<lparr>ap_db := v29\<rparr>)"
  "(relabel t q a)\<lparr>ap_tasks := v30\<rparr> = relabel t q (a\<lparr>ap_tasks := v30\<rparr>)"
  "(relabel t q a)\<lparr>ap_orch_sent := v31\<rparr> = relabel t q (a\<lparr>ap_orch_sent := v31\<rparr>)"
  "(relabel t q a)\<lparr>ap_stream_sent := v32\<rparr> = relabel t q (a\<lparr>ap_stream_sent := v32\<rparr>)"
  "(relabel t q a)\<lparr>ap_stream_full := v33\<rparr> = relabel t q (a\<lparr>ap_stream_full := v33\<rparr>)"
  "(relabel t q a)\<lparr>ap_jobs := v34\<rparr> = relabel t q (a\<lparr>ap_jobs := v34\<rparr>)"
  "(relabel t q a)\<lparr>ap_used := v35\<rparr> = relabel t q (a\<lparr>ap_used := v35\<rparr>)"
  by (simp_all add: relabel_def)

text \<open>The three places where a label is made.\<close>

lemma relabel_new [simp]:
  "relabel_settings l q (settings_new srv l' dev user q' key) = settings_new srv l dev user q key"
  by (simp add: relabel_settings_def settings_new_def relabel_item_def info_item_def action_item_def)

lemma transport_label_wired [simp]:
  "transport_label t \<noteq> ''P2P''" "''P2P'' \<noteq> transport_label t"
  "transport_label t \<noteq> ''Relay''" "''Relay'' \<noteq> transport_label t"
  by (cases t; simp add: transport_label_def)+

lemma relabel_settings_rows [simp]:
  "settings_confirm (relabel_settings l q s) = settings_confirm s"
  "settings_next (relabel_settings l q s) = relabel_settings l q (settings_next s)"
  "settings_prev (relabel_settings l q s) = relabel_settings l q (settings_prev s)"
proof -
  have a: "st_action (relabel_item l q i) = st_action i" for i by (simp add: relabel_item_def)
  show "settings_confirm (relabel_settings l q s) = settings_confirm s"
    by (cases "se_selected s") (auto simp: settings_confirm_def relabel_settings_def nth_opt_def a)
qed (simp_all add: settings_next_def settings_prev_def relabel_settings_def split: option.split)

lemma relabel_connections [simp]:
  "(relabel t q a)\<lparr>ap_connection := Disconnected\<rparr> = relabel t q (a\<lparr>ap_connection := Disconnected\<rparr>)"
  "(relabel t q a)\<lparr>ap_connection := Reconnecting n w i\<rparr> = relabel t q (a\<lparr>ap_connection := Reconnecting n w i\<rparr>)"
  "(relabel t q a)\<lparr>ap_connection := Connected ''P2P'' l\<rparr> = relabel t q (a\<lparr>ap_connection := Connected ''P2P'' l\<rparr>)"
  "(relabel t q a)\<lparr>ap_connection := Connected ''Relay'' l\<rparr> = relabel t q (a\<lparr>ap_connection := Connected ''Relay'' l\<rparr>)"
  "(relabel t q a)\<lparr>ap_connection := Connected (transport_label t) l\<rparr>
     = relabel t q (a\<lparr>ap_connection := Connected (transport_label (ap_transport a)) l\<rparr>)"
  by (simp_all add: relabel_def relabel_connection_def)

lemma relabel_settings_put [simp]:
  "(relabel t q a)\<lparr>ap_settings := relabel_settings (transport_label t) q s\<rparr> = relabel t q (a\<lparr>ap_settings := s\<rparr>)"
  "(relabel t q a)\<lparr>ap_settings := settings_new srv (transport_label t) dev user q key\<rparr>
     = relabel t q (a\<lparr>ap_settings := settings_new srv (transport_label (ap_transport a)) dev user (ap_pq_active a) key\<rparr>)"
  by (simp_all add: relabel_def)

lemma relabel_settings_get [simp]: "ap_settings (relabel t q a) = relabel_settings (transport_label t) q (ap_settings a)"
  by (simp add: relabel_def)

section \<open>Through the control structure\<close>

text \<open>A handler commutes with \<open>relabel\<close> when each of its pieces does: the rules pull \<open>relabel\<close> out of
  branches, bindings and pairs.\<close>

named_theorems labels

lemma pulls:
  "(if b then relabel t q x else relabel t q y) = relabel t q (if b then x else y)"
  "case_option (relabel t q x) (\<lambda>z. relabel t q (f z)) o' = relabel t q (case_option x f o')"
  "case_sum (\<lambda>z. relabel t q (g z)) (\<lambda>z. relabel t q (h z)) e = relabel t q (case_sum g h e)"
  "case_prod (\<lambda>u v. relabel t q (k u v)) p = relabel t q (case_prod k p)"
  "case_bool (relabel t q x) (relabel t q y) b = relabel t q (case_bool x y b)"
  "Let w (\<lambda>z. relabel t q (l z)) = relabel t q (Let w l)"
  "Let p (case_prod (\<lambda>u v. relabel t q (k u v))) = relabel t q (Let p (case_prod k))"
  by (simp_all split: option.split sum.split prod.split bool.split)

lemma passes:
  "Let (relabel t q x) m = Let x (\<lambda>z. m (relabel t q z))"
  "Let (map_prod id (relabel t q) p) (case_prod k) = Let p (case_prod (\<lambda>u v. k u (relabel t q v)))"
  "Let (map_prod (relabel t q) id r) (case_prod k') = Let r (case_prod (\<lambda>u v. k' (relabel t q u) v))"
  "case_prod k (map_prod id (relabel t q) p) = case_prod (\<lambda>u v. k u (relabel t q v)) p"
  "case_prod k' (map_prod (relabel t q) id r) = case_prod (\<lambda>u v. k' (relabel t q u) v) r"
  by (simp_all add: case_prod_beta)

lemmas branches = if_cong option.case_cong sum.case_cong prod.case_cong bool.case_cong

lemmas relabels = relabel_fields relabel_updates relabel_settings_put relabel_settings_get
  relabel_connections relabel_settings_rows pulls passes

section \<open>Messages of the background tasks\<close>

lemma relabel_basic [labels]:
  "orch_send m (relabel t q a) = relabel t q (orch_send m a)"
  "stream_send c (relabel t q a) = relabel t q (stream_send c a)"
  "spawn_job j (relabel t q a) = relabel t q (spawn_job j a)"
  "set_screen s (relabel t q a) = relabel t q (set_screen s a)"
  "set_status w (relabel t q a) = relabel t q (set_status w a)"
  "quit_app (relabel t q a) = relabel t q (quit_app a)"
  "on_view f (relabel t q a) = relabel t q (on_view f a)"
  "on_search g (relabel t q a) = relabel t q (on_search g a)"
  "unlock_fail w (relabel t q a) = relabel t q (unlock_fail w a)"
  "set_focus v (relabel t q a) = relabel t q (set_focus v a)"
  "start_ticker (relabel t q a) = relabel t q (start_ticker a)"
  "stop_ticker (relabel t q a) = relabel t q (stop_ticker a)"
  by (simp_all only: start_ticker_def stop_ticker_def orch_send_def stream_send_def spawn_job_def set_screen_def set_status_def quit_app_def on_view_def
      on_search_def unlock_fail_def set_focus_def relabels cong: branches)

lemma relabel_draws [labels]:
  "generate_message_id X (relabel t q a) = map_prod id (relabel t q) (generate_message_id X a)"
  "current_time_hhmm X (relabel t q a) = map_prod id (relabel t q) (current_time_hhmm X a)"
  "load_contacts X (relabel t q a) = map_prod id (relabel t q) (load_contacts X a)"
  "save_current X s (relabel t q a) = map_prod (relabel t q) id (save_current X s a)"
  by (simp_all add: generate_message_id_def current_time_hhmm_def load_contacts_def save_current_def Let_def
      split: option.split prod.split sum.split)

lemma relabel_starts [labels]:
  "start_auth_restore_from_disk (relabel t q a) = relabel t q (start_auth_restore_from_disk a)"
  "start_auth_restore_preloaded s (relabel t q a) = relabel t q (start_auth_restore_preloaded s a)"
  "start_auth_register u (relabel t q a) = relabel t q (start_auth_register u a)"
  "start_auth_link w (relabel t q a) = relabel t q (start_auth_link w a)"
  "start_token_refresh s (relabel t q a) = relabel t q (start_token_refresh s a)"
  "refresh_token_now (relabel t q a) = relabel t q (refresh_token_now a)"
  "start_device_reauth (relabel t q a) = relabel t q (start_device_reauth a)"
  "build_updated_session x y z (relabel t q a) = build_updated_session x y z a"
  by (simp_all only: start_auth_restore_from_disk_def start_auth_restore_preloaded_def start_auth_register_def
      start_auth_link_def start_token_refresh_def refresh_token_now_def start_device_reauth_def
      build_updated_session_def relabels labels cong: branches)

lemma relabel_spawn_tasks [labels]: "spawn_tasks X dev key ids o' (relabel t q a) = relabel t q (spawn_tasks X dev key ids o' a)"
  by (simp only: spawn_tasks_def relabels labels cong: branches)

lemma relabel_start_orchestrator [labels]:
  "start_orchestrator X s u dev (relabel t q a) = relabel t q (start_orchestrator X s u dev a)"
  by (simp only: start_orchestrator_def relabels labels cong: branches)

lemma relabel_tokens [labels]:
  "persist_session_background X s (relabel t q a) = relabel t q (persist_session_background X s a)"
  "handle_token_refresh_msg X m (relabel t q a) = relabel t q (handle_token_refresh_msg X m a)"
proof -
  show p: "persist_session_background X s (relabel t q b) = relabel t q (persist_session_background X s b)" for s and b :: "'a app"
    by (simp only: persist_session_background_def relabels labels fst_map_prod cong: branches)
  show "handle_token_refresh_msg X m (relabel t q a) = relabel t q (handle_token_refresh_msg X m a)"
    by (cases m; simp only: handle_token_refresh_msg_def token_refresh_msg.case relabels labels p cong: branches)
qed

lemma relabel_auth [labels]:
  "adopt_auth s (relabel t q a) = relabel t q (adopt_auth s a)"
  "enter_main X s (relabel t q a) = relabel t q (enter_main X s a)"
  "auth_failed e (relabel t q a) = relabel t q (auth_failed e a)"
  subgoal by (simp add: adopt_auth_def)
  by (simp_all only: enter_main_def auth_failed_def relabels labels cong: branches)

lemma relabel_auth_succeeded [labels]: "auth_succeeded X s (relabel t q a) = relabel t q (auth_succeeded X s a)"
  by (simp only: auth_succeeded_def relabels labels cong: branches)

lemma relabel_contacts [labels]:
  "resubscribe_stream_to_contacts (relabel t q a) = relabel t q (resubscribe_stream_to_contacts a)"
  "finish_add_contact u n (relabel t q a) = relabel t q (finish_add_contact u n a)"
proof -
  show r: "resubscribe_stream_to_contacts (relabel t q b) = relabel t q (resubscribe_stream_to_contacts b)" for b :: "'a app"
    by (simp only: resubscribe_stream_to_contacts_def relabels labels cong: branches)
  show "finish_add_contact u n (relabel t q a) = relabel t q (finish_add_contact u n a)"
    by (simp only: finish_add_contact_def relabels labels r cong: branches)
qed

lemma relabel_events [labels]:
  "handle_p2p_status p c l r (relabel t q a) = relabel t q (handle_p2p_status p c l r a)"
  "show_message X s (relabel t q a) = relabel t q (show_message X s a)"
  "contact_label i (relabel t q a) = contact_label i a"
  by (simp_all only: handle_p2p_status_def show_message_def contact_label_def relabels labels cong: branches)

lemma relabel_bridge_event [labels]: "handle_bridge_event X e (relabel t q a) = relabel t q (handle_bridge_event X e a)"
  by (cases e; simp only: handle_bridge_event_def bridge_event.case relabels labels cong: branches)

lemma relabel_internal: "handle_internal X e (relabel t q a) = relabel t q (handle_internal X e a)"
proof -
  have m: "handle_auth_msg X m (relabel t q b) = relabel t q (handle_auth_msg X m b)" for m and b :: "'a app"
    by (cases m; simp only: handle_auth_msg_def auth_msg.case labels)
  show ?thesis by (cases e; simp only: handle_internal_def internal_event.case relabels labels m cong: branches)
qed

section \<open>Keys\<close>

lemma relabel_entry [labels]:
  "handle_onboarding k (relabel t q a) = relabel t q (handle_onboarding k a)"
  "handle_device_link k (relabel t q a) = relabel t q (handle_device_link k a)"
  "leave_error (relabel t q a) = relabel t q (leave_error a)"
  by (cases "kv_code k"; simp only: handle_onboarding_def handle_device_link_def leave_error_def key_code.case relabels
      labels cong: branches)+

lemma relabel_unlock [labels]:
  "handle_unlock X k (relabel t q a) = relabel t q (handle_unlock X k a)"
  "handle_set_passphrase X k (relabel t q a) = relabel t q (handle_set_passphrase X k a)"
proof -
  have u: "try_unlock X p (relabel t q b) = relabel t q (try_unlock X p b)" for p and b :: "'a app"
    by (simp only: try_unlock_def relabels labels cong: branches)
  have p: "protect_session X p s (relabel t q b) = relabel t q (protect_session X p s b)" for p s and b :: "'a app"
    by (simp only: protect_session_def relabels labels cong: branches)
  show "handle_unlock X k (relabel t q a) = relabel t q (handle_unlock X k a)"
    by (cases "kv_code k"; simp only: handle_unlock_def key_code.case relabels labels u cong: branches)
  show "handle_set_passphrase X k (relabel t q a) = relabel t q (handle_set_passphrase X k a)"
    by (cases "kv_code k"; simp only: handle_set_passphrase_def key_code.case relabels labels p cong: branches)
qed

lemma relabel_main [labels]: "handle_main X k (relabel t q a) = relabel t q (handle_main X k a)"
proof -
  have d: "confirm_delete (relabel t q a) = relabel t q (confirm_delete a)"
    by (simp only: confirm_delete_def relabels labels cong: branches)
  have o: "open_chat X c (relabel t q a) = relabel t q (open_chat X c a)" for c
    by (simp only: open_chat_def relabels labels cong: branches)
  have s: "send_composed X (relabel t q a) = relabel t q (send_composed X a)"
    by (simp only: send_composed_def relabels labels cong: branches)
  have l: "keys_contact_list X k (relabel t q a) = relabel t q (keys_contact_list X k a)"
    by (simp only: keys_contact_list_def relabels labels o cong: branches)
  have v: "keys_chat_view k (relabel t q a) = relabel t q (keys_chat_view k a)"
    by (simp only: keys_chat_view_def relabels labels cong: branches)
  have c: "keys_compose X k (relabel t q a) = relabel t q (keys_compose X k a)"
    by (cases "kv_code k"; simp only: keys_compose_def key_code.case relabels labels s)
  show ?thesis
    by (cases "ap_focus a"; simp only: handle_main_def focus.case relabels labels d l v c cong: branches)
qed

lemma relabel_logout [labels]: "do_logout X (relabel t q a) = relabel t q (do_logout X a)"
  by (simp only: do_logout_def fresh_settings_def relabels labels cong: branches)

lemma relabel_handle_settings [labels]: "handle_settings X k (relabel t q a) = relabel t q (handle_settings X k a)"
proof -
  have p: "peer_key X i (relabel t q b) = map_prod id (relabel t q) (peer_key X i b)" for i and b :: "'a app"
    by (simp add: peer_key_def Let_def case_prod_beta)
  have s: "open_safety_number_screen X (relabel t q a) = relabel t q (open_safety_number_screen X a)"
    by (simp only: open_safety_number_screen_def relabels labels p cong: branches)
  have e: "export_identity_key X (relabel t q a) = relabel t q (export_identity_key X a)"
    by (simp only: export_identity_key_def relabels labels cong: branches)
  show ?thesis
    by (cases "settings_confirm (ap_settings a)"; cases "the (settings_confirm (ap_settings a))";
        simp only: handle_settings_def option.case option.sel settings_action.case relabel_settings_get relabels labels s e cong: branches)
qed

lemma relabel_search [labels]: "handle_contact_search X k (relabel t q a) = relabel t q (handle_contact_search X k a)"
proof -
  have r: "redeem_pasted_invite X s (relabel t q b) = relabel t q (redeem_pasted_invite X s b)" for s and b :: "'a app"
    by (simp only: redeem_pasted_invite_def relabels labels cong: branches)
  have s: "submit_contact_search X (relabel t q a) = relabel t q (submit_contact_search X a)"
    by (simp only: submit_contact_search_def relabels labels r cong: branches)
  have d: "add_selected_search_result (relabel t q a) = relabel t q (add_selected_search_result a)"
    by (simp only: add_selected_search_result_def relabels labels cong: branches)
  show ?thesis
    by (cases "kv_code k"; simp only: handle_contact_search_def key_code.case relabels labels s d cong: branches)
qed

lemma relabel_event: "handle_event X k (relabel t q a) = relabel t q (handle_event X k a)"
  by (cases "ap_screen a"; simp only: handle_event_def screen.case relabels labels cong: branches)

lemma relabel_step [labels]: "app_step X (relabel t q a) i = relabel t q (app_step X a i)"
  by (cases i; simp only: app_step_def app_input.case relabels relabel_event relabel_internal cong: branches)

section \<open>Drawing\<close>

text \<open>What drawing leaves behind, without the frame.\<close>

definition left_by :: "('s \<times> frame) option \<Rightarrow> 's option" where
  "left_by r = map_option fst r"

lemma left_by_simps [simp]:
  "left_by None = None" "left_by (Some (s, f)) = Some s"
  "left_by (map_option (Pair s) w) = map_option (\<lambda>_. s) w"
  "left_by (map_option (\<lambda>f. (s, k f)) w) = map_option (\<lambda>_. s) w"
  "left_by (map_option (\<lambda>(s, f). (g s, f)) r) = map_option g (left_by r)"
  "left_by (map_option (\<lambda>(s, f). (s, h f)) r) = left_by r"
  by (cases w; cases r; auto simp: left_by_def)+

lemma relabel_settings_selects [simp]:
  "(relabel_settings l q s)\<lparr>se_selected := i\<rparr> = relabel_settings l q (s\<lparr>se_selected := i\<rparr>)"
  "se_selected (relabel_settings l q s) = se_selected s" "length (se_items (relabel_settings l q s)) = length (se_items s)"
  by (simp_all add: relabel_settings_def)

lemma relabel_invite_payload [simp]:
  "invite_payload I now (relabel_settings l q s) = map_prod (relabel_settings l q) id (invite_payload I now s)"
  by (simp add: invite_payload_def relabel_settings_def Let_def split: option.split sum.split prod.split)

lemma relabel_render_list [simp]:
  "left_by (render_list E (relabel_settings l q s) area) = map_option (relabel_settings l q) (left_by (render_list E s area))"
  by (auto simp: render_list_def split: option.split)

lemma relabel_draw_settings [simp]:
  "left_by (draw_settings E I now (relabel_settings l q s) area)
     = map_option (relabel_settings l q) (left_by (draw_settings E I now s area))"
proof -
  have q: "fst (render_identity_qr E I now (relabel_settings l q s) c) = relabel_settings l q (fst (render_identity_qr E I now s c))"
    for s c by (simp add: render_identity_qr_def Let_def case_prod_beta)
  have "left_by (case render_list E s c of None \<Rightarrow> None
      | Some (s, f) \<Rightarrow> (let (s, g) = render_identity_qr E I now s c' in Some (s, f @ g)))
    = map_option (\<lambda>s. fst (render_identity_qr E I now s c')) (left_by (render_list E s c))" for s c c'
    by (auto simp: left_by_def case_prod_beta split: option.split)
  then show ?thesis
    by (simp add: draw_settings_def Let_def option.map_comp comp_def q split: option.split)
qed

lemma relabel_draw_main [simp]:
  "map_option (\<lambda>_. z) (draw_main E now area (relabel t q a)) = map_option (\<lambda>_. z) (draw_main E now area a)"
  by (simp add: draw_main_def Let_def split: option.split)

lemma relabel_render:
  "left_by (render_app E X area (relabel t q a)) = map_option (relabel t q) (left_by (render_app E X area a))"
  by (cases "ap_screen a"; cases "ap_safety a")
    (simp_all add: render_app_def with_settings_def Let_def labels option.map_comp comp_def case_prod_beta)

lemma relabel_drawn [labels]: "draws Y area (relabel t q a) = relabel t q (draws Y area a)"
proof -
  have d: "draws Y area b = (case left_by (render_app (sx_draw Y) (sx_app Y) area b) of
      None \<Rightarrow> b\<lparr>ap_panicked := True\<rparr> | Some c \<Rightarrow> c\<lparr>ap_used := ap_used c + 1\<rparr>)" for b
    by (cases "render_app (sx_draw Y) (sx_app Y) area b") (auto simp: draws_def draw_app_def left_by_def)
  show ?thesis
    by (cases "left_by (render_app (sx_draw Y) (sx_app Y) area a)") (simp_all add: d relabel_render)
qed

section \<open>The system\<close>

definition relabel_system :: "transport_config \<Rightarrow> bool \<Rightarrow> 'o system \<Rightarrow> 'o system" where
  "relabel_system t q s = s\<lparr>sy_app := relabel t q (sy_app s)\<rparr>"

lemma relabel_system_fields [simp]:
  "sy_app (relabel_system t q s) = relabel t q (sy_app s)" "sy_ports (relabel_system t q s) = sy_ports s"
  "sy_mail (relabel_system t q s) = sy_mail s"
  "(relabel_system t q s)\<lparr>sy_app := relabel t q a\<rparr> = relabel_system t q (s\<lparr>sy_app := a\<rparr>)"
  "(relabel_system t q s)\<lparr>sy_ports := ps\<rparr> = relabel_system t q (s\<lparr>sy_ports := ps\<rparr>)"
  "(relabel_system t q s)\<lparr>sy_mail := m\<rparr> = relabel_system t q (s\<lparr>sy_mail := m\<rparr>)"
  by (simp_all add: relabel_system_def)

lemma relabel_deliveries [simp]:
  "on_port n f (relabel_system t q s) = relabel_system t q (on_port n f s)"
  "on_task n g (relabel_system t q s) = relabel_system t q (on_task n g s)"
  "to_app es (relabel_system t q s) = relabel_system t q (to_app es s)"
  "to_worker w (relabel_system t q s) = relabel_system t q (to_worker w s)"
  by (simp_all add: on_port_def on_task_def to_app_def to_worker_def)

lemma relabel_to_orchestrator [simp]:
  "to_orchestrator m (relabel_system t q s) = relabel_system t q (to_orchestrator m s)"
  by (cases m; cases "snd m") (simp_all add: to_orchestrator_def)

lemma relabel_fold [simp]:
  "fold to_worker ws (relabel_system t q s) = relabel_system t q (fold to_worker ws s)"
  "fold to_orchestrator ms (relabel_system t q s) = relabel_system t q (fold to_orchestrator ms s)"
  by (induction ws arbitrary: s; induction ms arbitrary: s; simp)+

lemma relabel_app_takes:
  assumes "\<And>a. f (relabel t q a) = relabel t q (f a)"
  shows "app_takes f (relabel_system t q s) = relabel_system t q (app_takes f s)"
  by (simp add: app_takes_def Let_def assms)

lemma relabel_actor_takes [simp]:
  "actor_takes Y n i (relabel_system t q s) = relabel_system t q (actor_takes Y n i s)"
  by (simp add: actor_takes_def Let_def)

lemma relabel_peers [simp]:
  "worker_takes Y n x (relabel_system t q s) = relabel_system t q (worker_takes Y n x s)"
  "relay_takes Y n (relabel_system t q s) = relabel_system t q (relay_takes Y n s)"
  by (simp_all add: worker_takes_def relay_takes_def Let_def case_prod_beta split: option.split)

lemma relabel_sys_step: "sys_step Y (relabel_system t q s) i = relabel_system t q (sys_step Y s i)"
  by (cases i) (simp_all add: sys_step_def relabel_app_takes labels split: list.split)

lemma relabel_sys_run: "sys_run Y (relabel_system t q s) is = relabel_system t q (sys_run Y s is)"
  by (induction "is" arbitrary: s) (simp_all add: sys_run_def relabel_sys_step)

lemma relabel_start:
  "sys_start Y (cfg\<lparr>ac_transport := t, ac_headless := h, ac_pq_active := q\<rparr>) disk d
     = relabel_system t q (sys_start Y cfg disk d)"
proof -
  have new: "app_new (cfg\<lparr>ac_transport := t, ac_headless := h, ac_pq_active := q\<rparr>) disk d
      = relabel t q (app_new cfg disk d :: 'a app)"
    by (simp add: app_new_def relabel_def relabel_connection_def)
  have check: "startup_check X (relabel t q a) = relabel t q (startup_check X a)" for X and a :: "'a app"
    by (cases "snd (detect_session (ah_config (ax_auth X)) (ap_disk a))")
      (simp_all add: startup_check_def labels case_prod_beta Let_def)
  show ?thesis by (simp add: sys_start_def new check relabel_system_def)
qed


end
