(* ===== verification/Program.thy ===== *)
theory Program
  imports App_Draw
begin

text \<open>
  The edges of the program: \<open>main.rs\<close> with the set-up of the terminal in \<open>tui.rs\<close>, the reader of the
  keyboard in \<open>event.rs\<close>, the opening of the database in \<open>storage.rs\<close> and the dialling of the server in
  \<open>grpc/connection.rs\<close>. What the operating system, SQLite, rustls and h2 answer are the fields of the
  environment records.
\<close>

section \<open>grpc/connection.rs\<close>

record tls_config =
  tc_roots :: "bytes list"
  tc_alpn :: "string list"

text \<open>The answers of the network to the n-th dial; \<open>None\<close> is a call that ran into the timeout.\<close>

record net_env =
  ne_native_certs :: "nat \<Rightarrow> string + bytes list"
  ne_accepts :: "bytes \<Rightarrow> bool"
  ne_webpki_roots :: "bytes list"
  ne_server_name :: "string \<Rightarrow> string + unit"
  ne_lookup :: "nat \<Rightarrow> string \<Rightarrow> string + string list"
  ne_tcp :: "nat \<Rightarrow> string \<Rightarrow> (string + unit) option"
  ne_tls :: "nat \<Rightarrow> tls_config \<Rightarrow> string \<Rightarrow> (string + unit) option"
  ne_h2 :: "nat \<Rightarrow> string + unit"

definition map_err :: "('e \<Rightarrow> 'f) \<Rightarrow> 'e + 'a \<Rightarrow> 'f + 'a" where
  "map_err f r = (case r of Inl e \<Rightarrow> Inl (f e) | Inr x \<Rightarrow> Inr x)"

definition timed :: "'f \<Rightarrow> ('e \<Rightarrow> 'f) \<Rightarrow> ('e + 'a) option \<Rightarrow> 'f + 'a" where
  "timed late f r = (case r of None \<Rightarrow> Inl late | Some r \<Rightarrow> map_err f r)"

definition build_tls_config :: "net_env \<Rightarrow> nat \<Rightarrow> grpc_error + tls_config" where
  "build_tls_config N n =
     rbind (map_err (\<lambda>e. Tls (''native certs: '' @ e)) (ne_native_certs N n)) (\<lambda>native.
       Ok \<lparr>tc_roots = filter (ne_accepts N) native @ ne_webpki_roots N, tc_alpn = [''h2'']\<rparr>)"

definition resolve_addr :: "net_env \<Rightarrow> nat \<Rightarrow> string \<Rightarrow> u16 \<Rightarrow> grpc_error + string" where
  "resolve_addr N n host port =
     (let host_port = host @ '':'' @ dec_of_nat (unat port)
      in rbind (map_err (\<lambda>e. Transport (''DNS resolve '' @ [CHR 0x27] @ host_port @ [CHR 0x27] @ '': '' @ e))
           (ne_lookup N n host_port)) (\<lambda>addrs.
         case addrs of
           [] \<Rightarrow> Err (Transport (''no addresses for '' @ [CHR 0x27] @ host_port @ [CHR 0x27]))
         | a # _ \<Rightarrow> Ok a))"

definition connect_h2 :: "net_env \<Rightarrow> nat \<Rightarrow> string \<Rightarrow> u16 \<Rightarrow> grpc_error + unit" where
  "connect_h2 N n host port =
     rbind (build_tls_config N n) (\<lambda>tls.
     rbind (map_err (\<lambda>e. Tls (''server name '' @ [CHR 0x27] @ host @ [CHR 0x27] @ '': '' @ e)) (ne_server_name N host)) (\<lambda>_.
     rbind (resolve_addr N n host port) (\<lambda>addr.
     rbind (timed (Transport (''TCP connect to '' @ addr @ '' timed out''))
         (\<lambda>e. Transport (''TCP connect '' @ addr @ '': '' @ e)) (ne_tcp N n addr)) (\<lambda>_.
     rbind (timed (Tls ''TLS handshake timed out'') (\<lambda>e. Tls (''TLS handshake: '' @ e)) (ne_tls N n tls host)) (\<lambda>_.
       map_err (\<lambda>e. Transport (''h2 handshake: '' @ e)) (ne_h2 N n))))))"

section \<open>Storage::open\<close>

text \<open>The statements that reach SQLite, in order.\<close>

datatype batch = KeyPragmas string | PerformancePragmas | Schema

record sql_env =
  se_data_dir :: "string option"
  se_create_dir :: "string \<Rightarrow> string + unit"
  se_open :: "string \<Rightarrow> string + unit"
  se_run :: "batch list \<Rightarrow> batch \<Rightarrow> string + unit"     \<comment> \<open>after the batches that ran on the connection\<close>

definition path_join :: "string \<Rightarrow> string \<Rightarrow> string" where
  "path_join a b = a @ ''/'' @ b"

definition db_path :: "sql_env \<Rightarrow> string + string" where
  "db_path S =
     rbind (ok_or ''cannot locate data dir'' (se_data_dir S)) (\<lambda>base.
       let dir = path_join base ''construct-tui''
       in rbind (se_create_dir S dir) (\<lambda>_. Ok (path_join dir ''messages.db'')))"

text \<open>Running batches one after the other, up to the first that fails.\<close>

fun run_batches :: "sql_env \<Rightarrow> batch list \<Rightarrow> batch list \<Rightarrow> batch list \<times> (string + unit)" where
  "run_batches S hist [] = (hist, Ok ())"
| "run_batches S hist (b # bs) =
     (case se_run S hist b of
        Err e \<Rightarrow> (hist @ [b], Err e)
      | Ok _ \<Rightarrow> run_batches S (hist @ [b]) bs)"

definition init_batches :: "batch list" where
  "init_batches = [PerformancePragmas, Schema]"

definition key_hex :: "bytes \<Rightarrow> string" where
  "key_hex key = concat (map (\<lambda>b. hex_fixed 2 (unat b)) key)"

definition open_with :: "sql_env \<Rightarrow> batch list \<Rightarrow> batch list \<times> (string + unit)" where
  "open_with S bs =
     (case rbind (db_path S) (se_open S) of Err e \<Rightarrow> ([], Err e) | Ok _ \<Rightarrow> run_batches S [] bs)"

definition storage_open :: "sql_env \<Rightarrow> bytes \<Rightarrow> batch list \<times> (string + unit)" where
  "storage_open S db_key =
     (if length db_key \<noteq> 32 then ([], Err ''db_key must be 32 bytes'')
      else open_with S (KeyPragmas (key_hex db_key) # init_batches))"

definition storage_open_unencrypted :: "sql_env \<Rightarrow> batch list \<times> (string + unit)" where
  "storage_open_unencrypted S = open_with S init_batches"

text \<open>The two connections of \<open>start_orchestrator\<close>; the answers of the second opening may differ.\<close>

definition open_storages :: "sql_env \<Rightarrow> sql_env \<Rightarrow> bytes option \<Rightarrow> string + unit" where
  "open_storages S1 S2 key =
     (let open_one = (\<lambda>S. snd (case key of Some k \<Rightarrow> storage_open S k | None \<Rightarrow> storage_open_unencrypted S))
      in case (open_one S1, open_one S2) of
           (Ok _, Ok _) \<Rightarrow> Ok ()
         | (Err e, _) \<Rightarrow> Err e
         | (Ok _, Err e) \<Rightarrow> Err e)"

section \<open>event.rs\<close>

text \<open>What the terminal reports: a key, another event, or a failed read. The reader ends at the first failure.\<close>

datatype term_event = TermKey key_event | TermOther

fun read_events :: "(string + term_event) list \<Rightarrow> key_event list" where
  "read_events [] = []"
| "read_events (Err _ # _) = []"
| "read_events (Ok (TermKey k) # es) = k # read_events es"
| "read_events (Ok TermOther # es) = read_events es"

section \<open>tui.rs\<close>

record terminal =
  tm_raw :: bool
  tm_alternate :: bool

record tui_env =
  te_enable_raw :: "string + unit"
  te_enter :: "string + unit"
  te_new :: "string + unit"
  te_disable_raw :: "string + unit"
  te_leave :: "string + unit"

definition tui_init :: "tui_env \<Rightarrow> terminal \<Rightarrow> terminal \<times> (string + unit)" where
  "tui_init T t =
     (case te_enable_raw T of
        Err e \<Rightarrow> (t, Err e)
      | Ok _ \<Rightarrow>
          (let t = t\<lparr>tm_raw := True\<rparr>
           in case te_enter T of
                Err e \<Rightarrow> (t, Err e)
              | Ok _ \<Rightarrow> (t\<lparr>tm_alternate := True\<rparr>, te_new T)))"

definition tui_restore :: "tui_env \<Rightarrow> terminal \<Rightarrow> terminal \<times> (string + unit)" where
  "tui_restore T t =
     (case te_disable_raw T of
        Err e \<Rightarrow> (t, Err e)
      | Ok _ \<Rightarrow>
          (let t = t\<lparr>tm_raw := False\<rparr>
           in case te_leave T of Err e \<Rightarrow> (t, Err e) | Ok _ \<Rightarrow> (t\<lparr>tm_alternate := False\<rparr>, Ok ())))"

section \<open>main.rs\<close>

datatype subcommand = LogoutCommand | LogPathCommand

record args = cli +
  ar_config :: "string option"
  ar_log_level :: string
  ar_command :: "subcommand option"

record main_env =
  me_data_dir :: "string option"
  me_open_log :: "string \<Rightarrow> string + unit"
  me_no_encrypt :: bool                       \<comment> \<open>\<open>CONSTRUCT_NO_ENCRYPT\<close> is set\<close>
  me_post_quantum :: bool                     \<comment> \<open>built with the feature \<open>post-quantum\<close>\<close>
  me_tui :: tui_env

text \<open>How the process ends: with the result of \<open>main\<close>, with an exit code, or not (yet), because the
  application waits or panicked.\<close>

datatype ending = Returned "string + unit" | ExitCode nat | Running

record 'o process =
  pr_disk :: disk
  pr_output :: string
  pr_terminal :: terminal
  pr_app :: "'o app option"
  pr_ending :: ending

definition log_file_path :: "main_env \<Rightarrow> string" where
  "log_file_path M =
     path_join (path_join (case me_data_dir M of Some d \<Rightarrow> d | None \<Rightarrow> ''.'') ''construct-tui'') ''konstruct.log''"

definition run_ui ::
  "main_env \<Rightarrow> draw_env \<Rightarrow> 'o app_env \<Rightarrow> app_config \<Rightarrow> db \<Rightarrow> app_turn list \<Rightarrow> 'o process \<Rightarrow> 'o process" where
  "run_ui M E X cfg d ts p =
     (case tui_init (me_tui M) (pr_terminal p) of
        (t, Err e) \<Rightarrow> p\<lparr>pr_terminal := t, pr_ending := Returned (Err e)\<rparr>
      | (t, Ok _) \<Rightarrow>
          (let (a, _, result) = app_main E X cfg (pr_disk p) d ts;
               p = p\<lparr>pr_terminal := t, pr_app := Some a, pr_disk := ap_disk a\<rparr>
           in case result of
                None \<Rightarrow> p
              | Some result \<Rightarrow>
                  (case tui_restore (me_tui M) t of
                     (t, Err e) \<Rightarrow> p\<lparr>pr_terminal := t, pr_ending := Returned (Err e)\<rparr>
                   | (t, Ok _) \<Rightarrow> p\<lparr>pr_terminal := t, pr_ending := Returned result\<rparr>)))"

definition PQ_HINT :: string where
  "PQ_HINT = ''error: this binary was not compiled with post-quantum support.''"

definition main_program ::
  "main_env \<Rightarrow> draw_env \<Rightarrow> 'o app_env \<Rightarrow> args \<Rightarrow> disk \<Rightarrow> db \<Rightarrow> app_turn list \<Rightarrow> 'o process" where
  "main_program M E X c disk d ts =
     (let C = ah_config (ax_auth X);
          p = \<lparr>pr_disk = disk, pr_output = [], pr_terminal = \<lparr>tm_raw = False, tm_alternate = False\<rparr>,
               pr_app = None, pr_ending = Running\<rparr>
      in case ar_command c of
           Some LogoutCommand \<Rightarrow>
             (case clear_session C disk of
                (disk, Err e) \<Rightarrow> p\<lparr>pr_disk := disk, pr_ending := Returned (Err e)\<rparr>
              | (disk, Ok _) \<Rightarrow> p\<lparr>pr_disk := disk, pr_output := ''Session cleared. All local keys deleted.'',
                                   pr_ending := Returned (Ok ())\<rparr>)
         | Some LogPathCommand \<Rightarrow> p\<lparr>pr_output := log_file_path M, pr_ending := Returned (Ok ())\<rparr>
         | None \<Rightarrow>
             (case me_open_log M (log_file_path M) of
                Err e \<Rightarrow> p\<lparr>pr_ending := Returned (Err e)\<rparr>
              | Ok _ \<Rightarrow>
                  if ci_post_quantum c \<and> \<not> me_post_quantum M
                  then p\<lparr>pr_output := PQ_HINT, pr_ending := ExitCode 1\<rparr>
                  else
                    let (disk, cfg) = app_config_of C (cli.truncate c) (me_no_encrypt M) disk
                    in run_ui M E X cfg d ts (p\<lparr>pr_disk := disk\<rparr>)))"

end
