(* ===== verification/Program_Props.thy ===== *)
theory Program_Props
  imports Program Draw_Props Grpc_Props
begin

text \<open>
  The properties of the edges of the program: what the key of the database guards, how a dead network
  surfaces, in which state the terminal is left, and which flags of the command line have no effect.
\<close>

section \<open>The key of the database\<close>

text \<open>SQLCipher: on a file encrypted under a key, the first statement that reads it fails unless that key was set.\<close>

definition keyed :: "sql_env \<Rightarrow> bytes \<Rightarrow> bool" where
  "keyed S K \<longleftrightarrow>
     (\<forall>hist. KeyPragmas (key_hex K) \<notin> set hist \<longrightarrow> (\<exists>e. se_run S hist PerformancePragmas = Err e))"

lemma hex_digit_code: "k < 16 \<Longrightarrow> (of_char (hex_digit k) :: nat) = (if k < 10 then 48 + k else 87 + k)"
  unfolding hex_digit_def by (cases "k < 10") (simp_all add: of_char_of)

lemma hex_digit_inj:
  assumes "n < 16" "m < 16" "hex_digit n = hex_digit m"
  shows "n = m"
proof -
  have "(if n < 10 then 48 + n else 87 + n) = (if m < 10 then 48 + m else 87 + m)"
    using hex_digit_code [OF assms(1)] hex_digit_code [OF assms(2)] assms(3) by (simp only:)
  then show ?thesis by (cases "n < 10"; cases "m < 10") simp_all
qed

lemma hex_fixed_2: "hex_fixed 2 v = [hex_digit (v div 16 mod 16), hex_digit (v mod 16)]"
  by (simp add: numeral_2_eq_2)

lemma hex_byte_inj:
  assumes "hex_fixed 2 (unat x) = hex_fixed 2 (unat y)"
  shows "x = (y :: byte)"
proof -
  have b: "unat x < 256" "unat y < 256"
    using unsigned_less [of x, where 'a = nat] unsigned_less [of y, where 'a = nat] by simp_all
  have d: "hex_digit (unat x div 16 mod 16) = hex_digit (unat y div 16 mod 16)"
    "hex_digit (unat x mod 16) = hex_digit (unat y mod 16)"
    using assms unfolding hex_fixed_2 by (simp_all only: list.inject)
  have "unat x div 16 mod 16 = unat y div 16 mod 16" "unat x mod 16 = unat y mod 16"
    by (rule hex_digit_inj [OF _ _ d(1)]; simp) (rule hex_digit_inj [OF _ _ d(2)]; simp)
  moreover have "unat x div 16 < 16" "unat y div 16 < 16" using b by linarith+
  ultimately have "unat x div 16 = unat y div 16" "unat x mod 16 = unat y mod 16" by (simp_all only: mod_less)
  then have "unat x = unat y" using div_mult_mod_eq [of "unat x" 16] div_mult_mod_eq [of "unat y" 16] by metis
  then show "x = y" by (simp only: word_unat_eq_iff)
qed

lemma key_hex_Cons: "key_hex (b # bs) = hex_fixed 2 (unat b) @ key_hex bs"
  by (simp add: key_hex_def)

lemma length_key_hex: "length (key_hex k) = 2 * length k"
  by (induction k) (simp_all add: key_hex_Cons, simp add: key_hex_def)

lemma key_hex_inj: "length k = length l \<Longrightarrow> key_hex k = key_hex l \<Longrightarrow> k = l"
proof (induction k l rule: list_induct2)
  case (Cons x xs y ys)
  then have "hex_fixed 2 (unat x) = hex_fixed 2 (unat y) \<and> key_hex xs = key_hex ys"
    by (simp add: key_hex_Cons append_eq_append_conv)
  then show ?case using Cons.IH hex_byte_inj by blast
qed simp

lemma wrong_key_stops:
  assumes "keyed S K" "length K = 32" "k \<noteq> K"
  shows "(\<exists>e. snd (storage_open S k) = Err e) \<and> Schema \<notin> set (fst (storage_open S k))"
proof (cases "length k = 32")
  case True
  then have "KeyPragmas (key_hex K) \<notin> set [KeyPragmas (key_hex k)]"
    using assms(2,3) key_hex_inj [of K k] by auto
  then obtain e where "se_run S [KeyPragmas (key_hex k)] PerformancePragmas = Err e"
    using assms(1) unfolding keyed_def by blast
  then show ?thesis
    by (simp add: storage_open_def open_with_def init_batches_def split: sum.split)
qed (simp add: storage_open_def)

lemma missing_key_stops:
  assumes "keyed S K"
  shows "(\<exists>e. snd (storage_open_unencrypted S) = Err e) \<and> Schema \<notin> set (fst (storage_open_unencrypted S))"
proof -
  obtain e where "se_run S [] PerformancePragmas = Err e" using assms unfolding keyed_def by force
  then show ?thesis by (simp add: storage_open_unencrypted_def open_with_def init_batches_def split: sum.split)
qed

text \<open>C12. The database is opened with its key first: whatever runs on a connection, the key is set before any
  other statement, as 64 hexadecimal digits; a key that is not 32 bytes long opens nothing; and neither
  another key nor a connection without one gets past the first read of a database encrypted under some
  key, so its tables are never created anew over it.\<close>

theorem key_guards_database:
  "(fst (storage_open S k) \<noteq> [] \<longrightarrow> hd (fst (storage_open S k)) = KeyPragmas (key_hex k) \<and> length (key_hex k) = 64)
   \<and> (snd (storage_open S k) = Ok () \<longrightarrow>
        length k = 32 \<and> fst (storage_open S k) = [KeyPragmas (key_hex k), PerformancePragmas, Schema])
   \<and> (keyed S K \<and> length K = 32 \<and> k \<noteq> K \<longrightarrow>
        (\<exists>e. snd (storage_open S k) = Err e) \<and> Schema \<notin> set (fst (storage_open S k))
        \<and> (\<exists>e. snd (storage_open_unencrypted S) = Err e) \<and> Schema \<notin> set (fst (storage_open_unencrypted S)))"
proof -
  have "length (key_hex k) = 64" if "length k = 32" using that by (simp add: length_key_hex)
  then have "(fst (storage_open S k) \<noteq> [] \<longrightarrow> hd (fst (storage_open S k)) = KeyPragmas (key_hex k) \<and> length (key_hex k) = 64)
   \<and> (snd (storage_open S k) = Ok () \<longrightarrow>
        length k = 32 \<and> fst (storage_open S k) = [KeyPragmas (key_hex k), PerformancePragmas, Schema])"
    by (auto simp: storage_open_def open_with_def init_batches_def split: sum.split)
  then show ?thesis using wrong_key_stops missing_key_stops by blast
qed

definition sample_sql :: "bytes \<Rightarrow> sql_env" where
  "sample_sql K = \<lparr>se_data_dir = Some ''/home'', se_create_dir = (\<lambda>_. Ok ()), se_open = (\<lambda>_. Ok ()),
     se_run = (\<lambda>hist b. if b = PerformancePragmas \<and> KeyPragmas (key_hex K) \<notin> set hist
                       then Err ''file is not a database'' else Ok ())\<rparr>"

theorem key_guards_database_witness:
  "Schema \<notin> set (fst (storage_open (sample_sql (replicate 32 1)) (replicate 32 2)))
   \<and> snd (storage_open (sample_sql (replicate 32 1)) (replicate 32 2)) \<noteq> Ok ()"
proof -
  have k: "keyed (sample_sql K) K" for K by (simp add: keyed_def sample_sql_def)
  have ne: "replicate 32 (2 :: byte) \<noteq> replicate 32 1" unfolding replicate_eq_replicate by simp
  have len: "length (replicate 32 (1 :: byte)) = 32" by (rule length_replicate)
  from conjunct2 [OF conjunct2 [OF key_guards_database [of "sample_sql (replicate 32 1)" "replicate 32 2"
      "replicate 32 1"]], rule_format, OF conjI [OF k conjI [OF len ne]]]
  show ?thesis by (elim conjE exE) (simp only: simp_thms sum.distinct not_False_eq_True)
qed

text \<open>Logging out deletes the session file with the salt, but not the database: the next sign-in draws a new salt,
  so its key is another one, and the orchestrator is never started.\<close>

lemma database_outlives_key:
  assumes "session_secrets (ax_auth X) s = Some (i, g, p, q)" "ax_new X i g p q u = Ok orch"
    and "ax_open X = open_storages S1 S2" "ap_session_key a = Some sk"
    and "keyed S1 K" "length K = 32" "ky_database (sk_keys sk) \<noteq> K"
  shows "\<exists>e. start_orchestrator X s u dev a = set_status (''Storage open error: '' @ e) a"
proof -
  obtain e where "snd (storage_open S1 (ky_database (sk_keys sk))) = Err e"
    using wrong_key_stops [OF assms(5-7)] by blast
  then have "ax_open X (Some (ky_database (sk_keys sk))) = Err e"
    by (simp add: assms(3) open_storages_def Let_def)
  then show ?thesis using assms(1,2,4) by (intro exI [of _ e]) (simp add: start_orchestrator_def)
qed

text \<open>Without an orchestrator a typed message goes nowhere, and is shown as sent.\<close>

lemma unsent_message_shown_as_sent:
  assumes "ap_orch a = None" "trim (cv_compose (ap_chat_view a)) \<noteq> []"
  shows "ap_status (send_composed X a) = ''Message sent''
     \<and> ap_orch_sent (send_composed X a) = ap_orch_sent a
     \<and> map cm_text (cv_messages (ap_chat_view (send_composed X a)))
         = map cm_text (cv_messages (ap_chat_view a)) @ [cv_compose (ap_chat_view a)]"
  using assms by (simp add: send_composed_def take_compose_def orch_send_def handler_defs split: option.split)

section \<open>A dead network\<close>

lemma map_err_Err: "map_err f r = Err e \<longleftrightarrow> (\<exists>d. r = Err d \<and> e = f d)"
  by (cases r) (auto simp: map_err_def)

lemma timed_Err: "timed late f r = Err e \<longleftrightarrow> r = None \<and> e = late \<or> (\<exists>d. r = Some (Err d) \<and> e = f d)"
  by (cases r) (auto simp: timed_def map_err_Err)

lemma resolve_error:
  assumes "resolve_addr N n host port = Err e"
  shows "is_retryable_transport e"
proof (cases "ne_lookup N n (host @ '':'' @ dec_of_nat (unat port))")
  case (Inr as)
  then show ?thesis using assms
    by (cases as) (auto simp: resolve_addr_def map_err_def is_retryable_transport_def Let_def)
qed (use assms in \<open>auto simp: resolve_addr_def map_err_def is_retryable_transport_def Let_def\<close>)

lemma tls_error: "build_tls_config N n = Err e \<Longrightarrow> is_retryable_transport e"
  by (auto simp: build_tls_config_def rbind_eq_Inl map_err_Err is_retryable_transport_def)

lemma connect_error: "connect_h2 N n host port = Err e \<Longrightarrow> is_retryable_transport e"
  unfolding connect_h2_def rbind_eq_Inl map_err_Err timed_Err
  by (elim disjE exE conjE resolve_error tls_error) (simp_all add: is_retryable_transport_def)

text \<open>C20. A server that cannot be reached is dialled twice per call and never blamed on the user: when both
  dials fail, the call sends no request, keeps host and credentials, leaves no session behind, and reports
  the transport error of the second dial, which is neither an authentication nor a permission error.\<close>

theorem unreachable_server_dialled_twice:
  assumes "ge_connect E = connect_h2 N" "cl_session c = None"
    and "connect_h2 N (cl_dials c) (cl_host c) (cl_port c) = Err e1"
    and "connect_h2 N (cl_dials c + 1) (cl_host c) (cl_port c) = Err e2"
  shows "unary E c path request = (c\<lparr>cl_dials := cl_dials c + 2\<rparr>, Err e2)
     \<and> is_retryable_transport e2 \<and> \<not> is_unauthenticated e2 \<and> \<not> is_permission_denied e2"
proof -
  have r: "is_retryable_transport e1" "is_retryable_transport e2" using assms(3,4) connect_error by blast+
  have "unary_once E c path request = (c\<lparr>cl_dials := cl_dials c + 1\<rparr>, Err e1)"
    using assms(1-3) by (simp add: unary_once_def ensure_session_def)
  moreover have "unary_once E (invalidate (c\<lparr>cl_dials := cl_dials c + 1\<rparr>)) path request
      = (c\<lparr>cl_dials := cl_dials c + 2\<rparr>, Err e2)"
    using assms(1,2,4) by (simp add: unary_once_def ensure_session_def invalidate_def)
  ultimately show ?thesis
    using r by (cases e2) (simp_all add: unary_def is_retryable_transport_def is_unauthenticated_def is_permission_denied_def)
qed

definition dead_net :: net_env where
  "dead_net = \<lparr>ne_native_certs = (\<lambda>_. Ok []), ne_accepts = (\<lambda>_. True), ne_webpki_roots = [],
     ne_server_name = (\<lambda>_. Ok ()), ne_lookup = (\<lambda>_ _. Ok [''10.0.0.1:443'']),
     ne_tcp = (\<lambda>n _. if n = 0 then None else Some (Err ''refused'')), ne_tls = (\<lambda>_ _ _. None), ne_h2 = (\<lambda>_. Ok ())\<rparr>"

theorem unreachable_server_dialled_twice_witness:
  "unary (sample_net\<lparr>ge_connect := connect_h2 dead_net\<rparr>) sample_client ''/p'' [1]
     = (sample_client\<lparr>cl_dials := 2\<rparr>, Err (Transport ''TCP connect 10.0.0.1:443: refused''))"
proof -
  let ?c = sample_client
  have c: "cl_session ?c = None" "cl_dials ?c = 0" by (simp_all add: sample_client_def)
  have k: "connect_h2 dead_net n h p = Err (if n = 0 then Transport ''TCP connect to 10.0.0.1:443 timed out''
      else Transport ''TCP connect 10.0.0.1:443: refused'')" for n h p
    by (simp add: connect_h2_def build_tls_config_def resolve_addr_def dead_net_def map_err_def timed_def)
  show ?thesis
    using unreachable_server_dialled_twice [where E = "sample_net\<lparr>ge_connect := connect_h2 dead_net\<rparr>" and N = dead_net
        and c = ?c and path = "''/p''" and request = "[1]", OF _ c(1) k k]
    by (simp add: c(2))
qed

section \<open>The terminal\<close>

definition tui_works :: "tui_env \<Rightarrow> bool" where
  "tui_works T \<longleftrightarrow> te_enable_raw T = Ok () \<and> te_enter T = Ok () \<and> te_new T = Ok ()
     \<and> te_disable_raw T = Ok () \<and> te_leave T = Ok ()"



text \<open>When entering the alternate screen fails after raw mode was enabled, nothing turns raw mode off again.\<close>

lemma failed_init_leaves_raw:
  assumes "te_enable_raw (me_tui M) = Ok ()" "te_enter (me_tui M) = Err e" "ar_command c = None"
    and "me_open_log M (log_file_path M) = Ok ()" "\<not> ci_post_quantum c"
  shows "pr_ending (main_program M E X c disk d ts) = Returned (Err e)
     \<and> tm_raw (pr_terminal (main_program M E X c disk d ts))"
  using assms by (simp add: main_program_def run_ui_def tui_init_def Let_def case_prod_beta)

section \<open>Flags and keys\<close>

text \<open>The flags the help calls parsed only have no effect: whatever \<open>--headless\<close>, \<open>--config\<close> and
  \<open>--log-level\<close> are, the whole program does the same.\<close>

theorem parsed_only_flags:
  "main_program M E X (c\<lparr>ci_headless := h, ar_config := f, ar_log_level := l\<rparr>) disk d ts
     = main_program M E X c disk d ts"
proof -
  have "app_main E X (cfg\<lparr>ac_headless := b\<rparr>) disk d ts = app_main E X cfg disk d ts" for cfg b disk
    by (simp add: app_main_def app_new_def)
  then have "run_ui M E X (cfg\<lparr>ac_headless := b\<rparr>) d ts p = run_ui M E X cfg d ts p" for cfg b and p :: "'a process"
    by (simp add: run_ui_def)
  moreover have "app_config_of C (cli.truncate (c\<lparr>ci_headless := h, ar_config := f, ar_log_level := l\<rparr>)) n disk
      = (let (disk, cfg) = app_config_of C (cli.truncate c) n disk in (disk, cfg\<lparr>ac_headless := h\<rparr>))" for C n disk
    by (simp add: app_config_of_def cli_transport_def cli.truncate_def Let_def case_prod_beta split: option.split)
  ultimately show ?thesis
    by (simp add: main_program_def Let_def case_prod_beta split: option.split sum.split subcommand.split)
qed

text \<open>The reader hands over the keys in their order, and nothing else; one failed read ends it for good, while
  the application goes on without a keyboard.\<close>

lemma read_events_keys:
  "read_events (map Ok es) = concat (map (\<lambda>e. case e of TermKey k \<Rightarrow> [k] | TermOther \<Rightarrow> []) es)"
  by (induction es) (auto split: term_event.split)

lemma read_error_ends_input: "read_events (map Ok es @ Err e # later) = read_events (map Ok es)"
proof (induction es)
  case (Cons x xs)
  then show ?case by (cases x) simp_all
qed simp

end
