(* ===== verification/Conformance.thy ===== *)
theory Conformance
  imports Storage_Props Grpc_Props Stream_Props Invite_Props Orchestrator_Props App_Jobs Screens_Draw_Props
begin

text \<open>
  The unit tests of the repository, run on the model. Each \<open>test_\<close> definition is one test function of the
  sources, its set-up and its assertions over the definitions of the other theories; the lemma under
  it says that the model passes. A fallible call that the test unwraps is \<open>unwrap\<close>: the test goes on
  with the value and fails on an error. What a test takes from other crates (an order of rows, a codec,
  a hash) is a parameter, so that the lemma shows the test for every such function that keeps its
  documented law. Left out are the vectors of the protocol package, the bytes of a heartbeat request
  (requests are not encoded in the model) and an assertion about the crypto core alone.
\<close>

definition unwrap :: "'d \<times> (string + 'a) \<Rightarrow> ('d \<Rightarrow> 'a \<Rightarrow> bool) \<Rightarrow> bool" where
  "unwrap r k = (case r of (_, Err _) \<Rightarrow> False | (d, Ok x) \<Rightarrow> k d x)"

lemma unwrap_simps [simp]: "unwrap (d, Ok x) k = k d x" "\<not> unwrap (d, Err e) k"
  by (simp_all add: unwrap_def)

section \<open>\<open>storage.rs\<close>\<close>

definition open_in_memory :: db where
  "open_in_memory = empty_db"

definition test_roundtrip_message :: "(stored_message list \<Rightarrow> stored_message list) \<Rightarrow> bool" where
  "test_roundtrip_message ord =
     (let s = open_in_memory;
          msg = \<lparr>sm_id = ''msg-1'', sm_peer_id = ''alice'', sm_text = ''hello'', sm_direction = ''sent'',
                 sm_timestamp_ms = 1000000, sm_delivery_status = ''''\<rparr>
      in unwrap (store_message s msg) (\<lambda>s _.
         unwrap (get_messages ord s ''alice'' 10) (\<lambda>_ msgs.
           length msgs = 1 \<and> sm_text (msgs ! 0) = ''hello'')))"

definition test_ack_store_drain :: bool where
  "test_ack_store_drain =
     unwrap (store_ack open_in_memory ''m1'' 100) (\<lambda>s _.
     unwrap (store_ack s ''m2'' 200) (\<lambda>s _.
     unwrap (pop_all_acks s) (\<lambda>s acks. length acks = 2 \<and>
     unwrap (pop_all_acks s) (\<lambda>_ acks. acks = []))))"

definition test_secure_store_roundtrip :: bool where
  "test_secure_store_roundtrip =
     unwrap (secure_save open_in_memory ''session_key'' (str_bytes ''secret'')) (\<lambda>s _.
     unwrap (secure_load s ''session_key'') (\<lambda>_ val. val = Some (str_bytes ''secret'')))"

definition test_secure_save_or_delete :: bool where
  "test_secure_save_or_delete =
     unwrap (secure_save open_in_memory ''session_alice'' (str_bytes ''secret'')) (\<lambda>s _.
     unwrap (secure_save_or_delete s ''session_alice'' (str_bytes '''')) (\<lambda>s _.
     unwrap (secure_load s ''session_alice'') (\<lambda>_ val. val = None)))"

definition test_inbound_replay :: "(stored_message list \<Rightarrow> stored_message list) \<Rightarrow> bool" where
  "test_inbound_replay ord =
     (let first = \<lparr>sm_id = ''msg-1'', sm_peer_id = ''alice'', sm_text = ''hello'',
            sm_direction = ''received'', sm_timestamp_ms = 1, sm_delivery_status = ''''\<rparr>
      in unwrap (store_inbound_message open_in_memory first) (\<lambda>s _.
         let replay = first\<lparr>sm_text := ''clobber''\<rparr>
         in unwrap (store_inbound_message s replay) (\<lambda>s _.
            unwrap (get_messages ord s ''alice'' 10) (\<lambda>_ msgs. sm_text (msgs ! 0) = ''hello''))))"

definition test_stream_cursor_refuses_to_go_backwards :: bool where
  "test_stream_cursor_refuses_to_go_backwards =
     unwrap (save_stream_cursor open_in_memory ''100-0'') (\<lambda>s b. b \<and>
     unwrap (save_stream_cursor s ''99-0'') (\<lambda>s b. \<not> b \<and>
     unwrap (save_stream_cursor s ''100-0'') (\<lambda>s b. \<not> b \<and>
     unwrap (save_stream_cursor s ''100-1'') (\<lambda>s b. b \<and>
     unwrap (load_stream_cursor s) (\<lambda>s c. c = Some ''100-1'' \<and>
     unwrap (clear_stream_cursor s) (\<lambda>s _.
     unwrap (load_stream_cursor s) (\<lambda>_ c. c = None)))))))"

definition test_cursor_after_parses_redis_ids :: bool where
  "test_cursor_after_parses_redis_ids \<longleftrightarrow>
     cursor_after ''1785830217320-0'' ''1785829024441-0''
     \<and> \<not> cursor_after ''10-0'' ''10-0'' \<and> cursor_after ''10-1'' ''10-0''"

lemma one_row: "(\<And>xs. mset (ord xs) = mset xs) \<Longrightarrow> ord [x] = [x]"
  by (metis mset_single_iff mset.simps add_mset_eq_single empty_neutral)

lemma storage_tests:
  assumes "\<And>xs. mset (ord xs) = mset xs"
  shows "test_roundtrip_message ord" "test_inbound_replay ord"
    "test_ack_store_drain" "test_secure_store_roundtrip" "test_secure_save_or_delete"
  using one_row [OF assms]
  by (simp_all add: test_roundtrip_message_def test_inbound_replay_def test_ack_store_drain_def
      test_secure_store_roundtrip_def test_secure_save_or_delete_def open_in_memory_def empty_db_def
      store_message_def store_inbound_message_def get_messages_def store_ack_def pop_all_acks_def
      secure_save_or_delete_def secure_save_def secure_delete_def secure_load_def sql_limit_def
      direction_ok_def Let_def)

lemma cursor_tests: "test_cursor_after_parses_redis_ids" "test_stream_cursor_refuses_to_go_backwards"
proof -
  show "test_cursor_after_parses_redis_ids"
    by (simp add: test_cursor_after_parses_redis_ids_def cursor_eval)
  have "is_str ''100-0''" "is_str ''100-1''" by (rule is_str_ascii; simp)+
  then have b: "cursor_of_blob (Some (str_bytes ''100-0'')) = Some ''100-0''"
    "cursor_of_blob (Some (str_bytes ''100-1'')) = Some ''100-1''" "cursor_of_blob None = None"
    by (simp_all only: cursor_of_blob_str list.distinct simp_thms) (simp add: cursor_of_blob_def)
  have c: "\<not> cursor_after ''99-0'' ''100-0''" "\<not> cursor_after ''100-0'' ''100-0''"
    "cursor_after ''100-1'' ''100-0''"
    by (simp_all add: cursor_eval)
  show "test_stream_cursor_refuses_to_go_backwards"
    by (simp add: test_stream_cursor_refuses_to_go_backwards_def save_stream_cursor_def
        load_stream_cursor_def clear_stream_cursor_def secure_save_def secure_delete_def secure_load_def
        open_in_memory_def empty_db_def b c)
qed

section \<open>\<open>streaming.rs\<close>\<close>

definition test_backoff_caps_at_sixty :: bool where
  "test_backoff_caps_at_sixty \<longleftrightarrow>
     (let s = map (\<lambda>n. backoff_base_secs (of_nat n)) [0..<10]
      in take 7 s = [1, 2, 4, 8, 16, 32, 60] \<and> list_all (\<lambda>x. x = 60) (drop 7 s))"

definition test_shutdown_aborts_backoff :: "worker_env \<Rightarrow> worker \<Rightarrow> bool" where
  "test_shutdown_aborts_backoff E w =
     (let wait = start_backoff E (w\<lparr>w_users := [], w_queue := [], w_attempt := 6, w_events := []\<rparr>);
          w = step_backoff (Cmd (Some CmdShutdown)) wait
      in w_phase w = Exited
         \<and> (case w_events w of EvReconnecting _ _ # _ \<Rightarrow> True | _ \<Rightarrow> False))"

definition test_dispatch_routes_heartbeat_ack ::
  "(stream_response \<Rightarrow> bytes) \<Rightarrow> (bytes \<Rightarrow> stream_response option) \<Rightarrow> bool" where
  "test_dispatch_routes_heartbeat_ack enc dec =
     (let resp = \<lparr>rp_reply = Some (RepHeartbeatAck 10 20), rp_stream_cursor = Some ''cursor-1''\<rparr>
      in case dispatch_incoming dec (encode_frame (enc resp)) of
           Some (EvHeartbeat timestamp server_timestamp stream_cursor) \<Rightarrow>
             timestamp = 10 \<and> server_timestamp = 20 \<and> stream_cursor = Some ''cursor-1''
         | _ \<Rightarrow> False)"

definition test_dispatch_routes_stream_error ::
  "(stream_response \<Rightarrow> bytes) \<Rightarrow> (bytes \<Rightarrow> stream_response option) \<Rightarrow> bool" where
  "test_dispatch_routes_stream_error enc dec =
     (let resp = \<lparr>rp_reply = Some (RepError ''msg-1'' 7 ''denied'' True (Some 500)),
                  rp_stream_cursor = Some ''cursor-2''\<rparr>
      in case dispatch_incoming dec (encode_frame (enc resp)) of
           Some (EvStreamError message_id error_code error_message retryable retry_after_ms stream_cursor) \<Rightarrow>
             message_id = ''msg-1'' \<and> error_code = 7 \<and> error_message = ''denied'' \<and> retryable
             \<and> retry_after_ms = Some 500 \<and> stream_cursor = Some ''cursor-2''
         | _ \<Rightarrow> False)"

lemma backoff_tests: "test_backoff_caps_at_sixty" "test_shutdown_aborts_backoff E w"
  by code_simp (simp add: test_shutdown_aborts_backoff_def start_backoff_def step_backoff_def emit_def Let_def)

lemma dispatch_tests:
  assumes "\<And>r. dec (enc r) = Some r" "\<And>r. length (enc r) < 2 ^ 32"
  shows "test_dispatch_routes_heartbeat_ack enc dec" "test_dispatch_routes_stream_error enc dec"
  using decode_encode_frame [OF assms(2), of _ "[]"]
  by (simp_all add: test_dispatch_routes_heartbeat_ack_def test_dispatch_routes_stream_error_def
      dispatch_incoming_def assms(1))

section \<open>\<open>grpc/\<close>\<close>

definition test_clones_share_token :: bool where
  "test_clones_share_token =
     (let shared = client_new ''https://ams.konstruct.cc:443'';
          shared = set_token (Some ''tok-1'') shared;
          shared = set_device_id (Some ''dev-1'') shared;
          (token, device) = auth_headers shared
      in token = Some ''tok-1'' \<and> device = Some ''dev-1'')"

definition test_parse_url_host_port :: bool where
  "test_parse_url_host_port \<longleftrightarrow>
     parse_server_url ''https://ams.konstruct.cc:443'' = (''ams.konstruct.cc'', 443)
     \<and> parse_server_url ''https://example.com'' = (''example.com'', 443)"

definition test_transport_is_not_unauthenticated :: bool where
  "test_transport_is_not_unauthenticated \<longleftrightarrow>
     (let e = Transport ''connection reset''
      in \<not> is_unauthenticated e \<and> \<not> is_permission_denied e \<and> is_retryable_transport e)"

definition test_status_16_is_unauthenticated :: bool where
  "test_status_16_is_unauthenticated \<longleftrightarrow>
     (let e = Status 16 ''expired'' in is_unauthenticated e \<and> \<not> is_retryable_transport e)"

definition test_strips_at_and_lowercases :: bool where
  "test_strips_at_and_lowercases \<longleftrightarrow>
     normalize_username '' @Alice '' = ''alice'' \<and> normalize_username ''bob_1'' = ''bob_1''
     \<and> username_is_searchable ''alice'' \<and> \<not> username_is_searchable ''@alice'' \<and> \<not> username_is_searchable ''ab''"

lemma grpc_tests: "test_clones_share_token" "test_transport_is_not_unauthenticated"
  "test_status_16_is_unauthenticated"
  by (simp_all add: test_clones_share_token_def client_new_def set_token_def set_device_id_def
      auth_headers_def split_beta test_transport_is_not_unauthenticated_def
      test_status_16_is_unauthenticated_def is_unauthenticated_def is_permission_denied_def
      is_retryable_transport_def Let_def)

lemma url_tests: "test_parse_url_host_port"
  by (simp add: test_parse_url_host_port_def parse_server_url_def trim_plain plain_char_def
      trim_start_matches.simps split_once_def parse_uint_def digits_val_def is_digit_def Let_def)

lemma trim_with_space: "trim_with ([CHR '' ''] # ws) (CHR '' '' # s) = trim_with ([CHR '' ''] # ws) s"
  by (subst trim_with.simps) simp

lemma trim_start_plain: "s \<noteq> [] \<Longrightarrow> plain_char (hd s) \<Longrightarrow> trim_start s = s"
proof -
  assume s: "s \<noteq> []" "plain_char (hd s)"
  then have "\<not> prefix w s" if "w \<in> set ws_encodings" for w
    using ws_not_plain [OF that] by (cases w; cases s) auto
  then show "trim_start s = s"
    unfolding trim_start_def by (intro trim_with_fixed) (auto simp: find_None_iff)
qed

lemma trim_spaces:
  assumes "list_all plain_char s" "s \<noteq> []"
  shows "trim (CHR '' '' # s @ '' '') = s"
proof -
  have h: "plain_char (hd s)" using assms by (cases s) simp_all
  obtain ws where ws: "ws_encodings = [CHR '' ''] # ws" by (simp add: ws_encodings_def)
  have "trim_start (CHR '' '' # s @ '' '') = trim_start (s @ '' '')"
    unfolding trim_start_def ws by (rule trim_with_space)
  also have "\<dots> = s @ '' ''" using assms(2) h by (intro trim_start_plain) simp_all
  finally have "trim (CHR '' '' # s @ '' '') = trim_end (s @ '' '')" by (simp add: trim_def)
  also have "\<dots> = trim_end s"
    using trim_with_space [of "map rev ws" "rev s"] by (simp add: trim_end_def ws)
  also have "\<dots> = trim s" using trim_start_plain [OF assms(2) h] by (simp add: trim_def)
  finally show ?thesis using trim_plain [OF assms(1)] by simp
qed

lemma name_tests: "test_strips_at_and_lowercases"
proof -
  have "trim ''@Alice'' = ''@Alice''" "trim ''bob_1'' = ''bob_1''" "trim ''Alice'' = ''Alice''"
    by (rule trim_plain, simp add: plain_char_def)+
  moreover have "trim '' @Alice '' = ''@Alice''"
    using trim_spaces [of "''@Alice''"] by (simp add: plain_char_def)
  moreover have c: "char_of (97::nat) = CHR ''a''" by code_simp
  ultimately show ?thesis
    by (simp add: test_strips_at_and_lowercases_def normalize_username_def ascii_lower_def
        username_is_searchable_def is_ascii_alnum_def c Let_def)
qed

section \<open>\<open>knst.rs\<close>\<close>

definition test_text_frame_round_trips :: "knst_env \<Rightarrow> bool" where
  "test_text_frame_round_trips K =
     (let id = ''ffeeddc6-14f2-4d02-a66a-caf0d8dfeda8''; framed = encode_text K ''hello from tui'' id
      in is_frame framed \<and> framed ! 5 = ct_e2ee_signal (ke_types K)
         \<and> Some (take 16 (drop 6 framed)) = ke_parse_uuid K id
         \<and> take 2 (drop 22 framed) = [0, 0] \<and> take 2 (drop 24 framed) = [0, 1]
         \<and> decode_text K framed = ''hello from tui'')"

definition test_session_ping_is_not_chat_text :: "knst_env \<Rightarrow> bool" where
  "test_session_ping_is_not_chat_text K =
     (let id = ''11111111-1111-1111-1111-111111111111''; framed = encode_session_ping K id
      in framed ! 5 = ct_session_ping (ke_types K) \<and> decode_text K framed = []
         \<and> drop HEADER_SIZE framed = ke_encode_control K id)"

definition test_bare_utf8_still_decodes :: "knst_env \<Rightarrow> bool" where
  "test_bare_utf8_still_decodes K \<longleftrightarrow> decode_text K (str_bytes ''plain leftover'') = ''plain leftover''"

definition nil_uuid :: string where
  "nil_uuid = ''00000000-0000-0000-0000-000000000000''"

definition test_every_silent_control_type :: "knst_env \<Rightarrow> bool" where
  "test_every_silent_control_type K \<longleftrightarrow>
     (let T = ke_types K
      in list_all (\<lambda>ct. decode_text K (frame_whole K (str_bytes ''payload'') ct nil_uuid) = [])
           [ct_call_signal T, ct_heartbeat T, ct_delivery_receipt T, ct_session_ping T, ct_session_ready T]
         \<and> is_frame (frame_whole K [] (ct_e2ee_signal T) nil_uuid))"

definition test_header_plaintext_length :: "knst_env \<Rightarrow> bool" where
  "test_header_plaintext_length K =
     (let framed = encode_text K ''ab'' nil_uuid; declared = be_val (take 4 (drop 26 framed))
      in declared = length framed - HEADER_SIZE)"

lemma chunk_fields:
  assumes "uuid_law K"
  shows "take 2 (drop 22 (frame_whole K p ct i)) = [0, 0]" "take 2 (drop 24 (frame_whole K p ct i)) = [0, 1]"
proof -
  have t: "take 4 (drop 22 (frame_whole K p ct i)) = [0, 0, 0, 1]"
    by (simp add: frame_whole_layout(5) [OF assms] numeral_2_eq_2)
  have "take 2 (take 4 (drop 22 (frame_whole K p ct i))) = [0, 0]"
    "drop 2 (take 4 (drop 22 (frame_whole K p ct i))) = [0, 1]"
    unfolding t by simp_all
  then show "take 2 (drop 22 (frame_whole K p ct i)) = [0, 0]" "take 2 (drop 24 (frame_whole K p ct i)) = [0, 1]"
    by (simp_all add: min_def drop_take)
qed

lemma silent_frame: "uuid_law K \<Longrightarrow> is_silent_type (ke_types K) ct \<Longrightarrow> decode_text K (frame_whole K p ct i) = []"
  by (simp add: decode_text_def is_frame_frame_whole frame_whole_layout(3))

lemma silent_types:
  assumes "ct_distinct T"
  shows "is_silent_type T (ct_call_signal T)" "is_silent_type T (ct_heartbeat T)"
    "is_silent_type T (ct_delivery_receipt T)" "is_silent_type T (ct_session_ping T)"
    "is_silent_type T (ct_session_ready T)" "\<not> is_silent_type T (ct_e2ee_signal T)"
  using assms by (auto simp: is_silent_type_def disposition_def ct_distinct_def ct_list_def)

lemma knst_tests:
  assumes "uuid_law K" "content_law K" "ct_distinct (ke_types K)"
    and "\<And>s. length (ke_encode_content K s) < 2 ^ 32"
    and "ke_parse_uuid K ''ffeeddc6-14f2-4d02-a66a-caf0d8dfeda8'' \<noteq> None"
  shows "test_text_frame_round_trips K" "test_session_ping_is_not_chat_text K"
    "test_every_silent_control_type K" "test_header_plaintext_length K"
proof -
  note laws = frame_whole_layout [OF assms(1)] is_frame_frame_whole [OF assms(1)] chunk_fields [OF assms(1)]
  have "frame_uuid K i = u" if "ke_parse_uuid K i = Some u" for i u using that by (simp add: frame_uuid_def)
  moreover have "decode_text K (encode_text K s i) = s" for s i
    using decode_text_frame_whole [OF assms(1) silent_types(6) [OF assms(3)] assms(4)] assms(2)
    by (simp add: encode_text_def content_law_def)
  ultimately show "test_text_frame_round_trips K"
    using assms(5) by (auto simp: test_text_frame_round_trips_def encode_text_def laws Let_def)
  show "test_session_ping_is_not_chat_text K"
    by (simp add: test_session_ping_is_not_chat_text_def encode_session_ping_def laws
        silent_frame [OF assms(1)] silent_types [OF assms(3)] Let_def)
  show "test_every_silent_control_type K"
    by (simp add: test_every_silent_control_type_def laws silent_frame [OF assms(1)]
        silent_types [OF assms(3)] Let_def)
  show "test_header_plaintext_length K"
    using assms(4) by (simp add: test_header_plaintext_length_def encode_text_def laws be_val_be_bytes Let_def)
qed

lemma bare_text_test: "test_bare_utf8_still_decodes K"
proof -
  have "is_str ''plain leftover''" by (rule is_str_ascii) simp
  then show ?thesis
    by (simp add: test_bare_utf8_still_decodes_def decode_text_def is_frame_def HEADER_SIZE_def from_utf8_lossy_str)
qed

section \<open>\<open>screens/safety_number.rs\<close>\<close>

definition test_safety_number_is_symmetric :: "(bytes \<Rightarrow> bytes) \<Rightarrow> bool" where
  "test_safety_number_is_symmetric sha512 \<longleftrightarrow>
     (let key_a = replicate 32 1; key_b = replicate 32 2
      in compute_safety_number sha512 key_a key_b = compute_safety_number sha512 key_b key_a)"

definition test_safety_number_has_twelve_groups :: "(bytes \<Rightarrow> bytes) \<Rightarrow> bool" where
  "test_safety_number_has_twelve_groups sha512 \<longleftrightarrow>
     (let key_a = replicate 32 0xAB; key_b = replicate 32 0xCD; sn = compute_safety_number sha512 key_a key_b
      in length (split_ws [] sn) = 12)"

definition test_safety_number_groups_are_5_digits :: "(bytes \<Rightarrow> bytes) \<Rightarrow> bool" where
  "test_safety_number_groups_are_5_digits sha512 \<longleftrightarrow>
     (let key_a = replicate 32 42; key_b = replicate 32 99; sn = compute_safety_number sha512 key_a key_b
      in list_all (\<lambda>group. length group = 5 \<and> list_all is_digit group) (split_ws [] sn))"

lemma safety_number_tests: "test_safety_number_is_symmetric sha512"
  "test_safety_number_has_twelve_groups sha512" "test_safety_number_groups_are_5_digits sha512"
proof -
  have "g \<noteq> []" if "length g = 5" for g :: string using that by auto
  then have "split_ws [] (compute_safety_number sha512 a b) = safety_groups sha512 a b" for a b
    unfolding compute_safety_number_def
    using safety_groups_digits [of _ sha512 a b] by (intro split_join_space) blast
  moreover have "length (safety_groups sha512 a b) = 12" for a b by (simp add: safety_groups_def Let_def)
  ultimately show "test_safety_number_has_twelve_groups sha512" "test_safety_number_groups_are_5_digits sha512"
    using safety_groups_digits [of _ sha512]
    by (simp_all add: test_safety_number_has_twelve_groups_def test_safety_number_groups_are_5_digits_def
        list_all_iff Let_def)
  show "test_safety_number_is_symmetric sha512"
    unfolding test_safety_number_is_symmetric_def compute_safety_number_def safety_groups_def Let_def
    by (subst safety_message_sym) simp
qed

section \<open>\<open>invite.rs\<close>\<close>

definition unwrapped :: "string + 'a \<Rightarrow> ('a \<Rightarrow> bool) \<Rightarrow> bool" where
  "unwrapped r k = (case r of Err _ \<Rightarrow> False | Ok x \<Rightarrow> k x)"

lemma unwrapped_simps [simp]: "unwrapped (Ok x) k = k x" "\<not> unwrapped (Err e) k"
  by (simp_all add: unwrapped_def)

definition test_sample_invite :: "invite_env \<Rightarrow> invite" where
  "test_sample_invite I = \<lparr>iv_v = 5, iv_jti = ''11111111-1111-4111-8111-111111111111'',
     iv_uuid = ''22222222-2222-4222-8222-222222222222'', iv_device_id = ''0123456789abcdef0123456789abcdef'',
     iv_server = ''konstruct.cc'', iv_eph_key = [], iv_ts = 1700000000,
     iv_sig = ie_b64_encode I (replicate 64 0xAB), iv_un = Some ''fox'', iv_ttl = Some 300\<rparr>"

definition test_v5_canonical_includes_ttl :: "invite_env \<Rightarrow> bool" where
  "test_v5_canonical_includes_ttl I \<longleftrightarrow>
     canonical_string I (test_sample_invite I) = Ok (''5|11111111-1111-4111-8111-111111111111|''
       @ ''22222222-2222-4222-8222-222222222222|0123456789abcdef0123456789abcdef|konstruct.cc|1700000000|fox|300'')"

definition test_v5_binary_roundtrip :: "invite_env \<Rightarrow> bool" where
  "test_v5_binary_roundtrip I =
     (let original = test_sample_invite I
      in unwrapped (encode_binary I original) (\<lambda>b. unwrapped (decode_binary I b) (\<lambda>decoded. original = decoded)))"

definition test_https_link_roundtrip :: "invite_env \<Rightarrow> bool" where
  "test_https_link_roundtrip I =
     (let original = test_sample_invite I
      in unwrapped (https_link I original) (\<lambda>link. prefix HTTPS_ADD link
           \<and> unwrapped (parse_invite I link) (\<lambda>decoded. iv_jti decoded = iv_jti original
           \<and> iv_ttl decoded = Some 300 \<and> iv_un decoded = Some ''fox''
           \<and> unwrapped (scheme_link I original) (\<lambda>scheme. prefix SCHEME_ADD scheme
           \<and> unwrapped (parse_invite I scheme) (\<lambda>again. iv_jti again = iv_jti original)))))"

definition test_mint_self_verifies :: "invite_env \<Rightarrow> bool" where
  "test_mint_self_verifies I =
     (let sk = replicate 32 7; hex = ie_hex_encode I sk
      in unwrapped (mint I ''33333333-3333-4333-8333-333333333333'' ''0123456789abcdef0123456789abcdef''
           ''https://ams.konstruct.cc:443'' hex None 300) (\<lambda>inv.
         iv_v inv = 5 \<and> iv_server inv = ''ams.konstruct.cc'' \<and> iv_eph_key inv = []
         \<and> unwrapped (canonical_string I inv) (\<lambda>canon.
             (case ie_b64_decode I (iv_sig inv) of
                None \<Rightarrow> False | Some sig \<Rightarrow> ie_verify I sk (str_bytes canon) sig)
         \<and> unwrapped (https_link I inv) (\<lambda>link.
           unwrapped (parse_invite I link) (\<lambda>again. iv_uuid again = iv_uuid inv)))))"

definition test_looks_like_invite_detects_urls :: "invite_env \<Rightarrow> bool" where
  "test_looks_like_invite_detects_urls I \<longleftrightarrow>
     looks_like_invite I ''https://konstruct.cc/add?invite=Q0l2MQ''
     \<and> looks_like_invite I ''konstruct://add?invite=abc'' \<and> \<not> looks_like_invite I ''hardwax''"

definition test_normalize_strips_scheme_and_port :: bool where
  "test_normalize_strips_scheme_and_port \<longleftrightarrow>
     normalize_server ''https://ams.konstruct.cc:443/'' = ''ams.konstruct.cc''"

text \<open>What the tests rely on beside \<open>invite_laws\<close>: canonical uuids are read and printed back, lower-casing
  maps ASCII letters, hex prints what it reads, a signature verifies, the clock is past 2023.\<close>

definition uuid_text :: "invite_env \<Rightarrow> string \<Rightarrow> bool" where
  "uuid_text I s \<longleftrightarrow> (\<exists>b. ie_uuid_parse I s = Some b \<and> ie_uuid_show I b = s)"

definition test_crates :: "invite_env \<Rightarrow> bool" where
  "test_crates I \<longleftrightarrow> invite_laws I
     \<and> list_all (uuid_text I) [''11111111-1111-4111-8111-111111111111'', ''22222222-2222-4222-8222-222222222222'',
          ''33333333-3333-4333-8333-333333333333'']
     \<and> (\<forall>s. list_all (\<lambda>c. of_char c < (128::nat)) s \<longrightarrow> ie_lowercase I s = map ascii_lower s)
     \<and> (\<forall>b. ie_hex_decode I (ie_hex_encode I b) = Some b)
     \<and> (\<forall>k m. ie_verify I k m (ie_sign I k m))
     \<and> 1700000000 \<le> ie_now I \<and> ie_now I < 2 ^ 62"

lemma server_tests: "test_normalize_strips_scheme_and_port"
  "normalize_server ''https://ams.konstruct.cc:443'' = ''ams.konstruct.cc''"
  by (simp_all add: test_normalize_strips_scheme_and_port_def normalize_server_def trim_plain plain_char_def
      trim_start_matches.simps trim_end_matches_def suffix_to_prefix Let_def)

lemma looks_like_tests: "test_looks_like_invite_detects_urls I"
  by (simp add: test_looks_like_invite_detects_urls_def looks_like_invite_def trim_plain plain_char_def
      str_contains_def Let_def)

lemma test_crates_laws:
  assumes "test_crates I"
  shows "invite_laws I" "ie_b64_decode I (ie_b64_encode I b) = Some b" "ie_hex_decode I (ie_hex_encode I b) = Some b"
    "ie_verify I k m (ie_sign I k m)" "1700000000 \<le> ie_now I" "ie_now I < 2 ^ 62"
    "list_all (\<lambda>c. of_char c < (128::nat)) s \<Longrightarrow> ie_lowercase I s = map ascii_lower s"
    "s \<in> {''11111111-1111-4111-8111-111111111111'', ''22222222-2222-4222-8222-222222222222'',
          ''33333333-3333-4333-8333-333333333333''} \<Longrightarrow>
       \<exists>b. ie_uuid_parse I s = Some b \<and> length b = 16 \<and> ie_uuid_show I b = s"
proof -
  show laws: "invite_laws I" using assms by (simp add: test_crates_def)
  have u: "uuid_text I s" if "s \<in> {''11111111-1111-4111-8111-111111111111'',
      ''22222222-2222-4222-8222-222222222222'', ''33333333-3333-4333-8333-333333333333''}"
    using assms that unfolding test_crates_def by auto
  show "\<exists>b. ie_uuid_parse I s = Some b \<and> length b = 16 \<and> ie_uuid_show I b = s"
    if "s \<in> {''11111111-1111-4111-8111-111111111111'', ''22222222-2222-4222-8222-222222222222'',
          ''33333333-3333-4333-8333-333333333333''}"
    using u [OF that] laws by (auto simp: uuid_text_def invite_laws_def)
qed (use assms in \<open>simp_all add: test_crates_def invite_laws_def\<close>)

lemma device_text:
  assumes "invite_laws I"
  shows "\<exists>d. ie_hex_decode I ''0123456789abcdef0123456789abcdef'' = Some d \<and> length d = 16
     \<and> ie_hex_encode I d = ''0123456789abcdef0123456789abcdef''"
proof -
  let ?s = "''0123456789abcdef0123456789abcdef''"
  have t: "length ?s = 32" "list_all is_hex_char ?s" "map ascii_lower ?s = ?s"
    by (simp_all add: is_hex_char_def ascii_lower_def Let_def)
  have "length s = 32 \<Longrightarrow> list_all is_hex_char s \<Longrightarrow> map ascii_lower s = s \<Longrightarrow>
      \<exists>d. ie_hex_decode I s = Some d \<and> length d = 16 \<and> ie_hex_encode I d = s" for s
    using assms by (simp add: invite_laws_def)
  from this [OF t] show ?thesis .
qed

lemma test_sample_well_formed:
  assumes "test_crates I"
  shows "well_formed I (test_sample_invite I)"
proof -
  note laws = test_crates_laws [OF assms]
  have "is_str ''konstruct.cc''" "is_str ''fox''" "trim ''fox'' = ''fox''"
    by (rule is_str_ascii, simp)+ (rule trim_plain, simp add: plain_char_def)
  then show ?thesis
    using laws(8) [of "''11111111-1111-4111-8111-111111111111''"]
      laws(8) [of "''22222222-2222-4222-8222-222222222222''"] device_text [OF laws(1)] laws(2,5)
    by (simp add: well_formed_def test_sample_invite_def MIN_TTL_SECONDS_def MAX_FUTURE_SKEW_def)
qed

lemma extract_from_scheme: "CHR 0x26 \<notin> set p \<Longrightarrow> extract_invite_param (SCHEME_ADD @ p) = Some p"
proof -
  assume p: "CHR 0x26 \<notin> set p"
  have "str_find ''invite='' (SCHEME_ADD @ p) = Some 16" "drop (16 + 7) (SCHEME_ADD @ p) = p"
    by (simp_all add: SCHEME_ADD_def)
  moreover have "takeWhile (\<lambda>c. c \<noteq> CHR 0x26) p = p" using p by (auto simp: takeWhile_eq_all_conv)
  ultimately show ?thesis by (simp add: extract_invite_param_def)
qed

lemma parse_scheme:
  assumes "invite_laws I" "encode_binary I i = Ok b" "take 4 b = CIV1"
  shows "scheme_link I i = Ok (SCHEME_ADD @ ie_b64url_encode I b)"
    and "parse_invite I (SCHEME_ADD @ ie_b64url_encode I b) = decode_binary I b"
proof -
  let ?p = "ie_b64url_encode I b"
  show "scheme_link I i = Ok (SCHEME_ADD @ ?p)" by (simp add: scheme_link_def to_base64url_def assms(2))
  have "list_all (\<lambda>c. is_ascii_alnum c \<or> c = CHR 0x2D \<or> c = CHR 0x5F) ?p"
    using assms(1) by (simp add: invite_laws_def)
  then have plain: "list_all plain_char ?p" "CHR 0x26 \<notin> set ?p"
    using link_char_plain by (auto simp: list_all_iff)
  have "trim (SCHEME_ADD @ ?p) = SCHEME_ADD @ ?p"
    by (rule trim_plain) (simp add: SCHEME_ADD_def plain_char_def plain(1))
  moreover have "decode_payload I ?p = Some b"
    using assms(1) by (simp add: decode_payload_def trim_plain [OF plain(1)] invite_laws_def)
  ultimately show "parse_invite I (SCHEME_ADD @ ?p) = decode_binary I b"
    using assms(3) by (simp add: parse_invite_def extract_from_scheme [OF plain(2)])
qed

lemma invite_tests:
  assumes "test_crates I"
  shows "test_v5_binary_roundtrip I" "test_https_link_roundtrip I"
proof -
  let ?i = "test_sample_invite I"
  obtain b where b: "encode_binary I ?i = Ok b" "take 4 b = CIV1" "decode_binary I b = Ok ?i"
    using encode_decode_binary [OF test_sample_well_formed [OF assms]] by blast
  note links = parse_link [OF test_crates_laws(1) [OF assms] b(1,2)]
    parse_scheme [OF test_crates_laws(1) [OF assms] b(1,2)]
  show "test_v5_binary_roundtrip I" by (simp add: test_v5_binary_roundtrip_def b)
  have "iv_ttl ?i = Some 300 \<and> iv_un ?i = Some ''fox''" by (simp add: test_sample_invite_def)
  then show "test_https_link_roundtrip I" by (simp add: test_https_link_roundtrip_def links b(3) Let_def)
qed

lemma canonical_test:
  assumes "test_crates I"
  shows "test_v5_canonical_includes_ttl I"
proof -
  have c: "char_of (48::nat) = CHR ''0''" "char_of (49::nat) = CHR ''1''" "char_of (51::nat) = CHR ''3''"
    "char_of (53::nat) = CHR ''5''" "char_of (55::nat) = CHR ''7''"
    by code_simp+
  have d: "dec_of_nat 5 = ''5''" "dec_of_nat 300 = ''300''" "dec_of_nat 1700000000 = ''1700000000''"
    by (simp_all add: dec_of_nat.simps c)
  have l: "ie_lowercase I ''11111111-1111-4111-8111-111111111111'' = ''11111111-1111-4111-8111-111111111111''"
    "ie_lowercase I ''22222222-2222-4222-8222-222222222222'' = ''22222222-2222-4222-8222-222222222222''"
    by (simp_all add: test_crates_laws(7) [OF assms] ascii_lower_def)
  show ?thesis
    by (simp add: test_v5_canonical_includes_ttl_def canonical_string_def test_sample_invite_def d l
        dec_of_int_def str_or_empty_def Let_def)
qed

lemma canonical_ignores_sig: "canonical_string I (i\<lparr>iv_sig := s\<rparr>) = canonical_string I i"
  unfolding canonical_string_def by (simp cong: if_cong)

lemma mint_test:
  assumes "test_crates I"
  shows "test_mint_self_verifies I"
proof -
  let ?u = "''33333333-3333-4333-8333-333333333333''" and ?d = "''0123456789abcdef0123456789abcdef''"
  let ?k = "replicate 32 7 :: bytes"
  note laws = test_crates_laws [OF assms]
  obtain b where b: "ie_uuid_parse I ?u = Some b" "ie_uuid_show I b = ?u" using laws(8) [of ?u] by auto
  have l: "ie_lowercase I ?u = ?u" "ie_lowercase I ?d = ?d"
    by (simp_all add: laws(7) ascii_lower_def)
  define unsigned where "unsigned = \<lparr>iv_v = CURRENT_VERSION, iv_jti = ie_uuid_show I (ie_new_uuid I),
    iv_uuid = ?u, iv_device_id = ?d, iv_server = ''ams.konstruct.cc'', iv_eph_key = [], iv_ts = ie_now I,
    iv_sig = [], iv_un = trimmed_username None, iv_ttl = Some 300\<rparr>"
  obtain can where can: "canonical_string I unsigned = Ok can"
    by (simp add: canonical_string_def unsigned_def CURRENT_VERSION_def Let_def)
  define i where "i = unsigned\<lparr>iv_sig := ie_b64_encode I (ie_sign I ?k (str_bytes can))\<rparr>"
  have m: "mint I ?u ?d ''https://ams.konstruct.cc:443'' (ie_hex_encode I ?k) None 300 = Ok i"
    by (simp add: mint_def ensure_def ok_or_def MIN_TTL_SECONDS_def b l is_hex_char_def server_tests(2) Let_def
        can [unfolded unsigned_def] laws(3,4) i_def unsigned_def)
  have "is_str ''ams.konstruct.cc''" by (rule is_str_ascii) simp
  then have "well_formed I i"
    using mint_well_formed [OF laws(1) m] laws(5,6) by (simp add: server_tests(2))
  then obtain e where e: "encode_binary I i = Ok e" "take 4 e = CIV1" "decode_binary I e = Ok i"
    using encode_decode_binary by blast
  note link = parse_link [OF laws(1) e(1,2)]
  have f: "iv_v i = 5" "iv_server i = ''ams.konstruct.cc''" "iv_eph_key i = []"
    "ie_b64_decode I (iv_sig i) = Some (ie_sign I ?k (str_bytes can))"
    by (simp_all add: i_def unsigned_def CURRENT_VERSION_def laws(2))
  have "canonical_string I i = Ok can" using can by (simp add: i_def canonical_ignores_sig)
  then show ?thesis by (simp add: test_mint_self_verifies_def m f link e(3) laws(4) Let_def)
qed

text \<open>Codecs that satisfy \<open>test_crates\<close>: those of \<open>sample_invite_env\<close> with the dashes of a uuid.\<close>

definition dashed :: "bytes \<Rightarrow> string" where
  "dashed b = hexs (take 4 b) @ ''-'' @ hexs (take 2 (drop 4 b)) @ ''-'' @ hexs (take 2 (drop 6 b)) @ ''-''
     @ hexs (take 2 (drop 8 b)) @ ''-'' @ hexs (drop 10 b)"

definition undashed :: "string \<Rightarrow> bytes option" where
  "undashed s = (let h = filter (\<lambda>c. c \<noteq> CHR ''-'') s in if length h = 32 then unhex h else None)"

definition dashed_invite_env :: invite_env where
  "dashed_invite_env = sample_invite_env\<lparr>ie_uuid_parse := undashed, ie_uuid_show := dashed, ie_now := 1700000000\<rparr>"

lemma hexs_append: "hexs (a @ b) = hexs a @ hexs b"
  by (simp add: hexs_def)

lemma hexs_no_dash: "filter (\<lambda>c. c \<noteq> CHR ''-'') (hexs b) = hexs b"
proof (rule filter_True, rule ballI)
  fix c
  assume "c \<in> set (hexs b)"
  then obtain n where "n < 16" "c = nibble_char n" using hexs_chars by blast
  then have "is_ascii_alnum c" using nibble_char_lower(2) by simp
  then show "c \<noteq> CHR ''-''" by (auto simp: is_ascii_alnum_def Let_def)
qed

lemma hexs_lower: "map ascii_lower (hexs b) = hexs b"
  by (rule map_idI) (use hexs_chars nibble_char_lower in blast)

lemma dashed_laws:
  "length b = 16 \<Longrightarrow> undashed (dashed b) = Some b" "map ascii_lower (dashed b) = dashed b"
  "undashed s = Some b \<Longrightarrow> length b = 16"
proof -
  have "drop 4 b = take 2 (drop 4 b) @ drop 6 b" "drop 6 b = take 2 (drop 6 b) @ drop 8 b"
    "drop 8 b = take 2 (drop 8 b) @ drop 10 b"
    using append_take_drop_id [of 2 "drop 4 b"] append_take_drop_id [of 2 "drop 6 b"]
      append_take_drop_id [of 2 "drop 8 b"] by simp_all
  then have "hexs b = hexs (take 4 b) @ hexs (take 2 (drop 4 b)) @ hexs (take 2 (drop 6 b))
      @ hexs (take 2 (drop 8 b)) @ hexs (drop 10 b)"
    by (metis append_take_drop_id hexs_append)
  then have f: "filter (\<lambda>c. c \<noteq> CHR ''-'') (dashed b) = hexs b" by (simp add: dashed_def hexs_no_dash)
  show "length b = 16 \<Longrightarrow> undashed (dashed b) = Some b"
    by (simp only: undashed_def f Let_def length_hexs unhex_hexs) simp
  show "map ascii_lower (dashed b) = dashed b" by (simp add: dashed_def hexs_lower ascii_lower_def)
  show "undashed s = Some b \<Longrightarrow> length b = 16"
    by (auto simp: undashed_def Let_def dest: unhex_length split: if_splits)
qed

lemma dashed_test_crates: "test_crates dashed_invite_env"
proof -
  have "invite_laws dashed_invite_env"
    using sample_invite_laws by (simp add: invite_laws_def dashed_invite_env_def dashed_laws sample_invite_env_def)
  moreover have u: "uuid_text dashed_invite_env (dashed b)" if "length b = 16" for b
    using that by (auto simp: uuid_text_def dashed_invite_env_def dashed_laws)
  have "dashed [17, 17, 17, 17, 17, 17, 65, 17, 129, 17, 17, 17, 17, 17, 17, 17] = ''11111111-1111-4111-8111-111111111111''"
    "dashed [34, 34, 34, 34, 34, 34, 66, 34, 130, 34, 34, 34, 34, 34, 34, 34] = ''22222222-2222-4222-8222-222222222222''"
    "dashed [51, 51, 51, 51, 51, 51, 67, 51, 131, 51, 51, 51, 51, 51, 51, 51] = ''33333333-3333-4333-8333-333333333333''"
    by code_simp+
  then have "uuid_text dashed_invite_env ''11111111-1111-4111-8111-111111111111''"
    "uuid_text dashed_invite_env ''22222222-2222-4222-8222-222222222222''"
    "uuid_text dashed_invite_env ''33333333-3333-4333-8333-333333333333''"
    using u [of "[17, 17, 17, 17, 17, 17, 65, 17, 129, 17, 17, 17, 17, 17, 17, 17]"]
      u [of "[34, 34, 34, 34, 34, 34, 66, 34, 130, 34, 34, 34, 34, 34, 34, 34]"]
      u [of "[51, 51, 51, 51, 51, 51, 67, 51, 131, 51, 51, 51, 51, 51, 51, 51]"] by simp_all
  moreover have "ie_lowercase dashed_invite_env = map ascii_lower" "ie_hex_decode dashed_invite_env = unhex"
    "ie_hex_encode dashed_invite_env = hexs" "ie_verify dashed_invite_env k m x" "ie_now dashed_invite_env = 1700000000"
    for k m x
    by (simp_all add: dashed_invite_env_def sample_invite_env_def)
  ultimately show ?thesis by (simp add: test_crates_def unhex_hexs)
qed

section \<open>\<open>app.rs\<close>\<close>

definition test_stream_resubscribe_uses_the_full_contact_set :: bool where
  "test_stream_resubscribe_uses_the_full_contact_set \<longleftrightarrow>
     (let contacts =
        [\<lparr>cn_id = ''alice'', cn_display_name = ''Alice'', cn_unread = 0, cn_last_message = None\<rparr>,
         \<lparr>cn_id = ''bob'', cn_display_name = ''Bob'', cn_unread = 0, cn_last_message = None\<rparr>]
      in contact_ids_for_stream contacts = [''alice'', ''bob''])"

definition test_reset_type_is_routed_as_control :: "content_types \<Rightarrow> bool" where
  "test_reset_type_is_routed_as_control T \<longleftrightarrow>
     is_session_reset_control_type T (ct_session_reset T)
     \<and> is_session_reset_control_type T (ct_session_reset_init T)
     \<and> \<not> is_session_reset_control_type T (ct_e2ee_signal T)"

text \<open>\<open>seal\<close> encrypts a certificate for the owner of an identity key; a certificate is represented by its
  \<open>sender_user_id\<close>, the field the sources read.\<close>

definition test_resolves_sealed_envelope ::
  "relay_env \<Rightarrow> (sealed_inner \<Rightarrow> bytes) \<Rightarrow> (bytes \<Rightarrow> bytes \<Rightarrow> bytes) \<Rightarrow> (string \<Rightarrow> bytes) \<Rightarrow> (bytes \<Rightarrow> bytes) \<Rightarrow> bool" where
  "test_resolves_sealed_envelope R enc_inner seal enc_cert public_key =
     (let identity_secret = replicate 32 7; identity_public = public_key identity_secret;
          sealed_cert = seal (enc_cert ''sender-user'') identity_public;
          wire_payload = [1, 2, 3, 4];
          inner = \<lparr>sl_cert_ciphertext = sealed_cert, sl_encrypted_payload = wire_payload, sl_content_type = 13\<rparr>;
          envelope = envelope_default\<lparr>env_recipient := Some \<lparr>ur_user_id = ''recipient-user'', ur_domain = None,
              ur_display_name = None\<rparr>, env_encrypted_payload := [], env_sealed_inner := Some (enc_inner inner),
            env_message_id_type := Some (MessageId ''msg-1''), env_content_type := 1\<rparr>
      in unwrapped (resolve_inbound_envelope R envelope identity_secret) (\<lambda>resolved.
           in_message_id resolved = ''msg-1'' \<and> in_from resolved = ''sender-user''
           \<and> in_wire_payload resolved = wire_payload \<and> in_content_type resolved = 13
           \<and> in_is_sealed resolved))"

lemma app_tests: "test_stream_resubscribe_uses_the_full_contact_set"
  "ct_distinct T \<Longrightarrow> test_reset_type_is_routed_as_control T"
  by (auto simp: test_stream_resubscribe_uses_the_full_contact_set_def contact_ids_for_stream_def Let_def
      test_reset_type_is_routed_as_control_def is_session_reset_control_type_def ct_distinct_def ct_list_def)

lemma sealed_test:
  assumes "\<And>x. re_dec_inner R (enc_inner x) = Ok x"
    and "\<And>c secret. re_unseal R (seal c (public_key secret)) secret = Ok c"
    and "\<And>u. re_dec_cert R (enc_cert u) = Ok u"
  shows "test_resolves_sealed_envelope R enc_inner seal enc_cert public_key"
  by (simp add: test_resolves_sealed_envelope_def resolve_inbound_envelope_def envelope_default_def
      direct_envelope_message_id_def content_type_to_u8_def assms Let_def)

section \<open>\<open>orchestrator_task.rs\<close>\<close>

definition test_secure_store_save_action_deletes_empty_payload :: bool where
  "test_secure_store_save_action_deletes_empty_payload =
     unwrap (apply_secure_store_save open_in_memory ''session_peer'' (str_bytes ''old-session'')) (\<lambda>s _.
     unwrap (apply_secure_store_save s ''session_peer'' []) (\<lambda>s _.
     unwrap (secure_load s ''session_peer'') (\<lambda>_ v. v = None)))"

definition test_session_terminated_archives_and_deletes_hot_session :: bool where
  "test_session_terminated_archives_and_deletes_hot_session =
     unwrap (secure_save open_in_memory ''session_peer'' (str_bytes ''hot-session'')) (\<lambda>s _.
     unwrap (apply_session_terminated s ''peer'' (str_bytes ''archive-session'')) (\<lambda>s _.
     unwrap (secure_load s ''archive_peer'') (\<lambda>s v. v = Some (str_bytes ''archive-session'') \<and>
     unwrap (secure_load s ''session_peer'') (\<lambda>_ v. v = None))))"

definition test_stream_cursor_millis_parses_redis_stream_id :: bool where
  "test_stream_cursor_millis_parses_redis_stream_id \<longleftrightarrow>
     stream_cursor_millis (Some ''1787431771124-0'') = Some 1787431771124
     \<and> stream_cursor_millis (Some ''1787431771124'') = None
     \<and> stream_cursor_millis (Some ''not-a-cursor'') = None \<and> stream_cursor_millis None = None"

definition test_context :: "string \<Rightarrow> byte \<Rightarrow> u32 \<Rightarrow> string option \<Rightarrow> stream_context" where
  "test_context contact_id content_type msg_num stream_cursor =
     \<lparr>sc_contact_id = contact_id, sc_message_id = ''message-1'', sc_stream_cursor = stream_cursor,
      sc_content_type = content_type, sc_msg_num = msg_num\<rparr>"

definition test_guard_drops_old_msg_zero :: "content_types \<Rightarrow> bool" where
  "test_guard_drops_old_msg_zero T \<longleftrightarrow>
     should_drop_stale_session_replay T (test_context ''bob'' 0 0 (Some ''1000-0'')) [''bob'' \<mapsto> 2000]"

definition test_guard_drops_old_reset_control :: "content_types \<Rightarrow> bool" where
  "test_guard_drops_old_reset_control T \<longleftrightarrow>
     should_drop_stale_session_replay T (test_context ''bob'' (ct_session_reset T) 42 (Some ''1000-0''))
       [''bob'' \<mapsto> 2000]"

definition test_guard_keeps_old_regular_message :: "content_types \<Rightarrow> bool" where
  "test_guard_keeps_old_regular_message T \<longleftrightarrow>
     \<not> should_drop_stale_session_replay T (test_context ''bob'' 0 42 (Some ''1000-0'')) [''bob'' \<mapsto> 2000]"

definition test_guard_keeps_without_local_established_at :: "content_types \<Rightarrow> bool" where
  "test_guard_keeps_without_local_established_at T \<longleftrightarrow>
     \<not> should_drop_stale_session_replay T (test_context ''bob'' 0 0 (Some ''1000-0'')) Map.empty"

definition test_guard_keeps_newer_message :: "content_types \<Rightarrow> bool" where
  "test_guard_keeps_newer_message T \<longleftrightarrow>
     \<not> should_drop_stale_session_replay T (test_context ''bob'' 0 0 (Some ''3000-0'')) [''bob'' \<mapsto> 2000]"

definition stale_message_command :: "string \<Rightarrow> string \<Rightarrow> byte \<Rightarrow> u32 \<Rightarrow> bool \<Rightarrow> orch_command" where
  "stale_message_command contact_id message_id content_type msg_num is_control =
     StreamMessage
       (MessageReceived message_id contact_id (str_bytes ''not-a-wire-payload'') msg_num [] 0 is_control content_type)
       \<lparr>sc_contact_id = contact_id, sc_message_id = message_id, sc_stream_cursor = Some ''1000-0'',
        sc_content_type = content_type, sc_msg_num = msg_num\<rparr>"

text \<open>\<open>ReplayHarness\<close> is the state of the actor over a fresh core.\<close>

definition replay_harness :: "'o \<Rightarrow> 'o task" where
  "replay_harness orchestrator = task_init orchestrator open_in_memory"

definition mark_session_established :: "string \<Rightarrow> u64 \<Rightarrow> 'o task \<Rightarrow> 'o task" where
  "mark_session_established contact_id established_at_ms t =
     t\<lparr>tk_established := (tk_established t)(contact_id \<mapsto> established_at_ms)\<rparr>"

definition dropped_terminally :: "'o core \<Rightarrow> 'o task \<Rightarrow> bool" where
  "dropped_terminally K t \<longleftrightarrow>
     unwrap (load_stream_cursor (tk_db t)) (\<lambda>_ c. c = Some ''1000-0'')
     \<and> co_pending_count K (tk_core t) ''bob'' = 0 \<and> tk_stream t = []"

definition test_terminally_drops_stale_msg_zero :: "'o core \<Rightarrow> orch_env \<Rightarrow> 'o \<Rightarrow> bool" where
  "test_terminally_drops_stale_msg_zero K E orchestrator =
     (let harness = mark_session_established ''bob'' 2000 (replay_harness orchestrator)
      in dropped_terminally K (handle_command K E (stale_message_command ''bob'' ''stale-msg0'' 0 0 False) harness))"

definition test_terminally_drops_stale_reset :: "'o core \<Rightarrow> orch_env \<Rightarrow> 'o \<Rightarrow> bool" where
  "test_terminally_drops_stale_reset K E orchestrator =
     (let harness = mark_session_established ''bob'' 2000 (replay_harness orchestrator)
      in dropped_terminally K (handle_command K E (stale_message_command ''bob'' ''stale-reset''
           (ct_session_reset (ke_types (oe_knst E))) 0 True) harness))"
lemma session_storage_tests: "test_secure_store_save_action_deletes_empty_payload"
  "test_session_terminated_archives_and_deletes_hot_session"
  by (simp_all add: test_secure_store_save_action_deletes_empty_payload_def
      test_session_terminated_archives_and_deletes_hot_session_def apply_session_terminated_def
      open_in_memory_def empty_db_def secure_save_or_delete_def secure_save_def secure_delete_def secure_load_def)

lemma cursor_millis: "stream_cursor_millis (Some ''1000-0'') = Some 1000"
  "stream_cursor_millis (Some ''3000-0'') = Some 3000"
  "stream_cursor_millis (Some ''1787431771124-0'') = Some 1787431771124"
  by (simp_all add: stream_cursor_millis_def cursor_eval)

lemma cursor_millis_test: "test_stream_cursor_millis_parses_redis_stream_id"
  using cursor_millis
  by (simp add: test_stream_cursor_millis_parses_redis_stream_id_def)
    (simp add: stream_cursor_millis_def cursor_eval)

lemma guard_tests: "test_guard_drops_old_msg_zero T" "test_guard_drops_old_reset_control T"
  "test_guard_keeps_without_local_established_at T" "test_guard_keeps_newer_message T"
  by (simp_all add: test_guard_drops_old_msg_zero_def test_guard_drops_old_reset_control_def
      test_guard_keeps_without_local_established_at_def test_guard_keeps_newer_message_def test_context_def
      should_drop_stale_session_replay_def is_replay_sensitive_def cursor_millis)

text \<open>A protobuf enum has its unspecified variant at 0, so no session reset is 0.\<close>

lemma guard_regular_test:
  assumes "ct_session_reset T \<noteq> 0" "ct_session_reset_init T \<noteq> 0"
  shows "test_guard_keeps_old_regular_message T"
  using assms by (simp add: test_guard_keeps_old_regular_message_def test_context_def
      should_drop_stale_session_replay_def is_replay_sensitive_def)

lemma replay_harness_tests:
  assumes "co_pending_count K orchestrator ''bob'' = 0"
  shows "test_terminally_drops_stale_msg_zero K E orchestrator"
    "test_terminally_drops_stale_reset K E orchestrator"
proof -
  have "is_str ''1000-0''" by (rule is_str_ascii) simp
  then have b: "cursor_of_blob (Some (str_bytes ''1000-0'')) = Some ''1000-0''" by (rule cursor_of_blob_str) simp
  have e: "tracker_load open_in_memory = (open_in_memory, \<lparr>ct_committed = None, ct_pending = Map.empty\<rparr>)"
    by (simp add: tracker_load_def load_stream_cursor_def secure_load_def open_in_memory_def empty_db_def
        cursor_of_blob_def)
  let ?d = "open_in_memory\<lparr>secure_store := [(STREAM_CURSOR_KEY, str_bytes ''1000-0'')]\<rparr>"
  have "save_stream_cursor open_in_memory ''1000-0'' = (?d, Ok True)"
    by (simp add: save_stream_cursor_def load_stream_cursor_def secure_load_def secure_save_def
        open_in_memory_def empty_db_def cursor_of_blob_def)
  then have s: "tracker_commit_direct c open_in_memory (Some ''1000-0'') = (c\<lparr>ct_committed := Some ''1000-0''\<rparr>, ?d)" for c
    by (simp add: tracker_commit_direct_def tracker_persist_def nonempty_cursor_def)
  have l: "load_stream_cursor ?d = (?d, Ok (Some ''1000-0''))"
    by (simp add: load_stream_cursor_def secure_load_def open_in_memory_def empty_db_def b)
  have "dropped_terminally K (handle_command K E (stale_message_command ''bob'' i c 0 ctl)
      (mark_session_established ''bob'' 2000 (replay_harness orchestrator)))" for i c ctl
    using assms
    by (simp add: handle_command_def stale_message_command_def stream_message_def should_drop_stale_session_replay_def
        is_replay_sensitive_def mark_session_established_def replay_harness_def task_init_def e cursor_millis
        dropped_terminally_def s l)
  then show "test_terminally_drops_stale_msg_zero K E orchestrator"
    "test_terminally_drops_stale_reset K E orchestrator"
    by (simp_all add: test_terminally_drops_stale_msg_zero_def test_terminally_drops_stale_reset_def Let_def)
qed

end
