(* ===== verification/Spec2Isabelle.thy ===== *)
theory Spec2Isabelle
  imports Message_Path Invite_Props Grpc_Stream System_Watermark System_Progress App_Labels Program_Props Conformance
begin

text \<open>
  A model of the terminal messenger client (\<open>src/src\<close>): what its tasks, its storage, its codecs and its
  user interface compute, and the theorems that make them correct.

  \<^bold>\<open>The program.\<close> One process of cooperating tasks. The application (\<open>app.rs\<close>) owns the screens and
  takes keys and the messages of the other tasks. Signing in (\<open>auth.rs\<close>, over the RPCs of \<open>grpc/\<close>, with
  the session file of \<open>config/mod.rs\<close>) ends in \<open>start_orchestrator\<close>, which spawns three tasks: the stream
  worker (\<open>streaming.rs\<close>) keeps a bidirectional gRPC stream open and turns its frames into events; the
  relay (in \<open>app.rs\<close>) resolves the envelopes among them, sealed ones through their certificate; the
  orchestrator task (\<open>orchestrator_task.rs\<close>) owns the state of the crypto core, carries out the actions
  the core asks for, and writes the SQLite tables (\<open>storage.rs\<close>). Back to the application go decrypted
  messages (\<open>bridge.rs\<close>); the position in the server's stream is a watermark that the worker, the
  orchestrator and the storage share. Message texts travel in a frame of their own (\<open>knst.rs\<close>), and
  contacts are exchanged as signed invites (\<open>invite.rs\<close>).

  \<^bold>\<open>Theories and what they model.\<close>
  \<^item> \<open>Prelude\<close>, \<open>Utf8\<close>, \<open>Wire\<close>: the result type with its bind, Rust strings (UTF-8 byte strings), decimal and
    big-endian numbers, the scanner of the standard library's UTF-8 decoder, the protobuf messages.
  \<^item> \<open>Storage_Db\<close> (every operation of \<open>storage.rs\<close> on tables that are lists of rows, with a schedule of
    failing statements) and \<open>Storage_Props\<close>: the watermark, inbound messages, history, deletion, keys.
  \<^item> \<open>Grpc_Framing\<close> (\<open>grpc/framing.rs\<close>, \<open>grpc/error.rs\<close>, the pump of \<open>grpc/stream.rs\<close>),
    \<open>Grpc_Client\<close> (\<open>grpc/client.rs\<close>), \<open>Grpc_Rpc\<close> (\<open>auth.rs\<close>, \<open>keys.rs\<close>, \<open>users.rs\<close> of \<open>grpc/\<close>), \<open>Grpc_Props\<close>,
    \<open>Grpc_Stream\<close> (\<open>open_message_stream\<close> on the shared client, and when \<open>send_h2_data\<close> returns).
  \<^item> \<open>Stream_Worker\<close> (\<open>run_worker\<close> and \<open>wait_backoff\<close> as a machine with the phases connecting, opening, live,
    backoff, exited; the cursor tracker) and \<open>Stream_Props\<close>.
  \<^item> \<open>Knst\<close> (\<open>knst.rs\<close>), \<open>Bridge\<close> (\<open>bridge.rs\<close> with the token refresh), \<open>Invite\<close> and \<open>Invite_Props\<close>
    (\<open>invite.rs\<close>, \<open>grpc/invite.rs\<close>).
  \<^item> \<open>Orchestrator\<close> (state, parameters, helpers), \<open>Orchestrator_Dispatch\<close> (one definition per group of arms
    of \<open>dispatch\<close>, the follow-ups of a cycle, commands, the turn of the loop), \<open>Actor_Contract\<close> (what the actor
    writes, as a locale proved once for every definition of the loop), \<open>Orchestrator_Props\<close>, and \<open>Delivery\<close>
    (the watermark under every run of the actor).
  \<^item> \<open>Config\<close> (\<open>config/mod.rs\<close> and the configuration part of \<open>main.rs\<close>), \<open>Auth\<close> (\<open>auth.rs\<close>), \<open>Screens\<close> (the
    state behind \<open>screens/*.rs\<close>).
  \<^item> \<open>App\<close> (the state of \<open>App\<close>, the start of the tasks, background messages), \<open>App_Keys\<close> (the handlers of keys,
    \<open>App::run\<close>), \<open>App_Jobs\<close> (what the spawned tasks compute, the relay), \<open>App_Props\<close> (the invariant and its
    preservation), \<open>App_Safety\<close> (the properties of the application), \<open>Relay_Props\<close>.
  \<^item> \<open>Draw\<close> (rectangles, styled text, the widgets and the QR code of \<open>screens/qr_widget.rs\<close>), \<open>Screens_Draw\<close> (the
    \<open>render\<close> of every screen), \<open>App_Draw\<close> (\<open>App::render\<close>, and the loop \<open>App::run\<close> with its frames),
    \<open>Screens_Draw_Props\<close> and \<open>Draw_Props\<close>.
  \<^item> \<open>Program\<close> and \<open>Program_Props\<close>, the edges: \<open>main.rs\<close>, \<open>tui.rs\<close>, the reader of \<open>event.rs\<close>, \<open>Storage::open\<close>,
    \<open>grpc/connection.rs\<close>.
  \<^item> \<open>System\<close>: the composition. A state holds the application and, for every sign-in, a port: the worker, the
    channels to worker and actor, how far the relay is; actor and tracker are the task of the same number in
    the application. All actors write the one database. An input lets one task take one step. \<open>App_Links\<close> is
    what the application does to the shared things, \<open>System_Props\<close> and \<open>System_Watermark\<close> the properties of
    every run, \<open>System_Progress\<close> what every run can still reach, \<open>App_Labels\<close> the run under other options.
  \<^item> \<open>Message_Path\<close>: a text from the sender's actor through the recipient's relay, actor and tables to the screen.
  \<^item> \<open>Conformance\<close>: the unit tests of the sources, each a definition over the model with a lemma that the model
    passes it, for every codec, hash and row order that keeps its documented law.

  \<^bold>\<open>How the model corresponds to the code.\<close> A struct is a record, an enum a datatype, \<open>Result\<close> the sum
  with \<open>Err\<close> left and \<open>Ok\<close> right; machine integers are words, \<open>i64\<close> an integer with the wrap-around
  written out. A method that mutates returns the changed record. An \<open>await\<close> ends a step: a task is a
  function from its state and one outcome (a polled command, a received frame, a finished job) to its
  next state, and a run folds it over a list of outcomes, so every interleaving of the outcomes is a
  list. A failing statement, write or send takes the next entry of a schedule in the state; an exhausted
  schedule means success. Randomness, time and uuids are functions of a position that every use
  advances. A panic is a flag that stops the application.

  \<^bold>\<open>Parameters.\<close> Code outside the repository enters as records of functions: \<open>core\<close> (the crypto core),
  \<open>config_env\<close> (Argon2, HKDF, AES-GCM, JSON, base64), \<open>auth_env\<close>, \<open>invite_env\<close>, \<open>knst_env\<close>, \<open>rpc_codec\<close>,
  \<open>relay_env\<close> (sealed senders, the unpacking of payloads), \<open>grpc_env\<close> and \<open>net_env\<close> (the network), \<open>sql_env\<close> (SQLite and SQLCipher), \<open>tui_env\<close> (the terminal),
  \<open>draw_env\<close> (ratatui's layout, borders and list widget, and the QR encoder), \<open>app_env\<close>. What a
  theorem needs of them is a named hypothesis (such as \<open>invite_laws\<close> or \<open>uuid_law\<close>) that states the
  documented behaviour, and a concrete instance of it stands before its witness.

  \<^bold>\<open>What the theorems show.\<close> Of all parts together: a typed text is the text the peer stores and sees; under
  every interleaving of the tasks the application stays consistent, the shared tables keep their keys,
  envelopes keep their order from the channel to the wire, none of them is stuck once the network works
  (every schedule of fair rounds sends them, by a rank that each round lowers), and the shared watermark
  never goes back; the options that are announced but not wired change labels only. Of the application: which keys act when,
  text goes to the conversation that is open, logging out forgets the session, a sealed message is
  attributed to its certificate; a frame shows no secret, drawing changes next to nothing and panics in one
  case only, a QR code reads back, every message can be scrolled to. Of the edges: the key guards the
  database, the terminal is left as it was found, a dead server is dialled twice and never blamed on the
  user. Of the orchestrator: every state keeps the tables' keys whatever the
  core answers, the watermark moves only forward and only to the position of a stored message or a
  dropped replay, stale replays touch only the cursor, a new session is not healed away. Of stream and storage: frames are reassembled however they are chunked,
  envelopes leave in order and within the buffer of 256, the watermark grows and the tracker mirrors it,
  history is the newest part in chronological order. Of the codecs: frames, texts, invites and the
  session file round trip. Of the network: at most two requests per call, data only from a good status.
  Several theorems and lemmas record where the code does not do what it means to: a malformed cursor
  rewinds the watermark, a later message's commit passes over one that could not be stored, deleting a
  contact can wipe another's session, a failed flush loses an envelope, a rescheduled timer still fires,
  a frame longer than the peer's window is never sent, a re-authentication redirects composed text, a
  refresh timer outlives the logout and overwrites the tokens of the next account, a message is shown in
  whatever conversation is open, after a logout the old database cannot be opened with the next key and
  messages typed then are shown as sent, a logged-out actor can store the old watermark again, a repeated
  sign-in leaves the first worker running, a failed read ends the keyboard.

  \<^bold>\<open>Interfaces.\<close> The locales are the contracts between parts: \<open>secure_kv\<close> and \<open>watermark\<close> (storage),
  \<open>bounded_queue\<close> (the worker's buffer), \<open>frame_cutter\<close> (the pump), \<open>actor_contract\<close> (the actor and its
  tables, interpreted for the keys and for the watermark), \<open>row_pane\<close> and \<open>text_field\<close> (screens);
  each is interpreted on the code's own definitions in the theory that provides them.

  \<^bold>\<open>Bounds.\<close> No definition needs fuel: loops of the source are recursion over the data they consume (bytes,
  rows, outcomes), and a wait that may not end is an option whose \<open>None\<close> is the wait after the given
  outcomes. The backoff uses exact rationals where the source has \<open>f64\<close>.

  \<^bold>\<open>Not modelled.\<close> How ratatui turns widgets into cells, and what rustls and h2 do on a connection: other
  crates, parameters here. The protobuf types (\<open>proto.rs\<close>, \<open>build.rs\<close>) are generated. Logging and the texts of
  the schema and the help are left out. In \<open>System\<close> the one-shot tasks of the
  application end with any messages; what each of them sends is in \<open>App_Jobs\<close>.
\<close>

end
